(* ===== verification/Prelude.thy ===== *)
theory Prelude
  imports Complex_Main
begin

text \<open>
  Shared vocabulary of the development: the values the TypeScript code computes with (JSON,
  decimals, JavaScript strings), errors as values, the type of stateful operations with its
  combinators, database tables as lists of rows, and the lemmas and proof collections the
  component theories share.

  Times are milliseconds since the epoch (\<open>Date.getTime()\<close>); money is an exact rational,
  as \<open>Prisma.Decimal\<close> computes on the two-decimal columns of the schema; strings are ASCII.
\<close>

named_theorems run_simps \<open>inversion of successful and failing runs of operations\<close>
named_theorems table_simps \<open>facts about tables after an update or an insert\<close>
named_theorems keeps_rules \<open>rules that compose invariant preservation\<close>

type_synonym money = rat
type_synonym time = int

section \<open>Errors\<close>

datatype json =
    JNull
  | JBool bool
  | JNum rat
  | JStr string
  | JArr "json list"
  | JObj "(string \<times> json) list"

text \<open>\<open>HttpError\<close> of src/core/http-error.ts, \<open>PaystackProviderError\<close> of src/core/paystack.ts,
  Prisma's known request errors by their code, and every other exception by its message.\<close>

datatype app_error =
    HttpError nat string "json option"
  | ProviderError string "nat option" bool
  | PrismaError string
  | PlainError string

definition badRequest :: "string \<Rightarrow> app_error" where
  "badRequest m = HttpError 400 m None"

definition unauthorized :: "string \<Rightarrow> app_error" where
  "unauthorized m = HttpError 401 m None"

definition forbidden :: "string \<Rightarrow> app_error" where
  "forbidden m = HttpError 403 m None"

definition notFound :: "string \<Rightarrow> app_error" where
  "notFound m = HttpError 404 m None"

definition conflict :: "string \<Rightarrow> app_error" where
  "conflict m = HttpError 409 m None"

definition conflictWith :: "string \<Rightarrow> json \<Rightarrow> app_error" where
  "conflictWith m d = HttpError 409 m (Some d)"

definition serviceUnavailable :: "string \<Rightarrow> json \<Rightarrow> app_error" where
  "serviceUnavailable m d = HttpError 503 m (Some d)"

lemmas http_error_defs =
  badRequest_def unauthorized_def forbidden_def notFound_def conflict_def conflictWith_def
  serviceUnavailable_def

text \<open>\<open>error.message\<close>; Prisma's messages are not part of the repository, its code stands for them.\<close>

fun error_message :: "app_error \<Rightarrow> string" where
  "error_message (HttpError _ m _) = m"
| "error_message (ProviderError m _ _) = m"
| "error_message (PrismaError c) = c"
| "error_message (PlainError m) = m"

definition is_P2002 :: "app_error \<Rightarrow> bool" where
  "is_P2002 e \<longleftrightarrow> e = PrismaError ''P2002''"

section \<open>Operations: state passing with errors\<close>

text \<open>An operation takes the state and returns an error or a value, with the new state.\<close>

type_synonym ('s, 'a) op = "'s \<Rightarrow> (app_error + 'a) \<times> 's"

definition ret :: "'a \<Rightarrow> ('s, 'a) op" where
  "ret x s = (Inr x, s)"

definition raise :: "app_error \<Rightarrow> ('s, 'a) op" where
  "raise e s = (Inl e, s)"

definition bnd :: "('s, 'a) op \<Rightarrow> ('a \<Rightarrow> ('s, 'b) op) \<Rightarrow> ('s, 'b) op" where
  "bnd m f s = (case m s of (Inl e, s1) \<Rightarrow> (Inl e, s1) | (Inr x, s1) \<Rightarrow> f x s1)"

definition reads :: "('s \<Rightarrow> 'a) \<Rightarrow> ('s, 'a) op" where
  "reads f s = (Inr (f s), s)"

definition writes :: "('s \<Rightarrow> 's) \<Rightarrow> ('s, unit) op" where
  "writes f s = (Inr (), f s)"

definition guard :: "bool \<Rightarrow> app_error \<Rightarrow> ('s, unit) op" where
  "guard b e = (if b then ret () else raise e)"

text \<open>\<open>if (!row) throw e\<close> on a looked-up row.\<close>

definition required :: "'a option \<Rightarrow> app_error \<Rightarrow> ('s, 'a) op" where
  "required x e = (case x of None \<Rightarrow> raise e | Some v \<Rightarrow> ret v)"

text \<open>A pure function that may throw, run inside an operation.\<close>

definition from_sum :: "app_error + 'a \<Rightarrow> ('s, 'a) op" where
  "from_sum x s = (x, s)"

text \<open>\<open>prisma.$transaction\<close>: an error inside rolls every write back.\<close>

definition tx :: "('s, 'a) op \<Rightarrow> ('s, 'a) op" where
  "tx m s = (case m s of (Inl e, _) \<Rightarrow> (Inl e, s) | (Inr x, s1) \<Rightarrow> (Inr x, s1))"

text \<open>\<open>try { m } catch (error) { h(error) }\<close>: writes made before the error stay.\<close>

definition catching :: "('s, 'a) op \<Rightarrow> (app_error \<Rightarrow> ('s, 'a) op) \<Rightarrow> ('s, 'a) op" where
  "catching m h s = (case m s of (Inl e, s1) \<Rightarrow> h e s1 | (Inr x, s1) \<Rightarrow> (Inr x, s1))"

text \<open>An operation that returns its error as a value, for loops that count failures.\<close>

definition attempt :: "('s, 'a) op \<Rightarrow> ('s, app_error + 'a) op" where
  "attempt m s = (case m s of (r, s1) \<Rightarrow> (Inr r, s1))"

text \<open>An operation that works on a part of a larger state.\<close>

definition zoom :: "('t \<Rightarrow> 's) \<Rightarrow> ('s \<Rightarrow> 't \<Rightarrow> 't) \<Rightarrow> ('s, 'a) op \<Rightarrow> ('t, 'a) op" where
  "zoom g p m t = (case m (g t) of (r, s1) \<Rightarrow> (r, p s1 t))"

lemmas op_defs =
  ret_def raise_def bnd_def reads_def writes_def guard_def required_def tx_def catching_def
  attempt_def zoom_def from_sum_def

lemma succeeded: "\<not> isl (fst p) \<Longrightarrow> \<exists>x t. p = (Inr x, t)"
  by (cases p; cases "fst p") auto

subsection \<open>Inversion of runs\<close>

lemma run_ret [run_simps]: "ret x s = (r, t) \<longleftrightarrow> r = Inr x \<and> t = s"
  by (auto simp: ret_def)

lemma run_raise [run_simps]: "raise e s = (r, t) \<longleftrightarrow> r = Inl e \<and> t = s"
  by (auto simp: raise_def)

lemma run_bnd_ok [run_simps]:
  "bnd m f s = (Inr y, t) \<longleftrightarrow> (\<exists>x s1. m s = (Inr x, s1) \<and> f x s1 = (Inr y, t))"
  by (auto simp: bnd_def split: prod.splits sum.splits)

lemma run_bnd_err:
  "bnd m f s = (Inl e, t) \<longleftrightarrow>
     m s = (Inl e, t) \<or> (\<exists>x s1. m s = (Inr x, s1) \<and> f x s1 = (Inl e, t))"
  by (auto simp: bnd_def split: prod.splits sum.splits)

lemma bnd_assoc: "bnd (bnd m f) g = bnd m (\<lambda>x. bnd (f x) g)"
  by (rule ext) (auto simp: bnd_def split: prod.splits sum.splits)

lemma run_reads [run_simps]: "reads f s = (r, t) \<longleftrightarrow> r = Inr (f s) \<and> t = s"
  by (auto simp: reads_def)

lemma run_writes [run_simps]: "writes f s = (r, t) \<longleftrightarrow> r = Inr () \<and> t = f s"
  by (auto simp: writes_def)

lemma run_guard_ok [run_simps]: "guard b e s = (Inr u, t) \<longleftrightarrow> b \<and> t = s"
  by (auto simp: guard_def ret_def raise_def)

lemma run_guard_err [run_simps]: "guard b e s = (Inl e', t) \<longleftrightarrow> \<not> b \<and> e' = e \<and> t = s"
  by (auto simp: guard_def ret_def raise_def)

lemma run_required_ok [run_simps]: "required x e s = (Inr v, t) \<longleftrightarrow> x = Some v \<and> t = s"
  by (auto simp: required_def ret_def raise_def split: option.splits)

lemma run_required_err [run_simps]:
  "required x e s = (Inl e', t) \<longleftrightarrow> x = None \<and> e' = e \<and> t = s"
  by (auto simp: required_def ret_def raise_def split: option.splits)

lemma run_from_sum [run_simps]: "from_sum x s = (r, t) \<longleftrightarrow> x = r \<and> t = s"
  by (auto simp: from_sum_def)

lemma run_tx_ok [run_simps]: "tx m s = (Inr x, t) \<longleftrightarrow> m s = (Inr x, t)"
  by (auto simp: tx_def split: prod.splits sum.splits)

lemma run_tx_err [run_simps]: "tx m s = (Inl e, t) \<longleftrightarrow> (\<exists>s1. m s = (Inl e, s1)) \<and> t = s"
  by (auto simp: tx_def split: prod.splits sum.splits)

text \<open>A transaction either commits a successful run or changes nothing.\<close>

lemma tx_effect: "tx m s = (r, t) \<Longrightarrow> t = s \<or> (\<exists>x. r = Inr x \<and> m s = (Inr x, t))"
  by (auto simp: tx_def split: prod.splits sum.splits)

lemma run_catching_ok:
  "catching m h s = (Inr x, t) \<longleftrightarrow>
     m s = (Inr x, t) \<or> (\<exists>e s1. m s = (Inl e, s1) \<and> h e s1 = (Inr x, t))"
  by (auto simp: catching_def split: prod.splits sum.splits)

lemma run_catching_err:
  "catching m h s = (Inl e', t) \<longleftrightarrow> (\<exists>e s1. m s = (Inl e, s1) \<and> h e s1 = (Inl e', t))"
  by (auto simp: catching_def split: prod.splits sum.splits)

lemma run_attempt [run_simps]: "attempt m s = (r, t) \<longleftrightarrow> (\<exists>x. m s = (x, t) \<and> r = Inr x)"
  by (auto simp: attempt_def split: prod.splits)

lemma run_zoom [run_simps]: "zoom g p m t = (r, t') \<longleftrightarrow> (\<exists>s1. m (g t) = (r, s1) \<and> t' = p s1 t)"
  by (auto simp: zoom_def split: prod.splits)

subsection \<open>Invariant preservation, composed along the combinators\<close>

definition keeps :: "('s \<Rightarrow> bool) \<Rightarrow> ('s, 'a) op \<Rightarrow> bool" where
  "keeps I m \<longleftrightarrow> (\<forall>s r t. I s \<longrightarrow> m s = (r, t) \<longrightarrow> I t)"

lemma keepsI: "(\<And>s r t. I s \<Longrightarrow> m s = (r, t) \<Longrightarrow> I t) \<Longrightarrow> keeps I m"
  by (auto simp: keeps_def)

lemma keepsD: "keeps I m \<Longrightarrow> I s \<Longrightarrow> m s = (r, t) \<Longrightarrow> I t"
  by (auto simp: keeps_def)

lemma keeps_snd: "keeps I m \<Longrightarrow> I s \<Longrightarrow> I (snd (m s))"
  by (cases "m s") (auto simp: keeps_def)

lemma keeps_ret [keeps_rules]: "keeps I (ret x)"
  by (auto simp: keeps_def ret_def)

lemma keeps_raise [keeps_rules]: "keeps I (raise e)"
  by (auto simp: keeps_def raise_def)

lemma keeps_reads [keeps_rules]: "keeps I (reads f)"
  by (auto simp: keeps_def reads_def)

lemma keeps_guard [keeps_rules]: "keeps I (guard b e)"
  by (auto simp: guard_def keeps_ret keeps_raise)

lemma keeps_required [keeps_rules]: "keeps I (required x e)"
  by (auto simp: required_def keeps_ret keeps_raise split: option.splits)

lemma keeps_from_sum [keeps_rules]: "keeps I (from_sum x)"
  by (auto simp: keeps_def from_sum_def)

lemma keeps_writes: "(\<And>s. I s \<Longrightarrow> I (f s)) \<Longrightarrow> keeps I (writes f)"
  by (auto simp: keeps_def writes_def)

lemma keeps_bnd [keeps_rules]:
  "keeps I m \<Longrightarrow> (\<And>x. keeps I (f x)) \<Longrightarrow> keeps I (bnd m f)"
proof (rule keepsI)
  fix s r t
  assume m: "keeps I m" and f: "\<And>x. keeps I (f x)" and "I s" and run: "bnd m f s = (r, t)"
  obtain r1 s1 where m1: "m s = (r1, s1)" by (cases "m s")
  with m \<open>I s\<close> have "I s1" by (auto dest: keepsD)
  with run m1 show "I t"
    by (cases r1) (auto simp: bnd_def dest: keepsD[OF f])
qed

lemma keeps_catching [keeps_rules]:
  "keeps I m \<Longrightarrow> (\<And>e. keeps I (h e)) \<Longrightarrow> keeps I (catching m h)"
proof (rule keepsI)
  fix s r t
  assume m: "keeps I m" and h: "\<And>e. keeps I (h e)" and "I s" and run: "catching m h s = (r, t)"
  obtain r1 s1 where m1: "m s = (r1, s1)" by (cases "m s")
  with m \<open>I s\<close> have "I s1" by (auto dest: keepsD)
  with run m1 show "I t"
    by (cases r1) (auto simp: catching_def dest: keepsD[OF h])
qed

lemma keeps_attempt [keeps_rules]: "keeps I m \<Longrightarrow> keeps I (attempt m)"
  by (auto simp: keeps_def attempt_def split: prod.splits)

lemma keeps_tx: "keeps I m \<Longrightarrow> keeps I (tx m)"
  by (auto simp: keeps_def tx_def split: prod.splits sum.splits)

text \<open>A transaction is judged by its successful runs only: the others are rolled back.\<close>

lemma keeps_tx_ok: "(\<And>s x t. I s \<Longrightarrow> m s = (Inr x, t) \<Longrightarrow> I t) \<Longrightarrow> keeps I (tx m)"
  by (auto simp: keeps_def tx_def split: prod.splits sum.splits)

lemma keeps_if [keeps_rules]:
  "(b \<Longrightarrow> keeps I m) \<Longrightarrow> (\<not> b \<Longrightarrow> keeps I n) \<Longrightarrow> keeps I (if b then m else n)"
  by simp

lemma keeps_case_option [keeps_rules]:
  "(x = None \<Longrightarrow> keeps I m) \<Longrightarrow> (\<And>v. x = Some v \<Longrightarrow> keeps I (n v)) \<Longrightarrow>
   keeps I (case x of None \<Rightarrow> m | Some v \<Rightarrow> n v)"
  by (cases x) auto

lemma keeps_case_prod [keeps_rules]:
  "(\<And>a b. p = (a, b) \<Longrightarrow> keeps I (n a b)) \<Longrightarrow> keeps I (case p of (a, b) \<Rightarrow> n a b)"
  by (cases p) auto

lemma keeps_case_sum [keeps_rules]:
  "(\<And>a. x = Inl a \<Longrightarrow> keeps I (m a)) \<Longrightarrow> (\<And>b. x = Inr b \<Longrightarrow> keeps I (n b)) \<Longrightarrow>
   keeps I (case x of Inl a \<Rightarrow> m a | Inr b \<Rightarrow> n b)"
  by (cases x) auto

lemma keeps_let [keeps_rules]: "keeps I (f x) \<Longrightarrow> keeps I (let y = x in f y)"
  by simp

lemma keeps_zoom:
  "keeps J m \<Longrightarrow> (\<And>t. I t \<Longrightarrow> J (g t)) \<Longrightarrow> (\<And>s t. I t \<Longrightarrow> J s \<Longrightarrow> I (p s t)) \<Longrightarrow>
   keeps I (zoom g p m)"
  by (rule keepsI) (auto simp: run_zoom dest: keepsD)

text \<open>The loop \<open>for (const x of xs) await f(x)\<close>, results collected.\<close>

fun each :: "('x \<Rightarrow> ('s, 'a) op) \<Rightarrow> 'x list \<Rightarrow> ('s, 'a list) op" where
  "each f [] = ret []"
| "each f (x # xs) = bnd (f x) (\<lambda>y. bnd (each f xs) (\<lambda>ys. ret (y # ys)))"

lemma keeps_each [keeps_rules]: "(\<And>x. x \<in> set xs \<Longrightarrow> keeps I (f x)) \<Longrightarrow> keeps I (each f xs)"
  by (induction xs) (auto intro!: keeps_rules)

section \<open>Database tables\<close>

text \<open>A table is the list of its rows, in insertion order.\<close>

definition updateMany :: "('r \<Rightarrow> bool) \<Rightarrow> ('r \<Rightarrow> 'r) \<Rightarrow> 'r list \<Rightarrow> 'r list" where
  "updateMany P f rows = map (\<lambda>x. if P x then f x else x) rows"

definition countWhere :: "('r \<Rightarrow> bool) \<Rightarrow> 'r list \<Rightarrow> nat" where
  "countWhere P rows = length (filter P rows)"

text \<open>A unique index as a relation between two rows; SQL's NULL never clashes.\<close>

definition same_key :: "'k option \<Rightarrow> 'k option \<Rightarrow> bool" where
  "same_key a b \<longleftrightarrow> a \<noteq> None \<and> a = b"

definition clashes :: "('r \<Rightarrow> 'r \<Rightarrow> bool) \<Rightarrow> 'r \<Rightarrow> 'r list \<Rightarrow> bool" where
  "clashes u r rows \<longleftrightarrow> (\<exists>x \<in> set rows. u r x)"

lemma set_updateMany [table_simps]:
  "set (updateMany P f rows) = (\<lambda>x. if P x then f x else x) ` set rows"
  by (auto simp: updateMany_def)

lemma updateManyE:
  assumes "y \<in> set (updateMany P f rows)"
  obtains x where "x \<in> set rows" "y = (if P x then f x else x)"
  using assms unfolding set_updateMany by (rule imageE) (rule that)

lemma length_updateMany [table_simps, simp]: "length (updateMany P f rows) = length rows"
  by (simp add: updateMany_def)

lemma updateMany_Nil [simp]: "updateMany P f [] = []"
  by (simp add: updateMany_def)

lemma updateMany_Cons [simp]:
  "updateMany P f (x # xs) = (if P x then f x else x) # updateMany P f xs"
  by (simp add: updateMany_def)

lemma map_updateMany_same [table_simps]:
  "(\<And>x. P x \<Longrightarrow> k (f x) = k x) \<Longrightarrow> map k (updateMany P f rows) = map k rows"
  by (induction rows) auto

lemma find_append:
  "find Q (rows @ [r]) = (case find Q rows of None \<Rightarrow> if Q r then Some r else None | Some x \<Rightarrow> Some x)"
  by (induction rows) auto

lemma find_updateMany:
  assumes "\<And>x. Q (f x) = Q x"
  shows "find Q (updateMany P f rows) = map_option (\<lambda>x. if P x then f x else x) (find Q rows)"
  using assms by (induction rows) auto

lemma updateMany_none: "(\<And>x. x \<in> set rows \<Longrightarrow> \<not> P x) \<Longrightarrow> updateMany P f rows = rows"
  by (induction rows) auto

lemma filter_updateMany_same:
  "(\<And>x. P x \<Longrightarrow> Q (f x) = Q x) \<Longrightarrow> filter Q (updateMany P f rows) = updateMany P f (filter Q rows)"
  by (induction rows) auto

text \<open>One row matches: what a sum over the table becomes.\<close>

lemma sum_updateMany_one:
  fixes g :: "'r \<Rightarrow> 'b::ab_group_add"
  assumes "filter P rows = [x]"
  shows "sum_list (map g (updateMany P f rows)) = sum_list (map g rows) - g x + g (f x)"
  using assms
proof (induction rows)
  case Nil
  then show ?case by simp
next
  case (Cons y ys)
  show ?case
  proof (cases "P y")
    case True
    with Cons.prems have "y = x" and none: "filter P ys = []" by auto
    moreover from none have "updateMany P f ys = ys"
      by (intro updateMany_none) (auto simp: filter_empty_conv)
    ultimately show ?thesis using True by simp
  next
    case False
    with Cons show ?thesis by simp
  qed
qed

lemma sum_list_map_cong: "(\<And>x. x \<in> set xs \<Longrightarrow> f x = g x) \<Longrightarrow> sum_list (map f xs) = sum_list (map g xs)"
  by (induction xs) auto

lemma countWhere_one: "countWhere P rows = 1 \<Longrightarrow> \<exists>x. filter P rows = [x]"
  by (auto simp: countWhere_def length_Suc_conv)

lemma find_filter_key:
  assumes "distinct (map k rows)" and "find (\<lambda>x. k x = i \<and> Q x) rows = Some y"
  shows "filter (\<lambda>x. k x = i) rows = [y]"
  using assms
proof (induction rows)
  case Nil
  then show ?case by simp
next
  case (Cons z zs)
  show ?case
  proof (cases "k z = i")
    case True
    with Cons.prems(1) have none: "\<forall>x \<in> set zs. k x \<noteq> i"
      by (auto simp: image_iff)
    then have "find (\<lambda>x. k x = i \<and> Q x) zs = None" by (auto simp: find_None_iff)
    with Cons.prems(2) True none show ?thesis
      by (auto simp: filter_empty_conv split: if_splits)
  next
    case False
    with Cons show ?thesis by simp
  qed
qed

lemma find_key_unique:
  assumes "distinct (map k rows)" and "find (\<lambda>x. k x = i) rows = Some y"
  shows "filter (\<lambda>x. k x = i) rows = [y]"
  using find_filter_key[of k rows i "\<lambda>_. True" y] assms by simp

lemma find_SomeD: "find P xs = Some x \<Longrightarrow> x \<in> set xs \<and> P x"
  by (induction xs) (auto split: if_splits)

lemma filter_one_key:
  assumes "distinct (map k rows)" and "y \<in> set rows"
  shows "filter (\<lambda>x. k x = k y) rows = [y]"
  using assms
proof (induction rows)
  case Nil
  then show ?case by simp
next
  case (Cons z zs)
  show ?case
  proof (cases "y = z")
    case True
    with Cons.prems(1) have "\<forall>x \<in> set zs. k x \<noteq> k y" by (auto simp: image_iff)
    then have "filter (\<lambda>x. k x = k y) zs = []" by (simp add: filter_empty_conv)
    with True show ?thesis by simp
  next
    case False
    with Cons.prems have "y \<in> set zs" and "k z \<noteq> k y" by (auto simp: image_iff)
    with Cons show ?thesis by simp
  qed
qed

lemma filter_one_strengthen:
  assumes "filter P rows = [x]" and "\<And>y. Q y \<Longrightarrow> P y" and "Q x"
  shows "filter Q rows = [x]"
proof -
  have "filter Q rows = filter Q (filter P rows)"
    using assms(2) by (auto simp: filter_filter intro!: filter_cong)
  then show ?thesis using assms(1,3) by simp
qed

section \<open>JavaScript strings and numbers\<close>

definition is_upper_char :: "char \<Rightarrow> bool" where
  "is_upper_char c \<longleftrightarrow> of_char c \<ge> (65::nat) \<and> of_char c \<le> (90::nat)"

definition is_lower_char :: "char \<Rightarrow> bool" where
  "is_lower_char c \<longleftrightarrow> of_char c \<ge> (97::nat) \<and> of_char c \<le> (122::nat)"

definition is_digit_char :: "char \<Rightarrow> bool" where
  "is_digit_char c \<longleftrightarrow> of_char c \<ge> (48::nat) \<and> of_char c \<le> (57::nat)"

definition is_alnum_char :: "char \<Rightarrow> bool" where
  "is_alnum_char c \<longleftrightarrow> is_upper_char c \<or> is_lower_char c \<or> is_digit_char c"

definition is_space_char :: "char \<Rightarrow> bool" where
  "is_space_char c \<longleftrightarrow> (of_char c :: nat) \<in> {9, 10, 11, 12, 13, 32}"

definition upper_char :: "char \<Rightarrow> char" where
  "upper_char c = (if is_lower_char c then char_of (of_char c - (32::nat)) else c)"

definition lower_char :: "char \<Rightarrow> char" where
  "lower_char c = (if is_upper_char c then char_of (of_char c + (32::nat)) else c)"

definition toUpper :: "string \<Rightarrow> string" where
  "toUpper = map upper_char"

definition toLower :: "string \<Rightarrow> string" where
  "toLower = map lower_char"

definition trim :: "string \<Rightarrow> string" where
  "trim s = rev (dropWhile is_space_char (rev (dropWhile is_space_char s)))"

definition starts_with :: "string \<Rightarrow> string \<Rightarrow> bool" where
  "starts_with p s \<longleftrightarrow> take (length p) s = p"

fun includes_str :: "string \<Rightarrow> string \<Rightarrow> bool" where
  "includes_str p [] = (p = [])"
| "includes_str p (c # cs) = (starts_with p (c # cs) \<or> includes_str p cs)"

text \<open>\<open>s.split(c)\<close> for a one-character separator.\<close>

fun split_on :: "char \<Rightarrow> string \<Rightarrow> string list" where
  "split_on c [] = [[]]"
| "split_on c (d # s) =
     (if d = c then [] # split_on c s
      else (case split_on c s of [] \<Rightarrow> [[d]] | w # ws \<Rightarrow> (d # w) # ws))"

text \<open>\<open>!value\<close> for \<open>string | undefined\<close>: missing and empty are both falsy.\<close>

definition falsy :: "string option \<Rightarrow> bool" where
  "falsy v \<longleftrightarrow> v = None \<or> v = Some []"

fun jfield :: "string \<Rightarrow> json \<Rightarrow> json option" where
  "jfield k (JObj kvs) = map_of kvs k"
| "jfield k _ = None"

text \<open>\<open>typeof value === "string" ? value : undefined\<close>\<close>

fun jstring :: "json option \<Rightarrow> string option" where
  "jstring (Some (JStr s)) = Some s"
| "jstring _ = None"

definition max_safe_integer :: int where
  "max_safe_integer = 9007199254740991"

text \<open>\<open>typeof value === "number" \<and> Number.isSafeInteger(value)\<close>\<close>

fun jinteger :: "json option \<Rightarrow> int option" where
  "jinteger (Some (JNum r)) =
     (if r = of_int \<lfloor>r\<rfloor> \<and> \<bar>\<lfloor>r\<rfloor>\<bar> \<le> max_safe_integer then Some \<lfloor>r\<rfloor> else None)"
| "jinteger _ = None"

text \<open>Decimal's default rounding: half away from zero.\<close>

definition round_half_up :: "rat \<Rightarrow> int" where
  "round_half_up r = (if r < 0 then - \<lfloor>- r + 1/2\<rfloor> else \<lfloor>r + 1/2\<rfloor>)"

definition toDecimalPlaces :: "nat \<Rightarrow> rat \<Rightarrow> rat" where
  "toDecimalPlaces n r = of_int (round_half_up (r * 10 ^ n)) / 10 ^ n"

lemma round_half_up_int [simp]: "round_half_up (of_int n) = n"
  by (auto simp: round_half_up_def floor_eq_iff)

lemma floor_half_error: "\<bar>of_int \<lfloor>r + 1/2\<rfloor> - (r::rat)\<bar> \<le> 1/2"
  by linarith

lemma round_half_up_error: "\<bar>of_int (round_half_up r) - r\<bar> \<le> 1/2"
proof (cases "r < 0")
  case True
  have "\<bar>of_int (round_half_up r) - r\<bar> = \<bar>of_int \<lfloor>- r + 1/2\<rfloor> - (- r)\<bar>"
    using True by (simp add: round_half_up_def)
  with floor_half_error[of "- r"] show ?thesis by linarith
next
  case False
  with floor_half_error[of r] show ?thesis by (simp add: round_half_up_def)
qed

lemma round_half_up_nonneg: "0 \<le> r \<Longrightarrow> 0 \<le> round_half_up r"
  by (auto simp: round_half_up_def)

lemma round_half_up_mono: "a \<le> b \<Longrightarrow> round_half_up a \<le> round_half_up b"
proof (cases "a < 0")
  case True
  assume "a \<le> b"
  show ?thesis
  proof (cases "b < 0")
    case True
    from \<open>a \<le> b\<close> have "\<lfloor>- b + 1/2\<rfloor> \<le> \<lfloor>- a + 1/2\<rfloor>" by (intro floor_mono) simp
    with \<open>a < 0\<close> True show ?thesis by (simp add: round_half_up_def)
  next
    case False
    have "0 \<le> \<lfloor>- a + 1/2\<rfloor>" using \<open>a < 0\<close> by linarith
    moreover have "0 \<le> \<lfloor>b + 1/2\<rfloor>" using False by linarith
    moreover have "round_half_up a = - \<lfloor>- a + 1/2\<rfloor>" using \<open>a < 0\<close>
      unfolding round_half_up_def by (rule if_P)
    moreover have "round_half_up b = \<lfloor>b + 1/2\<rfloor>" using False
      unfolding round_half_up_def by (rule if_not_P)
    ultimately show ?thesis by linarith
  qed
next
  case False
  assume "a \<le> b"
  then have "\<lfloor>a + 1/2\<rfloor> \<le> \<lfloor>b + 1/2\<rfloor>" by (intro floor_mono) simp
  with False \<open>a \<le> b\<close> show ?thesis by (simp add: round_half_up_def)
qed

lemma toDecimalPlaces_nonneg: "0 \<le> r \<Longrightarrow> 0 \<le> toDecimalPlaces n r"
  by (simp add: toDecimalPlaces_def round_half_up_nonneg)

lemma toDecimalPlaces_mono: "a \<le> b \<Longrightarrow> toDecimalPlaces n a \<le> toDecimalPlaces n b"
  by (simp add: toDecimalPlaces_def divide_right_mono mult_right_mono round_half_up_mono)

lemma toDecimalPlaces_idem [simp]: "toDecimalPlaces n (toDecimalPlaces n r) = toDecimalPlaces n r"
  by (simp add: toDecimalPlaces_def)

end
