(* ===== verification/JsDate.thy ===== *)
theory JsDate
  imports Prelude
begin

text \<open>
  The calendar arithmetic of JavaScript's \<open>Date\<close> (UTC accessors, \<open>Date.UTC\<close>, \<open>toISOString\<close>) as
  ECMAScript defines it on milliseconds since the epoch, and src/core/date-only.ts, which
  validates \<open>YYYY-MM-DD\<close> strings with it.
\<close>

section \<open>Calendar arithmetic\<close>

definition msPerDay :: int where "msPerDay = 86400000"

definition day_from_year :: "int \<Rightarrow> int" where
  "day_from_year y = 365 * (y - 1970) + (y - 1969) div 4 - (y - 1901) div 100 + (y - 1601) div 400"

definition is_leap :: "int \<Rightarrow> bool" where
  "is_leap y \<longleftrightarrow> y mod 4 = 0 \<and> (y mod 100 \<noteq> 0 \<or> y mod 400 = 0)"

definition year_of_day :: "int \<Rightarrow> int" where
  "year_of_day d =
     (let y = 1970 + (d * 400) div 146097
      in if d < day_from_year y then y - 1 else if day_from_year (y + 1) \<le> d then y + 1 else y)"

text \<open>Days before the month (0 to 12) within its year.\<close>

definition month_start :: "bool \<Rightarrow> nat \<Rightarrow> int" where
  "month_start leap m =
     [0, 31, 59, 90, 120, 151, 181, 212, 243, 273, 304, 334, 365] ! m +
     (if leap \<and> 2 \<le> m then 1 else 0)"

definition days_in_month :: "int \<Rightarrow> int \<Rightarrow> int" where
  "days_in_month y m = month_start (is_leap y) (nat (m + 1)) - month_start (is_leap y) (nat m)"

definition month_of_doy :: "bool \<Rightarrow> int \<Rightarrow> nat" where
  "month_of_doy leap doy = length (filter (\<lambda>m. month_start leap m \<le> doy) [1..<12])"

text \<open>\<open>getUTCFullYear\<close>, \<open>getUTCMonth\<close> and \<open>getUTCDate\<close> of a day number.\<close>

definition civil_of_day :: "int \<Rightarrow> int \<times> int \<times> int" where
  "civil_of_day d =
     (let y = year_of_day d; doy = d - day_from_year y; m = month_of_doy (is_leap y) doy
      in (y, int m, doy - month_start (is_leap y) m + 1))"

text \<open>\<open>MakeDay(year, month, date)\<close>: a month or date outside its range carries over.\<close>

definition make_day :: "int \<Rightarrow> int \<Rightarrow> int \<Rightarrow> int" where
  "make_day y m d =
     (let ym = y + m div 12; mn = m mod 12
      in day_from_year ym + month_start (is_leap ym) (nat mn) + d - 1)"

text \<open>\<open>Date.UTC(year, month, date)\<close>: years 0 to 99 stand for 1900 to 1999.\<close>

definition date_UTC :: "int \<Rightarrow> int \<Rightarrow> int \<Rightarrow> time" where
  "date_UTC y m d = make_day (if 0 \<le> y \<and> y \<le> 99 then 1900 + y else y) m d * msPerDay"

definition utc_fields :: "time \<Rightarrow> int \<times> int \<times> int" where
  "utc_fields t = civil_of_day (t div msPerDay)"

definition digit_char :: "nat \<Rightarrow> char" where
  "digit_char d = char_of (48 + d)"

fun pad_digits :: "nat \<Rightarrow> nat \<Rightarrow> string" where
  "pad_digits 0 n = []"
| "pad_digits (Suc k) n = pad_digits k (n div 10) @ [digit_char (n mod 10)]"

text \<open>\<open>toISOString\<close> for the years 0 to 9999.\<close>

definition toISOString :: "time \<Rightarrow> string" where
  "toISOString t =
     (case utc_fields t of (y, m, d) \<Rightarrow>
        let ms = t mod msPerDay
        in pad_digits 4 (nat y) @ ''-'' @ pad_digits 2 (nat (m + 1)) @ ''-'' @ pad_digits 2 (nat d) @ ''T'' @
           pad_digits 2 (nat (ms div 3600000)) @ '':'' @ pad_digits 2 (nat (ms div 60000 mod 60)) @ '':'' @
           pad_digits 2 (nat (ms div 1000 mod 60)) @ ''.'' @ pad_digits 3 (nat (ms mod 1000)) @ ''Z'')"

section \<open>src/core/date-only.ts\<close>

definition digit_value :: "char \<Rightarrow> int" where
  "digit_value c = int (of_char c) - 48"

definition number_of :: "string \<Rightarrow> int" where
  "number_of s = foldl (\<lambda>n c. 10 * n + digit_value c) 0 s"

text \<open>The regular expression \<open>/^\d{4}-\d{2}-\d{2}$/\<close>.\<close>

definition date_only_shape :: "string \<Rightarrow> bool" where
  "date_only_shape s \<longleftrightarrow>
     length s = 10 \<and> s ! 4 = CHR ''-'' \<and> s ! 7 = CHR ''-'' \<and>
     list_all (\<lambda>i. is_digit_char (s ! i)) [0, 1, 2, 3, 5, 6, 8, 9]"

definition date_only_parts :: "string \<Rightarrow> int \<times> int \<times> int" where
  "date_only_parts s = (number_of (take 4 s), number_of (take 2 (drop 5 s)), number_of (drop 8 s))"

definition isValidDateOnly :: "string \<Rightarrow> bool" where
  "isValidDateOnly value =
     (if \<not> date_only_shape value then False
      else case date_only_parts value of (year, month, day) \<Rightarrow>
        utc_fields (date_UTC year (month - 1) day) = (year, month - 1, day))"

text \<open>\<open>dateOnlyUtc\<close>: the midnight the string names (the four-digit year as written).\<close>

definition dateOnlyUtc :: "string \<Rightarrow> time option" where
  "dateOnlyUtc value =
     (if isValidDateOnly value
      then (case date_only_parts value of (year, month, day) \<Rightarrow>
              Some (make_day year (month - 1) day * msPerDay))
      else None)"

section \<open>The calendar arithmetic is a bijection\<close>

lemma div_bounds: "0 < c \<Longrightarrow> c * (a div c) \<le> a \<and> a < c * (a div c) + c" for a c :: int
  using mult_div_mod_eq[of c a] pos_mod_sign[of c a] pos_mod_bound[of c a]
  by linarith

lemma div_pred:
  fixes a c :: int
  assumes "0 < c"
  shows "a div c = (a - 1) div c + (if a mod c = 0 then 1 else 0)"
proof (cases "a mod c = 0")
  case True
  define q where "q = a div c"
  from True have a: "a = c * q" by (auto simp: q_def)
  then have "a - 1 = c * (q - 1) + (c - 1)" by (simp add: right_diff_distrib)
  with assms have "(a - 1) div c = a div c - 1" unfolding q_def[symmetric]
    by (intro int_div_pos_eq[where r = "c - 1"]) simp_all
  with True show ?thesis by simp
next
  case False
  have "a - 1 = c * (a div c) + (a mod c - 1)" by simp
  with assms False have "(a - 1) div c = a div c"
    using pos_mod_sign[of c a] pos_mod_bound[of c a]
    by (intro int_div_pos_eq[where r = "a mod c - 1"]) linarith+
  with False show ?thesis by simp
qed

lemma day_from_year_Suc: "day_from_year (y + 1) = day_from_year y + (if is_leap y then 366 else 365)"
proof -
  have shift: "(y - 1968) mod 4 = y mod 4" "(y - 1900) mod 100 = y mod 100" "(y - 1600) mod 400 = y mod 400"
    using mod_mult_self1[of "y - 1968" 492 4] mod_mult_self1[of "y - 1900" 19 100]
      mod_mult_self1[of "y - 1600" 4 400] by simp_all
  have 1: "(y - 1968) div 4 = (y - 1969) div 4 + (if y mod 4 = 0 then 1 else 0)"
    using div_pred[of 4 "y - 1968"] unfolding shift(1) by simp
  have 2: "(y - 1900) div 100 = (y - 1901) div 100 + (if y mod 100 = 0 then 1 else 0)"
    using div_pred[of 100 "y - 1900"] unfolding shift(2) by simp
  have 3: "(y - 1600) div 400 = (y - 1601) div 400 + (if y mod 400 = 0 then 1 else 0)"
    using div_pred[of 400 "y - 1600"] unfolding shift(3) by simp
  have 4: "y mod 400 = 0 \<Longrightarrow> y mod 100 = 0" "y mod 100 = 0 \<Longrightarrow> y mod 4 = 0"
    using mod_mod_cancel[of 100 400 y] mod_mod_cancel[of 4 100 y] by simp_all
  have "day_from_year (y + 1) = 365 * (y - 1969) + (y - 1968) div 4 - (y - 1900) div 100 + (y - 1600) div 400"
    by (simp add: day_from_year_def)
  moreover have "365 * (k + 1) + (q1 + (if A then 1 else 0)) - (q2 + (if B then 1 else 0)) +
      (q3 + (if C then 1 else 0)) = 365 * k + q1 - q2 + q3 + (if A \<and> (\<not> B \<or> C) then 366 else 365)"
    if "C \<longrightarrow> B" "B \<longrightarrow> A" for A B C and k q1 q2 q3 :: int
    using that by (cases A; cases B; cases C; simp add: distrib_left)
  from this[of "y mod 400 = 0" "y mod 100 = 0" "y mod 4 = 0" "y - 1970"
      "(y - 1969) div 4" "(y - 1901) div 100" "(y - 1601) div 400"] 4
  have "365 * (y - 1970 + 1) + (y - 1968) div 4 - (y - 1900) div 100 + (y - 1600) div 400 =
      day_from_year y + (if is_leap y then 366 else 365)"
    unfolding 1 2 3 day_from_year_def is_leap_def by blast
  moreover have "y - 1970 + 1 = y - 1969" by simp
  ultimately show ?thesis by simp
qed

lemma year_of_day_bounds:
  "day_from_year (year_of_day d) \<le> d \<and> d < day_from_year (year_of_day d + 1)"
proof -
  define y where "y = 1970 + (d * 400) div 146097"
  have y: "146097 * (y - 1970) \<le> 400 * d" "400 * d < 146097 * (y - 1969)"
    using div_bounds[of 146097 "d * 400"] unfolding y_def by auto
  have lo: "4 * ((y - 1969) div 4) \<le> y - 1969" "y - 1969 < 4 * ((y - 1969) div 4) + 4"
    "100 * ((y - 1901) div 100) \<le> y - 1901" "y - 1901 < 100 * ((y - 1901) div 100) + 100"
    "400 * ((y - 1601) div 400) \<le> y - 1601" "y - 1601 < 400 * ((y - 1601) div 400) + 400"
    using div_bounds[of 4 "y - 1969"] div_bounds[of 100 "y - 1901"] div_bounds[of 400 "y - 1601"]
    by simp_all
  define q1 q2 q3 where q: "q1 = (y - 1969) div 4" "q2 = (y - 1901) div 100" "q3 = (y - 1601) div 400"
  have near: "400 * day_from_year y \<le> 146097 * (y - 1970) + 800"
      "146097 * (y - 1970) - 800 \<le> 400 * day_from_year y"
    using lo unfolding day_from_year_def q[symmetric] by simp_all
  have up: "day_from_year (y + 1) = day_from_year y + (if is_leap y then 366 else 365)"
      "day_from_year (y + 2) = day_from_year (y + 1) + (if is_leap (y + 1) then 366 else 365)"
      "day_from_year y = day_from_year (y - 1) + (if is_leap (y - 1) then 366 else 365)"
    using day_from_year_Suc[of y] day_from_year_Suc[of "y + 1"] day_from_year_Suc[of "y - 1"]
    by (simp_all add: add.commute)
  have "day_from_year (y - 1) \<le> d" using near(1) y(1) up(3) by (auto split: if_splits)
  moreover have "d < day_from_year (y + 2)" using near(2) y(2) up(1,2) by (auto split: if_splits)
  ultimately show ?thesis
    unfolding year_of_day_def y_def[symmetric] Let_def by (auto simp: add.commute)
qed

lemma day_from_year_mono: "a \<le> b \<Longrightarrow> day_from_year a \<le> day_from_year b"
proof -
  have "day_from_year a \<le> day_from_year (a + int n)" for n
  proof (induction n)
    case 0
    then show ?case by simp
  next
    case (Suc n)
    then show ?case using day_from_year_Suc[of "a + int n"] by (auto simp: algebra_simps split: if_splits)
  qed
  from this[of "nat (b - a)"] show "a \<le> b \<Longrightarrow> ?thesis" by simp
qed

lemma year_of_day_unique:
  assumes "day_from_year y \<le> d" and "d < day_from_year (y + 1)"
  shows "year_of_day d = y"
  using year_of_day_bounds[of d] assms day_from_year_mono[of "y + 1" "year_of_day d"]
    day_from_year_mono[of "year_of_day d + 1" y]
  by linarith

lemma upt_1_12: "[Suc 0..<12] = [Suc 0, 2, 3, 4, 5, 6, 7, 8, 9, 10, 11]"
  by (simp add: upt_rec)

lemma month_cases: "m < 12 \<Longrightarrow> m = 0 \<or> m = Suc 0 \<or> m = 2 \<or> m = 3 \<or> m = 4 \<or> m = 5 \<or> m = 6 \<or> m = 7 \<or>
    m = 8 \<or> m = 9 \<or> m = 10 \<or> m = (11::nat)"
  by presburger

lemma month_start_values:
  "month_start leap 0 = 0" "month_start leap (Suc 0) = 31"
  "month_start leap 2 = 59 + (if leap then 1 else 0)" "month_start leap 3 = 90 + (if leap then 1 else 0)"
  "month_start leap 4 = 120 + (if leap then 1 else 0)" "month_start leap 5 = 151 + (if leap then 1 else 0)"
  "month_start leap 6 = 181 + (if leap then 1 else 0)" "month_start leap 7 = 212 + (if leap then 1 else 0)"
  "month_start leap 8 = 243 + (if leap then 1 else 0)" "month_start leap 9 = 273 + (if leap then 1 else 0)"
  "month_start leap 10 = 304 + (if leap then 1 else 0)" "month_start leap 11 = 334 + (if leap then 1 else 0)"
  "month_start leap 12 = 365 + (if leap then 1 else 0)"
  by (simp_all add: month_start_def)

lemma Suc_months:
  "Suc (Suc 0) = 2" "Suc 2 = 3" "Suc 3 = 4" "Suc 4 = 5" "Suc 5 = 6" "Suc 6 = 7" "Suc 7 = 8"
  "Suc 8 = 9" "Suc 9 = 10" "Suc 10 = 11" "Suc 11 = 12"
  by simp_all

lemma month_of_doy_values: "month_of_doy leap doy =
    length (filter (\<lambda>m. month_start leap m \<le> doy) [Suc 0, 2, 3, 4, 5, 6, 7, 8, 9, 10, 11])"
  by (simp only: month_of_doy_def upt_1_12 One_nat_def)

lemma month_of_doy_unique:
  assumes "m < 12" and "month_start leap m \<le> doy" and "doy < month_start leap (Suc m)"
  shows "month_of_doy leap doy = m"
  using month_cases[OF assms(1)]
proof (elim disjE)
qed (use assms(2,3) in \<open>cases leap; simp add: month_of_doy_values month_start_values Suc_months del: One_nat_def\<close>)+

lemma month_start_year:
  "m < 12 \<Longrightarrow> 0 \<le> month_start leap m \<and> month_start leap (Suc m) \<le> (if leap then 366 else 365)"
  by (drule month_cases) (elim disjE; simp add: month_start_values Suc_months)

lemma civil_of_make_day:
  assumes "0 \<le> m" "m < 12" "1 \<le> d" "d \<le> days_in_month y m"
  shows "civil_of_day (make_day y m d) = (y, m, d)"
proof -
  obtain k where k: "m = int k" "k < 12" using assms(1,2) by (metis zero_le_imp_eq_int of_nat_less_numeral_iff)
  let ?doy = "month_start (is_leap y) k + d - 1"
  have dim: "days_in_month y m = month_start (is_leap y) (Suc k) - month_start (is_leap y) k"
    using k by (simp add: days_in_month_def nat_add_distrib)
  have mk: "make_day y m d = day_from_year y + ?doy" using k by (simp add: make_day_def)
  have doy: "month_start (is_leap y) k \<le> ?doy" "?doy < month_start (is_leap y) (Suc k)"
    using assms(3,4) dim by linarith+
  have "year_of_day (make_day y m d) = y"
    using doy month_start_year[OF k(2), of "is_leap y"] mk day_from_year_Suc[of y]
    by (intro year_of_day_unique) (auto split: if_splits)
  with mk month_of_doy_unique[OF k(2) doy] k show ?thesis by (simp add: civil_of_day_def Let_def)
qed

lemma doy_in_month:
  assumes "0 \<le> doy" "doy < (if leap then 366 else 365)"
  shows "\<exists>k<12. month_start leap k \<le> doy \<and> doy < month_start leap (Suc k)"
proof (rule ccontr)
  assume no: "\<not> ?thesis"
  have "month_start leap k \<le> doy" if "k \<le> 12" for k
    using that
  proof (induction k)
    case 0
    show ?case using assms(1) by (simp add: month_start_values)
  next
    case (Suc k)
    with no show ?case by auto
  qed
  from this[of 12] assms(2) show False by (simp add: month_start_values split: if_splits)
qed

lemma civil_of_day_valid:
  assumes "civil_of_day n = (y, m, d)"
  shows "0 \<le> m \<and> m < 12 \<and> 1 \<le> d \<and> d \<le> days_in_month y m"
proof -
  define doy where "doy = n - day_from_year y"
  have y: "y = year_of_day n" using assms by (simp add: civil_of_day_def Let_def)
  have doy: "0 \<le> doy" "doy < (if is_leap y then 366 else 365)"
    using year_of_day_bounds[of n] day_from_year_Suc[of y] unfolding doy_def y by auto
  have m: "m = int (month_of_doy (is_leap y) doy)"
    and d: "d = doy - month_start (is_leap y) (nat m) + 1"
    using assms unfolding doy_def by (auto simp: civil_of_day_def Let_def)
  obtain k where k: "k < 12" "month_start (is_leap y) k \<le> doy" "doy < month_start (is_leap y) (Suc k)"
    using doy_in_month[OF doy] by blast
  have "m = int k" using m month_of_doy_unique[OF k] by simp
  with k d show ?thesis by (simp add: days_in_month_def nat_add_distrib)
qed

end
