(* ===== verification/AuditLog.thy ===== *)
theory AuditLog
  imports JsJson
begin

text \<open>
  src/modules/admin/admin.audit.ts: the audit log of an organization is a chain. Every entry
  carries the next sequence number, the hash of the entry before it and the SHA-256 of its own
  content, and the chain head is kept beside the log. The digest and the locale order of keys
  are parameters.
\<close>

section \<open>State and inputs\<close>

record audit_entry =
  a_org :: string
  a_actor :: "string option"
  a_sequence :: nat
  a_action :: string
  a_resource :: string
  a_resourceId :: "string option"
  a_summary :: string
  a_metadata :: json
  a_previousHash :: "string option"
  a_hash :: string
  a_createdAt :: time

record chain_head =
  c_org :: string
  c_lastHash :: "string option"
  c_sequence :: nat

record audit_db =
  au_log :: "audit_entry list"
  au_chains :: "chain_head list"

record audit_input =
  i_org :: string
  i_actor :: "string option"
  i_action :: string
  i_resource :: string
  i_resourceId :: "string option"
  i_summary :: string
  i_metadata :: "json option"

record request_context =
  x_ip :: "string option"
  x_agent :: "string option"

record audit_env =
  y_sha256 :: "string \<Rightarrow> string"
  y_localeLe :: "string \<Rightarrow> string \<Rightarrow> bool"
  y_context :: "request_context option"

section \<open>Operations\<close>

text \<open>\<open>Object.entries(value).sort(([a], [b]) => a.localeCompare(b))\<close>: a stable insertion sort.\<close>

fun insert_entry :: "(string \<Rightarrow> string \<Rightarrow> bool) \<Rightarrow> string \<times> 'v \<Rightarrow> (string \<times> 'v) list \<Rightarrow> (string \<times> 'v) list" where
  "insert_entry le e [] = [e]"
| "insert_entry le e (x # xs) =
     (if le (fst e) (fst x) then e # x # xs else x # insert_entry le e xs)"

definition sort_entries :: "(string \<Rightarrow> string \<Rightarrow> bool) \<Rightarrow> (string \<times> 'v) list \<Rightarrow> (string \<times> 'v) list" where
  "sort_entries le kvs = foldr (insert_entry le) kvs []"

fun stableStringify :: "(string \<Rightarrow> string \<Rightarrow> bool) \<Rightarrow> json \<Rightarrow> string" where
  "stableStringify le (JArr xs) = ''['' @ join '','' (map (stableStringify le) xs) @ '']''"
| "stableStringify le (JObj kvs) =
     ''{'' @ join '','' (map (\<lambda>(k, s). json_quote k @ '':'' @ s)
       (sort_entries le (map (\<lambda>(k, v). (k, stableStringify le v)) kvs))) @ ''}''"
| "stableStringify le v = JSON_stringify v"

definition json_entries :: "json option \<Rightarrow> (string \<times> json) list" where
  "json_entries m = (case m of Some (JObj kvs) \<Rightarrow> kvs | _ \<Rightarrow> [])"

text \<open>Spreading an entry over an object: an existing key keeps its place and takes the value.\<close>

definition json_put :: "string \<Rightarrow> json \<Rightarrow> (string \<times> json) list \<Rightarrow> (string \<times> json) list" where
  "json_put k v kvs =
     (if k \<in> fst ` set kvs then map (\<lambda>(k', v'). if k' = k then (k, v) else (k', v')) kvs else kvs @ [(k, v)])"

definition mergeAuditMetadata :: "audit_env \<Rightarrow> json option \<Rightarrow> json" where
  "mergeAuditMetadata Y metadata =
     (let base = json_entries metadata;
          ip = (case y_context Y of None \<Rightarrow> None | Some x \<Rightarrow> x_ip x);
          agent = (case y_context Y of None \<Rightarrow> None | Some x \<Rightarrow> x_agent x);
          m1 = (if \<not> falsy ip \<and> \<not> truthy (map_of base ''ipAddress'')
                then json_put ''ipAddress'' (JStr (the ip)) base else base);
          m2 = (if \<not> falsy agent \<and> \<not> truthy (map_of base ''userAgent'')
                then json_put ''userAgent'' (JStr (the agent)) m1 else m1)
      in JObj m2)"

definition audit_payload ::
    "audit_input \<Rightarrow> json \<Rightarrow> nat \<Rightarrow> string option \<Rightarrow> time \<Rightarrow> json" where
  "audit_payload inp metadata sequence previousHash createdAt = JObj
     [(''organizationId'', JStr (i_org inp)), (''actorUserId'', jopt (i_actor inp)),
      (''sequence'', JNum (of_nat sequence)), (''action'', JStr (i_action inp)),
      (''resource'', JStr (i_resource inp)), (''resourceId'', jopt (i_resourceId inp)),
      (''summary'', JStr (i_summary inp)), (''metadata'', metadata),
      (''previousHash'', jopt previousHash), (''createdAt'', JStr (toISOString createdAt))]"

definition buildAuditHash ::
    "audit_env \<Rightarrow> audit_input \<Rightarrow> json \<Rightarrow> nat \<Rightarrow> string option \<Rightarrow> time \<Rightarrow> string" where
  "buildAuditHash Y inp metadata sequence previousHash createdAt =
     y_sha256 Y (stableStringify (y_localeLe Y)
       (audit_payload inp metadata sequence previousHash createdAt))"

definition chain_for :: "string \<Rightarrow> audit_db \<Rightarrow> chain_head option" where
  "chain_for org db = find (\<lambda>c. c_org c = org) (au_chains db)"

text \<open>\<open>persistAuditLog\<close>: upsert of the head, entry, new head; the caller's transaction makes the
  three writes one.\<close>

definition persistAuditLog :: "audit_env \<Rightarrow> time \<Rightarrow> audit_input \<Rightarrow> (audit_db, unit) op" where
  "persistAuditLog Y now inp =
     (let metadata = mergeAuditMetadata Y (i_metadata inp) in
      bnd (writes (\<lambda>db. if chain_for (i_org inp) db = None
             then db\<lparr>au_chains := au_chains db @ [\<lparr> c_org = i_org inp, c_lastHash = None, c_sequence = 0 \<rparr>]\<rparr>
             else db)) (\<lambda>_.
      bnd (reads (chain_for (i_org inp))) (\<lambda>chain.
      let sequence = (case chain of None \<Rightarrow> 0 | Some c \<Rightarrow> c_sequence c) + 1;
          previousHash = (case chain of None \<Rightarrow> None | Some c \<Rightarrow> c_lastHash c);
          hash = buildAuditHash Y inp metadata sequence previousHash now in
      bnd (writes (\<lambda>db. db\<lparr>au_log := au_log db @
             [\<lparr> a_org = i_org inp, a_actor = i_actor inp, a_sequence = sequence, a_action = i_action inp,
                a_resource = i_resource inp, a_resourceId = i_resourceId inp, a_summary = i_summary inp,
                a_metadata = metadata, a_previousHash = previousHash, a_hash = hash, a_createdAt = now \<rparr>]\<rparr>)) (\<lambda>_.
      writes (\<lambda>db. db\<lparr>au_chains := updateMany (\<lambda>c. c_org c = i_org inp)
             (\<lambda>c. c\<lparr>c_lastHash := Some hash, c_sequence := sequence\<rparr>) (au_chains db)\<rparr>)))))"

definition createAuditLog :: "audit_env \<Rightarrow> time \<Rightarrow> audit_input \<Rightarrow> (audit_db, unit) op" where
  "createAuditLog Y now inp = tx (persistAuditLog Y now inp)"

definition extractEntityId :: "json option \<Rightarrow> string option" where
  "extractEntityId entity =
     (case jstring (case entity of None \<Rightarrow> None | Some e \<Rightarrow> jfield ''id'' e) of
        Some i \<Rightarrow> if i = [] then None else Some i
      | None \<Rightarrow> None)"

section \<open>The chain\<close>

definition entries_of :: "string \<Rightarrow> audit_db \<Rightarrow> audit_entry list" where
  "entries_of org db = filter (\<lambda>a. a_org a = org) (au_log db)"

definition entry_payload :: "audit_entry \<Rightarrow> json" where
  "entry_payload a = audit_payload
     \<lparr> i_org = a_org a, i_actor = a_actor a, i_action = a_action a, i_resource = a_resource a,
       i_resourceId = a_resourceId a, i_summary = a_summary a, i_metadata = None \<rparr>
     (a_metadata a) (a_sequence a) (a_previousHash a) (a_createdAt a)"

text \<open>A chain from a sequence number and a previous hash: numbered without gaps, each entry hashed
  over its content and the hash before it; \<open>chain_end\<close> is the hash it ends in.\<close>

fun chain_from :: "audit_env \<Rightarrow> nat \<Rightarrow> string option \<Rightarrow> audit_entry list \<Rightarrow> bool" where
  "chain_from Y n h [] = True"
| "chain_from Y n h (a # as) \<longleftrightarrow>
     a_sequence a = n + 1 \<and> a_previousHash a = h \<and>
     a_hash a = y_sha256 Y (stableStringify (y_localeLe Y) (entry_payload a)) \<and>
     chain_from Y (n + 1) (Some (a_hash a)) as"

fun chain_end :: "string option \<Rightarrow> audit_entry list \<Rightarrow> string option" where
  "chain_end h [] = h"
| "chain_end h (a # as) = chain_end (Some (a_hash a)) as"

definition audit_ok :: "audit_env \<Rightarrow> audit_db \<Rightarrow> bool" where
  "audit_ok Y db \<longleftrightarrow> distinct (map c_org (au_chains db)) \<and>
     (\<forall>org. chain_from Y 0 None (entries_of org db) \<and>
        (case chain_for org db of
           None \<Rightarrow> entries_of org db = []
         | Some c \<Rightarrow> c_sequence c = length (entries_of org db) \<and> c_lastHash c = chain_end None (entries_of org db)))"

lemma chain_from_append:
  "chain_from Y n h (as @ [a]) \<longleftrightarrow> chain_from Y n h as \<and>
     a_sequence a = n + length as + 1 \<and> a_previousHash a = chain_end h as \<and>
     a_hash a = y_sha256 Y (stableStringify (y_localeLe Y) (entry_payload a))"
  by (induction as arbitrary: n h) auto

lemma chain_end_append [simp]: "chain_end h (as @ [a]) = Some (a_hash a)"
  by (induction as arbitrary: h) auto

lemma entry_payload_of_input:
  "entry_payload \<lparr> a_org = i_org inp, a_actor = i_actor inp, a_sequence = n, a_action = i_action inp,
     a_resource = i_resource inp, a_resourceId = i_resourceId inp, a_summary = i_summary inp,
     a_metadata = m, a_previousHash = p, a_hash = h, a_createdAt = t \<rparr> = audit_payload inp m n p t"
  by (simp add: entry_payload_def audit_payload_def)

text \<open>What one call appends: the next link of its organization's chain.\<close>

definition next_entry :: "audit_env \<Rightarrow> time \<Rightarrow> audit_input \<Rightarrow> audit_db \<Rightarrow> audit_entry" where
  "next_entry Y now inp db =
     (let n = length (entries_of (i_org inp) db) + 1; p = chain_end None (entries_of (i_org inp) db);
          m = mergeAuditMetadata Y (i_metadata inp)
      in \<lparr> a_org = i_org inp, a_actor = i_actor inp, a_sequence = n, a_action = i_action inp,
           a_resource = i_resource inp, a_resourceId = i_resourceId inp, a_summary = i_summary inp,
           a_metadata = m, a_previousHash = p, a_hash = buildAuditHash Y inp m n p now, a_createdAt = now \<rparr>)"

lemma chain_for_in: "chain_for org db = Some c \<Longrightarrow> c \<in> set (au_chains db) \<and> c_org c = org"
  unfolding chain_for_def by (drule find_SomeD)

definition head_of :: "string \<Rightarrow> chain_head list \<Rightarrow> chain_head option" where
  "head_of org cs = find (\<lambda>c. c_org c = org) cs"

lemma head_of_update:
  "head_of org (updateMany (\<lambda>c. c_org c = o') (\<lambda>c. c\<lparr>c_lastHash := h, c_sequence := n\<rparr>) cs) =
     (if org = o' then map_option (\<lambda>c. c\<lparr>c_lastHash := h, c_sequence := n\<rparr>) (head_of org cs) else head_of org cs)"
  by (induction cs) (auto simp: head_of_def)

lemma head_of_append:
  "head_of org (cs @ [c]) = (case head_of org cs of None \<Rightarrow> if c_org c = org then Some c else None | Some d \<Rightarrow> Some d)"
  by (induction cs) (auto simp: head_of_def)

lemma chain_for_head: "chain_for org db = head_of org (au_chains db)"
  by (simp add: chain_for_def head_of_def)

lemma persist_run:
  assumes ok: "audit_ok Y db"
  shows "\<exists>db'. persistAuditLog Y now inp db = (Inr (), db') \<and> audit_ok Y db' \<and>
    au_log db' = au_log db @ [next_entry Y now inp db]"
proof -
  let ?o = "i_org inp" and ?es = "entries_of (i_org inp) db"
  let ?m = "mergeAuditMetadata Y (i_metadata inp)"
  let ?new = "\<lparr> c_org = ?o, c_lastHash = None, c_sequence = 0 \<rparr>"
  define cs where "cs = (if chain_for ?o db = None then au_chains db @ [?new] else au_chains db)"
  have heads: "chain_from Y 0 None (entries_of org db)"
    "case head_of org (au_chains db) of None \<Rightarrow> entries_of org db = []
      | Some c \<Rightarrow> c_sequence c = length (entries_of org db) \<and> c_lastHash c = chain_end None (entries_of org db)" for org
    using ok by (simp_all add: audit_ok_def chain_for_head)
  obtain c where c: "head_of ?o cs = Some c" "c_sequence c = length ?es" "c_lastHash c = chain_end None ?es"
    using heads(2)[of ?o] by (auto simp: cs_def chain_for_head head_of_append split: option.splits)
  let ?e = "next_entry Y now inp db"
  let ?upd = "updateMany (\<lambda>c. c_org c = ?o) (\<lambda>c. c\<lparr>c_lastHash := Some (a_hash ?e), c_sequence := length ?es + 1\<rparr>) cs"
  define db' where "db' = db\<lparr>au_log := au_log db @ [?e], au_chains := ?upd\<rparr>"
  have run: "persistAuditLog Y now inp db = (Inr (), db')"
    using c unfolding persistAuditLog_def db'_def cs_def
    by (auto simp: bnd_def writes_def reads_def Let_def chain_for_head next_entry_def)
  have chains: "au_chains db' = ?upd" by (simp add: db'_def)
  have es: "entries_of org db' = (if org = ?o then ?es @ [?e] else entries_of org db)" for org
    by (simp add: entries_of_def db'_def next_entry_def Let_def)
  have hash: "a_hash ?e = y_sha256 Y (stableStringify (y_localeLe Y) (entry_payload ?e))"
    unfolding next_entry_def Let_def entry_payload_of_input by (simp add: buildAuditHash_def)
  have "distinct (map c_org cs)"
    using ok by (auto simp: cs_def audit_ok_def chain_for_def find_None_iff)
  then have dist: "distinct (map c_org (au_chains db'))" by (simp add: db'_def map_updateMany_same)
  have chain: "chain_from Y 0 None (entries_of org db')" for org
    using heads(1)[of org] heads(1)[of ?o] hash
    by (simp add: es chain_from_append next_entry_def Let_def)
  have head: "case head_of org (au_chains db') of None \<Rightarrow> entries_of org db' = []
      | Some c \<Rightarrow> c_sequence c = length (entries_of org db') \<and> c_lastHash c = chain_end None (entries_of org db')" for org
  proof (cases "org = ?o")
    case True
    with c show ?thesis by (simp add: chains head_of_update es)
  next
    case False
    then have "head_of org cs = head_of org (au_chains db)"
      by (auto simp: cs_def head_of_append split: option.splits)
    with False heads(2)[of org] show ?thesis by (simp add: chains head_of_update es split: option.splits)
  qed
  have "audit_ok Y db'" using dist chain head by (simp add: audit_ok_def chain_for_head)
  with run show ?thesis by (auto simp: db'_def)
qed

text \<open>Two chains of the same length with the same end have the same contents, entry by entry, when
  the digest has no collision between their entries.\<close>

lemma payload_previous: "entry_payload a = entry_payload b \<Longrightarrow> a_previousHash a = a_previousHash b"
  by (auto simp: entry_payload_def audit_payload_def jopt_def split: option.splits)

lemma same_end_same_contents:
  assumes "chain_from Y n h as" "chain_from Y n h bs" "length as = length bs"
    and "chain_end h as = chain_end h bs"
    and "\<forall>a \<in> set as. \<forall>b \<in> set bs. a_hash a = a_hash b \<longrightarrow> entry_payload a = entry_payload b"
  shows "map entry_payload as = map entry_payload bs"
  using assms
proof (induction as arbitrary: bs rule: rev_induct)
  case Nil
  then show ?case by simp
next
  case (snoc a as)
  then obtain b cs where bs: "bs = cs @ [b]" by (cases bs rule: rev_cases) auto
  with snoc.prems have "a_hash a = a_hash b" and len: "length as = length cs" by simp_all
  with snoc.prems(5) bs have p: "entry_payload a = entry_payload b" by simp
  have "chain_end h as = chain_end h cs"
    using snoc.prems(1,2) payload_previous[OF p] unfolding bs chain_from_append by simp
  with snoc.prems len have "map entry_payload as = map entry_payload cs"
    unfolding bs chain_from_append by (intro snoc.IH) auto
  with p show ?case by (simp add: bs)
qed

end
