(* ===== verification/FinDb.thy ===== *)
theory FinDb
  imports AuditLog
begin

text \<open>
  The financial tables of prisma/schema.prisma as records, the unique indexes the code relies
  on, and the Prisma calls (create, update, updateMany) the financial modules make on them.

  Columns the financial modules neither read nor write are left out (\<open>updatedAt\<close>, the components
  of a payslip, the calculation columns of a payroll run, which PayrollRuns models). Generated values (row ids, references, clock readings)
  are arguments of the operations.
\<close>

section \<open>Rows\<close>

datatype settlement_method = MANUAL | PROVIDER

datatype settlement_status =
  PREPARED | RESERVED | PROVIDER_PROCESSING | UNKNOWN | SUCCEEDED | FAILED | REVERSED

record wallet =
  w_id :: string
  w_org :: string
  w_name :: string
  w_purpose :: string
  w_balance :: money
  w_reserved :: money
  w_currency :: string

record ledger =
  t_id :: string
  t_org :: string
  t_wallet :: string
  t_type :: string
  t_direction :: string
  t_amount :: money
  t_before :: money
  t_after :: money
  t_reference :: string
  t_transferReference :: "string option"
  t_description :: string
  t_sourceType :: "string option"
  t_sourceId :: "string option"
  t_reversalOf :: "string option"
  t_createdBy :: "string option"
  t_createdAt :: time

record settlement =
  s_id :: string
  s_org :: string
  s_wallet :: string
  s_sourceType :: string
  s_sourceId :: string
  s_method :: settlement_method
  s_status :: settlement_status
  s_amount :: money
  s_currency :: string
  s_internalReference :: string
  s_idempotencyKey :: string
  s_beneficiary :: "json option"
  s_provider :: "string option"
  s_recipientReference :: "string option"
  s_recipientId :: "string option"
  s_transferReference :: "string option"
  s_transferCode :: "string option"
  s_providerStatus :: "string option"
  s_initiationClaimedAt :: "time option"
  s_attemptedAt :: "time option"
  s_lastVerifiedAt :: "time option"
  s_claimToken :: "string option"
  s_claimedAt :: "time option"
  s_leaseExpiresAt :: "time option"
  s_attempts :: nat
  s_lastError :: "string option"
  s_externalReference :: "string option"
  s_evidence :: "json option"
  s_failureReason :: "string option"
  s_releasedAt :: "time option"
  s_reservedAt :: "time option"
  s_processingAt :: "time option"
  s_settledAt :: "time option"
  s_reversedAt :: "time option"
  s_reversalReference :: "string option"
  s_reversalLedgerId :: "string option"
  s_createdBy :: "string option"
  s_createdAt :: time

record recipient =
  rc_id :: string
  rc_org :: string
  rc_provider :: string
  rc_beneficiaryType :: string
  rc_beneficiaryId :: string
  rc_currency :: string
  rc_bankCode :: string
  rc_fingerprint :: string
  rc_last4 :: string
  rc_accountName :: string
  rc_code :: string
  rc_providerId :: "string option"
  rc_active :: bool

record payment_request =
  q_id :: string
  q_org :: string
  q_status :: string
  q_title :: string
  q_description :: "string option"
  q_amount :: money
  q_currency :: string
  q_requestedBy :: "string option"
  q_requesterUserId :: "string option"
  q_invoiceId :: "string option"
  q_projectId :: "string option"
  q_clientId :: "string option"
  q_bankName :: "string option"
  q_bankCode :: "string option"
  q_accountNumber :: "string option"
  q_accountName :: "string option"
  q_approvedBy :: "string option"
  q_approvedAt :: "time option"
  q_decisionReason :: "string option"
  q_declinedBy :: "string option"
  q_declinedAt :: "time option"
  q_disbursementReference :: "string option"
  q_disbursedAt :: "time option"
  q_createdAt :: time

record payslip =
  p_id :: string
  p_org :: string
  p_run :: string
  p_employee :: string
  p_netPay :: money
  p_currency :: "string option"
  p_bank :: "json option"
  p_paymentStatus :: string

record payroll_run =
  pr_id :: string
  pr_org :: string
  pr_name :: string
  pr_status :: string
  pr_totalNetPay :: money
  pr_disbursedAt :: "time option"

record inbox_event =
  e_id :: string
  e_provider :: string
  e_fingerprint :: string
  e_type :: string
  e_reference :: "string option"
  e_payload :: json
  e_status :: string
  e_attempts :: int
  e_deferred :: int
  e_failureReason :: "string option"
  e_token :: "string option"
  e_claimedAt :: "time option"
  e_leaseExpiresAt :: "time option"
  e_nextAttemptAt :: "time option"
  e_deadLetteredAt :: "time option"
  e_receivedAt :: time
  e_processedAt :: "time option"

record tenant =
  o_id :: string
  o_test :: bool  \<comment> \<open>\<open>classification = TEST_E2E\<close>\<close>

text \<open>An attempt to fund a wallet through Paystack; \<open>updatedAt\<close> is set by every Prisma update.\<close>

record funding =
  f_id :: string
  f_org :: string
  f_wallet :: string
  f_provider :: string
  f_reference :: string
  f_idempotencyKey :: "string option"
  f_amount :: money
  f_currency :: string
  f_status :: string
  f_authorizationUrl :: "string option"
  f_accessCode :: "string option"
  f_providerReference :: "string option"
  f_providerPayload :: "json option"
  f_failureReason :: "string option"
  f_initiationAttemptedAt :: "time option"
  f_token :: "string option"
  f_claimedAt :: "time option"
  f_leaseExpiresAt :: "time option"
  f_attempts :: nat
  f_nextAt :: "time option"
  f_deadLetteredAt :: "time option"
  f_lastError :: "string option"
  f_verifiedAt :: "time option"
  f_createdBy :: "string option"
  f_createdAt :: time
  f_updatedAt :: time

record fin_db =
  db_tenants :: "tenant list"
  db_wallets :: "wallet list"
  db_ledger :: "ledger list"
  db_settlements :: "settlement list"
  db_recipients :: "recipient list"
  db_requests :: "payment_request list"
  db_payslips :: "payslip list"
  db_runs :: "payroll_run list"
  db_inbox :: "inbox_event list"
  db_fundings :: "funding list"
  db_audit :: audit_db

text \<open>An audit entry written with the other rows.\<close>

definition audited :: "audit_env \<Rightarrow> time \<Rightarrow> audit_input \<Rightarrow> (fin_db, unit) op" where
  "audited Y now inp = zoom db_audit (\<lambda>a db. db\<lparr>db_audit := a\<rparr>) (createAuditLog Y now inp)"

text \<open>What the modules take from src/config/env.ts and from the crypto library: the SHA-256 and
  HMAC digests are parameters.\<close>

record fin_env =
  v_transfersEnabled :: bool
  v_transfersMode :: "string option"
  v_secretKey :: "string option"
  v_leaseMs :: int
  v_webhookLeaseMs :: int
  v_webhookMaxAttempts :: int
  v_webhookBatch :: nat
  v_staleMs :: int
  v_reconciliationBatch :: nat
  v_callbackUrl :: "string option"
  v_sha256 :: "string \<Rightarrow> string"
  v_hmac256 :: "string \<Rightarrow> string"

section \<open>Unique indexes\<close>

definition settlement_clash :: "settlement \<Rightarrow> settlement \<Rightarrow> bool" where
  "settlement_clash a b \<longleftrightarrow>
     s_id a = s_id b \<or>
     s_org a = s_org b \<and>
       (s_sourceType a = s_sourceType b \<and> s_sourceId a = s_sourceId b \<or>
        s_idempotencyKey a = s_idempotencyKey b \<or>
        s_internalReference a = s_internalReference b \<or>
        same_key (s_externalReference a) (s_externalReference b) \<or>
        same_key (s_reversalReference a) (s_reversalReference b)) \<or>
     same_key (s_provider a) (s_provider b) \<and>
       same_key (s_transferReference a) (s_transferReference b) \<or>
     same_key (s_reversalLedgerId a) (s_reversalLedgerId b)"

definition ledger_clash :: "ledger \<Rightarrow> ledger \<Rightarrow> bool" where
  "ledger_clash a b \<longleftrightarrow>
     t_id a = t_id b \<or>
     t_org a = t_org b \<and>
       (t_reference a = t_reference b \<or>
        same_key (t_transferReference a) (t_transferReference b)) \<or>
     t_wallet a = t_wallet b \<and> same_key (t_sourceType a) (t_sourceType b) \<and>
       same_key (t_sourceId a) (t_sourceId b) \<and> t_type a = t_type b"

definition recipient_clash :: "recipient \<Rightarrow> recipient \<Rightarrow> bool" where
  "recipient_clash a b \<longleftrightarrow>
     rc_id a = rc_id b \<or>
     rc_provider a = rc_provider b \<and> rc_code a = rc_code b \<or>
     rc_org a = rc_org b \<and> rc_provider a = rc_provider b \<and>
       rc_beneficiaryType a = rc_beneficiaryType b \<and> rc_beneficiaryId a = rc_beneficiaryId b \<and>
       rc_currency a = rc_currency b \<and> rc_bankCode a = rc_bankCode b \<and>
       rc_fingerprint a = rc_fingerprint b"

definition inbox_clash :: "inbox_event \<Rightarrow> inbox_event \<Rightarrow> bool" where
  "inbox_clash a b \<longleftrightarrow>
     e_id a = e_id b \<or> e_provider a = e_provider b \<and> e_fingerprint a = e_fingerprint b"

definition funding_clash :: "funding \<Rightarrow> funding \<Rightarrow> bool" where
  "funding_clash a b \<longleftrightarrow>
     f_id a = f_id b \<or> f_reference a = f_reference b \<or>
     f_org a = f_org b \<and> same_key (f_idempotencyKey a) (f_idempotencyKey b)"

definition P2002 :: app_error where "P2002 = PrismaError ''P2002''"
definition P2025 :: app_error where "P2025 = PrismaError ''P2025''"

section \<open>Prisma calls\<close>

definition find_settlement :: "(settlement \<Rightarrow> bool) \<Rightarrow> (fin_db, settlement option) op" where
  "find_settlement P = reads (\<lambda>db. find P (db_settlements db))"

definition create_settlement :: "settlement \<Rightarrow> (fin_db, settlement) op" where
  "create_settlement r =
     bnd (reads (\<lambda>db. clashes settlement_clash r (db_settlements db))) (\<lambda>dup.
     bnd (guard (\<not> dup) P2002) (\<lambda>_.
     bnd (writes (\<lambda>db. db\<lparr>db_settlements := db_settlements db @ [r]\<rparr>)) (\<lambda>_.
     ret r)))"

text \<open>\<open>updateMany({ where: P, data: f })\<close>, its result the count; a unique index violated by an
  updated row is P2002, and no row changes.\<close>

definition updateMany_settlements ::
    "(settlement \<Rightarrow> bool) \<Rightarrow> (settlement \<Rightarrow> settlement) \<Rightarrow> (fin_db, nat) op" where
  "updateMany_settlements P f =
     bnd (reads db_settlements) (\<lambda>rows.
     bnd (guard (\<not> (\<exists>x \<in> set rows. P x \<and> (\<exists>y \<in> set rows. s_id y \<noteq> s_id x \<and> settlement_clash (f x) y)))
            P2002) (\<lambda>_.
     bnd (writes (\<lambda>db. db\<lparr>db_settlements := updateMany P f (db_settlements db)\<rparr>)) (\<lambda>_.
     ret (countWhere P rows))))"

text \<open>\<open>update({ where: { id }, data: f })\<close>, its result the row; P2025 when there is none.\<close>

definition update_settlement ::
    "string \<Rightarrow> (settlement \<Rightarrow> settlement) \<Rightarrow> (fin_db, settlement) op" where
  "update_settlement i f =
     bnd (reads (\<lambda>db. find (\<lambda>s. s_id s = i) (db_settlements db))) (\<lambda>found.
     bnd (required found P2025) (\<lambda>s.
     bnd (updateMany_settlements (\<lambda>x. s_id x = i) f) (\<lambda>_.
     ret (f s))))"

definition create_ledger :: "ledger \<Rightarrow> (fin_db, ledger) op" where
  "create_ledger r =
     bnd (reads (\<lambda>db. clashes ledger_clash r (db_ledger db))) (\<lambda>dup.
     bnd (guard (\<not> dup) P2002) (\<lambda>_.
     bnd (writes (\<lambda>db. db\<lparr>db_ledger := db_ledger db @ [r]\<rparr>)) (\<lambda>_.
     ret r)))"

definition updateMany_wallets :: "(wallet \<Rightarrow> bool) \<Rightarrow> (wallet \<Rightarrow> wallet) \<Rightarrow> (fin_db, nat) op" where
  "updateMany_wallets P f =
     bnd (reads (\<lambda>db. countWhere P (db_wallets db))) (\<lambda>n.
     bnd (writes (\<lambda>db. db\<lparr>db_wallets := updateMany P f (db_wallets db)\<rparr>)) (\<lambda>_.
     ret n))"

definition updateMany_requests ::
    "(payment_request \<Rightarrow> bool) \<Rightarrow> (payment_request \<Rightarrow> payment_request) \<Rightarrow> (fin_db, nat) op" where
  "updateMany_requests P f =
     bnd (reads (\<lambda>db. countWhere P (db_requests db))) (\<lambda>n.
     bnd (writes (\<lambda>db. db\<lparr>db_requests := updateMany P f (db_requests db)\<rparr>)) (\<lambda>_.
     ret n))"

definition updateMany_payslips ::
    "(payslip \<Rightarrow> bool) \<Rightarrow> (payslip \<Rightarrow> payslip) \<Rightarrow> (fin_db, nat) op" where
  "updateMany_payslips P f =
     bnd (reads (\<lambda>db. countWhere P (db_payslips db))) (\<lambda>n.
     bnd (writes (\<lambda>db. db\<lparr>db_payslips := updateMany P f (db_payslips db)\<rparr>)) (\<lambda>_.
     ret n))"

definition updateMany_runs ::
    "(payroll_run \<Rightarrow> bool) \<Rightarrow> (payroll_run \<Rightarrow> payroll_run) \<Rightarrow> (fin_db, nat) op" where
  "updateMany_runs P f =
     bnd (reads (\<lambda>db. countWhere P (db_runs db))) (\<lambda>n.
     bnd (writes (\<lambda>db. db\<lparr>db_runs := updateMany P f (db_runs db)\<rparr>)) (\<lambda>_.
     ret n))"

definition updateMany_inbox ::
    "(inbox_event \<Rightarrow> bool) \<Rightarrow> (inbox_event \<Rightarrow> inbox_event) \<Rightarrow> (fin_db, nat) op" where
  "updateMany_inbox P f =
     bnd (reads (\<lambda>db. countWhere P (db_inbox db))) (\<lambda>n.
     bnd (writes (\<lambda>db. db\<lparr>db_inbox := updateMany P f (db_inbox db)\<rparr>)) (\<lambda>_.
     ret n))"

definition updateMany_fundings ::
    "time \<Rightarrow> (funding \<Rightarrow> bool) \<Rightarrow> (funding \<Rightarrow> funding) \<Rightarrow> (fin_db, nat) op" where
  "updateMany_fundings now P f =
     bnd (reads (\<lambda>db. countWhere P (db_fundings db))) (\<lambda>n.
     bnd (writes (\<lambda>db. db\<lparr>db_fundings :=
            updateMany P (\<lambda>x. (f x)\<lparr>f_updatedAt := now\<rparr>) (db_fundings db)\<rparr>)) (\<lambda>_.
     ret n))"

definition create_funding :: "funding \<Rightarrow> (fin_db, funding) op" where
  "create_funding r =
     bnd (reads (\<lambda>db. clashes funding_clash r (db_fundings db))) (\<lambda>dup.
     bnd (guard (\<not> dup) P2002) (\<lambda>_.
     bnd (writes (\<lambda>db. db\<lparr>db_fundings := db_fundings db @ [r]\<rparr>)) (\<lambda>_.
     ret r)))"

definition create_recipient :: "recipient \<Rightarrow> (fin_db, recipient) op" where
  "create_recipient r =
     bnd (reads (\<lambda>db. clashes recipient_clash r (db_recipients db))) (\<lambda>dup.
     bnd (guard (\<not> dup) P2002) (\<lambda>_.
     bnd (writes (\<lambda>db. db\<lparr>db_recipients := db_recipients db @ [r]\<rparr>)) (\<lambda>_.
     ret r)))"

subsection \<open>What successful calls do\<close>

lemma run_create_settlement [run_simps]:
  "create_settlement r db = (Inr x, db') \<longleftrightarrow>
     \<not> clashes settlement_clash r (db_settlements db) \<and> x = r \<and>
     db' = db\<lparr>db_settlements := db_settlements db @ [r]\<rparr>"
  unfolding create_settlement_def by (auto simp: run_simps)

lemma run_updateMany_settlements [run_simps]:
  "updateMany_settlements P f db = (Inr n, db') \<longleftrightarrow>
     \<not> (\<exists>x \<in> set (db_settlements db). P x \<and>
        (\<exists>y \<in> set (db_settlements db). s_id y \<noteq> s_id x \<and> settlement_clash (f x) y)) \<and>
     n = countWhere P (db_settlements db) \<and>
     db' = db\<lparr>db_settlements := updateMany P f (db_settlements db)\<rparr>"
  unfolding updateMany_settlements_def by (auto simp: run_simps)

lemma run_update_settlement [run_simps]:
  "update_settlement i f db = (Inr x, db') \<longleftrightarrow>
     (\<exists>s. find (\<lambda>s. s_id s = i) (db_settlements db) = Some s \<and> x = f s) \<and>
     \<not> (\<exists>x \<in> set (db_settlements db). s_id x = i \<and>
        (\<exists>y \<in> set (db_settlements db). s_id y \<noteq> s_id x \<and> settlement_clash (f x) y)) \<and>
     db' = db\<lparr>db_settlements := updateMany (\<lambda>x. s_id x = i) f (db_settlements db)\<rparr>"
  unfolding update_settlement_def by (auto simp: run_simps)

lemma run_create_ledger [run_simps]:
  "create_ledger r db = (Inr x, db') \<longleftrightarrow>
     \<not> clashes ledger_clash r (db_ledger db) \<and> x = r \<and>
     db' = db\<lparr>db_ledger := db_ledger db @ [r]\<rparr>"
  unfolding create_ledger_def by (auto simp: run_simps)

lemma run_find_settlement [run_simps]:
  "find_settlement P db = (r, db') \<longleftrightarrow> r = Inr (find P (db_settlements db)) \<and> db' = db"
  unfolding find_settlement_def by (auto simp: run_simps)

lemma run_updateMany_wallets [run_simps]:
  "updateMany_wallets P f db = (r, db') \<longleftrightarrow>
     r = Inr (countWhere P (db_wallets db)) \<and> db' = db\<lparr>db_wallets := updateMany P f (db_wallets db)\<rparr>"
  unfolding updateMany_wallets_def by (auto simp: op_defs)

lemma run_updateMany_requests [run_simps]:
  "updateMany_requests P f db = (r, db') \<longleftrightarrow>
     r = Inr (countWhere P (db_requests db)) \<and>
     db' = db\<lparr>db_requests := updateMany P f (db_requests db)\<rparr>"
  unfolding updateMany_requests_def by (auto simp: op_defs)

lemma run_updateMany_payslips [run_simps]:
  "updateMany_payslips P f db = (r, db') \<longleftrightarrow>
     r = Inr (countWhere P (db_payslips db)) \<and>
     db' = db\<lparr>db_payslips := updateMany P f (db_payslips db)\<rparr>"
  unfolding updateMany_payslips_def by (auto simp: op_defs)

lemma run_updateMany_runs [run_simps]:
  "updateMany_runs P f db = (r, db') \<longleftrightarrow>
     r = Inr (countWhere P (db_runs db)) \<and> db' = db\<lparr>db_runs := updateMany P f (db_runs db)\<rparr>"
  unfolding updateMany_runs_def by (auto simp: op_defs)

lemma run_updateMany_inbox [run_simps]:
  "updateMany_inbox P f db = (r, db') \<longleftrightarrow>
     r = Inr (countWhere P (db_inbox db)) \<and> db' = db\<lparr>db_inbox := updateMany P f (db_inbox db)\<rparr>"
  unfolding updateMany_inbox_def by (auto simp: op_defs)

lemma run_updateMany_fundings [run_simps]:
  "updateMany_fundings now P f db = (r, db') \<longleftrightarrow>
     r = Inr (countWhere P (db_fundings db)) \<and>
     db' = db\<lparr>db_fundings := updateMany P (\<lambda>x. (f x)\<lparr>f_updatedAt := now\<rparr>) (db_fundings db)\<rparr>"
  unfolding updateMany_fundings_def by (auto simp: op_defs)

lemma run_create_funding [run_simps]:
  "create_funding r db = (Inr x, db') \<longleftrightarrow>
     \<not> clashes funding_clash r (db_fundings db) \<and> x = r \<and> db' = db\<lparr>db_fundings := db_fundings db @ [r]\<rparr>"
  unfolding create_funding_def by (auto simp: run_simps)

lemma run_create_recipient [run_simps]:
  "create_recipient r db = (Inr x, db') \<longleftrightarrow>
     \<not> clashes recipient_clash r (db_recipients db) \<and> x = r \<and>
     db' = db\<lparr>db_recipients := db_recipients db @ [r]\<rparr>"
  unfolding create_recipient_def by (auto simp: run_simps)

end
