(* ===== verification/Wallet.thy ===== *)
theory Wallet
  imports FinDb
begin

text \<open>
  src/core/wallet-integrity.ts: the four guarded updates of a wallet's balance and reserved
  balance, and src/core/payroll-wallet-incident-pause.ts. The locale \<open>wallet_mutation\<close> is the
  contract the settlement modules use: a successful call adds fixed multiples of the amount to
  the two columns of one wallet, keeps \<open>0 \<le> reserved \<le> balance\<close>, and a failed one writes nothing.
\<close>

section \<open>Operations\<close>

definition normalizeFinancialCurrency :: "string \<Rightarrow> string" where
  "normalizeFinancialCurrency c = toUpper (trim c)"

definition error_code :: "string \<Rightarrow> json" where
  "error_code c = JObj [(''errorCode'', JStr c)]"

definition assertFinancialCurrency :: "string \<Rightarrow> string \<Rightarrow> app_error + string" where
  "assertFinancialCurrency expected actual =
     (let normalizedExpected = normalizeFinancialCurrency expected;
          normalizedActual = normalizeFinancialCurrency actual
      in if normalizedExpected = [] \<or> normalizedExpected \<noteq> normalizedActual
         then Inl (conflictWith ''Financial operation currency does not match wallet currency''
                     (error_code ''CURRENCY_MISMATCH''))
         else Inr normalizedExpected)"

definition spendableBalance :: "wallet \<Rightarrow> money" where
  "spendableBalance w = w_balance w - w_reserved w"

text \<open>\<open>Decimal.isPositive()\<close> tests the sign bit, so zero passes; a negative zero does not arise
  from the amounts of the schema.\<close>

definition positiveAmount :: "money \<Rightarrow> app_error + unit" where
  "positiveAmount a =
     (if 0 \<le> a then Inr () else Inl (conflict ''Financial operation amount must be positive''))"

definition wallet_key :: "string \<Rightarrow> string \<Rightarrow> wallet \<Rightarrow> bool" where
  "wallet_key org i w \<longleftrightarrow> w_id w = i \<and> w_org w = org"

definition financialWallet :: "string \<Rightarrow> string \<Rightarrow> string \<Rightarrow> (fin_db, wallet) op" where
  "financialWallet org i currency =
     bnd (reads (\<lambda>db. find (wallet_key org i) (db_wallets db))) (\<lambda>found.
     bnd (required found (notFound ''Wallet not found'')) (\<lambda>w.
     bnd (from_sum (assertFinancialCurrency currency (w_currency w))) (\<lambda>_.
     ret w)))"

definition insufficient :: app_error where
  "insufficient = conflictWith ''Insufficient spendable wallet balance''
                    (error_code ''INSUFFICIENT_SPENDABLE_BALANCE'')"

text \<open>What the four operations share: the amount and currency checks, then one raw
  \<open>UPDATE WalletAccount SET f WHERE id AND organizationId AND UPPER(currency) AND Q\<close> that must
  change exactly one row.\<close>

definition changeWallet ::
    "string \<Rightarrow> string \<Rightarrow> money \<Rightarrow> string \<Rightarrow> (wallet \<Rightarrow> bool) \<Rightarrow> (wallet \<Rightarrow> wallet) \<Rightarrow> app_error \<Rightarrow>
     (fin_db, unit) op" where
  "changeWallet org i amount currency Q f e =
     bnd (from_sum (positiveAmount amount)) (\<lambda>_.
     bnd (financialWallet org i currency) (\<lambda>_.
     bnd (updateMany_wallets
            (\<lambda>w. wallet_key org i w \<and> toUpper (w_currency w) = currency \<and> Q w) f) (\<lambda>changed.
     guard (changed = 1) e)))"

definition reserveWalletBalance ::
    "string \<Rightarrow> string \<Rightarrow> money \<Rightarrow> string \<Rightarrow> (fin_db, unit) op" where
  "reserveWalletBalance org i amount c =
     changeWallet org i amount (normalizeFinancialCurrency c)
       (\<lambda>w. amount \<le> w_balance w - w_reserved w)
       (\<lambda>w. w\<lparr>w_reserved := w_reserved w + amount\<rparr>)
       insufficient"

text \<open>The wallet read back after a debit, with the balances of the ledger row to write.\<close>

definition debitOutcome ::
    "string \<Rightarrow> string \<Rightarrow> money \<Rightarrow> string \<Rightarrow> (fin_db, wallet \<times> money \<times> money) op" where
  "debitOutcome org i amount currency =
     bnd (financialWallet org i currency) (\<lambda>after.
     ret (after, w_balance after + amount, w_balance after))"

definition debitUnreservedWallet ::
    "string \<Rightarrow> string \<Rightarrow> money \<Rightarrow> string \<Rightarrow> (fin_db, wallet \<times> money \<times> money) op" where
  "debitUnreservedWallet org i amount c =
     bnd (changeWallet org i amount (normalizeFinancialCurrency c)
            (\<lambda>w. amount \<le> w_balance w - w_reserved w)
            (\<lambda>w. w\<lparr>w_balance := w_balance w - amount\<rparr>)
            insufficient) (\<lambda>_.
     debitOutcome org i amount (normalizeFinancialCurrency c))"

definition consumeWalletReservation ::
    "string \<Rightarrow> string \<Rightarrow> money \<Rightarrow> string \<Rightarrow> (fin_db, wallet \<times> money \<times> money) op" where
  "consumeWalletReservation org i amount c =
     bnd (changeWallet org i amount (normalizeFinancialCurrency c)
            (\<lambda>w. amount \<le> w_balance w \<and> amount \<le> w_reserved w)
            (\<lambda>w. w\<lparr>w_balance := w_balance w - amount, w_reserved := w_reserved w - amount\<rparr>)
            (conflict ''Wallet reservation could not be finalized'')) (\<lambda>_.
     debitOutcome org i amount (normalizeFinancialCurrency c))"

definition releaseWalletReservation ::
    "string \<Rightarrow> string \<Rightarrow> money \<Rightarrow> string \<Rightarrow> (fin_db, unit) op" where
  "releaseWalletReservation org i amount c =
     changeWallet org i amount (normalizeFinancialCurrency c)
       (\<lambda>w. amount \<le> w_reserved w)
       (\<lambda>w. w\<lparr>w_reserved := w_reserved w - amount\<rparr>)
       (conflict ''Wallet reservation could not be released'')"

text \<open>The pause switch of src/core/payroll-wallet-incident-pause.ts, off in this revision.\<close>

definition INCIDENT_WALLET_FINGERPRINT :: string where
  "INCIDENT_WALLET_FINGERPRINT = ''fcefcb648dfd''"

definition INCIDENT_WALLET_MUTATIONS_PAUSED :: bool where
  "INCIDENT_WALLET_MUTATIONS_PAUSED = False"

definition assertIncidentWalletFingerprintMutationAllowed :: "string \<Rightarrow> app_error + unit" where
  "assertIncidentWalletFingerprintMutationAllowed walletFingerprint =
     (if INCIDENT_WALLET_MUTATIONS_PAUSED \<and> walletFingerprint = INCIDENT_WALLET_FINGERPRINT
      then Inl (conflictWith ''This wallet is temporarily unavailable for financial maintenance''
                  (error_code ''WALLET_FINANCIAL_MAINTENANCE''))
      else Inr ())"

definition assertIncidentWalletMutationAllowed ::
    "fin_env \<Rightarrow> string \<Rightarrow> string \<Rightarrow> (fin_db, unit) op" where
  "assertIncidentWalletMutationAllowed E org i =
     from_sum (assertIncidentWalletFingerprintMutationAllowed
                 (take 12 (v_sha256 E (org @ '':'' @ i))))"

lemma incident_pause_off [run_simps]:
  "assertIncidentWalletMutationAllowed E org i s = (r, t) \<longleftrightarrow> r = Inr () \<and> t = s"
  by (auto simp: assertIncidentWalletMutationAllowed_def from_sum_def INCIDENT_WALLET_MUTATIONS_PAUSED_def
      assertIncidentWalletFingerprintMutationAllowed_def)

lemma incident_then: "bnd (assertIncidentWalletMutationAllowed E org i) f = f ()"
  by (rule ext) (simp add: bnd_def assertIncidentWalletMutationAllowed_def from_sum_def
      INCIDENT_WALLET_MUTATIONS_PAUSED_def assertIncidentWalletFingerprintMutationAllowed_def)

section \<open>The wallet invariant and the contract of the four updates\<close>

definition wallets_ok :: "fin_db \<Rightarrow> bool" where
  "wallets_ok db \<longleftrightarrow> distinct (map w_id (db_wallets db)) \<and>
     (\<forall>w \<in> set (db_wallets db). 0 \<le> w_reserved w \<and> w_reserved w \<le> w_balance w)"

definition add_wallet :: "money \<Rightarrow> money \<Rightarrow> wallet \<Rightarrow> wallet" where
  "add_wallet b r w = w\<lparr>w_balance := w_balance w + b, w_reserved := w_reserved w + r\<rparr>"

definition post_wallet :: "string \<Rightarrow> string \<Rightarrow> money \<Rightarrow> money \<Rightarrow> fin_db \<Rightarrow> fin_db" where
  "post_wallet org i b r db =
     db\<lparr>db_wallets := updateMany (wallet_key org i) (add_wallet b r) (db_wallets db)\<rparr>"

lemma add_wallet_simps [simp]:
  "w_id (add_wallet b r w) = w_id w" "w_org (add_wallet b r w) = w_org w"
  "w_balance (add_wallet b r w) = w_balance w + b" "w_reserved (add_wallet b r w) = w_reserved w + r"
  "w_currency (add_wallet b r w) = w_currency w"
  by (simp_all add: add_wallet_def)

lemma post_wallet_simps [simp]:
  "db_settlements (post_wallet org i b r db) = db_settlements db"
  "db_ledger (post_wallet org i b r db) = db_ledger db"
  "db_requests (post_wallet org i b r db) = db_requests db"
  "db_payslips (post_wallet org i b r db) = db_payslips db"
  "db_runs (post_wallet org i b r db) = db_runs db"
  "db_recipients (post_wallet org i b r db) = db_recipients db"
  "db_tenants (post_wallet org i b r db) = db_tenants db"
  "db_inbox (post_wallet org i b r db) = db_inbox db"
  "db_fundings (post_wallet org i b r db) = db_fundings db"
  "map w_id (db_wallets (post_wallet org i b r db)) = map w_id (db_wallets db)"
  "map w_org (db_wallets (post_wallet org i b r db)) = map w_org (db_wallets db)"
  by (simp_all add: post_wallet_def map_updateMany_same)

lemma run_financialWallet [run_simps]:
  "financialWallet org i c s = (Inr w, t) \<longleftrightarrow>
     t = s \<and> find (wallet_key org i) (db_wallets s) = Some w \<and>
     (\<exists>n. assertFinancialCurrency c (w_currency w) = Inr n)"
  by (auto simp: financialWallet_def run_simps)

lemma financialWallet_keeps [keeps_rules]: "keeps I (financialWallet org i c)"
  unfolding financialWallet_def by (intro keeps_rules)

text \<open>With distinct ids a guarded update that changed one row changed the keyed row.\<close>

lemma guarded_update_one:
  assumes "distinct (map w_id rows)" and "countWhere (\<lambda>w. wallet_key org i w \<and> Q w) rows = 1"
  shows "\<exists>w. find (wallet_key org i) rows = Some w \<and> Q w \<and>
    updateMany (\<lambda>w. wallet_key org i w \<and> Q w) f rows = updateMany (wallet_key org i) f rows"
proof -
  obtain w where w: "filter (\<lambda>w. wallet_key org i w \<and> Q w) rows = [w]"
    using countWhere_one[OF assms(2)] by blast
  then have "w \<in> set (filter (\<lambda>w. wallet_key org i w \<and> Q w) rows)" by simp
  then have in_rows: "w \<in> set rows" "wallet_key org i w" "Q w" by auto
  have uniq: "x = w" if "x \<in> set rows" "wallet_key org i x" for x
    using assms(1) in_rows that by (auto simp: wallet_key_def distinct_map inj_on_def)
  have "find (wallet_key org i) rows \<noteq> None" using in_rows by (auto simp: find_None_iff)
  then obtain v where v: "find (wallet_key org i) rows = Some v" by blast
  with uniq have "v = w" by (auto dest: find_SomeD)
  moreover have "updateMany (\<lambda>w. wallet_key org i w \<and> Q w) f rows = updateMany (wallet_key org i) f rows"
    unfolding updateMany_def using uniq in_rows(3) by (intro map_cong) auto
  ultimately show ?thesis using v in_rows(3) by auto
qed

lemma guarded_update_none:
  assumes "distinct (map w_id rows)" and "countWhere (\<lambda>w. wallet_key org i w \<and> Q w) rows \<noteq> 1"
  shows "updateMany (\<lambda>w. wallet_key org i w \<and> Q w) f rows = rows"
proof (rule updateMany_none, rule notI)
  fix x assume x: "x \<in> set rows" "wallet_key org i x \<and> Q x"
  have "filter (\<lambda>w. w_id w = w_id x) rows = [x]" by (rule filter_one_key[OF assms(1) x(1)])
  then have "filter (\<lambda>w. wallet_key org i w \<and> Q w) rows = [x]"
    by (rule filter_one_strengthen) (use x(2) in \<open>auto simp: wallet_key_def\<close>)
  with assms(2) show False by (simp add: countWhere_def)
qed

locale wallet_mutation =
  fixes mutate :: "string \<Rightarrow> string \<Rightarrow> money \<Rightarrow> string \<Rightarrow> (fin_db, 'a) op"
    and kb kr :: money
  assumes mutate_ok: "wallets_ok s \<Longrightarrow> mutate org i a c s = (Inr x, t) \<Longrightarrow>
      0 \<le> a \<and> t = post_wallet org i (kb * a) (kr * a) s \<and>
      (\<exists>w. find (wallet_key org i) (db_wallets s) = Some w \<and>
           0 \<le> w_reserved w + kr * a \<and> w_reserved w + kr * a \<le> w_balance w + kb * a)"
    and mutate_err: "wallets_ok s \<Longrightarrow> mutate org i a c s = (Inl e, t) \<Longrightarrow> t = s"
begin

lemma keeps_wallets: "keeps wallets_ok (mutate org i a c)"
proof (rule keepsI)
  fix s r t assume ok: "wallets_ok s" and run: "mutate org i a c s = (r, t)"
  show "wallets_ok t"
  proof (cases r)
    case (Inl e)
    with mutate_err[OF ok] run have "t = s" by blast
    with ok show ?thesis by simp
  next
    case (Inr x)
    with mutate_ok[OF ok] run obtain w where t: "t = post_wallet org i (kb * a) (kr * a) s"
      and w: "find (wallet_key org i) (db_wallets s) = Some w"
      and bounds: "0 \<le> w_reserved w + kr * a" "w_reserved w + kr * a \<le> w_balance w + kb * a"
      by blast
    have uniq: "x = w" if "x \<in> set (db_wallets s)" "wallet_key org i x" for x
      using ok find_SomeD[OF w] that
      by (auto simp: wallets_ok_def wallet_key_def distinct_map inj_on_def)
    have "0 \<le> w_reserved v \<and> w_reserved v \<le> w_balance v" if v: "v \<in> set (db_wallets t)" for v
    proof -
      from v t obtain x where x: "x \<in> set (db_wallets s)"
        and v': "v = (if wallet_key org i x then add_wallet (kb * a) (kr * a) x else x)"
        by (auto simp: post_wallet_def set_updateMany)
      show ?thesis
      proof (cases "wallet_key org i x")
        case True
        with uniq[OF x] v' bounds show ?thesis by simp
      next
        case False
        with v' ok x show ?thesis by (simp add: wallets_ok_def)
      qed
    qed
    with ok t show ?thesis by (simp add: wallets_ok_def)
  qed
qed

lemma other_wallets_untouched:
  assumes "wallets_ok s" and "mutate org i a c s = (r, t)"
    and "w \<in> set (db_wallets s)" and "w_id w \<noteq> i \<or> w_org w \<noteq> org"
  shows "w \<in> set (db_wallets t)"
proof (cases r)
  case (Inl e)
  with mutate_err[OF assms(1)] assms(2) have "t = s" by blast
  with assms(3) show ?thesis by simp
next
  case (Inr x)
  with mutate_ok[OF assms(1)] assms(2) have "t = post_wallet org i (kb * a) (kr * a) s" by blast
  with assms(3,4) show ?thesis
    by (auto simp: post_wallet_def set_updateMany wallet_key_def image_iff intro!: bexI[of _ w])
qed

lemma other_tables_untouched:
  assumes "wallets_ok s" and "mutate org i a c s = (r, t)"
  shows "db_settlements t = db_settlements s \<and> db_ledger t = db_ledger s"
  using mutate_ok[OF assms(1)] mutate_err[OF assms(1)] assms(2) by (cases r) force+

end

section \<open>The four updates satisfy the contract\<close>

lemma positiveAmount_ok [run_simps]: "positiveAmount a = Inr u \<longleftrightarrow> 0 \<le> a"
  by (auto simp: positiveAmount_def)

text \<open>The shape the four operations share: the guarded update, seen on the row it changed.\<close>

lemma guarded_post:
  assumes "wallets_ok s" and "f = add_wallet b r"
    and "countWhere (\<lambda>w. wallet_key org i w \<and> Q w) (db_wallets s) = Suc 0"
  shows "s\<lparr>db_wallets := updateMany (\<lambda>w. wallet_key org i w \<and> Q w) f (db_wallets s)\<rparr> = post_wallet org i b r s"
    and "\<exists>w. find (wallet_key org i) (db_wallets s) = Some w \<and> Q w"
  using guarded_update_one[of "db_wallets s" org i Q f] assms
  by (auto simp: wallets_ok_def post_wallet_def)

lemma guarded_post_none:
  assumes "wallets_ok s" and "countWhere (\<lambda>w. wallet_key org i w \<and> Q w) (db_wallets s) \<noteq> Suc 0"
  shows "s\<lparr>db_wallets := updateMany (\<lambda>w. wallet_key org i w \<and> Q w) f (db_wallets s)\<rparr> = s"
  using guarded_update_none[of "db_wallets s" org i Q f] assms by (simp add: wallets_ok_def)

lemma post_wallet_find:
  assumes "find (wallet_key org i) (db_wallets s) = Some w"
  shows "find (wallet_key org i) (db_wallets (post_wallet org i b r s)) = Some (add_wallet b r w)"
proof -
  have "find (wallet_key org i) rows = Some w \<Longrightarrow>
      find (wallet_key org i) (updateMany (wallet_key org i) (add_wallet b r) rows) = Some (add_wallet b r w)" for rows
    by (induction rows) (auto simp: wallet_key_def)
  with assms show ?thesis by (simp add: post_wallet_def)
qed

lemma financialWallet_err_state: "financialWallet org i c s = (Inl e, t) \<Longrightarrow> t = s"
  by (auto simp: financialWallet_def run_simps run_bnd_err)

lemma add_wallet_eqs:
  "(\<lambda>w. w\<lparr>w_reserved := w_reserved w + a\<rparr>) = add_wallet 0 a"
  "(\<lambda>w. w\<lparr>w_balance := w_balance w - a\<rparr>) = add_wallet (- a) 0"
  "(\<lambda>w. w\<lparr>w_reserved := w_reserved w - a\<rparr>) = add_wallet 0 (- a)"
  "(\<lambda>w. w\<lparr>w_balance := w_balance w - a, w_reserved := w_reserved w - a\<rparr>) = add_wallet (- a) (- a)"
  by (rule ext, simp add: add_wallet_def)+

lemma changeWallet_ok:
  assumes ok: "wallets_ok s" and f: "f = add_wallet b r"
    and run: "changeWallet org i a c Q f e s = (Inr u, t)"
  shows "0 \<le> a" and "t = post_wallet org i b r s"
    and "\<exists>w. find (wallet_key org i) (db_wallets s) = Some w \<and> Q w \<and>
           assertFinancialCurrency c (w_currency w) = Inr (normalizeFinancialCurrency c) \<and>
           toUpper (w_currency w) = c"
proof -
  let ?Q = "\<lambda>w. toUpper (w_currency w) = c \<and> Q w"
  from run obtain w n where parts: "0 \<le> a" "find (wallet_key org i) (db_wallets s) = Some w"
      "assertFinancialCurrency c (w_currency w) = Inr n"
      "countWhere (\<lambda>w. wallet_key org i w \<and> ?Q w) (db_wallets s) = Suc 0"
      "t = s\<lparr>db_wallets := updateMany (\<lambda>w. wallet_key org i w \<and> ?Q w) f (db_wallets s)\<rparr>"
    unfolding changeWallet_def by (auto simp: run_simps)
  then show "0 \<le> a" and "t = post_wallet org i b r s"
    using guarded_post(1)[OF ok f, of org i ?Q] by simp_all
  from guarded_post(2)[OF ok f parts(4)] parts(2)
  have "toUpper (w_currency w) = c" "Q w" by auto
  moreover have "n = normalizeFinancialCurrency c" using parts(3)
    by (auto simp: assertFinancialCurrency_def Let_def split: if_splits)
  ultimately show "\<exists>w. find (wallet_key org i) (db_wallets s) = Some w \<and> Q w \<and>
           assertFinancialCurrency c (w_currency w) = Inr (normalizeFinancialCurrency c) \<and>
           toUpper (w_currency w) = c"
    using parts(2,3) by blast
qed

lemma changeWallet_err:
  assumes ok: "wallets_ok s" and run: "changeWallet org i a c Q f e s = (Inl err, t)"
  shows "t = s"
proof -
  let ?Q = "\<lambda>w. toUpper (w_currency w) = c \<and> Q w"
  from run have "t = s \<or> countWhere (\<lambda>w. wallet_key org i w \<and> ?Q w) (db_wallets s) \<noteq> Suc 0 \<and>
      t = s\<lparr>db_wallets := updateMany (\<lambda>w. wallet_key org i w \<and> ?Q w) f (db_wallets s)\<rparr>"
    unfolding changeWallet_def
    by (auto simp: run_simps run_bnd_err dest: financialWallet_err_state)
  with guarded_post_none[OF ok, of org i ?Q f] show ?thesis by metis
qed

text \<open>After a change that succeeded, the wallet can be read back, so the outcome is known.\<close>

lemma debitOutcome_after_change:
  assumes ok: "wallets_ok s" and f: "f = add_wallet b r"
    and run: "changeWallet org i a c Q f e s = (Inr u, t)"
  shows "\<exists>w. find (wallet_key org i) (db_wallets s) = Some w \<and>
    debitOutcome org i a' c t =
      (Inr (add_wallet b r w, w_balance w + b + a', w_balance w + b), t)"
proof -
  obtain w where w: "find (wallet_key org i) (db_wallets s) = Some w"
    and cur: "assertFinancialCurrency c (w_currency w) = Inr (normalizeFinancialCurrency c)"
    using changeWallet_ok(3)[OF assms] by blast
  have t: "t = post_wallet org i b r s" by (rule changeWallet_ok(2)[OF assms])
  have "financialWallet org i c t = (Inr (add_wallet b r w), t)"
    using post_wallet_find[OF w] cur t by (simp add: run_financialWallet)
  with w show ?thesis by (simp add: debitOutcome_def bnd_def ret_def)
qed

lemma changed_debit_ok:
  assumes ok: "wallets_ok s" and f: "f = add_wallet b r"
    and run: "bnd (changeWallet org i a c Q f e) (\<lambda>_. debitOutcome org i a' c) s = (Inr x, t)"
  shows "0 \<le> a \<and> t = post_wallet org i b r s \<and>
    (\<exists>w. find (wallet_key org i) (db_wallets s) = Some w \<and> Q w \<and>
         x = (add_wallet b r w, w_balance w + b + a', w_balance w + b))"
proof -
  from run obtain u s1 where m: "changeWallet org i a c Q f e s = (Inr u, s1)"
    and d: "debitOutcome org i a' c s1 = (Inr x, t)" by (auto simp: run_simps)
  from debitOutcome_after_change[OF ok f m] d changeWallet_ok[OF ok f m] show ?thesis by fastforce
qed

lemma changed_debit_err:
  assumes ok: "wallets_ok s" and f: "f = add_wallet b r"
    and run: "bnd (changeWallet org i a c Q f e) (\<lambda>_. debitOutcome org i a' c) s = (Inl err, t)"
  shows "t = s"
proof (cases "changeWallet org i a c Q f e s")
  case (Pair r s1)
  show ?thesis
  proof (cases r)
    case (Inl e1)
    with Pair run changeWallet_err[OF ok] show ?thesis by (simp add: bnd_def)
  next
    case (Inr u)
    with debitOutcome_after_change[OF ok f] Pair
    have "\<exists>v. debitOutcome org i a' c s1 = (Inr v, s1)" by blast
    with Pair Inr run show ?thesis by (auto simp: bnd_def)
  qed
qed

lemmas wallet_op_defs =
  reserveWalletBalance_def debitUnreservedWallet_def consumeWalletReservation_def
  releaseWalletReservation_def

lemma reserve_run:
  assumes "wallets_ok s" and "reserveWalletBalance org i a c s = (Inr u, t)"
  shows "0 \<le> a \<and> t = post_wallet org i 0 a s \<and>
    (\<exists>w. find (wallet_key org i) (db_wallets s) = Some w \<and> a \<le> w_balance w - w_reserved w)"
  using changeWallet_ok[OF assms(1) add_wallet_eqs(1) assms(2)[unfolded reserveWalletBalance_def]]
  by blast

lemma release_run:
  assumes "wallets_ok s" and "releaseWalletReservation org i a c s = (Inr u, t)"
  shows "0 \<le> a \<and> t = post_wallet org i 0 (- a) s \<and>
    (\<exists>w. find (wallet_key org i) (db_wallets s) = Some w \<and> a \<le> w_reserved w)"
  using changeWallet_ok[OF assms(1) add_wallet_eqs(3) assms(2)[unfolded releaseWalletReservation_def]]
  by blast

lemma debit_run:
  assumes "wallets_ok s" and "debitUnreservedWallet org i a c s = (Inr x, t)"
  shows "0 \<le> a \<and> t = post_wallet org i (- a) 0 s \<and>
    (\<exists>w. find (wallet_key org i) (db_wallets s) = Some w \<and> a \<le> w_balance w - w_reserved w \<and>
         x = (add_wallet (- a) 0 w, w_balance w, w_balance w - a))"
  using changed_debit_ok[OF assms(1) add_wallet_eqs(2) assms(2)[unfolded debitUnreservedWallet_def]]
  by fastforce

lemma consume_run:
  assumes "wallets_ok s" and "consumeWalletReservation org i a c s = (Inr x, t)"
  shows "0 \<le> a \<and> t = post_wallet org i (- a) (- a) s \<and>
    (\<exists>w. find (wallet_key org i) (db_wallets s) = Some w \<and> a \<le> w_balance w \<and> a \<le> w_reserved w \<and>
         x = (add_wallet (- a) (- a) w, w_balance w, w_balance w - a))"
  using changed_debit_ok[OF assms(1) add_wallet_eqs(4) assms(2)[unfolded consumeWalletReservation_def]]
  by fastforce

lemma wallet_in_bounds:
  "wallets_ok s \<Longrightarrow> find (wallet_key org i) (db_wallets s) = Some w \<Longrightarrow>
   0 \<le> w_reserved w \<and> w_reserved w \<le> w_balance w"
  by (auto simp: wallets_ok_def dest: find_SomeD)

interpretation reserve: wallet_mutation reserveWalletBalance 0 1
proof (unfold_locales, goal_cases)
  case (1 s org i a c x t)
  from reserve_run[OF 1] wallet_in_bounds[OF 1(1), of org i] show ?case by fastforce
next
  case ok: (2 s org i a c e t)
  from changeWallet_err[OF ok(1) ok(2)[unfolded reserveWalletBalance_def]] show ?case .
qed

interpretation release: wallet_mutation releaseWalletReservation 0 "-1"
proof (unfold_locales, goal_cases)
  case (1 s org i a c x t)
  from release_run[OF 1] wallet_in_bounds[OF 1(1), of org i] show ?case by fastforce
next
  case ok: (2 s org i a c e t)
  from changeWallet_err[OF ok(1) ok(2)[unfolded releaseWalletReservation_def]] show ?case .
qed

interpretation debit: wallet_mutation debitUnreservedWallet "-1" 0
proof (unfold_locales, goal_cases)
  case (1 s org i a c x t)
  from debit_run[OF 1] wallet_in_bounds[OF 1(1), of org i] show ?case by fastforce
next
  case ok: (2 s org i a c e t)
  from changed_debit_err[OF ok(1) add_wallet_eqs(2) ok(2)[unfolded debitUnreservedWallet_def]] show ?case .
qed

interpretation consume: wallet_mutation consumeWalletReservation "-1" "-1"
proof (unfold_locales, goal_cases)
  case (1 s org i a c x t)
  from consume_run[OF 1] wallet_in_bounds[OF 1(1), of org i] show ?case by fastforce
next
  case ok: (2 s org i a c e t)
  from changed_debit_err[OF ok(1) add_wallet_eqs(4) ok(2)[unfolded consumeWalletReservation_def]] show ?case .
qed

end
