(* ===== verification/Settlement.thy ===== *)
theory Settlement
  imports Wallet
begin

text \<open>
  src/core/financial-settlement.ts: recording a manual settlement, preparing a provider
  settlement, releasing a reservation and reversing a settlement, each in the transaction the
  code runs it in, with the translation of unique-index violations. The second half defines the
  invariant of the books and proves that these four operations keep it.

  Generated values are passed in a \<open>stamps\<close> record: the clock reading, the id of a new
  settlement, the id of a new ledger row and the random UUID of \<open>makeReference\<close>.
\<close>

section \<open>Inputs\<close>

record stamps =
  n_now :: time
  n_id :: string
  n_ledgerId :: string
  n_uuid :: string

record manual_input =
  mi_idempotencyKey :: string
  mi_externalReference :: string
  mi_settledAt :: time
  mi_note :: string

record source =
  src_org :: string
  src_wallet :: string
  src_type :: string
  src_id :: string
  src_amount :: money
  src_currency :: string
  src_beneficiary :: "json option"
  src_createdBy :: "string option"

definition makeReference :: "string \<Rightarrow> string" where
  "makeReference uuid = ''stl_'' @ take 28 (filter (\<lambda>c. c \<noteq> CHR ''-'') uuid)"

text \<open>A settlement as \<open>create\<close> inserts it when only the columns of \<open>prepareProviderSettlement\<close>
  are given; the other columns take the defaults of the schema.\<close>

definition new_settlement :: "stamps \<Rightarrow> source \<Rightarrow> string \<Rightarrow> string \<Rightarrow> settlement" where
  "new_settlement n src currency key =
    \<lparr> s_id = n_id n, s_org = src_org src, s_wallet = src_wallet src, s_sourceType = src_type src,
      s_sourceId = src_id src, s_method = PROVIDER, s_status = PREPARED, s_amount = src_amount src,
      s_currency = currency, s_internalReference = makeReference (n_uuid n),
      s_idempotencyKey = key, s_beneficiary = src_beneficiary src, s_provider = Some ''PAYSTACK'',
      s_recipientReference = None, s_recipientId = None, s_transferReference = None,
      s_transferCode = None, s_providerStatus = None, s_initiationClaimedAt = None,
      s_attemptedAt = None, s_lastVerifiedAt = None, s_claimToken = None, s_claimedAt = None,
      s_leaseExpiresAt = None, s_attempts = 0, s_lastError = None, s_externalReference = None,
      s_evidence = None, s_failureReason = None, s_releasedAt = None, s_reservedAt = None,
      s_processingAt = None, s_settledAt = None, s_reversedAt = None, s_reversalReference = None,
      s_reversalLedgerId = None, s_createdBy = src_createdBy src, s_createdAt = n_now n \<rparr>"

section \<open>Operations\<close>

definition find_source :: "source \<Rightarrow> (fin_db, settlement option) op" where
  "find_source src = find_settlement (\<lambda>s. s_org s = src_org src \<and>
     s_sourceType s = src_type src \<and> s_sourceId s = src_id src)"

text \<open>\<open>catch\<close> of a unique-index violation: the handler runs on P2002, other errors are rethrown.\<close>

definition on_P2002 :: "('s, 'a) op \<Rightarrow> ('s, 'a) op \<Rightarrow> ('s, 'a) op" where
  "on_P2002 m h = catching m (\<lambda>e. if is_P2002 e then h else raise e)"

definition manualData :: "stamps \<Rightarrow> manual_input \<Rightarrow> settlement \<Rightarrow> settlement" where
  "manualData n inp s = s\<lparr>
     s_method := MANUAL, s_status := RESERVED, s_idempotencyKey := mi_idempotencyKey inp,
     s_externalReference := Some (mi_externalReference inp),
     s_evidence := Some (JObj [(''note'', JStr (mi_note inp)),
       (''assertedExternalSettlementAt'', JStr (toISOString (mi_settledAt inp)))]),
     s_reservedAt := Some (n_now n), s_provider := None, s_recipientReference := None,
     s_transferReference := None\<rparr>"

definition manual_ledger ::
    "stamps \<Rightarrow> source \<Rightarrow> manual_input \<Rightarrow> settlement \<Rightarrow> money \<Rightarrow> money \<Rightarrow> ledger" where
  "manual_ledger n src inp s before after =
    \<lparr> t_id = n_ledgerId n, t_org = src_org src, t_wallet = src_wallet src,
      t_type = ''MANUAL_'' @ src_type src, t_direction = ''DEBIT'', t_amount = src_amount src,
      t_before = before, t_after = after, t_reference = s_internalReference s,
      t_transferReference = Some (mi_externalReference inp),
      t_description = ''Externally settled: '' @ mi_note inp,
      t_sourceType = Some (src_type src), t_sourceId = Some (src_id src), t_reversalOf = None,
      t_createdBy = src_createdBy src, t_createdAt = n_now n \<rparr>"

text \<open>The guards on an existing settlement: a replay of the same manual settlement, a provider
  settlement that was never started, or a conflict.\<close>

definition is_manual_replay :: "manual_input \<Rightarrow> settlement \<Rightarrow> bool" where
  "is_manual_replay inp s \<longleftrightarrow> s_method s = MANUAL \<and>
     s_externalReference s = Some (mi_externalReference inp) \<and> s_status s = SUCCEEDED"

definition manual_settle ::
    "stamps \<Rightarrow> source \<Rightarrow> manual_input \<Rightarrow> (settlement \<Rightarrow> string \<Rightarrow> (fin_db, 'r) op) \<Rightarrow>
     settlement option \<Rightarrow> (fin_db, settlement \<times> 'r option \<times> bool) op" where
  "manual_settle n src inp finalize existing =
     bnd (from_sum (assertFinancialCurrency (src_currency src) (src_currency src))) (\<lambda>currency.
     bnd (reserveWalletBalance (src_org src) (src_wallet src) (src_amount src) currency) (\<lambda>_.
     bnd (case existing of
            Some s \<Rightarrow> update_settlement (s_id s) (manualData n inp)
          | None \<Rightarrow> create_settlement
              (manualData n inp (new_settlement n src currency (mi_idempotencyKey inp)))) (\<lambda>settlement.
     bnd (consumeWalletReservation (src_org src) (src_wallet src) (src_amount src) currency) (\<lambda>debit.
     bnd (create_ledger (manual_ledger n src inp settlement (fst (snd debit)) (snd (snd debit)))) (\<lambda>ledger.
     bnd (update_settlement (s_id settlement)
            (\<lambda>s. s\<lparr>s_status := SUCCEEDED, s_releasedAt := Some (n_now n),
                   s_settledAt := Some (mi_settledAt inp)\<rparr>)) (\<lambda>completed.
     bnd (finalize completed (t_id ledger)) (\<lambda>result.
     ret (completed, Some result, False))))))))"

definition completeManualSettlement ::
    "fin_env \<Rightarrow> stamps \<Rightarrow> source \<Rightarrow> manual_input \<Rightarrow> (settlement \<Rightarrow> string \<Rightarrow> (fin_db, 'r) op) \<Rightarrow>
     (fin_db, settlement \<times> 'r option \<times> bool) op" where
  "completeManualSettlement E n src inp finalize =
     bnd (assertIncidentWalletMutationAllowed E (src_org src) (src_wallet src)) (\<lambda>_.
     on_P2002
       (tx (bnd (find_source src) (\<lambda>existing.
            case existing of
              None \<Rightarrow> manual_settle n src inp finalize None
            | Some s \<Rightarrow>
                if is_manual_replay inp s then ret (s, None, True)
                else
                  bnd (guard (s_method s = PROVIDER \<and> s_status s = PREPARED)
                         (conflict ''This business obligation already has a settlement'')) (\<lambda>_.
                  bnd (from_sum (assertFinancialCurrency (src_currency src) (s_currency s))) (\<lambda>_.
                  manual_settle n src inp finalize (Some s))))))
       (raise (conflict ''Settlement identity or external reference has already been used'')))"

definition prepareProviderSettlement :: "stamps \<Rightarrow> source \<Rightarrow> string \<Rightarrow> (fin_db, settlement) op" where
  "prepareProviderSettlement n src idempotencyKey =
     on_P2002
       (bnd (find_source src) (\<lambda>existing.
        case existing of
          Some s \<Rightarrow> ret s
        | None \<Rightarrow>
            bnd (reads (\<lambda>db. find (wallet_key (src_org src) (src_wallet src)) (db_wallets db))) (\<lambda>found.
            bnd (required found (notFound ''Wallet not found'')) (\<lambda>w.
            bnd (from_sum (assertFinancialCurrency (src_currency src) (w_currency w))) (\<lambda>currency.
            create_settlement (new_settlement n src currency idempotencyKey))))))
       (bnd (find_source src) (\<lambda>existing. required existing P2025))"

definition find_own :: "string \<Rightarrow> string \<Rightarrow> (fin_db, settlement) op" where
  "find_own org i =
     bnd (find_settlement (\<lambda>s. s_id s = i \<and> s_org s = org)) (\<lambda>found.
     required found (notFound ''Settlement not found''))"

text \<open>\<open>["RESERVED", "PROVIDER_PROCESSING", "UNKNOWN"]\<close>\<close>

definition activeStatuses :: "settlement_status list" where
  "activeStatuses = [RESERVED, PROVIDER_PROCESSING, UNKNOWN]"

text \<open>A live reservation: \<open>reservedAt\<close> set and \<open>reservationReleasedAt\<close> not.\<close>

definition held :: "settlement \<Rightarrow> bool" where
  "held s \<longleftrightarrow> s_reservedAt s \<noteq> None \<and> s_releasedAt s = None"

definition releaseSettlementReservation ::
    "fin_env \<Rightarrow> time \<Rightarrow> string \<Rightarrow> string \<Rightarrow> string \<Rightarrow> (fin_db, settlement) op" where
  "releaseSettlementReservation E now org i failureReason =
     tx (bnd (find_own org i) (\<lambda>s.
         bnd (assertIncidentWalletMutationAllowed E org (s_wallet s)) (\<lambda>_.
         if s_status s = FAILED \<and> s_releasedAt s \<noteq> None then ret s
         else
           bnd (guard (s_status s \<in> set activeStatuses \<and> held s)
                  (conflict ''Settlement does not hold a releasable reservation'')) (\<lambda>_.
           bnd (releaseWalletReservation org (s_wallet s) (s_amount s) (s_currency s)) (\<lambda>_.
           update_settlement (s_id s)
             (\<lambda>x. x\<lparr>s_status := FAILED, s_failureReason := Some (take 2000 failureReason),
                    s_releasedAt := Some now\<rparr>))))))"

text \<open>\<open>findFirst({ where, orderBy: { createdAt: "asc" } })\<close>\<close>

definition first_debit :: "settlement \<Rightarrow> ledger list \<Rightarrow> ledger option" where
  "first_debit s rows =
     (case sort_key t_createdAt (filter (\<lambda>t. t_org t = s_org s \<and> t_wallet t = s_wallet s \<and>
              t_sourceType t = Some (s_sourceType s) \<and> t_sourceId t = Some (s_sourceId s) \<and>
              t_direction t = ''DEBIT'') rows) of
        [] \<Rightarrow> None
      | t # _ \<Rightarrow> Some t)"

text \<open>\<open>walletAccount.update({ where: { id }, data: { balance: { increment } } })\<close>, the new balance.\<close>

definition credit_wallet :: "string \<Rightarrow> money \<Rightarrow> (fin_db, money) op" where
  "credit_wallet i amount =
     bnd (reads (\<lambda>db. find (\<lambda>w. w_id w = i) (db_wallets db))) (\<lambda>found.
     bnd (required found P2025) (\<lambda>w.
     bnd (updateMany_wallets (\<lambda>w. w_id w = i) (\<lambda>w. w\<lparr>w_balance := w_balance w + amount\<rparr>)) (\<lambda>_.
     ret (w_balance w + amount))))"

definition reversal_ledger :: "stamps \<Rightarrow> settlement \<Rightarrow> string \<Rightarrow> wallet \<Rightarrow> money \<Rightarrow> ledger \<Rightarrow> ledger" where
  "reversal_ledger n s reversalReference w restored original =
    \<lparr> t_id = n_ledgerId n, t_org = s_org s, t_wallet = w_id w,
      t_type = ''REVERSAL_'' @ s_sourceType s, t_direction = ''CREDIT'', t_amount = s_amount s,
      t_before = w_balance w, t_after = restored, t_reference = reversalReference,
      t_transferReference = Some reversalReference,
      t_description = ''Reversal of '' @ s_internalReference s,
      t_sourceType = Some (s_sourceType s), t_sourceId = Some (s_sourceId s),
      t_reversalOf = Some (t_id original), t_createdBy = s_createdBy s, t_createdAt = n_now n \<rparr>"

definition reverseSucceededSettlement ::
    "fin_env \<Rightarrow> stamps \<Rightarrow> string \<Rightarrow> string \<Rightarrow> string \<Rightarrow> (fin_db, settlement) op" where
  "reverseSucceededSettlement E n org i reversalReference =
     on_P2002
       (tx (bnd (find_own org i) (\<lambda>s.
            bnd (assertIncidentWalletMutationAllowed E org (s_wallet s)) (\<lambda>_.
            if s_status s = REVERSED \<and> s_reversalReference s = Some reversalReference then ret s
            else
              bnd (guard (s_status s = SUCCEEDED)
                     (conflict ''Only a successful settlement can be reversed'')) (\<lambda>_.
              bnd (reads (\<lambda>db. first_debit s (db_ledger db))) (\<lambda>found.
              bnd (required found (conflict ''Settlement debit ledger entry is missing'')) (\<lambda>original.
              bnd (financialWallet org (s_wallet s) (s_currency s)) (\<lambda>w.
              bnd (credit_wallet (w_id w) (s_amount s)) (\<lambda>restored.
              bnd (create_ledger (reversal_ledger n s reversalReference w restored original)) (\<lambda>ledger.
              update_settlement (s_id s)
                (\<lambda>x. x\<lparr>s_status := REVERSED, s_reversedAt := Some (n_now n),
                       s_reversalReference := Some reversalReference,
                       s_reversalLedgerId := Some (t_id ledger)\<rparr>)))))))))))
       (bnd (find_settlement (\<lambda>s. s_id s = i \<and> s_org s = org \<and> s_status s = REVERSED \<and>
               s_reversalReference s = Some reversalReference)) (\<lambda>existing.
        required existing (conflict ''Reversal identity has already been used'')))"

section \<open>The invariant of the books\<close>

text \<open>The signed effect of a ledger row on the balance, as the integrity scanner adds rows up.\<close>

definition signed_amount :: "ledger \<Rightarrow> money" where
  "signed_amount t =
     (if t_direction t \<in> {''CREDIT'', ''INFLOW''} then t_amount t
      else if t_direction t \<in> {''DEBIT'', ''OUTFLOW''} then - t_amount t else 0)"

definition ledger_balance :: "string \<Rightarrow> ledger list \<Rightarrow> money" where
  "ledger_balance i rows = sum_list (map (\<lambda>t. if t_wallet t = i then signed_amount t else 0) rows)"

definition held_amount :: "settlement \<Rightarrow> money" where
  "held_amount s = (if held s then s_amount s else 0)"

definition reserved_for :: "string \<Rightarrow> settlement list \<Rightarrow> money" where
  "reserved_for i rows = sum_list (map (\<lambda>s. if s_wallet s = i then held_amount s else 0) rows)"

text \<open>The amount is not negative, and the status agrees with the reservation columns.\<close>

definition settlement_ok :: "settlement \<Rightarrow> bool" where
  "settlement_ok s \<longleftrightarrow> 0 \<le> s_amount s \<and>
     (s_status s = PREPARED \<longrightarrow> s_reservedAt s = None \<and> s_releasedAt s = None) \<and>
     (s_status s \<in> {SUCCEEDED, FAILED, REVERSED} \<longrightarrow> s_releasedAt s \<noteq> None)"

definition books_ok :: "fin_db \<Rightarrow> bool" where
  "books_ok db \<longleftrightarrow> wallets_ok db \<and> distinct (map s_id (db_settlements db)) \<and>
     (\<forall>s \<in> set (db_settlements db). settlement_ok s) \<and>
     (\<forall>w \<in> set (db_wallets db). w_reserved w = reserved_for (w_id w) (db_settlements db)) \<and>
     (\<forall>w \<in> set (db_wallets db). w_balance w = ledger_balance (w_id w) (db_ledger db))"

lemma books_okD:
  assumes "books_ok db"
  shows "wallets_ok db" "distinct (map s_id (db_settlements db))"
    "s \<in> set (db_settlements db) \<Longrightarrow> settlement_ok s"
  using assms by (auto simp: books_ok_def)

subsection \<open>Sums after a change\<close>

lemma ledger_balance_append [simp]:
  "ledger_balance i (rows @ [t]) =
     ledger_balance i rows + (if t_wallet t = i then signed_amount t else 0)"
  by (simp add: ledger_balance_def)

lemma reserved_for_append [simp]:
  "reserved_for i (rows @ [s]) = reserved_for i rows + (if s_wallet s = i then held_amount s else 0)"
  by (simp add: reserved_for_def)

lemma reserved_for_update:
  assumes "distinct (map s_id rows)" and "find (\<lambda>x. s_id x = j) rows = Some s"
    and "s_wallet (f s) = s_wallet s"
  shows "reserved_for i (updateMany (\<lambda>x. s_id x = j) f rows) = reserved_for i rows +
    (if s_wallet s = i then held_amount (f s) - held_amount s else 0)"
  using sum_updateMany_one[OF find_key_unique[OF assms(1,2)],
      of "\<lambda>s. if s_wallet s = i then held_amount s else 0" f] assms(3)
  by (simp add: reserved_for_def)

lemma map_s_id_update:
  "(\<And>x. s_id (f x) = s_id x) \<Longrightarrow> map s_id (updateMany P f rows) = map s_id rows"
  by (rule map_updateMany_same) simp

lemma settlement_ok_update:
  assumes "\<forall>s \<in> set rows. settlement_ok s" and "\<And>s. s \<in> set rows \<Longrightarrow> P s \<Longrightarrow> settlement_ok s \<Longrightarrow> settlement_ok (f s)"
  shows "\<forall>s \<in> set (updateMany P f rows). settlement_ok s"
  using assms by (auto simp: set_updateMany)

lemma post_wallet_twice:
  "post_wallet org i b r (post_wallet org i b' r' db) = post_wallet org i (b' + b) (r' + r) db"
  by (auto simp: post_wallet_def updateMany_def add_wallet_def wallet_key_def algebra_simps)

lemma post_wallet_zero: "post_wallet org i 0 0 db = db"
  by (auto simp: post_wallet_def updateMany_def add_wallet_def intro!: map_idI fin_db.equality)

text \<open>The one way the operations move money: a posting to one wallet, with the settlements and
  the ledger changed so that their sums move by the same amounts.\<close>

lemma books_posting:
  assumes ok: "books_ok db" and w0: "find (wallet_key org i) (db_wallets db) = Some w0"
    and bounds: "0 \<le> w_reserved w0 + r" "w_reserved w0 + r \<le> w_balance w0 + b"
    and ids: "distinct (map s_id ss)" and oks: "\<forall>s \<in> set ss. settlement_ok s"
    and res: "\<And>k. reserved_for k ss = reserved_for k (db_settlements db) + (if k = i then r else 0)"
    and led: "\<And>k. ledger_balance k ts = ledger_balance k (db_ledger db) + (if k = i then b else 0)"
  shows "books_ok ((post_wallet org i b r db)\<lparr>db_settlements := ss, db_ledger := ts\<rparr>)" (is "books_ok ?db")
proof -
  have dist: "distinct (map w_id (db_wallets db))" using ok by (simp add: books_ok_def wallets_ok_def)
  have w0_in: "w0 \<in> set (db_wallets db)" "wallet_key org i w0" using find_SomeD[OF w0] by auto
  have same: "x = w0" if "x \<in> set (db_wallets db)" "w_id x = i" for x
    using dist w0_in that by (auto simp: wallet_key_def distinct_map inj_on_def)
  have wallets: "db_wallets ?db = updateMany (wallet_key org i) (add_wallet b r) (db_wallets db)"
    by (simp add: post_wallet_def)
  have rows: "0 \<le> w_reserved w \<and> w_reserved w \<le> w_balance w \<and> w_reserved w = reserved_for (w_id w) ss \<and>
      w_balance w = ledger_balance (w_id w) ts" if "w \<in> set (db_wallets ?db)" for w
  proof -
    from that wallets obtain x where x: "x \<in> set (db_wallets db)"
      and w: "w = (if wallet_key org i x then add_wallet b r x else x)" by (auto simp: set_updateMany)
    have old: "w_reserved x = reserved_for (w_id x) (db_settlements db)"
      "w_balance x = ledger_balance (w_id x) (db_ledger db)" "0 \<le> w_reserved x" "w_reserved x \<le> w_balance x"
      using ok x by (auto simp: books_ok_def wallets_ok_def)
    show ?thesis
    proof (cases "wallet_key org i x")
      case True
      then have "x = w0" "w_id x = i" using same x by (auto simp: wallet_key_def)
      with True w old res led bounds show ?thesis by simp
    next
      case False
      then have "w_id x \<noteq> i" using same[OF x] w0_in(2) by auto
      with False w old res led show ?thesis by simp
    qed
  qed
  have "distinct (map w_id (db_wallets ?db))" using dist unfolding wallets by (simp add: map_updateMany_same)
  then have "wallets_ok ?db" using rows unfolding wallets_ok_def by blast
  moreover have "db_settlements ?db = ss" "db_ledger ?db = ts" by simp_all
  moreover have "\<forall>w \<in> set (db_wallets ?db). w_reserved w = reserved_for (w_id w) ss"
    "\<forall>w \<in> set (db_wallets ?db). w_balance w = ledger_balance (w_id w) ts"
    using rows by blast+
  ultimately show ?thesis using ids oks by (simp only: books_ok_def)
qed

text \<open>A write to settlements that leaves every reservation as it is.\<close>

lemma books_quiet:
  assumes "books_ok db" and "distinct (map s_id ss)" and "\<forall>s \<in> set ss. settlement_ok s"
    and "\<And>k. reserved_for k ss = reserved_for k (db_settlements db)"
  shows "books_ok (db\<lparr>db_settlements := ss\<rparr>)"
proof -
  have "db_settlements (db\<lparr>db_settlements := ss\<rparr>) = ss" "db_ledger (db\<lparr>db_settlements := ss\<rparr>) = db_ledger db"
    "db_wallets (db\<lparr>db_settlements := ss\<rparr>) = db_wallets db" by simp_all
  with assms show ?thesis unfolding books_ok_def wallets_ok_def by auto
qed

lemma reserved_for_updateMany_same:
  assumes "\<And>s. s \<in> set rows \<Longrightarrow> P s \<Longrightarrow> s_wallet (f s) = s_wallet s \<and> held_amount (f s) = held_amount s"
  shows "reserved_for k (updateMany P f rows) = reserved_for k rows"
  unfolding reserved_for_def updateMany_def map_map
  by (rule sum_list_map_cong) (use assms in auto)

lemma books_quiet_update:
  assumes ok: "books_ok db" and id: "\<And>s. s_id (f s) = s_id s"
    and same: "\<And>s. s \<in> set (db_settlements db) \<Longrightarrow> P s \<Longrightarrow>
      s_wallet (f s) = s_wallet s \<and> held_amount (f s) = held_amount s \<and> settlement_ok (f s)"
  shows "books_ok (db\<lparr>db_settlements := updateMany P f (db_settlements db)\<rparr>)"
  using ok same
  by (intro books_quiet)
    (auto simp: map_s_id_update id books_okD(2) set_updateMany dest: books_okD(3)
      intro: reserved_for_updateMany_same)

lemma books_other_tables [simp]:
  "books_ok (db\<lparr>db_requests := x1\<rparr>) = books_ok db"
  "books_ok (db\<lparr>db_payslips := x2\<rparr>) = books_ok db"
  "books_ok (db\<lparr>db_runs := x3\<rparr>) = books_ok db"
  "books_ok (db\<lparr>db_recipients := x4\<rparr>) = books_ok db"
  "books_ok (db\<lparr>db_inbox := x5\<rparr>) = books_ok db"
  "books_ok (db\<lparr>db_fundings := x6\<rparr>) = books_ok db"
  "books_ok (db\<lparr>db_audit := x7\<rparr>) = books_ok db"
  by (simp_all add: books_ok_def wallets_ok_def)

subsection \<open>The operations keep the books\<close>

lemma run_find_own [run_simps]:
  "find_own org i db = (Inr s, db') \<longleftrightarrow>
     db' = db \<and> find (\<lambda>s. s_id s = i \<and> s_org s = org) (db_settlements db) = Some s"
  by (auto simp: find_own_def run_simps)

lemma find_own_err: "find_own org i db = (Inl e, db') \<Longrightarrow> db' = db"
  by (auto simp: find_own_def run_simps run_bnd_err)

lemma found_by_id:
  assumes "distinct (map s_id rows)" and "find (\<lambda>s. s_id s = i \<and> Q s) rows = Some s"
  shows "find (\<lambda>x. s_id x = i) rows = Some s" "s \<in> set rows" "s_id s = i" "Q s"
proof -
  show "s \<in> set rows" "s_id s = i" "Q s" using find_SomeD[OF assms(2)] by auto
  have "filter (\<lambda>x. s_id x = i) rows = [s]" by (rule find_filter_key[OF assms])
  then have "find (\<lambda>x. s_id x = i) rows \<noteq> None" by (auto simp: find_None_iff filter_eq_Cons_iff)
  then obtain y where y: "find (\<lambda>x. s_id x = i) rows = Some y" by blast
  then have "y \<in> set (filter (\<lambda>x. s_id x = i) rows)" by (auto dest: find_SomeD)
  with \<open>filter (\<lambda>x. s_id x = i) rows = [s]\<close> y show "find (\<lambda>x. s_id x = i) rows = Some s" by simp
qed

lemma on_P2002_ok:
  "on_P2002 m h s = (Inr x, t) \<longleftrightarrow> m s = (Inr x, t) \<or> (\<exists>s1. m s = (Inl P2002, s1) \<and> h s1 = (Inr x, t))"
  by (auto simp: on_P2002_def run_catching_ok is_P2002_def P2002_def run_raise split: if_splits)

lemma keeps_on_P2002 [keeps_rules]: "keeps I m \<Longrightarrow> keeps I h \<Longrightarrow> keeps I (on_P2002 m h)"
  unfolding on_P2002_def by (intro keeps_rules)

lemma keeps_find_settlement [keeps_rules]: "keeps I (find_settlement P)"
  unfolding find_settlement_def by (intro keeps_rules)

lemma keeps_find_source [keeps_rules]: "keeps I (find_source src)"
  unfolding find_source_def by (intro keeps_rules)

lemma fresh_settlement:
  "\<not> clashes settlement_clash r rows \<Longrightarrow> distinct (map s_id rows) \<Longrightarrow> distinct (map s_id (rows @ [r]))"
  by (auto simp: clashes_def settlement_clash_def)

lemma create_keeps_books:
  assumes ok: "books_ok db" and r: "settlement_ok r" "held_amount r = 0"
    and run: "create_settlement r db = (Inr x, db')"
  shows "books_ok db'"
proof -
  from run have "\<not> clashes settlement_clash r (db_settlements db)"
    and db': "db' = db\<lparr>db_settlements := db_settlements db @ [r]\<rparr>" by (auto simp: run_simps)
  with fresh_settlement ok have "distinct (map s_id (db_settlements db @ [r]))"
    by (blast intro: books_okD(2))
  then show ?thesis unfolding db' using r ok
    by (intro books_quiet[OF ok]) (auto dest: books_okD(3))
qed

lemma new_settlement_simps [simp]:
  "s_id (new_settlement n src c k) = n_id n" "s_org (new_settlement n src c k) = src_org src"
  "s_wallet (new_settlement n src c k) = src_wallet src"
  "s_status (new_settlement n src c k) = PREPARED" "s_reservedAt (new_settlement n src c k) = None"
  "s_releasedAt (new_settlement n src c k) = None" "s_reversedAt (new_settlement n src c k) = None"
  "s_amount (new_settlement n src c k) = src_amount src"
  "s_sourceType (new_settlement n src c k) = src_type src"
  "s_sourceId (new_settlement n src c k) = src_id src"
  by (simp_all add: new_settlement_def)

lemma keeps_new_settlement:
  assumes amount: "0 \<le> src_amount src"
  shows "keeps books_ok (create_settlement (new_settlement n src c key))"
proof (rule keepsI)
  fix db r db' assume ok: "books_ok db" and run: "create_settlement (new_settlement n src c key) db = (r, db')"
  show "books_ok db'"
  proof (cases r)
    case (Inl e)
    with run have "db' = db" by (auto simp: create_settlement_def run_simps run_bnd_err)
    with ok show ?thesis by simp
  next
    case (Inr x)
    with run create_keeps_books[OF ok, of "new_settlement n src c key" x db'] show ?thesis
      by (simp add: settlement_ok_def held_amount_def held_def amount)
  qed
qed

lemma prepare_keeps_books:
  "0 \<le> src_amount src \<Longrightarrow> keeps books_ok (prepareProviderSettlement n src key)"
  unfolding prepareProviderSettlement_def by (intro keeps_rules keeps_new_settlement)

lemma post_wallet_settlements:
  "post_wallet org i b r (db\<lparr>db_settlements := ss\<rparr>) = (post_wallet org i b r db)\<lparr>db_settlements := ss\<rparr>"
  by (simp add: post_wallet_def)

lemma books_ok_cong:
  assumes "db_wallets a = db_wallets b" "db_settlements a = db_settlements b" "db_ledger a = db_ledger b"
  shows "books_ok a = books_ok b"
  using assms by (simp add: books_ok_def wallets_ok_def)

lemma same_ledger:
  "(post_wallet org i b r db)\<lparr>db_settlements := ss, db_ledger := db_ledger db\<rparr> =
   (post_wallet org i b r db)\<lparr>db_settlements := ss\<rparr>"
  by (simp add: post_wallet_def)

lemma settlements_ledger:
  "db\<lparr>db_settlements := ss, db_ledger := ts\<rparr> = db\<lparr>db_ledger := ts, db_settlements := ss\<rparr>"
  by simp

lemma release_posting:
  assumes ok: "books_ok db" and s: "find (\<lambda>x. s_id x = i) (db_settlements db) = Some s"
    and held: "held s" and run: "releaseWalletReservation org (s_wallet s) (s_amount s) c db = (Inr u, db1)"
    and f: "\<And>x. s_id (f x) = s_id x" "s_wallet (f s) = s_wallet s" "\<not> held (f s)" "settlement_ok (f s)"
  shows "books_ok (db1\<lparr>db_settlements := updateMany (\<lambda>x. s_id x = i) f (db_settlements db1)\<rparr>)"
proof -
  note wok = books_okD(1)[OF ok] and ids = books_okD(2)[OF ok]
  obtain w where db1: "db1 = post_wallet org (s_wallet s) 0 (- s_amount s) db" and a: "0 \<le> s_amount s"
    and w: "find (wallet_key org (s_wallet s)) (db_wallets db) = Some w" "s_amount s \<le> w_reserved w"
    using release_run[OF wok run] by blast
  have one: "filter (\<lambda>x. s_id x = i) (db_settlements db) = [s]" by (rule find_key_unique[OF ids s])
  have "settlement_ok (f x)" if "x \<in> set (db_settlements db)" "s_id x = i" for x
  proof -
    from that have "x \<in> set (filter (\<lambda>x. s_id x = i) (db_settlements db))" by simp
    with one f(4) show ?thesis by simp
  qed
  with ok have oks: "\<forall>x \<in> set (updateMany (\<lambda>x. s_id x = i) f (db_settlements db)). settlement_ok x"
    by (intro settlement_ok_update) (auto dest: books_okD(3))
  have "books_ok ((post_wallet org (s_wallet s) 0 (- s_amount s) db)
      \<lparr>db_settlements := updateMany (\<lambda>x. s_id x = i) f (db_settlements db), db_ledger := db_ledger db\<rparr>)"
    using wallet_in_bounds[OF wok w(1)] w(2) a held f(3)
    by (intro books_posting[OF ok w(1)] oks)
      (auto simp: map_s_id_update f(1) ids reserved_for_update[OF ids s, of f] f(2) held_amount_def)
  then show ?thesis unfolding db1 by (simp add: same_ledger)
qed

definition release_write :: "time \<Rightarrow> string \<Rightarrow> settlement \<Rightarrow> settlement" where
  "release_write now why x =
     x\<lparr>s_status := FAILED, s_failureReason := Some (take 2000 why), s_releasedAt := Some now\<rparr>"

lemma release_effect:
  assumes ids: "distinct (map s_id (db_settlements db))"
    and run: "releaseSettlementReservation E now org i why db = (r, db')"
  obtains "db' = db"
  | s u db1 where "find (\<lambda>x. s_id x = i) (db_settlements db) = Some s" "s_status s \<in> set activeStatuses" "held s"
      "releaseWalletReservation org (s_wallet s) (s_amount s) (s_currency s) db = (Inr u, db1)"
      "db' = db1\<lparr>db_settlements := updateMany (\<lambda>x. s_id x = i) (release_write now why) (db_settlements db1)\<rparr>"
proof -
  from tx_effect[OF run[unfolded releaseSettlementReservation_def]] show thesis
  proof (elim disjE exE conjE, goal_cases)
    case 1
    then show ?case by (rule that(1))
  next
    case (2 x)
    then obtain s where s: "find (\<lambda>s. s_id s = i \<and> s_org s = org) (db_settlements db) = Some s"
      by (auto simp: run_simps)
    note key = found_by_id[OF ids s]
    have "db' = db \<or> s_status s \<in> set activeStatuses \<and> held s \<and>
        (\<exists>u db1. releaseWalletReservation org (s_wallet s) (s_amount s) (s_currency s) db = (Inr u, db1) \<and>
         db' = db1\<lparr>db_settlements := updateMany (\<lambda>x. s_id x = i) (release_write now why) (db_settlements db1)\<rparr>)"
      using 2(2) s key(3) unfolding release_write_def[abs_def] by (auto simp: run_simps split: if_splits)
    with that key(1) show ?case by blast
  qed
qed

lemma release_keeps_books: "keeps books_ok (releaseSettlementReservation E now org i why)"
proof (rule keepsI)
  fix db r db' assume ok: "books_ok db" and run: "releaseSettlementReservation E now org i why db = (r, db')"
  from books_okD(2)[OF ok] run show "books_ok db'"
  proof (cases rule: release_effect)
    case 1
    with ok show ?thesis by simp
  next
    case (2 s u db1)
    have "settlement_ok s" using 2(1) find_SomeD books_okD(3)[OF ok] by metis
    with 2(3) show ?thesis unfolding 2(5)
      by (intro release_posting[OF ok 2(1) _ 2(4)]) (auto simp: release_write_def held_def settlement_ok_def)
  qed
qed

lemma credit_wallet_run:
  assumes ok: "wallets_ok db" and w: "find (wallet_key org i) (db_wallets db) = Some w"
    and run: "credit_wallet i a db = (Inr b, db')"
  shows "db' = post_wallet org i a 0 db" and "b = w_balance w + a"
proof -
  have dist: "distinct (map w_id (db_wallets db))" using ok by (simp add: wallets_ok_def)
  have w_in: "w \<in> set (db_wallets db)" "w_id w = i" "w_org w = org"
    using find_SomeD[OF w] by (auto simp: wallet_key_def)
  have uniq: "x = w" if "x \<in> set (db_wallets db)" "w_id x = i" for x
    using dist w_in that by (auto simp: distinct_map inj_on_def)
  from run obtain v where v: "find (\<lambda>w. w_id w = i) (db_wallets db) = Some v" and b: "b = w_balance v + a"
    and db': "db' = db\<lparr>db_wallets := updateMany (\<lambda>w. w_id w = i) (\<lambda>w. w\<lparr>w_balance := w_balance w + a\<rparr>) (db_wallets db)\<rparr>"
    by (auto simp: credit_wallet_def run_simps)
  from find_SomeD[OF v] uniq have "v = w" by auto
  with b show "b = w_balance w + a" by simp
  have "updateMany (\<lambda>w. w_id w = i) (\<lambda>w. w\<lparr>w_balance := w_balance w + a\<rparr>) (db_wallets db) =
      updateMany (wallet_key org i) (add_wallet a 0) (db_wallets db)"
    unfolding updateMany_def using uniq w_in(3)
    by (intro map_cong) (auto simp: wallet_key_def add_wallet_def)
  then show "db' = post_wallet org i a 0 db" by (simp add: db' post_wallet_def)
qed

text \<open>A settlement whose reservation is over takes part in no sum: a write that keeps it so, with
  a posting and its ledger row.\<close>

lemma settled_posting:
  assumes ok: "books_ok db" and s: "find (\<lambda>x. s_id x = j) (db_settlements db) = Some s"
    and w: "find (wallet_key org i) (db_wallets db) = Some w"
    and bounds: "0 \<le> w_reserved w" "w_reserved w \<le> w_balance w + signed_amount l"
    and l: "t_wallet l = i"
    and f: "\<And>x. s_id (f x) = s_id x" "s_wallet (f s) = s_wallet s" "held_amount (f s) = held_amount s"
      "settlement_ok (f s)"
  shows "books_ok ((post_wallet org i (signed_amount l) 0 db)\<lparr>db_ledger := db_ledger db @ [l],
     db_settlements := updateMany (\<lambda>x. s_id x = j) f (db_settlements db)\<rparr>)"
proof -
  note ids = books_okD(2)[OF ok]
  have one: "filter (\<lambda>x. s_id x = j) (db_settlements db) = [s]" by (rule find_key_unique[OF ids s])
  have "x = s" if "x \<in> set (db_settlements db)" "s_id x = j" for x
  proof -
    from that have "x \<in> set (filter (\<lambda>x. s_id x = j) (db_settlements db))" by simp
    with one show ?thesis by simp
  qed
  with ok f(4) have oks: "\<forall>x \<in> set (updateMany (\<lambda>x. s_id x = j) f (db_settlements db)). settlement_ok x"
    by (intro settlement_ok_update) (auto dest: books_okD(3))
  have "books_ok ((post_wallet org i (signed_amount l) 0 db)\<lparr>
     db_settlements := updateMany (\<lambda>x. s_id x = j) f (db_settlements db), db_ledger := db_ledger db @ [l]\<rparr>)"
    using bounds l
    by (intro books_posting[OF ok w] oks)
      (auto simp: map_s_id_update f(1) ids reserved_for_update[OF ids s, of f] f(2,3))
  then show ?thesis by (simp add: settlements_ledger)
qed

lemma reversal_ledger_simps [simp]:
  "t_id (reversal_ledger n s ref w b l) = n_ledgerId n" "t_org (reversal_ledger n s ref w b l) = s_org s"
  "t_wallet (reversal_ledger n s ref w b l) = w_id w"
  "signed_amount (reversal_ledger n s ref w b l) = s_amount s"
  "t_direction (reversal_ledger n s ref w b l) = ''CREDIT''"
  by (simp_all add: reversal_ledger_def signed_amount_def)

definition reverse_write :: "stamps \<Rightarrow> string \<Rightarrow> settlement \<Rightarrow> settlement" where
  "reverse_write n ref x = x\<lparr>s_status := REVERSED, s_reversedAt := Some (n_now n),
     s_reversalReference := Some ref, s_reversalLedgerId := Some (n_ledgerId n)\<rparr>"

lemma on_P2002_effect:
  "on_P2002 m h s = (r, t) \<Longrightarrow> m s = (r, t) \<or> (\<exists>s1. m s = (Inl P2002, s1) \<and> h s1 = (r, t))"
  by (auto simp: on_P2002_def catching_def is_P2002_def P2002_def run_raise raise_def
      split: prod.splits sum.splits if_splits)

lemma reverse_effect:
  assumes ids: "distinct (map s_id (db_settlements db))"
    and run: "reverseSucceededSettlement E n org i ref db = (r, db')"
  obtains "db' = db"
  | s w restored db1 original where "find (\<lambda>x. s_id x = i) (db_settlements db) = Some s" "s_org s = org"
      "s_status s = SUCCEEDED" "find (wallet_key org (s_wallet s)) (db_wallets db) = Some w"
      "credit_wallet (w_id w) (s_amount s) db = (Inr restored, db1)"
      "db' = db1\<lparr>db_ledger := db_ledger db1 @ [reversal_ledger n s ref w restored original],
         db_settlements := updateMany (\<lambda>x. s_id x = i) (reverse_write n ref) (db_settlements db1)\<rparr>"
proof -
  from on_P2002_effect[OF run[unfolded reverseSucceededSettlement_def]] show thesis
  proof (elim disjE exE conjE, goal_cases)
    case 1
    from tx_effect[OF 1] show ?case
    proof (elim disjE exE conjE, goal_cases)
      case 1
      then show ?case by (rule that(1))
    next
      case (2 x)
      then obtain s where s: "find (\<lambda>s. s_id s = i \<and> s_org s = org) (db_settlements db) = Some s"
        by (auto simp: run_simps)
      note key = found_by_id[OF ids s]
      have "db' = db \<or> (\<exists>w restored db1 original. find (wallet_key org (s_wallet s)) (db_wallets db) = Some w \<and>
         s_status s = SUCCEEDED \<and> credit_wallet (w_id w) (s_amount s) db = (Inr restored, db1) \<and>
         db' = db1\<lparr>db_ledger := db_ledger db1 @ [reversal_ledger n s ref w restored original],
           db_settlements := updateMany (\<lambda>x. s_id x = i) (reverse_write n ref) (db_settlements db1)\<rparr>)"
        using 2(2) s key(3) unfolding reverse_write_def[abs_def] by (force simp: run_simps split: if_splits)
      with that key show ?case by blast
    qed
  next
    case (2 s1)
    have "keeps (\<lambda>d. d = db) (bnd (find_settlement (\<lambda>s. s_id s = i \<and> s_org s = org \<and> s_status s = REVERSED \<and>
         s_reversalReference s = Some ref)) (\<lambda>existing.
       required existing (conflict ''Reversal identity has already been used'')))"
      by (intro keeps_rules)
    moreover from 2(1) have "s1 = db" by (simp add: run_tx_err)
    ultimately have "db' = db" using 2(2) by (auto dest: keepsD)
    then show ?case by (rule that(1))
  qed
qed

lemma reverse_keeps_books: "keeps books_ok (reverseSucceededSettlement E n org i ref)"
proof (rule keepsI)
  fix db r db' assume ok: "books_ok db" and run: "reverseSucceededSettlement E n org i ref db = (r, db')"
  from books_okD(2)[OF ok] run show "books_ok db'"
  proof (cases rule: reverse_effect)
    case 1
    with ok show ?thesis by simp
  next
    case (2 s w restored db1 original)
    have wid: "w_id w = s_wallet s" using find_SomeD[OF 2(4)] by (simp add: wallet_key_def)
    have db1: "db1 = post_wallet org (s_wallet s) (s_amount s) 0 db"
      by (rule credit_wallet_run(1)[OF books_okD(1)[OF ok] 2(4) 2(5)[unfolded wid]])
    have sok: "settlement_ok s" using 2(1) find_SomeD books_okD(3)[OF ok] by metis
    let ?l = "reversal_ledger n s ref w restored original"
    have l: "signed_amount ?l = s_amount s" "t_wallet ?l = s_wallet s" by (simp_all add: wid)
    show ?thesis unfolding 2(6) db1
      using settled_posting[OF ok 2(1) 2(4), of ?l "reverse_write n ref"] l sok 2(3)
        wallet_in_bounds[OF books_okD(1)[OF ok] 2(4)]
      by (auto simp: reverse_write_def settlement_ok_def held_amount_def held_def)
  qed
qed

lemma manualData_simps [simp]:
  "s_id (manualData n inp s) = s_id s" "s_org (manualData n inp s) = s_org s"
  "s_wallet (manualData n inp s) = s_wallet s" "s_amount (manualData n inp s) = s_amount s"
  "s_status (manualData n inp s) = RESERVED" "s_releasedAt (manualData n inp s) = s_releasedAt s"
  "s_reservedAt (manualData n inp s) = Some (n_now n)" "s_reversedAt (manualData n inp s) = s_reversedAt s"
  "s_sourceType (manualData n inp s) = s_sourceType s" "s_sourceId (manualData n inp s) = s_sourceId s"
  by (simp_all add: manualData_def)

lemma manual_ledger_simps [simp]:
  "t_id (manual_ledger n src inp s b a) = n_ledgerId n" "t_org (manual_ledger n src inp s b a) = src_org src"
  "t_wallet (manual_ledger n src inp s b a) = src_wallet src"
  "signed_amount (manual_ledger n src inp s b a) = - src_amount src"
  "t_direction (manual_ledger n src inp s b a) = ''DEBIT''"
  "t_sourceType (manual_ledger n src inp s b a) = Some (src_type src)"
  "t_sourceId (manual_ledger n src inp s b a) = Some (src_id src)"
  by (simp_all add: manual_ledger_def signed_amount_def)

text \<open>The last write of a manual settlement.\<close>

definition manual_done :: "stamps \<Rightarrow> manual_input \<Rightarrow> settlement \<Rightarrow> settlement" where
  "manual_done n inp s = s\<lparr>s_status := SUCCEEDED, s_releasedAt := Some (n_now n),
     s_settledAt := Some (mi_settledAt inp)\<rparr>"

lemma manual_done_simps [simp]:
  "s_id (manual_done n inp s) = s_id s" "s_wallet (manual_done n inp s) = s_wallet s"
  "s_amount (manual_done n inp s) = s_amount s" "s_status (manual_done n inp s) = SUCCEEDED"
  "s_releasedAt (manual_done n inp s) = Some (n_now n)" "s_org (manual_done n inp s) = s_org s"
  "s_sourceType (manual_done n inp s) = s_sourceType s" "s_sourceId (manual_done n inp s) = s_sourceId s"
  "s_reversedAt (manual_done n inp s) = s_reversedAt s"
  by (simp_all add: manual_done_def)

lemma updateMany_twice:
  "(\<And>x. s_id (f x) = s_id x) \<Longrightarrow> updateMany (\<lambda>x. s_id x = j) g (updateMany (\<lambda>x. s_id x = j) f rows) =
     updateMany (\<lambda>x. s_id x = j) (\<lambda>x. g (f x)) rows"
  by (simp add: updateMany_def)

lemma updateMany_fresh:
  assumes "\<not> clashes settlement_clash r rows"
  shows "updateMany (\<lambda>x. s_id x = s_id r) f (rows @ [r]) = rows @ [f r]"
proof -
  have "updateMany (\<lambda>x. s_id x = s_id r) f rows = rows"
    using assms by (intro updateMany_none) (auto simp: clashes_def settlement_clash_def)
  then show ?thesis by (simp add: updateMany_def)
qed

text \<open>The database as the business callback of \<open>completeManualSettlement\<close> finds it.\<close>

lemma manual_settle_run:
  assumes ok: "wallets_ok db" and run: "manual_settle n src inp fin existing db = (Inr r, db')"
  shows "\<exists>w c st l res ss. 0 \<le> src_amount src \<and>
    find (wallet_key (src_org src) (src_wallet src)) (db_wallets db) = Some w \<and>
    src_amount src \<le> w_balance w - w_reserved w \<and>
    (case existing of
       None \<Rightarrow> let m = manualData n inp (new_settlement n src c (mi_idempotencyKey inp)) in
         \<not> clashes settlement_clash m (db_settlements db) \<and> ss = db_settlements db @ [manual_done n inp m]
     | Some s \<Rightarrow> ss = updateMany (\<lambda>x. s_id x = s_id s) (\<lambda>x. manual_done n inp (manualData n inp x)) (db_settlements db)) \<and>
    l = manual_ledger n src inp st (w_balance w) (w_balance w - src_amount src) \<and>
    \<not> clashes ledger_clash l (db_ledger db) \<and>
    fst r \<in> set ss \<and> s_status (fst r) = SUCCEEDED \<and>
    fin (fst r) (n_ledgerId n) ((post_wallet (src_org src) (src_wallet src) (- src_amount src) 0 db)
      \<lparr>db_ledger := db_ledger db @ [l], db_settlements := ss\<rparr>) = (Inr res, db') \<and> r = (fst r, Some res, False)"
proof -
  let ?org = "src_org src" and ?i = "src_wallet src" and ?a = "src_amount src"
  from run obtain c db1 st db2 w3 before after db3 comp db4 res where
    m: "reserveWalletBalance ?org ?i ?a c db = (Inr (), db1)"
    "(case existing of Some s \<Rightarrow> update_settlement (s_id s) (manualData n inp)
      | None \<Rightarrow> create_settlement (manualData n inp (new_settlement n src c (mi_idempotencyKey inp)))) db1 = (Inr st, db2)"
    "consumeWalletReservation ?org ?i ?a c db2 = (Inr (w3, before, after), db3)"
    "\<not> clashes ledger_clash (manual_ledger n src inp st before after) (db_ledger db3)"
    "update_settlement (s_id st) (manual_done n inp)
       (db3\<lparr>db_ledger := db_ledger db3 @ [manual_ledger n src inp st before after]\<rparr>) = (Inr comp, db4)"
    "fin comp (n_ledgerId n) db4 = (Inr res, db')" "r = (comp, Some res, False)"
    unfolding manual_settle_def manual_done_def[abs_def] by (auto simp: run_simps)
  obtain w where a: "0 \<le> ?a" and db1: "db1 = post_wallet ?org ?i 0 ?a db"
    and w: "find (wallet_key ?org ?i) (db_wallets db) = Some w" "?a \<le> w_balance w - w_reserved w"
    using reserve_run[OF ok m(1)] by blast
  have ok1: "wallets_ok db1" by (rule keepsD[OF reserve.keeps_wallets ok m(1)])
  define ss1 where "ss1 = db_settlements db2"
  have db2: "db2 = db1\<lparr>db_settlements := ss1\<rparr>" using m(2) by (auto simp: ss1_def run_simps split: option.splits)
  have ok2: "wallets_ok db2" using ok1 by (simp add: db2 wallets_ok_def)
  obtain w2 where db3: "db3 = post_wallet ?org ?i (- ?a) (- ?a) db2"
    and w2: "find (wallet_key ?org ?i) (db_wallets db2) = Some w2"
    and ba: "before = w_balance w2" "after = w_balance w2 - ?a"
    using consume_run[OF ok2 m(3)] by blast
  have "find (wallet_key ?org ?i) (db_wallets db2) = Some (add_wallet 0 ?a w)"
    using post_wallet_find[OF w(1)] by (simp add: db2 db1)
  with w2 ba have ba: "before = w_balance w" "after = w_balance w - ?a" by auto
  have db3': "db3 = (post_wallet ?org ?i (- ?a) 0 db)\<lparr>db_settlements := ss1\<rparr>"
  proof -
    have "db3 = (post_wallet ?org ?i (- ?a) (- ?a) (post_wallet ?org ?i 0 ?a db))\<lparr>db_settlements := ss1\<rparr>"
      by (simp add: db3 db2 db1 post_wallet_def)
    then show ?thesis by (simp add: post_wallet_twice)
  qed
  let ?l = "manual_ledger n src inp st (w_balance w) (w_balance w - ?a)"
  define ss where "ss = updateMany (\<lambda>x. s_id x = s_id st) (manual_done n inp) ss1"
  from m(5) obtain x where x: "find (\<lambda>s. s_id s = s_id st) ss1 = Some x" and comp: "comp = manual_done n inp x"
    and db4: "db4 = db3\<lparr>db_ledger := db_ledger db3 @ [?l], db_settlements := ss\<rparr>"
    by (auto simp: run_simps db3' ss_def ba)
  have comp_in: "comp \<in> set ss" using find_SomeD[OF x] by (auto simp: comp ss_def set_updateMany)
  have db4': "db4 = (post_wallet ?org ?i (- ?a) 0 db)\<lparr>db_ledger := db_ledger db @ [?l], db_settlements := ss\<rparr>"
    by (simp add: db4 db3')
  have rows: "case existing of
       None \<Rightarrow> let m = manualData n inp (new_settlement n src c (mi_idempotencyKey inp)) in
         \<not> clashes settlement_clash m (db_settlements db) \<and> ss = db_settlements db @ [manual_done n inp m]
     | Some s \<Rightarrow> ss = updateMany (\<lambda>x. s_id x = s_id s) (\<lambda>x. manual_done n inp (manualData n inp x)) (db_settlements db)"
  proof (cases existing)
    case None
    with m(2) have st: "st = manualData n inp (new_settlement n src c (mi_idempotencyKey inp))"
      "\<not> clashes settlement_clash st (db_settlements db)" "ss1 = db_settlements db @ [st]"
      by (auto simp: run_simps ss1_def db1)
    then show ?thesis using None updateMany_fresh[OF st(2)] by (simp add: ss_def)
  next
    case (Some s)
    with m(2) obtain y where "find (\<lambda>x. s_id x = s_id s) (db_settlements db) = Some y"
      "st = manualData n inp y" "ss1 = updateMany (\<lambda>x. s_id x = s_id s) (manualData n inp) (db_settlements db)"
      by (auto simp: run_simps ss1_def db1)
    then show ?thesis using Some find_SomeD[of _ "db_settlements db" y]
      by (auto simp: ss_def updateMany_twice dest!: find_SomeD)
  qed
  have noclash: "\<not> clashes ledger_clash ?l (db_ledger db)" using m(4) by (simp add: db3' ba)
  show ?thesis
    using a w rows noclash comp_in m(6,7) unfolding db4' comp by (intro exI[of _ w] exI[of _ c] exI[of _ st] exI[of _ ?l] exI[of _ res] exI[of _ ss]) simp
qed

lemma manual_settle_keeps:
  assumes ok: "books_ok db" and run: "manual_settle n src inp fin existing db = (Inr r, db')"
    and existing: "\<And>s. existing = Some s \<Longrightarrow> s \<in> set (db_settlements db) \<and> s_status s = PREPARED"
    and fin: "\<And>s l. keeps books_ok (fin s l)"
  shows "books_ok db'"
proof -
  let ?a = "src_amount src"
  obtain w c st l res ss where f: "0 \<le> ?a"
    "find (wallet_key (src_org src) (src_wallet src)) (db_wallets db) = Some w" "?a \<le> w_balance w - w_reserved w"
    "case existing of
       None \<Rightarrow> let m = manualData n inp (new_settlement n src c (mi_idempotencyKey inp)) in
         \<not> clashes settlement_clash m (db_settlements db) \<and> ss = db_settlements db @ [manual_done n inp m]
     | Some s \<Rightarrow> ss = updateMany (\<lambda>x. s_id x = s_id s) (\<lambda>x. manual_done n inp (manualData n inp x)) (db_settlements db)"
    "l = manual_ledger n src inp st (w_balance w) (w_balance w - ?a)"
    "fin (fst r) (n_ledgerId n) ((post_wallet (src_org src) (src_wallet src) (- ?a) 0 db)
      \<lparr>db_ledger := db_ledger db @ [l], db_settlements := ss\<rparr>) = (Inr res, db')"
    using manual_settle_run[OF books_okD(1)[OF ok] run] by metis
  note ids = books_okD(2)[OF ok]
  have ss: "distinct (map s_id ss) \<and> (\<forall>s \<in> set ss. settlement_ok s) \<and>
      (\<forall>k. reserved_for k ss = reserved_for k (db_settlements db))"
  proof (cases existing)
    case None
    let ?m = "manualData n inp (new_settlement n src c (mi_idempotencyKey inp))"
    from f(4) None have new: "\<not> clashes settlement_clash ?m (db_settlements db)"
      "ss = db_settlements db @ [manual_done n inp ?m]" by (simp_all add: Let_def)
    show ?thesis using fresh_settlement[OF new(1) ids] ok f(1) unfolding new(2)
      by (auto simp: settlement_ok_def held_amount_def held_def dest: books_okD(3))
  next
    case (Some s)
    with existing have s: "s \<in> set (db_settlements db)" "s_status s = PREPARED" by auto
    have one: "x = s" if "x \<in> set (db_settlements db)" "s_id x = s_id s" for x
      using ids s(1) that by (auto simp: distinct_map inj_on_def)
    from Some f(4) have ss: "ss = updateMany (\<lambda>x. s_id x = s_id s) (\<lambda>x. manual_done n inp (manualData n inp x)) (db_settlements db)"
      by simp
    have sok: "settlement_ok s" using ok s(1) by (rule books_okD(3))
    let ?f = "\<lambda>x. manual_done n inp (manualData n inp x)"
    have f: "settlement_ok (?f x) \<and> held_amount (?f x) = held_amount x"
      if "x \<in> set (db_settlements db)" "s_id x = s_id s" for x
      using one[OF that] sok s(2) by (simp add: settlement_ok_def held_amount_def held_def)
    show ?thesis unfolding ss
    proof (intro conjI allI)
      show "distinct (map s_id (updateMany (\<lambda>x. s_id x = s_id s) ?f (db_settlements db)))"
        by (simp add: map_s_id_update ids)
      show "\<forall>x \<in> set (updateMany (\<lambda>x. s_id x = s_id s) ?f (db_settlements db)). settlement_ok x"
        using ok f by (intro settlement_ok_update) (auto dest: books_okD(3))
      show "reserved_for k (updateMany (\<lambda>x. s_id x = s_id s) ?f (db_settlements db)) =
          reserved_for k (db_settlements db)" for k
        by (rule reserved_for_updateMany_same) (use f in auto)
    qed
  qed
  have l: "t_wallet l = src_wallet src" "signed_amount l = - ?a" using f(5) by simp_all
  have "books_ok ((post_wallet (src_org src) (src_wallet src) (- ?a) 0 db)
      \<lparr>db_settlements := ss, db_ledger := db_ledger db @ [l]\<rparr>)"
    using ss l f(1,3) wallet_in_bounds[OF books_okD(1)[OF ok] f(2)]
    by (intro books_posting[OF ok f(2)]) auto
  then show ?thesis using keepsD[OF fin _ f(6)] by (simp add: settlements_ledger)
qed

lemma complete_effect:
  assumes run: "completeManualSettlement E n src inp fin db = (r, db')"
  obtains "db' = db"
  | existing x where "manual_settle n src inp fin existing db = (Inr x, db')"
      "\<And>s. existing = Some s \<Longrightarrow> s \<in> set (db_settlements db) \<and> s_status s = PREPARED \<and>
         s_org s = src_org src \<and> s_sourceType s = src_type src \<and> s_sourceId s = src_id src"
proof -
  let ?body = "bnd (find_source src) (\<lambda>existing.
            case existing of
              None \<Rightarrow> manual_settle n src inp fin None
            | Some s \<Rightarrow>
                if is_manual_replay inp s then ret (s, None, True)
                else
                  bnd (guard (s_method s = PROVIDER \<and> s_status s = PREPARED)
                         (conflict ''This business obligation already has a settlement'')) (\<lambda>_.
                  bnd (from_sum (assertFinancialCurrency (src_currency src) (s_currency s))) (\<lambda>_.
                  manual_settle n src inp fin (Some s))))"
  let ?e = "conflict ''Settlement identity or external reference has already been used''"
  have on: "on_P2002 (tx ?body) (raise ?e) db = (r, db')"
    using run by (simp only: completeManualSettlement_def incident_then)
  from on_P2002_effect[OF on] have "tx ?body db = (r, db') \<or> db' = db"
    by (auto simp: run_tx_err run_raise)
  then have "db' = db \<or> (\<exists>x. ?body db = (Inr x, db'))" using tx_effect[of ?body db r db'] by metis
  then consider "db' = db" | x where "?body db = (Inr x, db')" by blast
  then show thesis
  proof cases
    case 1
    then show ?thesis by (rule that(1))
  next
    case (2 x)
    show ?thesis
    proof (cases "find (\<lambda>s. s_org s = src_org src \<and> s_sourceType s = src_type src \<and> s_sourceId s = src_id src)
        (db_settlements db)")
      case None
      with 2 have "manual_settle n src inp fin None db = (Inr x, db')"
        by (auto simp: find_source_def run_simps)
      then show ?thesis by (rule that(2)) simp
    next
      case (Some s)
      with 2 have "db' = db \<or> s_status s = PREPARED \<and> manual_settle n src inp fin (Some s) db = (Inr x, db')"
        by (auto simp: find_source_def run_simps split: if_splits)
      then show ?thesis
      proof (elim disjE conjE)
        assume "db' = db"
        then show ?thesis by (rule that(1))
      next
        assume "s_status s = PREPARED" and "manual_settle n src inp fin (Some s) db = (Inr x, db')"
        with find_SomeD[OF Some] show ?thesis by (intro that(2)[of "Some s"]) auto
      qed
    qed
  qed
qed

lemma complete_keeps_books:
  assumes fin: "\<And>s l. keeps books_ok (fin s l)"
  shows "keeps books_ok (completeManualSettlement E n src inp fin)"
proof (rule keepsI)
  fix db r db' assume ok: "books_ok db" and run: "completeManualSettlement E n src inp fin db = (r, db')"
  from run show "books_ok db'"
  proof (cases rule: complete_effect)
    case 1
    with ok show ?thesis by simp
  next
    case (2 existing x)
    show ?thesis by (rule manual_settle_keeps[OF ok 2(1)]) (use 2(2) fin in auto)
  qed
qed

end
