(* ===== verification/Provider.thy ===== *)
theory Provider
  imports FinDb
begin

text \<open>
  src/core/settlement-provider.ts, src/core/paystack.ts and src/core/paystack-transfer-provider.ts:
  the interface to the payment provider, and Paystack behind it. The network is a parameter: a
  function from a request to what \<open>fetch\<close> gave, or that it threw. The locale
  \<open>settlement_provider\<close> states what the settlement code relies on: starting a transfer or accepting
  a one-time password is never evidence that money has arrived.
\<close>

section \<open>The provider interface\<close>

datatype transfer_state = NON_CONCLUSIVE | SUCCESS | FAILURE | REVERSAL

record transfer_result =
  r_reference :: string
  r_transferCode :: "string option"
  r_recipientReference :: "string option"
  r_providerStatus :: string
  r_state :: transfer_state
  r_amountMinor :: int
  r_currency :: string

text \<open>The methods of the interface \<open>SettlementProvider\<close>, in the order and with the arguments of the
  source; an answer is a value or an error.\<close>

record provider =
  pv_resolveAccount :: "string \<Rightarrow> string \<Rightarrow> app_error + string \<times> string"
  pv_createRecipient :: "string \<Rightarrow> string \<Rightarrow> string \<Rightarrow> string \<Rightarrow> app_error + string \<times> string option"
  pv_initiateTransfer :: "string \<Rightarrow> int \<Rightarrow> string \<Rightarrow> string \<Rightarrow> string \<Rightarrow> app_error + transfer_result"
  pv_finalizeTransferOtp :: "string \<Rightarrow> string \<Rightarrow> app_error + transfer_result"
  pv_verifyTransfer :: "string \<Rightarrow> app_error + transfer_result"
  pv_getBalance :: "app_error + (string \<times> int) list"

definition paystackMinorUnits :: "money \<Rightarrow> int" where
  "paystackMinorUnits v = round_half_up (v * 100)"

section \<open>Configuration checks\<close>

definition unavailable_details :: "string \<Rightarrow> string list \<Rightarrow> string \<Rightarrow> json" where
  "unavailable_details reason actions nextAction = JObj
     [(''available'', JBool False), (''reasonCode'', JStr reason), (''retryable'', JBool False),
      (''availableActions'', JArr (map JStr actions)), (''nextAction'', JStr nextAction)]"

definition assertPaystackTransferCredentialMode ::
    "string option \<Rightarrow> string option \<Rightarrow> app_error + unit" where
  "assertPaystackTransferCredentialMode mode secretKey =
     (case mode of
        None \<Rightarrow> Inl (serviceUnavailable ''Paystack transfer mode is not explicitly configured''
                 (unavailable_details ''PAYSTACK_TRANSFER_MODE_MISSING''
                    [''CONTACT_PLATFORM_SUPPORT''] ''CONTACT_PLATFORM_SUPPORT''))
      | Some m \<Rightarrow>
          let expectedPrefix = (if m = ''test'' then ''sk_test_'' else ''sk_live_'')
          in if falsy secretKey \<or> \<not> starts_with expectedPrefix (the secretKey)
             then Inl (serviceUnavailable
                    ''Paystack transfer credential does not match the configured transfer mode''
                    (unavailable_details ''PAYSTACK_TRANSFER_MODE_MISMATCH''
                       [''CONTACT_PLATFORM_SUPPORT''] ''CONTACT_PLATFORM_SUPPORT''))
             else Inr ())"

definition assertProviderTransfersEnabled :: "fin_env \<Rightarrow> app_error + unit" where
  "assertProviderTransfersEnabled E =
     (if \<not> v_transfersEnabled E
      then Inl (serviceUnavailable ''Provider settlement is not enabled''
             (unavailable_details ''PROVIDER_SETTLEMENT_DISABLED''
                [''RECORD_MANUAL_SETTLEMENT'', ''CONTACT_PLATFORM_SUPPORT'']
                ''RECORD_MANUAL_SETTLEMENT''))
      else assertPaystackTransferCredentialMode (v_transfersMode E) (v_secretKey E))"

section \<open>HTTP requests to Paystack\<close>

text \<open>What \<open>fetch\<close> and \<open>response.json()\<close> gave: an exception (network, timeout), or a status and
  the parsed body, \<open>None\<close> when the body was not JSON.\<close>

datatype fetch_outcome = Threw | Responded nat "json option"

type_synonym network = "string \<Rightarrow> json option \<Rightarrow> fetch_outcome"

definition payload_field :: "string \<Rightarrow> json option \<Rightarrow> json option" where
  "payload_field k payload = (case payload of None \<Rightarrow> None | Some p \<Rightarrow> jfield k p)"

text \<open>\<open>paystackRequest\<close>. The key is read inside the \<open>try\<close>, so a missing key is reported as an
  unavailable provider.\<close>

definition paystackRequest :: "fin_env \<Rightarrow> network \<Rightarrow> string \<Rightarrow> json option \<Rightarrow> app_error + json" where
  "paystackRequest E net path body =
     (if falsy (v_secretKey E)
      then Inl (ProviderError ''Paystack is temporarily unavailable'' None True)
      else case net path body of
        Threw \<Rightarrow> Inl (ProviderError ''Paystack is temporarily unavailable'' None True)
      | Responded status payload \<Rightarrow>
          (if \<not> (200 \<le> status \<and> status < 300) \<or> \<not> truthy (payload_field ''status'' payload) \<or>
              \<not> truthy (payload_field ''data'' payload)
           then Inl (ProviderError
                  (case jstring (payload_field ''message'' payload) of
                     Some m \<Rightarrow> if m = [] then ''Paystack request failed'' else m
                   | None \<Rightarrow> ''Paystack request failed'')
                  (Some status) (status = 429 \<or> 500 \<le> status))
           else Inr (the (payload_field ''data'' payload))))"

definition hex_digit :: "nat \<Rightarrow> char" where
  "hex_digit n = (if n < 10 then char_of (48 + n) else char_of (55 + n))"

text \<open>\<open>encodeURIComponent\<close> on ASCII strings.\<close>

definition encodeURIComponent :: "string \<Rightarrow> string" where
  "encodeURIComponent s = concat (map (\<lambda>c.
     if is_alnum_char c \<or> c \<in> set ''-_.!~*'' \<or> of_char c \<in> {39, 40, 41::nat} then [c]
     else [CHR ''%'', hex_digit (of_char c div 16), hex_digit (of_char c mod 16)]) s)"

section \<open>Mapping Paystack's answers\<close>

definition mapPaystackTransferStatus :: "string \<Rightarrow> app_error + transfer_state" where
  "mapPaystackTransferStatus status =
     (let normalized = toLower status in
      if normalized \<in> set [''pending'', ''otp'', ''received''] then Inr NON_CONCLUSIVE
      else if normalized = ''success'' then Inr SUCCESS
      else if normalized = ''reversed'' then Inr REVERSAL
      else if normalized \<in> set [''failed'', ''abandoned'', ''blocked'', ''rejected''] then Inr FAILURE
      else Inl (ProviderError ''Paystack returned an unsupported transfer status'' None True))"

fun recipientCode :: "json option \<Rightarrow> string option" where
  "recipientCode (Some (JStr s)) = Some s"
| "recipientCode (Some (JObj kvs)) = jstring (map_of kvs ''recipient_code'')"
| "recipientCode _ = None"

definition transferResult :: "json \<Rightarrow> app_error + transfer_result" where
  "transferResult data =
     (let reference = jstring (jfield ''reference'' data);
          providerStatus = jstring (jfield ''status'' data);
          amountMinor = jinteger (jfield ''amount'' data);
          currency = map_option toUpper (jstring (jfield ''currency'' data))
      in if falsy reference \<or> falsy providerStatus \<or> amountMinor = None \<or> falsy currency
         then Inl (ProviderError ''Paystack returned malformed transfer data'' None True)
         else (case mapPaystackTransferStatus (the providerStatus) of
             Inl e \<Rightarrow> Inl e
           | Inr state \<Rightarrow> Inr
               \<lparr> r_reference = the reference,
                 r_transferCode = jstring (jfield ''transfer_code'' data),
                 r_recipientReference = recipientCode (jfield ''recipient'' data),
                 r_providerStatus = toLower (the providerStatus),
                 r_state = state, r_amountMinor = the amountMinor, r_currency = the currency \<rparr>))"

text \<open>\<open>result.state === "SUCCESS" ? { ...result, state: "NON_CONCLUSIVE" } : result\<close>\<close>

definition downgrade_success :: "transfer_result \<Rightarrow> transfer_result" where
  "downgrade_success r = (if r_state r = SUCCESS then r\<lparr>r_state := NON_CONCLUSIVE\<rparr> else r)"

section \<open>\<open>PaystackTransferProvider\<close>\<close>

definition bind_sum :: "app_error + 'a \<Rightarrow> ('a \<Rightarrow> app_error + 'b) \<Rightarrow> app_error + 'b" where
  "bind_sum m f = (case m of Inl e \<Rightarrow> Inl e | Inr x \<Rightarrow> f x)"

definition assertCredentialMode :: "fin_env \<Rightarrow> app_error + unit" where
  "assertCredentialMode E = assertPaystackTransferCredentialMode (v_transfersMode E) (v_secretKey E)"

definition ps_resolveAccount ::
    "fin_env \<Rightarrow> network \<Rightarrow> string \<Rightarrow> string \<Rightarrow> app_error + string \<times> string" where
  "ps_resolveAccount E net accountNumber bankCode =
     bind_sum (assertCredentialMode E) (\<lambda>_.
     bind_sum (paystackRequest E net
         (''/bank/resolve?account_number='' @ encodeURIComponent accountNumber @
          ''&bank_code='' @ encodeURIComponent bankCode) None) (\<lambda>data.
     let name = jstring (jfield ''account_name'' data); number = jstring (jfield ''account_number'' data)
     in if falsy name \<or> falsy number
        then Inl (ProviderError ''Paystack returned malformed account resolution data'' None False)
        else Inr (the name, the number)))"

text \<open>\<open>String(id)\<close> of a whole number or a string; a fractional id is not one.\<close>

fun id_string :: "json option \<Rightarrow> string option" where
  "id_string (Some (JStr s)) = Some s"
| "id_string (Some (JNum r)) =
     (if r < 0 then Some (''-'' @ show_nat (nat (- \<lfloor>r\<rfloor>))) else Some (show_nat (nat \<lfloor>r\<rfloor>)))"
| "id_string _ = None"

definition ps_createRecipient ::
    "fin_env \<Rightarrow> network \<Rightarrow> string \<Rightarrow> string \<Rightarrow> string \<Rightarrow> string \<Rightarrow> app_error + string \<times> string option" where
  "ps_createRecipient E net accountNumber bankCode accountName currency =
     bind_sum (assertCredentialMode E) (\<lambda>_.
     bind_sum (paystackRequest E net ''/transferrecipient'' (Some (JObj
         [(''type'', JStr ''nuban''), (''name'', JStr accountName),
          (''account_number'', JStr accountNumber), (''bank_code'', JStr bankCode),
          (''currency'', JStr currency)]))) (\<lambda>data.
     let recipientReference = jstring (jfield ''recipient_code'' data)
     in if falsy recipientReference
        then Inl (ProviderError ''Paystack returned malformed recipient data'' None False)
        else Inr (the recipientReference, id_string (jfield ''id'' data))))"

definition ps_initiateTransfer ::
    "fin_env \<Rightarrow> network \<Rightarrow> string \<Rightarrow> int \<Rightarrow> string \<Rightarrow> string \<Rightarrow> string \<Rightarrow> app_error + transfer_result" where
  "ps_initiateTransfer E net recipientReference amountMinor currency reference reason =
     bind_sum (assertCredentialMode E) (\<lambda>_.
     bind_sum (paystackRequest E net ''/transfer'' (Some (JObj
         [(''source'', JStr ''balance''), (''amount'', JNum (of_int amountMinor)),
          (''recipient'', JStr recipientReference), (''reference'', JStr reference),
          (''reason'', JStr reason), (''currency'', JStr currency)]))) (\<lambda>data.
     bind_sum (transferResult data) (\<lambda>result. Inr (downgrade_success result))))"

definition ps_finalizeTransferOtp ::
    "fin_env \<Rightarrow> network \<Rightarrow> string \<Rightarrow> string \<Rightarrow> app_error + transfer_result" where
  "ps_finalizeTransferOtp E net transferCode otp =
     bind_sum (assertCredentialMode E) (\<lambda>_.
     bind_sum (paystackRequest E net ''/transfer/finalize_transfer'' (Some (JObj
         [(''transfer_code'', JStr transferCode), (''otp'', JStr otp)]))) (\<lambda>data.
     bind_sum (transferResult data) (\<lambda>result. Inr (downgrade_success result))))"

definition ps_verifyTransfer :: "fin_env \<Rightarrow> network \<Rightarrow> string \<Rightarrow> app_error + transfer_result" where
  "ps_verifyTransfer E net reference =
     bind_sum (assertCredentialMode E) (\<lambda>_.
     bind_sum (paystackRequest E net (''/transfer/verify/'' @ encodeURIComponent reference) None) transferResult)"

definition ps_getBalance :: "fin_env \<Rightarrow> network \<Rightarrow> app_error + (string \<times> int) list" where
  "ps_getBalance E net =
     bind_sum (assertCredentialMode E) (\<lambda>_.
     bind_sum (paystackRequest E net ''/balance'' None) (\<lambda>rows.
     case rows of
       JArr xs \<Rightarrow> Inr (filter (\<lambda>(currency, _). currency \<noteq> [])
         (map (\<lambda>row. (case jstring (jfield ''currency'' row) of Some c \<Rightarrow> toUpper c | None \<Rightarrow> [],
                      case jinteger (jfield ''balance'' row) of Some n \<Rightarrow> n | None \<Rightarrow> 0)) xs))
     | _ \<Rightarrow> Inl (PlainError ''rows.map is not a function'')))"

definition PaystackTransferProvider :: "fin_env \<Rightarrow> network \<Rightarrow> provider" where
  "PaystackTransferProvider E net =
     \<lparr> pv_resolveAccount = ps_resolveAccount E net,
       pv_createRecipient = ps_createRecipient E net,
       pv_initiateTransfer = ps_initiateTransfer E net,
       pv_finalizeTransferOtp = ps_finalizeTransferOtp E net,
       pv_verifyTransfer = ps_verifyTransfer E net,
       pv_getBalance = ps_getBalance E net \<rparr>"

text \<open>The signature check of incoming webhooks; HMAC-SHA-512 is a parameter.\<close>

definition verifyPaystackWebhookSignature ::
    "fin_env \<Rightarrow> (string \<Rightarrow> string \<Rightarrow> string) \<Rightarrow> string option \<Rightarrow> string option \<Rightarrow> app_error + bool" where
  "verifyPaystackWebhookSignature E hmac512 rawBody signature =
     (if rawBody = None \<or> falsy signature then Inr False
      else if falsy (v_secretKey E) then Inl (ProviderError ''Paystack is not configured'' None False)
      else let expected = hmac512 (the (v_secretKey E)) (the rawBody); supplied = the signature
           in Inr (length supplied = length expected \<and> supplied = expected))"

section \<open>What the settlement code relies on\<close>

locale settlement_provider =
  fixes P :: provider
  assumes initiate_no_success:
      "pv_initiateTransfer P rec amount currency ref reason = Inr r \<Longrightarrow> r_state r \<noteq> SUCCESS"
    and otp_no_success: "pv_finalizeTransferOtp P code otp = Inr r \<Longrightarrow> r_state r \<noteq> SUCCESS"
    and verify_named: "pv_verifyTransfer P ref = Inr r \<Longrightarrow> r_reference r \<noteq> [] \<and> r_currency r \<noteq> []"
begin

lemma otp_outcomes:
  "pv_finalizeTransferOtp P code otp = Inr r \<Longrightarrow>
   r_state r = NON_CONCLUSIVE \<or> r_state r = FAILURE \<or> r_state r = REVERSAL"
  using otp_no_success by (cases "r_state r") blast+

end

lemma downgrade_no_success: "r_state (downgrade_success r) \<noteq> SUCCESS"
  by (simp add: downgrade_success_def)

lemma bind_sum_Inr: "bind_sum m f = Inr y \<longleftrightarrow> (\<exists>x. m = Inr x \<and> f x = Inr y)"
  by (auto simp: bind_sum_def split: sum.splits)

lemma transferResult_named:
  "transferResult data = Inr r \<Longrightarrow> r_reference r \<noteq> [] \<and> r_currency r \<noteq> []"
  by (auto simp: transferResult_def Let_def falsy_def split: if_splits sum.splits)

interpretation paystack: settlement_provider "PaystackTransferProvider E net" for E net
  by unfold_locales
    (auto simp: PaystackTransferProvider_def ps_initiateTransfer_def ps_finalizeTransferOtp_def
      ps_verifyTransfer_def bind_sum_Inr downgrade_no_success dest: transferResult_named)

end
