(* ===== verification/Funding.thy ===== *)
theory Funding
  imports Settlement Provider
begin

text \<open>
  Money into a wallet: the funding half of src/modules/accounting/accounting.service.ts (manual
  funding, Paystack funding from initialization to verification, the sweep of stale attempts)
  and the recovery leases of src/core/inbound-payment-recovery.ts.
\<close>

section \<open>Inputs\<close>

record actor =
  u_id :: string
  u_email :: string

text \<open>\<open>PaystackVerifyData\<close>; \<open>paid_at\<close> as the instant it names.\<close>

record verify_data =
  vf_status :: string
  vf_reference :: string
  vf_amount :: rat
  vf_currency :: string
  vf_paidAt :: "time option"
  vf_metadata :: "(string \<times> json) list"
  vf_raw :: json

definition audit_of :: "string \<Rightarrow> string option \<Rightarrow> string \<Rightarrow> string \<Rightarrow> string \<Rightarrow> string \<Rightarrow> json option \<Rightarrow> audit_input" where
  "audit_of org user action resource i summary metadata =
    \<lparr> i_org = org, i_actor = user, i_action = action, i_resource = resource, i_resourceId = Some i,
      i_summary = summary, i_metadata = metadata \<rparr>"

text \<open>\<open>reference(prefix)\<close>, the random bytes in hexadecimal an argument.\<close>

definition reference :: "string \<Rightarrow> string \<Rightarrow> string" where
  "reference prefix hex = prefix @ ''-'' @ toUpper hex"

section \<open>Manual funding\<close>

definition is_manual_funding :: "string \<Rightarrow> money \<Rightarrow> ledger \<Rightarrow> bool" where
  "is_manual_funding walletId value t \<longleftrightarrow> t_wallet t = walletId \<and> t_amount t = value \<and>
     t_type t = ''MANUAL_FUNDING'' \<and> t_direction t = ''CREDIT''"

definition find_transfer :: "string \<Rightarrow> string \<Rightarrow> (fin_db, ledger option) op" where
  "find_transfer org ref =
     reads (\<lambda>db. find (\<lambda>t. t_org t = org \<and> t_transferReference t = Some ref) (db_ledger db))"

definition funding_ledger ::
    "stamps \<Rightarrow> string \<Rightarrow> wallet \<Rightarrow> string \<Rightarrow> money \<Rightarrow> money \<Rightarrow> string \<Rightarrow> string \<Rightarrow> string \<Rightarrow> string \<Rightarrow> string option \<Rightarrow> ledger" where
  "funding_ledger n org w type value after transferReference description sourceType sourceId createdBy =
    \<lparr> t_id = n_ledgerId n, t_org = org, t_wallet = w_id w, t_type = type, t_direction = ''CREDIT'',
      t_amount = value, t_before = w_balance w, t_after = after, t_reference = reference ''WLT'' (n_uuid n),
      t_transferReference = Some transferReference, t_description = description,
      t_sourceType = Some sourceType, t_sourceId = Some sourceId, t_reversalOf = None,
      t_createdBy = createdBy, t_createdAt = n_now n \<rparr>"

definition fundWalletManually ::
    "fin_env \<Rightarrow> audit_env \<Rightarrow> stamps \<Rightarrow> string \<Rightarrow> string \<Rightarrow> money \<Rightarrow> string \<Rightarrow> string \<Rightarrow> actor \<Rightarrow>
     (fin_db, ledger \<times> bool) op" where
  "fundWalletManually E Y n org walletId value externalReference description user =
     on_P2002
       (tx (bnd (reads (\<lambda>db. find (wallet_key org walletId) (db_wallets db))) (\<lambda>found.
            bnd (required found (notFound ''Wallet not found'')) (\<lambda>w.
            bnd (assertIncidentWalletMutationAllowed E org (w_id w)) (\<lambda>_.
            bnd (find_transfer org externalReference) (\<lambda>existing.
            case existing of
              Some t \<Rightarrow>
                bnd (guard (is_manual_funding (w_id w) value t)
                       (conflict ''External funding reference is already in use'')) (\<lambda>_.
                ret (t, True))
            | None \<Rightarrow>
                bnd (credit_wallet (w_id w) value) (\<lambda>after.
                bnd (create_ledger (funding_ledger n org w ''MANUAL_FUNDING'' value after externalReference
                       description ''MANUAL_FUNDING'' externalReference (Some (u_id user)))) (\<lambda>t.
                bnd (audited Y (n_now n) (audit_of org (Some (u_id user)) ''ACCOUNTING_WALLET_FUNDED''
                       ''WALLET_TRANSACTION'' (t_id t) ''Manually funded Accounting wallet''
                       (Some (JObj [(''amount'', JNum value), (''reference'', JStr (t_reference t))])))) (\<lambda>_.
                ret (t, False))))))))))
       (bnd (find_transfer org externalReference) (\<lambda>existing.
        case existing of
          Some t \<Rightarrow> if is_manual_funding walletId value t then ret (t, True)
                    else raise (conflict ''External funding reference is already in use'')
        | None \<Rightarrow> raise (conflict ''External funding reference is already in use'')))"

section \<open>Paystack funding\<close>

definition walletPaystackError :: "app_error \<Rightarrow> app_error" where
  "walletPaystackError e =
     (case e of
        ProviderError m _ ambiguous \<Rightarrow> serviceUnavailable m (JObj
          [(''available'', JBool False),
           (''reasonCode'', JStr (if ambiguous then ''PAYMENT_PROVIDER_UNAVAILABLE'' else ''PAYMENT_PROVIDER_REJECTED_REQUEST'')),
           (''retryable'', JBool ambiguous),
           (''availableActions'', JArr [JStr (if ambiguous then ''RETRY'' else ''REVIEW_DETAILS'')]),
           (''nextAction'', JStr (if ambiguous then ''RETRY'' else ''REVIEW_DETAILS''))])
      | _ \<Rightarrow> e)"

definition initializePaystackTransaction ::
    "fin_env \<Rightarrow> network \<Rightarrow> string \<Rightarrow> int \<Rightarrow> string \<Rightarrow> string \<Rightarrow> string \<Rightarrow> json \<Rightarrow> app_error + json" where
  "initializePaystackTransaction E net email amount currency ref callbackUrl metadata =
     paystackRequest E net ''/transaction/initialize'' (Some (JObj
       [(''email'', JStr email), (''amount'', JNum (of_int amount)), (''currency'', JStr currency),
        (''reference'', JStr ref), (''callback_url'', JStr callbackUrl), (''metadata'', metadata)]))"

definition same_intent :: "wallet \<Rightarrow> money \<Rightarrow> funding \<Rightarrow> bool" where
  "same_intent w value f \<longleftrightarrow> f_wallet f = w_id w \<and> f_amount f = value \<and> f_currency f = w_currency w"

definition find_by_key :: "string \<Rightarrow> string \<Rightarrow> (fin_db, funding option) op" where
  "find_by_key org key =
     reads (\<lambda>db. find (\<lambda>f. f_org f = org \<and> f_idempotencyKey f = Some key) (db_fundings db))"

definition update_funding :: "time \<Rightarrow> string \<Rightarrow> (funding \<Rightarrow> funding) \<Rightarrow> (fin_db, funding) op" where
  "update_funding now i g =
     bnd (reads (\<lambda>db. find (\<lambda>f. f_id f = i) (db_fundings db))) (\<lambda>found.
     bnd (required found P2025) (\<lambda>f.
     bnd (updateMany_fundings now (\<lambda>x. f_id x = i) g) (\<lambda>_.
     ret ((g f)\<lparr>f_updatedAt := now\<rparr>))))"

definition new_funding :: "stamps \<Rightarrow> string \<Rightarrow> wallet \<Rightarrow> money \<Rightarrow> string option \<Rightarrow> string \<Rightarrow> funding" where
  "new_funding n org w value key userId =
    \<lparr> f_id = n_id n, f_org = org, f_wallet = w_id w, f_provider = ''PAYSTACK'',
      f_reference = reference ''PSK'' (n_uuid n), f_idempotencyKey = key, f_amount = value,
      f_currency = w_currency w, f_status = ''INITIALIZING'', f_authorizationUrl = None, f_accessCode = None,
      f_providerReference = None, f_providerPayload = None, f_failureReason = None,
      f_initiationAttemptedAt = None, f_token = None, f_claimedAt = None, f_leaseExpiresAt = None,
      f_attempts = 0, f_nextAt = None, f_deadLetteredAt = None, f_lastError = None, f_verifiedAt = None,
      f_createdBy = Some userId, f_createdAt = n_now n, f_updatedAt = n_now n \<rparr>"

definition startFunding ::
    "fin_env \<Rightarrow> audit_env \<Rightarrow> network \<Rightarrow> stamps \<Rightarrow> string \<Rightarrow> actor \<Rightarrow> wallet \<Rightarrow> funding \<Rightarrow> (fin_db, funding) op" where
  "startFunding E Y net n org user w att =
     catching
       (bnd (update_funding (n_now n) (f_id att) (\<lambda>f. f\<lparr>f_initiationAttemptedAt := Some (n_now n)\<rparr>)) (\<lambda>_.
        bnd (from_sum (initializePaystackTransaction E net (u_email user) (paystackMinorUnits (f_amount att))
               (w_currency w) (f_reference att) (the (v_callbackUrl E))
               (JObj [(''fundingAttemptId'', JStr (f_id att)), (''organizationId'', JStr org),
                      (''walletAccountId'', JStr (w_id w)), (''paymentDomain'', JStr ''WALLET_FUNDING'')]))) (\<lambda>response.
        bnd (update_funding (n_now n) (f_id att) (\<lambda>f. f\<lparr>f_status := ''INITIALIZED'',
               f_authorizationUrl := jstring (jfield ''authorization_url'' response),
               f_accessCode := jstring (jfield ''access_code'' response),
               f_providerReference := jstring (jfield ''reference'' response),
               f_providerPayload := Some response\<rparr>)) (\<lambda>updated.
        bnd (audited Y (n_now n) (audit_of org (Some (u_id user)) ''ACCOUNTING_WALLET_FUNDING_INITIALIZED''
               ''WALLET_FUNDING'' (f_id updated) (''Initialized Paystack wallet funding '' @ f_reference updated) None)) (\<lambda>_.
        ret updated)))))
       (\<lambda>e. bnd (update_funding (n_now n) (f_id att) (\<lambda>f. f\<lparr>
               f_status := (case e of ProviderError _ _ ambiguous \<Rightarrow> (if ambiguous then ''UNKNOWN'' else ''FAILED'') | _ \<Rightarrow> ''UNKNOWN''),
               f_failureReason := Some (take 500 (error_message e))\<rparr>)) (\<lambda>_.
            raise (walletPaystackError e)))"

definition initializePaystackWalletFunding ::
    "fin_env \<Rightarrow> audit_env \<Rightarrow> network \<Rightarrow> stamps \<Rightarrow> string \<Rightarrow> string \<Rightarrow> money \<Rightarrow> string option \<Rightarrow> actor \<Rightarrow>
     (fin_db, funding) op" where
  "initializePaystackWalletFunding E Y net n org walletId value key user =
     bnd (guard (\<not> falsy (v_callbackUrl E)) (serviceUnavailable ''Paystack callback URL is not configured''
            (unavailable_details ''PAYMENT_CALLBACK_NOT_CONFIGURED'' [''CONTACT_PLATFORM_SUPPORT'']
               ''CONTACT_PLATFORM_SUPPORT''))) (\<lambda>_.
     bnd (reads (\<lambda>db. find (wallet_key org walletId) (db_wallets db))) (\<lambda>found.
     bnd (required found (notFound ''Wallet not found'')) (\<lambda>w.
     bnd (guard (w_currency w = ''NGN'') (conflict ''Paystack wallet funding currently supports NGN wallets only'')) (\<lambda>_.
     bnd (if falsy key then ret None else find_by_key org (the key)) (\<lambda>existing.
     let other = conflict ''Wallet funding idempotency key is already associated with another funding intent'' in
     case existing of
       Some f \<Rightarrow> bnd (guard (same_intent w value f) other) (\<lambda>_. ret f)
     | None \<Rightarrow>
         bnd (attempt (create_funding (new_funding n org w value key (u_id user)))) (\<lambda>created.
         case created of
           Inr f \<Rightarrow> startFunding E Y net n org user w f
         | Inl e \<Rightarrow>
             if \<not> is_P2002 e \<or> falsy key then raise e
             else
               bnd (find_by_key org (the key)) (\<lambda>again.
               bnd (required again P2025) (\<lambda>f.
               bnd (guard (same_intent w value f) other) (\<lambda>_. ret f)))))))))"

section \<open>Verification\<close>

definition verifies :: "verify_data \<Rightarrow> funding \<Rightarrow> bool" where
  "verifies v f \<longleftrightarrow> vf_status v = ''success'' \<and> vf_reference v = f_reference f \<and>
     vf_amount v = of_int (paystackMinorUnits (f_amount f)) \<and> toUpper (vf_currency v) = toUpper (f_currency f) \<and>
     map_of (vf_metadata v) ''paymentDomain'' = Some (JStr ''WALLET_FUNDING'') \<and>
     map_of (vf_metadata v) ''fundingAttemptId'' = Some (JStr (f_id f)) \<and>
     map_of (vf_metadata v) ''organizationId'' = Some (JStr (f_org f)) \<and>
     map_of (vf_metadata v) ''walletAccountId'' = Some (JStr (f_wallet f))"

definition claimableFunding :: "string list" where
  "claimableFunding = [''PENDING'', ''INITIALIZING'', ''INITIALIZED'', ''UNKNOWN'']"

definition find_funding :: "string \<Rightarrow> (fin_db, funding option) op" where
  "find_funding i = reads (\<lambda>db. find (\<lambda>f. f_id f = i) (db_fundings db))"

definition finalizeVerifiedPaystackFunding ::
    "fin_env \<Rightarrow> audit_env \<Rightarrow> stamps \<Rightarrow> string \<Rightarrow> verify_data \<Rightarrow> (fin_db, funding \<times> ledger option \<times> bool) op" where
  "finalizeVerifiedPaystackFunding E Y n i v =
     tx (bnd (find_funding i) (\<lambda>found.
         bnd (required found (notFound ''Wallet funding attempt not found'')) (\<lambda>f.
         if f_status f = ''COMPLETED'' then
           bnd (reads (\<lambda>db. find (\<lambda>t. t_wallet t = f_wallet f \<and> t_sourceType t = Some ''PAYSTACK_FUNDING'' \<and>
                  t_sourceId t = Some (f_id f) \<and> t_type t = ''WALLET_FUNDING'') (db_ledger db))) (\<lambda>existing.
           ret (f, existing, True))
         else
           bnd (guard (verifies v f) (conflict ''Paystack payment verification does not match the funding request'')) (\<lambda>_.
           bnd (updateMany_fundings (n_now n) (\<lambda>x. f_id x = f_id f \<and> f_status x \<in> set claimableFunding)
                  (\<lambda>x. x\<lparr>f_status := ''PROCESSING'', f_providerPayload := Some (vf_raw v)\<rparr>)) (\<lambda>count.
           bnd (guard (count = 1) (conflict ''Wallet funding is already being processed'')) (\<lambda>_.
           bnd (reads (\<lambda>db. find (wallet_key (f_org f) (f_wallet f)) (db_wallets db))) (\<lambda>foundWallet.
           bnd (required foundWallet (notFound ''Wallet not found'')) (\<lambda>w.
           bnd (assertIncidentWalletMutationAllowed E (f_org f) (w_id w)) (\<lambda>_.
           bnd (from_sum (assertFinancialCurrency (f_currency f) (w_currency w))) (\<lambda>_.
           bnd (credit_wallet (w_id w) (f_amount f)) (\<lambda>after.
           bnd (create_ledger (funding_ledger n (f_org f) w ''WALLET_FUNDING'' (f_amount f) after (f_reference f)
                  ''Paystack wallet funding'' ''PAYSTACK_FUNDING'' (f_id f) (f_createdBy f))) (\<lambda>t.
           bnd (update_funding (n_now n) (f_id f) (\<lambda>x. x\<lparr>f_status := ''COMPLETED'',
                  f_verifiedAt := Some (case vf_paidAt v of Some p \<Rightarrow> p | None \<Rightarrow> n_now n),
                  f_providerReference := Some (vf_reference v), f_failureReason := None\<rparr>)) (\<lambda>completed.
           bnd (audited Y (n_now n) (audit_of (f_org completed) (f_createdBy completed)
                  ''ACCOUNTING_WALLET_FUNDING_COMPLETED'' ''WALLET_FUNDING'' (f_id completed)
                  (''Verified Paystack wallet funding '' @ f_reference completed) None)) (\<lambda>_.
           ret (completed, Some t, False)))))))))))))))"

text \<open>\<open>verifyPaystackWalletFunding\<close>; the verifier is the provider's verify call.\<close>

definition verifyPaystackWalletFunding ::
    "fin_env \<Rightarrow> audit_env \<Rightarrow> stamps \<Rightarrow> (string \<Rightarrow> app_error + verify_data) \<Rightarrow> string \<Rightarrow> string \<Rightarrow>
     (fin_db, funding \<times> ledger option \<times> bool) op" where
  "verifyPaystackWalletFunding E Y n verifier org ref =
     bnd (reads (\<lambda>db. find (\<lambda>f. f_reference f = ref \<and> f_org f = org) (db_fundings db))) (\<lambda>found.
     bnd (required found (notFound ''Wallet funding attempt not found'')) (\<lambda>f.
     if f_status f = ''COMPLETED'' then
       finalizeVerifiedPaystackFunding E Y n (f_id f)
         \<lparr> vf_status = ''success'', vf_reference = f_reference f,
           vf_amount = of_int (paystackMinorUnits (f_amount f)), vf_currency = f_currency f,
           vf_paidAt = None, vf_metadata = [], vf_raw = JNull \<rparr>
     else
       bnd (from_sum (verifier ref)) (\<lambda>v. finalizeVerifiedPaystackFunding E Y n (f_id f) v)))"

section \<open>Recovery leases: src/core/inbound-payment-recovery.ts\<close>

definition inboundRecoveryDelayMs :: "int \<Rightarrow> int" where
  "inboundRecoveryDelayMs k =
     min (6 * 60 * 60000) (60000 * 2 ^ nat (max 0 (k - 1)))"

definition recoverableFunding :: "string list" where
  "recoverableFunding = [''PENDING'', ''INITIALIZING'', ''INITIALIZED'', ''UNKNOWN'', ''PROCESSING'']"

definition later_than :: "time option \<Rightarrow> time \<Rightarrow> bool" where
  "later_than t now \<longleftrightarrow> (case t of None \<Rightarrow> False | Some x \<Rightarrow> now < x)"

definition claimWalletFundingRecovery ::
    "fin_env \<Rightarrow> string \<Rightarrow> time \<Rightarrow> string \<Rightarrow> (fin_db, (string \<times> time) option) op" where
  "claimWalletFundingRecovery E i now claimToken =
     tx (bnd (find_funding i) (\<lambda>found.
         case found of
           None \<Rightarrow> ret None
         | Some f \<Rightarrow>
             if f_provider f \<noteq> ''PAYSTACK'' \<or> f_status f \<notin> set recoverableFunding \<or> f_deadLetteredAt f \<noteq> None \<or>
                later_than (f_nextAt f) now \<or> later_than (f_leaseExpiresAt f) now
             then ret None
             else
               bnd (update_funding now i (\<lambda>x. x\<lparr>f_token := Some claimToken, f_claimedAt := Some now,
                      f_leaseExpiresAt := Some (now + v_leaseMs E), f_attempts := f_attempts x + 1,
                      f_lastError := None\<rparr>)) (\<lambda>_.
               ret (Some (claimToken, now + v_leaseMs E)))))"

definition releaseWalletFundingRecovery ::
    "time \<Rightarrow> string \<Rightarrow> string \<Rightarrow> string option \<Rightarrow> time option \<Rightarrow> time option \<Rightarrow> (fin_db, nat) op" where
  "releaseWalletFundingRecovery now i claimToken error nextAttemptAt deadLetteredAt =
     updateMany_fundings now (\<lambda>f. f_id f = i \<and> f_token f = Some claimToken)
       (\<lambda>f. f\<lparr>f_token := None, f_claimedAt := None, f_leaseExpiresAt := None,
              f_lastError := map_option (take 2000) error, f_nextAt := nextAttemptAt,
              f_deadLetteredAt := deadLetteredAt\<rparr>)"

section \<open>The sweep of stale attempts\<close>

record funding_counts =
  fc_claimed :: nat
  fc_reconciled :: nat
  fc_unresolved :: nat
  fc_errors :: nat

definition settleFunding ::
    "fin_env \<Rightarrow> audit_env \<Rightarrow> stamps \<Rightarrow> (string \<Rightarrow> app_error + verify_data) \<Rightarrow> string \<Rightarrow> string \<Rightarrow> (fin_db, unit) op" where
  "settleFunding E Y n verifier i token =
     bnd (reads (\<lambda>db. find (\<lambda>f. f_id f = i \<and> f_token f = Some token) (db_fundings db))) (\<lambda>found.
     bnd (required found P2025) (\<lambda>f.
     bnd (from_sum (verifier (f_reference f))) (\<lambda>v.
     bnd (catching
            (bnd (finalizeVerifiedPaystackFunding E Y n (f_id f) v) (\<lambda>_. ret ()))
            (\<lambda>e. if vf_status v \<in> set [''failed'', ''abandoned'', ''reversed''] then
                   bnd (updateMany_fundings (n_now n) (\<lambda>x. f_id x = f_id f \<and> f_status x \<noteq> ''COMPLETED'')
                          (\<lambda>x. x\<lparr>f_status := ''FAILED'', f_failureReason := Some (''Paystack transaction '' @ vf_status v)\<rparr>)) (\<lambda>_.
                   ret ())
                 else raise e)) (\<lambda>_.
     bnd (releaseWalletFundingRecovery (n_now n) (f_id f) token None None None) (\<lambda>_. ret ())))))"

definition fundingFailed ::
    "fin_env \<Rightarrow> time \<Rightarrow> stamps \<Rightarrow> string \<Rightarrow> string \<Rightarrow> app_error \<Rightarrow> (fin_db, unit) op" where
  "fundingFailed E now n i token e =
     bnd (find_funding i) (\<lambda>current.
     let attempts = (case current of None \<Rightarrow> 0 | Some f \<Rightarrow> int (f_attempts f));
         exhausted = v_webhookMaxAttempts E \<le> attempts;
         delay = inboundRecoveryDelayMs (case current of None \<Rightarrow> 1 | Some f \<Rightarrow> int (f_attempts f)) in
     bnd (updateMany_fundings (n_now n)
            (\<lambda>x. f_id x = i \<and> f_token x = Some token \<and> f_status x \<notin> {''COMPLETED'', ''FAILED''})
            (\<lambda>x. x\<lparr>f_status := ''UNKNOWN''\<rparr>)) (\<lambda>_.
     bnd (releaseWalletFundingRecovery (n_now n) i token (Some (error_message e))
            (if exhausted then None else Some (now + delay)) (if exhausted then Some now else None)) (\<lambda>_.
     ret ())))"

definition recoverFunding ::
    "fin_env \<Rightarrow> audit_env \<Rightarrow> time \<Rightarrow> (string \<Rightarrow> stamps) \<Rightarrow> (string \<Rightarrow> string) \<Rightarrow> (string \<Rightarrow> app_error + verify_data) \<Rightarrow>
     string \<Rightarrow> funding_counts \<Rightarrow> (fin_db, funding_counts) op" where
  "recoverFunding E Y now n token verifier i c =
     bnd (claimWalletFundingRecovery E i now (token i)) (\<lambda>lease.
     case lease of
       None \<Rightarrow> ret c
     | Some (claimToken, _) \<Rightarrow>
         catching
           (bnd (settleFunding E Y (n i) verifier i claimToken) (\<lambda>_.
            ret (c\<lparr>fc_claimed := fc_claimed c + 1, fc_reconciled := fc_reconciled c + 1\<rparr>)))
           (\<lambda>e. bnd (fundingFailed E now (n i) i claimToken e) (\<lambda>_.
                ret (c\<lparr>fc_claimed := fc_claimed c + 1, fc_unresolved := fc_unresolved c + 1,
                       fc_errors := fc_errors c + 1\<rparr>))))"

fun recoverFundings ::
    "(string \<Rightarrow> funding_counts \<Rightarrow> (fin_db, funding_counts) op) \<Rightarrow> string list \<Rightarrow> funding_counts \<Rightarrow>
     (fin_db, funding_counts) op" where
  "recoverFundings one [] c = ret c"
| "recoverFundings one (i # is) c = bnd (one i c) (recoverFundings one is)"

definition staleFunding :: "time \<Rightarrow> time \<Rightarrow> funding \<Rightarrow> bool" where
  "staleFunding staleBefore now f \<longleftrightarrow> f_provider f = ''PAYSTACK'' \<and> f_status f \<in> set recoverableFunding \<and>
     f_updatedAt f \<le> staleBefore \<and> f_deadLetteredAt f = None \<and> \<not> later_than (f_nextAt f) now"

definition reconcileStaleWalletFundingAttempts ::
    "fin_env \<Rightarrow> audit_env \<Rightarrow> time \<Rightarrow> nat \<Rightarrow> (string \<Rightarrow> stamps) \<Rightarrow> (string \<Rightarrow> string) \<Rightarrow>
     (string \<Rightarrow> app_error + verify_data) \<Rightarrow> (fin_db, nat \<times> funding_counts) op" where
  "reconcileStaleWalletFundingAttempts E Y now limit n token verifier =
     bnd (reads (\<lambda>db. map f_id (take (min limit (v_reconciliationBatch E)) (sort_key f_updatedAt
            (filter (staleFunding (now - v_staleMs E) now) (db_fundings db)))))) (\<lambda>attempts.
     bnd (recoverFundings (recoverFunding E Y now n token verifier) attempts
            \<lparr> fc_claimed = 0, fc_reconciled = 0, fc_unresolved = 0, fc_errors = 0 \<rparr>) (\<lambda>c.
     ret (length attempts, c)))"

section \<open>What the two credits do to the books\<close>

lemma run_audited [run_simps]:
  "audited Y now inp db = (r, db') \<longleftrightarrow>
     (\<exists>a. createAuditLog Y now inp (db_audit db) = (r, a) \<and> db' = db\<lparr>db_audit := a\<rparr>)"
  by (simp add: audited_def run_zoom)

lemma funding_ledger_simps [simp]:
  "t_wallet (funding_ledger n org w ty v a tr d st si c) = w_id w"
  "signed_amount (funding_ledger n org w ty v a tr d st si c) = v"
  "t_sourceType (funding_ledger n org w ty v a tr d st si c) = Some st"
  "t_sourceId (funding_ledger n org w ty v a tr d st si c) = Some si"
  "t_type (funding_ledger n org w ty v a tr d st si c) = ty"
  "t_direction (funding_ledger n org w ty v a tr d st si c) = ''CREDIT''"
  "t_reversalOf (funding_ledger n org w ty v a tr d st si c) = None"
  "t_amount (funding_ledger n org w ty v a tr d st si c) = v"
  by (simp_all add: funding_ledger_def signed_amount_def)

text \<open>A credit of a wallet with its ledger row, seen from the books.\<close>

definition credited :: "string \<Rightarrow> string \<Rightarrow> money \<Rightarrow> ledger \<Rightarrow> fin_db \<Rightarrow> fin_db \<Rightarrow> bool" where
  "credited org i v l db db' \<longleftrightarrow>
     db_wallets db' = db_wallets (post_wallet org i v 0 db) \<and> db_settlements db' = db_settlements db \<and>
     db_ledger db' = db_ledger db @ [l] \<and> signed_amount l = v \<and> t_wallet l = i \<and>
     t_direction l = ''CREDIT'' \<and> t_reversalOf l = None \<and> find (wallet_key org i) (db_wallets db) \<noteq> None"

lemma credited_books:
  assumes ok: "books_ok db" and c: "credited org i v l db db'" and v: "0 \<le> v"
  shows "books_ok db'"
proof -
  from c obtain w where w: "find (wallet_key org i) (db_wallets db) = Some w" by (auto simp: credited_def)
  have "books_ok ((post_wallet org i v 0 db)\<lparr>db_settlements := db_settlements db, db_ledger := db_ledger db @ [l]\<rparr>)"
    using c v wallet_in_bounds[OF books_okD(1)[OF ok] w] books_okD(2)[OF ok]
    by (intro books_posting[OF ok w]) (auto simp: credited_def dest: books_okD(3)[OF ok])
  then show ?thesis using c
    by (subst books_ok_cong[of _ "(post_wallet org i v 0 db)
      \<lparr>db_settlements := db_settlements db, db_ledger := db_ledger db @ [l]\<rparr>"]) (simp_all add: credited_def)
qed

lemma credit_step:
  assumes ok: "wallets_ok db" and w: "find (wallet_key org i) (db_wallets db) = Some w"
    and run: "credit_wallet (w_id w) v db = (Inr after, db1)"
    and l: "l = funding_ledger n org w ty v after tr d st si c"
    and db': "db_wallets db' = db_wallets db1" "db_settlements db' = db_settlements db"
      "db_ledger db' = db_ledger db @ [l]"
  shows "credited org i v l db db'"
proof -
  have wid: "w_id w = i" using find_SomeD[OF w] by (simp add: wallet_key_def)
  have "db1 = post_wallet org i v 0 db" by (rule credit_wallet_run(1)[OF ok w run[unfolded wid]])
  with db' w wid show ?thesis by (simp add: credited_def l)
qed

lemma fund_manual_effect:
  assumes ok: "wallets_ok db" and run: "fundWalletManually E Y n org i v ext d u db = (r, db')"
  obtains "db' = db"
  | l where "credited org i v l db db'" "t_type l = ''MANUAL_FUNDING''" "t_transferReference l = Some ext"
      "db_fundings db' = db_fundings db"
proof -
  from on_P2002_effect[OF run[unfolded fundWalletManually_def]] show thesis
  proof (elim disjE exE conjE, goal_cases)
    case 1
    from tx_effect[OF 1] show ?case
    proof (elim disjE exE conjE, goal_cases)
      case 1
      then show ?case by (rule that(1))
    next
      case (2 x)
      then obtain w where w: "find (wallet_key org i) (db_wallets db) = Some w" by (auto simp: run_simps)
      consider "db' = db" | after db1 a where "credit_wallet (w_id w) v db = (Inr after, db1)"
          "db' = db1\<lparr>db_ledger := db_ledger db1 @ [funding_ledger n org w ''MANUAL_FUNDING'' v after ext d
             ''MANUAL_FUNDING'' ext (Some (u_id u))], db_audit := a\<rparr>"
        using 2(2) w by (auto simp: run_simps find_transfer_def split: option.splits)
      then show ?case
      proof cases
        case 1
        then show ?thesis by (rule that(1))
      next
        case (2 after db1 a)
        have wid: "w_id w = i" using find_SomeD[OF w] by (simp add: wallet_key_def)
        have db1: "db1 = post_wallet org i v 0 db" by (rule credit_wallet_run(1)[OF ok w 2(1)[unfolded wid]])
        show ?thesis
          by (rule that(2)[OF credit_step[OF ok w 2(1) refl]]) (simp_all add: 2(2) db1 funding_ledger_def)
      qed
    qed
  next
    case (2 s1)
    have "keeps (\<lambda>d. d = db) (bnd (find_transfer org ext) (\<lambda>existing.
        case existing of
          Some t \<Rightarrow> if is_manual_funding i v t then ret (t, True)
                    else raise (conflict ''External funding reference is already in use'')
        | None \<Rightarrow> raise (conflict ''External funding reference is already in use'')))"
      unfolding find_transfer_def by (intro keeps_rules)
    moreover from 2(1) have "s1 = db" by (simp add: run_tx_err)
    ultimately have "db' = db" using 2(2) by (auto dest: keepsD)
    then show ?case by (rule that(1))
  qed
qed

definition processing :: "time \<Rightarrow> json \<Rightarrow> funding \<Rightarrow> funding" where
  "processing now raw x = x\<lparr>f_status := ''PROCESSING'', f_providerPayload := Some raw, f_updatedAt := now\<rparr>"

lemma fund_verified_effect:
  assumes ok: "wallets_ok db" and ids: "distinct (map f_id (db_fundings db))"
    and run: "finalizeVerifiedPaystackFunding E Y n i v db = (r, db')"
  obtains "db' = db"
  | f l where "f \<in> set (db_fundings db)" "f_id f = i" "f_status f \<in> set claimableFunding" "verifies v f"
      "credited (f_org f) (f_wallet f) (f_amount f) l db db'"
      "t_type l = ''WALLET_FUNDING''" "t_sourceType l = Some ''PAYSTACK_FUNDING''" "t_sourceId l = Some i"
      "\<And>x. x \<in> set (db_fundings db') \<Longrightarrow> (\<exists>y \<in> set (db_fundings db). f_id x = f_id y \<and> f_amount x = f_amount y \<and>
         f_wallet x = f_wallet y \<and> (f_id x = i \<or> x = y))" "map f_id (db_fundings db') = map f_id (db_fundings db)"
proof -
  from tx_effect[OF run[unfolded finalizeVerifiedPaystackFunding_def]] show thesis
  proof (elim disjE exE conjE, goal_cases)
    case 1
    then show ?case by (rule that(1))
  next
    case (2 x)
    then obtain f where f: "find (\<lambda>f. f_id f = i) (db_fundings db) = Some f" by (auto simp: run_simps find_funding_def)
    have fin: "f \<in> set (db_fundings db)" "f_id f = i" using find_SomeD[OF f] by auto
    let ?fs = "updateMany (\<lambda>x. f_id x = i \<and> f_status x \<in> set claimableFunding) (processing (n_now n) (vf_raw v)) (db_fundings db)"
    define h :: "funding \<Rightarrow> funding" where "h = (\<lambda>x. x\<lparr>f_status := ''COMPLETED'',
        f_verifiedAt := Some (case vf_paidAt v of Some p \<Rightarrow> p | None \<Rightarrow> n_now n),
        f_providerReference := Some (vf_reference v), f_failureReason := None, f_updatedAt := n_now n\<rparr>)"
    have h: "f_id (h x) = f_id x \<and> f_amount (h x) = f_amount x \<and> f_wallet (h x) = f_wallet x" for x by (simp add: h_def)
    have "db' = db \<or> (\<exists>w after db1 a. verifies v f \<and>
        countWhere (\<lambda>x. f_id x = i \<and> f_status x \<in> set claimableFunding) (db_fundings db) = 1 \<and>
        find (wallet_key (f_org f) (f_wallet f)) (db_wallets db) = Some w \<and>
        credit_wallet (w_id w) (f_amount f) (db\<lparr>db_fundings := ?fs\<rparr>) = (Inr after, db1) \<and>
        db' = db1\<lparr>db_ledger := db_ledger db1 @ [funding_ledger n (f_org f) w ''WALLET_FUNDING'' (f_amount f) after (f_reference f)
             ''Paystack wallet funding'' ''PAYSTACK_FUNDING'' i (f_createdBy f)],
           db_fundings := updateMany (\<lambda>x. f_id x = i) h (db_fundings db1), db_audit := a\<rparr>)"
    proof (cases "f_status f = ''COMPLETED''")
      case True
      with 2(2) f show ?thesis by (auto simp: run_simps find_funding_def)
    next
      case False
      with 2(2) f fin(2) obtain count w after t db1 n1 comp a where
        "verifies v f" "count = countWhere (\<lambda>x. f_id x = i \<and> f_status x \<in> set claimableFunding) (db_fundings db)"
        "count = 1" "find (wallet_key (f_org f) (f_wallet f)) (db_wallets db) = Some w"
        "credit_wallet (w_id w) (f_amount f) (db\<lparr>db_fundings := ?fs\<rparr>) = (Inr after, db1)"
        "t = funding_ledger n (f_org f) w ''WALLET_FUNDING'' (f_amount f) after (f_reference f)
             ''Paystack wallet funding'' ''PAYSTACK_FUNDING'' i (f_createdBy f)"
        "db' = db1\<lparr>db_ledger := db_ledger db1 @ [t],
           db_fundings := updateMany (\<lambda>x. f_id x = i) h (db_fundings db1), db_audit := a\<rparr>"
        by (auto simp: run_simps find_funding_def update_funding_def processing_def[abs_def] h_def)
      then show ?thesis by blast
    qed
    then consider "db' = db" | w after db1 a where "verifies v f"
        "countWhere (\<lambda>x. f_id x = i \<and> f_status x \<in> set claimableFunding) (db_fundings db) = 1"
        "find (wallet_key (f_org f) (f_wallet f)) (db_wallets db) = Some w"
        "credit_wallet (w_id w) (f_amount f) (db\<lparr>db_fundings := ?fs\<rparr>) = (Inr after, db1)"
        "db' = db1\<lparr>db_ledger := db_ledger db1 @ [funding_ledger n (f_org f) w ''WALLET_FUNDING'' (f_amount f) after (f_reference f)
             ''Paystack wallet funding'' ''PAYSTACK_FUNDING'' i (f_createdBy f)],
           db_fundings := updateMany (\<lambda>x. f_id x = i) h (db_fundings db1), db_audit := a\<rparr>"
      by blast
    then show ?case
    proof cases
      case 1
      then show ?thesis by (rule that(1))
    next
      case (2 w after db1 a)
      have wid: "w_id w = f_wallet f" using find_SomeD[OF 2(3)] by (simp add: wallet_key_def)
      let ?db0 = "db\<lparr>db_fundings := ?fs\<rparr>"
      have ok0: "wallets_ok ?db0" using ok by (simp add: wallets_ok_def)
      have db1: "db1 = post_wallet (f_org f) (f_wallet f) (f_amount f) 0 ?db0"
        by (rule credit_wallet_run(1)[OF ok0 _ 2(4)[unfolded wid]]) (use 2(3) in simp)
      have status: "f_status f \<in> set claimableFunding"
      proof -
        obtain y where y: "filter (\<lambda>x. f_id x = i \<and> f_status x \<in> set claimableFunding) (db_fundings db) = [y]"
          using countWhere_one[OF 2(2)] by blast
        then have "y \<in> set (filter (\<lambda>x. f_id x = i \<and> f_status x \<in> set claimableFunding) (db_fundings db))" by simp
        then have "y \<in> set (db_fundings db)" "f_id y = i" "f_status y \<in> set claimableFunding" by auto
        moreover from this ids fin have "y = f" by (auto simp: distinct_map inj_on_def)
        ultimately show ?thesis by simp
      qed
      let ?l = "funding_ledger n (f_org f) w ''WALLET_FUNDING'' (f_amount f) after (f_reference f)
             ''Paystack wallet funding'' ''PAYSTACK_FUNDING'' i (f_createdBy f)"
      have cred: "credited (f_org f) (f_wallet f) (f_amount f) ?l db db'"
        using 2(3) wid by (auto simp: credited_def 2(5) db1 post_wallet_def)
      have rows: "db_fundings db' = updateMany (\<lambda>x. f_id x = i) h ?fs" by (simp add: 2(5) db1)
      let ?p = "processing (n_now n) (vf_raw v)"
      have p: "f_id (?p x) = f_id x \<and> f_amount (?p x) = f_amount x \<and> f_wallet (?p x) = f_wallet x" for x by (simp add: processing_def)
      have same: "\<exists>y \<in> set (db_fundings db). f_id x = f_id y \<and> f_amount x = f_amount y \<and> f_wallet x = f_wallet y \<and> (f_id x = i \<or> x = y)"
        if x: "x \<in> set (db_fundings db')" for x
      proof -
        from x obtain z where z: "z \<in> set ?fs" "x = (if f_id z = i then h z else z)"
          unfolding rows by (rule updateManyE)
        from z(1) obtain y where y: "y \<in> set (db_fundings db)"
            "z = (if f_id y = i \<and> f_status y \<in> set claimableFunding then ?p y else y)"
          by (rule updateManyE)
        have "f_id x = f_id y \<and> f_amount x = f_amount y \<and> f_wallet x = f_wallet y \<and> (f_id x = i \<or> x = y)"
          using z(2) y(2) h p by auto
        with y(1) show ?thesis by blast
      qed
      have keys: "map f_id (db_fundings db') = map f_id (db_fundings db)"
        unfolding rows using h p by (simp add: map_updateMany_same)
      show ?thesis by (rule that(2)[OF fin status 2(1) cred _ _ _ same keys]) simp_all
    qed
  qed
qed

end
