(* ===== verification/ProviderSettlement.thy ===== *)
theory ProviderSettlement
  imports Settlement Provider
begin

text \<open>
  src/core/provider-settlement.ts: reserving and starting a bank transfer, applying what the
  provider reports (success, failure, reversal, nothing conclusive), reconciling with a lease,
  and one-time passwords.

  Two places return a promise from inside \<open>try\<close> without awaiting it; an error of that promise
  does not reach \<open>catch\<close>, and \<open>finally\<close> does not wait for it. The model runs such a call after
  the \<open>try\<close>, and, where \<open>finally\<close> writes, takes as an argument which of the two writes first.
\<close>

section \<open>Helpers\<close>

definition recoverableStatuses :: "settlement_status list" where
  "recoverableStatuses = [PROVIDER_PROCESSING, UNKNOWN]"

record beneficiary =
  b_bankCode :: string
  b_accountNumber :: string
  b_accountName :: "string option"
  b_bankName :: "string option"

definition beneficiary_of :: "json option \<Rightarrow> app_error + beneficiary" where
  "beneficiary_of value =
     (case value of
        Some (JObj row) \<Rightarrow>
          (case (jstring (map_of row ''bankCode''), jstring (map_of row ''accountNumber'')) of
             (Some bank, Some account) \<Rightarrow> Inr
               \<lparr> b_bankCode = bank, b_accountNumber = account,
                 b_accountName = jstring (map_of row ''accountName''),
                 b_bankName = jstring (map_of row ''bankName'') \<rparr>
           | _ \<Rightarrow> Inl (conflict ''Settlement beneficiary bank code or account number is missing''))
      | _ \<Rightarrow> Inl (conflict ''Settlement beneficiary snapshot is missing''))"

text \<open>Names are compared by their letters and digits; \<open>normalize("NFKD")\<close> is the identity on ASCII.\<close>

definition normalizeName :: "string \<Rightarrow> string" where
  "normalizeName value = toLower (filter is_alnum_char value)"

definition fingerprint :: "fin_env \<Rightarrow> string \<Rightarrow> string \<Rightarrow> string \<Rightarrow> string" where
  "fingerprint E org bankCode accountNumber =
     v_hmac256 E (org @ '':'' @ bankCode @ '':'' @ accountNumber)"

definition assertTenantProviderMode :: "fin_env \<Rightarrow> string \<Rightarrow> (fin_db, unit) op" where
  "assertTenantProviderMode E org =
     bnd (reads (\<lambda>db. find (\<lambda>t. o_id t = org) (db_tenants db))) (\<lambda>found.
     bnd (required found (notFound ''Organization not found'')) (\<lambda>tenant.
     guard (\<not> (o_test tenant \<and> v_transfersMode E \<noteq> Some ''test''))
       (conflictWith ''TEST_E2E tenants can only use Paystack Test-mode transfers''
          (error_code ''TEST_TENANT_LIVE_PROVIDER_BLOCKED''))))"

definition settlement_by_id :: "string \<Rightarrow> (fin_db, settlement) op" where
  "settlement_by_id i =
     bnd (find_settlement (\<lambda>s. s_id s = i)) (\<lambda>found. required found P2025)"

section \<open>Reserving the money and claiming the initiation\<close>

definition claim_prepared :: "time \<Rightarrow> settlement \<Rightarrow> settlement \<Rightarrow> settlement" where
  "claim_prepared now s x = x\<lparr>s_status := RESERVED, s_reservedAt := Some now,
     s_transferReference := Some (s_internalReference s)\<rparr>"

definition claim_initiation :: "time \<Rightarrow> settlement \<Rightarrow> settlement \<Rightarrow> settlement" where
  "claim_initiation now s x = x\<lparr>s_status := PROVIDER_PROCESSING, s_initiationClaimedAt := Some now,
     s_processingAt := Some now, s_transferReference := Some (s_internalReference s)\<rparr>"

text \<open>The second half of the transaction: a reserved settlement is claimed once.\<close>

definition claimInitiation :: "time \<Rightarrow> string \<Rightarrow> settlement \<Rightarrow> (fin_db, settlement \<times> bool) op" where
  "claimInitiation now org s =
     (if s_status s \<noteq> RESERVED \<or> s_initiationClaimedAt s \<noteq> None then ret (s, False)
      else
        bnd (updateMany_settlements (\<lambda>x. s_id x = s_id s \<and> s_org x = org \<and> s_status x = RESERVED \<and>
               s_initiationClaimedAt x = None) (claim_initiation now s)) (\<lambda>count.
        bnd (settlement_by_id (s_id s)) (\<lambda>row.
        ret (row, count = 1))))"

definition reserveAndClaimProviderSettlement ::
    "fin_env \<Rightarrow> time \<Rightarrow> string \<Rightarrow> string \<Rightarrow> (fin_db, settlement \<times> bool) op" where
  "reserveAndClaimProviderSettlement E now org i =
     tx (bnd (find_own org i) (\<lambda>s.
         bnd (assertIncidentWalletMutationAllowed E org (s_wallet s)) (\<lambda>_.
         if s_status s \<in> {SUCCEEDED, REVERSED, FAILED} then ret (s, False)
         else if s_status s = PREPARED then
           bnd (updateMany_settlements (\<lambda>x. s_id x = s_id s \<and> s_org x = org \<and> s_status x = PREPARED)
                  (claim_prepared now s)) (\<lambda>count.
           if count \<noteq> 1 then ret (s, False)
           else
             bnd (reserveWalletBalance org (s_wallet s) (s_amount s) (s_currency s)) (\<lambda>_.
             bnd (settlement_by_id (s_id s)) (\<lambda>reserved.
             claimInitiation now org reserved)))
         else claimInitiation now org s)))"

section \<open>The transfer recipient\<close>

definition recipient_identity :: "string \<Rightarrow> beneficiary \<Rightarrow> string \<Rightarrow> string \<Rightarrow> settlement \<Rightarrow> recipient \<Rightarrow> bool" where
  "recipient_identity fp b btype bid s r \<longleftrightarrow>
     rc_org r = s_org s \<and> rc_provider r = ''PAYSTACK'' \<and> rc_beneficiaryType r = btype \<and>
     rc_beneficiaryId r = bid \<and> rc_currency r = s_currency s \<and> rc_bankCode r = b_bankCode b \<and>
     rc_fingerprint r = fp \<and> rc_active r"

definition ensureRecipient :: "fin_env \<Rightarrow> stamps \<Rightarrow> provider \<Rightarrow> settlement \<Rightarrow> (fin_db, recipient) op" where
  "ensureRecipient E n P s =
     bnd (from_sum (beneficiary_of (s_beneficiary s))) (\<lambda>destination.
     let fp = fingerprint E (s_org s) (b_bankCode destination) (b_accountNumber destination) in
     bnd (reads (\<lambda>db. if s_sourceType s = ''PAYROLL_PAYSLIP''
             then find (\<lambda>p. p_id p = s_sourceId s \<and> p_org p = s_org s) (db_payslips db) else None)) (\<lambda>slip.
     let btype = (case slip of None \<Rightarrow> s_sourceType s | Some _ \<Rightarrow> ''EMPLOYEE'');
         bid = (case slip of None \<Rightarrow> s_sourceId s | Some p \<Rightarrow> p_employee p);
         identity = recipient_identity fp destination btype bid s in
     bnd (reads (\<lambda>db. find identity (db_recipients db))) (\<lambda>existing.
     case existing of
       Some r \<Rightarrow> ret r
     | None \<Rightarrow>
         bnd (from_sum (pv_resolveAccount P (b_accountNumber destination) (b_bankCode destination))) (\<lambda>resolved.
         bnd (guard (snd resolved = b_accountNumber destination)
                (conflict ''Resolved bank account does not match settlement beneficiary'')) (\<lambda>_.
         bnd (guard (falsy (b_accountName destination) \<or>
                     normalizeName (the (b_accountName destination)) = normalizeName (fst resolved))
                (conflict ''Resolved account name does not match settlement beneficiary'')) (\<lambda>_.
         bnd (from_sum (pv_createRecipient P (b_accountNumber destination) (b_bankCode destination)
                (fst resolved) (s_currency s))) (\<lambda>created.
         on_P2002
           (create_recipient
              \<lparr> rc_id = n_id n, rc_org = s_org s, rc_provider = ''PAYSTACK'', rc_beneficiaryType = btype,
                rc_beneficiaryId = bid, rc_currency = s_currency s, rc_bankCode = b_bankCode destination,
                rc_fingerprint = fp,
                rc_last4 = drop (length (b_accountNumber destination) - 4) (b_accountNumber destination),
                rc_accountName = fst resolved, rc_code = fst created, rc_providerId = snd created,
                rc_active = True \<rparr>)
           (bnd (reads (\<lambda>db. find identity (db_recipients db))) (\<lambda>again. required again P2025)))))))))"

section \<open>Applying a provider result\<close>

definition assertResult :: "settlement \<Rightarrow> transfer_result \<Rightarrow> app_error + unit" where
  "assertResult s r =
     (if Some (r_reference r) \<noteq> s_transferReference s \<or>
         r_amountMinor r \<noteq> paystackMinorUnits (s_amount s) \<or> r_currency r \<noteq> s_currency s
      then Inl (conflict ''Provider transfer does not match settlement'')
      else if \<not> falsy (r_recipientReference r) \<and> \<not> falsy (s_recipientReference s) \<and>
              r_recipientReference r \<noteq> s_recipientReference s
      then Inl (conflict ''Provider transfer recipient does not match settlement'')
      else Inr ())"

definition update_run :: "string \<Rightarrow> (payroll_run \<Rightarrow> payroll_run) \<Rightarrow> (fin_db, unit) op" where
  "update_run i f =
     bnd (reads (\<lambda>db. find (\<lambda>r. pr_id r = i) (db_runs db))) (\<lambda>found.
     bnd (required found P2025) (\<lambda>_.
     bnd (updateMany_runs (\<lambda>r. pr_id r = i) f) (\<lambda>_. ret ())))"

definition disbursing :: "payroll_run \<Rightarrow> payroll_run" where
  "disbursing r = r\<lparr>pr_status := ''DISBURSING'', pr_disbursedAt := None\<rparr>"

definition updatePayrollAggregate :: "time \<Rightarrow> string \<Rightarrow> bool \<Rightarrow> (fin_db, unit) op" where
  "updatePayrollAggregate now payslipId successful =
     bnd (reads (\<lambda>db. find (\<lambda>p. p_id p = payslipId) (db_payslips db))) (\<lambda>found.
     case found of
       None \<Rightarrow> ret ()
     | Some slip \<Rightarrow>
         if \<not> successful then
           bnd (updateMany_runs (\<lambda>r. pr_id r = p_run slip \<and> pr_org r = p_org slip \<and>
                  pr_status r \<noteq> ''CANCELLED'') disbursing) (\<lambda>_. ret ())
         else
           bnd (reads (\<lambda>db. countWhere (\<lambda>p. p_run p = p_run slip \<and> p_org p = p_org slip \<and>
                  p_paymentStatus p \<noteq> ''PAID'') (db_payslips db))) (\<lambda>remaining.
           update_run (p_run slip)
             (if remaining \<noteq> 0 then disbursing
              else (\<lambda>r. r\<lparr>pr_status := ''DISBURSED'', pr_disbursedAt := Some now\<rparr>))))"

definition provider_ledger :: "stamps \<Rightarrow> settlement \<Rightarrow> money \<Rightarrow> money \<Rightarrow> ledger" where
  "provider_ledger n s before after =
    \<lparr> t_id = n_ledgerId n, t_org = s_org s, t_wallet = s_wallet s,
      t_type = ''PROVIDER_'' @ s_sourceType s, t_direction = ''DEBIT'', t_amount = s_amount s,
      t_before = before, t_after = after, t_reference = s_internalReference s,
      t_transferReference = s_transferReference s,
      t_description = ''Paystack settlement '' @ s_internalReference s,
      t_sourceType = Some (s_sourceType s), t_sourceId = Some (s_sourceId s), t_reversalOf = None,
      t_createdBy = s_createdBy s, t_createdAt = n_now n \<rparr>"

text \<open>The obligation behind the settlement is marked paid in the same transaction, and must have
  been payable.\<close>

definition settleObligation :: "time \<Rightarrow> settlement \<Rightarrow> (fin_db, unit) op" where
  "settleObligation now s =
     bnd (if s_sourceType s = ''ACCOUNTING_PAYMENT_REQUEST'' then
            bnd (updateMany_requests (\<lambda>q. q_id q = s_sourceId s \<and> q_org q = s_org s \<and> q_status q = ''APPROVED'')
                   (\<lambda>q. q\<lparr>q_status := ''PAID'', q_disbursementReference := Some (s_internalReference s),
                          q_disbursedAt := Some now\<rparr>)) (\<lambda>count.
            guard (count = 1) (conflict ''Accounting obligation is not eligible for settlement finalization''))
          else ret ()) (\<lambda>_.
     if s_sourceType s = ''PAYROLL_PAYSLIP'' then
       bnd (updateMany_payslips (\<lambda>p. p_id p = s_sourceId s \<and> p_org p = s_org s \<and> p_paymentStatus p \<noteq> ''PAID'')
              (\<lambda>p. p\<lparr>p_paymentStatus := ''PAID''\<rparr>)) (\<lambda>count.
       bnd (guard (count = 1) (conflict ''Payroll obligation is not eligible for settlement finalization'')) (\<lambda>_.
       updatePayrollAggregate now (s_sourceId s) True))
     else ret ())"

definition mark_succeeded :: "time \<Rightarrow> transfer_result \<Rightarrow> settlement \<Rightarrow> settlement" where
  "mark_succeeded now r x = x\<lparr>s_status := SUCCEEDED, s_providerStatus := Some (r_providerStatus r),
     s_transferCode := (case r_transferCode r of None \<Rightarrow> s_transferCode x | Some c \<Rightarrow> Some c),
     s_lastVerifiedAt := Some now, s_releasedAt := Some now, s_settledAt := Some now,
     s_failureReason := None\<rparr>"

definition finalizeProviderSettlementSuccess ::
    "fin_env \<Rightarrow> stamps \<Rightarrow> string \<Rightarrow> transfer_result \<Rightarrow> (fin_db, settlement) op" where
  "finalizeProviderSettlementSuccess E n i result =
     tx (bnd (find_settlement (\<lambda>s. s_id s = i)) (\<lambda>found.
         bnd (required found (notFound ''Settlement not found'')) (\<lambda>s.
         bnd (assertIncidentWalletMutationAllowed E (s_org s) (s_wallet s)) (\<lambda>_.
         if s_status s = SUCCEEDED then ret s
         else
           bnd (guard (s_status s \<in> set activeStatuses \<and> held s)
                  (conflict ''Settlement is not eligible for provider success'')) (\<lambda>_.
           bnd (from_sum (assertResult s result)) (\<lambda>_.
           bnd (financialWallet (s_org s) (s_wallet s) (s_currency s)) (\<lambda>_.
           bnd (consumeWalletReservation (s_org s) (s_wallet s) (s_amount s) (s_currency s)) (\<lambda>debit.
           bnd (create_ledger (provider_ledger n s (fst (snd debit)) (snd (snd debit)))) (\<lambda>_.
           bnd (settleObligation (n_now n) s) (\<lambda>_.
           update_settlement (s_id s) (mark_succeeded (n_now n) result)))))))))))"

definition mark_verified :: "time \<Rightarrow> transfer_result \<Rightarrow> settlement \<Rightarrow> settlement" where
  "mark_verified now r x = x\<lparr>s_providerStatus := Some (r_providerStatus r),
     s_transferCode := (case r_transferCode r of None \<Rightarrow> s_transferCode x | Some c \<Rightarrow> Some c),
     s_lastVerifiedAt := Some now\<rparr>"

text \<open>The business side of a reversal: the obligation is open again.\<close>

definition reopenObligation :: "time \<Rightarrow> settlement \<Rightarrow> transfer_result \<Rightarrow> string \<Rightarrow> (fin_db, settlement) op" where
  "reopenObligation now s result reversedId =
     tx (bnd (if s_sourceType s = ''ACCOUNTING_PAYMENT_REQUEST'' then
                bnd (updateMany_requests (\<lambda>q. q_id q = s_sourceId s \<and> q_org q = s_org s \<and> q_status q = ''PAID'')
                       (\<lambda>q. q\<lparr>q_status := ''APPROVED'', q_disbursementReference := None, q_disbursedAt := None\<rparr>))
                  (\<lambda>_. ret ())
              else ret ()) (\<lambda>_.
         bnd (if s_sourceType s = ''PAYROLL_PAYSLIP'' then
                bnd (updateMany_payslips (\<lambda>p. p_id p = s_sourceId s \<and> p_org p = s_org s \<and> p_paymentStatus p = ''PAID'')
                       (\<lambda>p. p\<lparr>p_paymentStatus := ''REVERSED''\<rparr>)) (\<lambda>_.
                updatePayrollAggregate now (s_sourceId s) False)
              else ret ()) (\<lambda>_.
         update_settlement reversedId (\<lambda>x. x\<lparr>s_providerStatus := Some (r_providerStatus result),
           s_lastVerifiedAt := Some now\<rparr>))))"

definition reverseProviderSettlement ::
    "fin_env \<Rightarrow> stamps \<Rightarrow> settlement \<Rightarrow> transfer_result \<Rightarrow> (fin_db, settlement) op" where
  "reverseProviderSettlement E n s result =
     bnd (from_sum (assertResult s result)) (\<lambda>_.
     bnd (reverseSucceededSettlement E n (s_org s) (s_id s) (''paystack-reversal-'' @ r_reference result)) (\<lambda>reversed.
     bnd (reopenObligation (n_now n) s result (s_id reversed)) (\<lambda>_.
     settlement_by_id (s_id reversed))))"

text \<open>The terminal states a result may meet again without effect.\<close>

definition repeats_terminal :: "settlement \<Rightarrow> transfer_result \<Rightarrow> bool" where
  "repeats_terminal s r \<longleftrightarrow>
     s_status s = SUCCEEDED \<and> r_state r = SUCCESS \<or>
     s_status s = FAILED \<and> r_state r = FAILURE \<or>
     s_status s = REVERSED \<and> r_state r = REVERSAL \<or>
     r_state r = NON_CONCLUSIVE"

definition applyProviderTransferResult ::
    "fin_env \<Rightarrow> stamps \<Rightarrow> settlement \<Rightarrow> transfer_result \<Rightarrow> (fin_db, settlement) op" where
  "applyProviderTransferResult E n s result =
     bnd (from_sum (assertResult s result)) (\<lambda>_.
     let terminal = s_status s \<in> {SUCCEEDED, FAILED, REVERSED} in
     if terminal \<and> repeats_terminal s result then ret s
     else
       bnd (guard (\<not> terminal \<or> s_status s = SUCCEEDED \<and> r_state result = REVERSAL)
              (conflict ''Provider result is incompatible with the terminal settlement state'')) (\<lambda>_.
       case r_state result of
         SUCCESS \<Rightarrow> finalizeProviderSettlementSuccess E n (s_id s) result
       | FAILURE \<Rightarrow>
           bnd (releaseSettlementReservation E (n_now n) (s_org s) (s_id s)
                  (''Paystack transfer '' @ r_providerStatus result)) (\<lambda>_.
           update_settlement (s_id s) (mark_verified (n_now n) result))
       | REVERSAL \<Rightarrow> reverseProviderSettlement E n s result
       | NON_CONCLUSIVE \<Rightarrow>
           update_settlement (s_id s)
             (\<lambda>x. (mark_verified (n_now n) result x)\<lparr>s_status := PROVIDER_PROCESSING\<rparr>)))"

section \<open>Starting a transfer\<close>

definition is_ambiguous :: "app_error \<Rightarrow> bool" where
  "is_ambiguous e = (case e of ProviderError _ _ a \<Rightarrow> a | _ \<Rightarrow> False)"

definition provider_status_code :: "app_error \<Rightarrow> nat option" where
  "provider_status_code e = (case e of ProviderError _ c _ \<Rightarrow> c | _ \<Rightarrow> None)"

definition is_provider_error :: "app_error \<Rightarrow> bool" where
  "is_provider_error e = (case e of ProviderError _ _ _ \<Rightarrow> True | _ \<Rightarrow> False)"

definition transfer_reason :: "settlement \<Rightarrow> string" where
  "transfer_reason s =
     ''Sinkronis '' @ map (\<lambda>c. if c = CHR ''_'' then CHR '' '' else c) (toLower (s_sourceType s))"

definition call_initiate :: "provider \<Rightarrow> string \<Rightarrow> settlement \<Rightarrow> app_error + transfer_result" where
  "call_initiate P recipientReference s =
     pv_initiateTransfer P recipientReference (paystackMinorUnits (s_amount s)) (s_currency s)
       (case s_transferReference s of None \<Rightarrow> [] | Some r \<Rightarrow> r) (transfer_reason s)"

text \<open>The awaited part of the \<open>try\<close> block: recipient, marker, provider call.\<close>

definition initiationCall ::
    "fin_env \<Rightarrow> stamps \<Rightarrow> provider \<Rightarrow> settlement \<Rightarrow> (fin_db, settlement \<times> transfer_result) op" where
  "initiationCall E n P claimed =
     bnd (ensureRecipient E n P claimed) (\<lambda>rec.
     bnd (update_settlement (s_id claimed)
            (\<lambda>x. x\<lparr>s_recipientId := Some (rc_id rec), s_recipientReference := Some (rc_code rec)\<rparr>)) (\<lambda>s.
     bnd (update_settlement (s_id s) (\<lambda>x. x\<lparr>s_attemptedAt := Some (n_now n)\<rparr>)) (\<lambda>_.
     bnd (from_sum (call_initiate P (rc_code rec) s)) (\<lambda>result.
     ret (s, result)))))"

definition initiateProviderSettlement ::
    "fin_env \<Rightarrow> stamps \<Rightarrow> provider \<Rightarrow> string \<Rightarrow> string \<Rightarrow> (fin_db, settlement) op" where
  "initiateProviderSettlement E n P org i =
     bnd (from_sum (assertProviderTransfersEnabled E)) (\<lambda>_.
     bnd (assertTenantProviderMode E org) (\<lambda>_.
     bnd (reserveAndClaimProviderSettlement E (n_now n) org i) (\<lambda>(claimed, shouldInitiate).
     if \<not> shouldInitiate then ret claimed
     else
       bnd (catching
              (bnd (initiationCall E n P claimed) (\<lambda>(s, result).
               ret (applyProviderTransferResult E n s result)))
              (\<lambda>e. if is_ambiguous e then
                     bnd (update_settlement (s_id claimed)
                            (\<lambda>x. x\<lparr>s_status := UNKNOWN, s_failureReason := Some (error_message e)\<rparr>)) (\<lambda>row.
                     ret (ret row))
                   else
                     bnd (releaseSettlementReservation E (n_now n) org (s_id claimed) (error_message e)) (\<lambda>_.
                     raise e))) (\<lambda>returned.
       returned))))"

section \<open>Reconciliation under a lease\<close>

definition leaseFree :: "time \<Rightarrow> settlement \<Rightarrow> bool" where
  "leaseFree now s = (case s_leaseExpiresAt s of None \<Rightarrow> True | Some t \<Rightarrow> t \<le> now)"

definition claimProviderSettlementReconciliation ::
    "fin_env \<Rightarrow> string \<Rightarrow> time \<Rightarrow> string \<Rightarrow> (fin_db, (string \<times> time) option) op" where
  "claimProviderSettlementReconciliation E i now claimToken =
     bnd (updateMany_settlements
            (\<lambda>s. s_id s = i \<and> s_provider s = Some ''PAYSTACK'' \<and> s_method s = PROVIDER \<and>
                 s_status s \<in> set recoverableStatuses \<and> leaseFree now s)
            (\<lambda>s. s\<lparr>s_claimToken := Some claimToken, s_claimedAt := Some now,
                   s_leaseExpiresAt := Some (now + v_leaseMs E), s_attempts := s_attempts s + 1,
                   s_lastError := None\<rparr>)) (\<lambda>count.
     ret (if count = 1 then Some (claimToken, now + v_leaseMs E) else None))"

definition releaseProviderSettlementReconciliation ::
    "string \<Rightarrow> string \<Rightarrow> app_error option \<Rightarrow> (fin_db, unit) op" where
  "releaseProviderSettlementReconciliation i claimToken error =
     bnd (updateMany_settlements
            (\<lambda>s. s_id s = i \<and> s_claimToken s = Some claimToken)
            (\<lambda>s. s\<lparr>s_claimToken := None, s_claimedAt := None, s_leaseExpiresAt := None,
                   s_lastError := map_option (\<lambda>e. take 2000 (error_message e)) error\<rparr>)) (\<lambda>_.
     ret ())"

text \<open>\<open>.catch(() => undefined)\<close>\<close>

definition ignoring :: "('s, unit) op \<Rightarrow> ('s, unit) op" where
  "ignoring m = catching m (\<lambda>_. ret ())"

text \<open>A promise returned without \<open>await\<close> while \<open>finally\<close> writes: the result is the promise's, the
  two writes come in either order.\<close>

definition overlapping :: "bool \<Rightarrow> ('s, 'a) op \<Rightarrow> ('s, unit) op \<Rightarrow> ('s, 'a) op" where
  "overlapping finallyFirst m f =
     (if finallyFirst then bnd f (\<lambda>_. m)
      else bnd (attempt m) (\<lambda>r. bnd f (\<lambda>_. from_sum r)))"

definition mayInitiateAgain :: "settlement \<Rightarrow> app_error \<Rightarrow> bool" where
  "mayInitiateAgain s e \<longleftrightarrow> provider_status_code e = Some 404 \<and> s_attemptedAt s = None \<and>
     \<not> falsy (s_recipientReference s)"

text \<open>The \<open>catch\<close> block of the verification: a transfer the provider does not know and that was
  never attempted is started; an ambiguous answer is recorded; anything else is rethrown.\<close>

definition verificationFailed ::
    "fin_env \<Rightarrow> stamps \<Rightarrow> provider \<Rightarrow> app_error + unit \<Rightarrow> settlement \<Rightarrow> string \<Rightarrow> app_error \<Rightarrow>
     (fin_db, settlement) op" where
  "verificationFailed E n P enabled s claimToken e =
     (if mayInitiateAgain s e then
        bnd (from_sum enabled) (\<lambda>_.
        bnd (updateMany_settlements
               (\<lambda>x. s_id x = s_id s \<and> s_claimToken x = Some claimToken \<and> s_attemptedAt x = None)
               (\<lambda>x. x\<lparr>s_attemptedAt := Some (n_now n)\<rparr>)) (\<lambda>count.
        bnd (guard (count = 1) (conflict ''Provider initiation decision was already claimed'')) (\<lambda>_.
        bnd (from_sum (call_initiate P (the (s_recipientReference s)) s)) (\<lambda>result.
        applyProviderTransferResult E n s result))))
      else if is_provider_error e \<and> (is_ambiguous e \<or> provider_status_code e = Some 404) then
        update_settlement (s_id s)
          (\<lambda>x. x\<lparr>s_status := UNKNOWN, s_failureReason := Some (error_message e),
                 s_lastVerifiedAt := Some (n_now n)\<rparr>)
      else raise e)"

text \<open>The error \<open>finally\<close> records: only the one rethrown at the end of the \<open>catch\<close> block.\<close>

definition recordedError :: "settlement \<Rightarrow> app_error \<Rightarrow> app_error option" where
  "recordedError s e =
     (if mayInitiateAgain s e \<or> is_provider_error e \<and> (is_ambiguous e \<or> provider_status_code e = Some 404)
      then None else Some e)"

definition verifyAndReconcileProviderSettlement ::
    "fin_env \<Rightarrow> stamps \<Rightarrow> time \<Rightarrow> bool \<Rightarrow> provider \<Rightarrow> app_error + unit \<Rightarrow> string \<Rightarrow> string option \<Rightarrow>
     (fin_db, settlement) op" where
  "verifyAndReconcileProviderSettlement E n later finallyFirst P enabled i suppliedClaimToken =
     bnd (if falsy suppliedClaimToken
          then claimProviderSettlementReconciliation E i (n_now n) (n_uuid n) else ret None) (\<lambda>ownedClaim.
     let claimToken = (case suppliedClaimToken of Some t \<Rightarrow> Some t | None \<Rightarrow> map_option fst ownedClaim) in
     bnd (guard (\<not> falsy claimToken) (conflict ''Provider settlement is already being reconciled'')) (\<lambda>_.
     bnd (find_settlement (\<lambda>s. s_id s = i \<and> s_claimToken s = claimToken \<and>
            (case s_leaseExpiresAt s of None \<Rightarrow> False | Some t \<Rightarrow> later < t))) (\<lambda>found.
     bnd (required found (notFound ''Provider settlement not found'')) (\<lambda>s.
     bnd (guard (s_provider s = Some ''PAYSTACK'' \<and> \<not> falsy (s_transferReference s))
            (notFound ''Provider settlement not found'')) (\<lambda>_.
     bnd (assertTenantProviderMode E (s_org s)) (\<lambda>_.
     let release = (\<lambda>e. ignoring (releaseProviderSettlementReconciliation (s_id s) (the claimToken) e)) in
     case pv_verifyTransfer P (the (s_transferReference s)) of
       Inr result \<Rightarrow> overlapping finallyFirst (applyProviderTransferResult E n s result) (release None)
     | Inl e \<Rightarrow>
         bnd (attempt (verificationFailed E n P enabled s (the claimToken) e)) (\<lambda>r.
         bnd (release (recordedError s e)) (\<lambda>_. from_sum r))))))))"

section \<open>One-time passwords\<close>

definition awaitsOtp :: "string \<Rightarrow> string \<Rightarrow> settlement \<Rightarrow> bool" where
  "awaitsOtp org i s \<longleftrightarrow> s_id s = i \<and> s_org s = org \<and> s_status s = PROVIDER_PROCESSING \<and>
     s_providerStatus s = Some ''otp'' \<and> s_releasedAt s = None"

definition otpRejected :: "string \<Rightarrow> settlement \<Rightarrow> settlement" where
  "otpRejected reason x = x\<lparr>s_providerStatus := Some ''otp'', s_failureReason := Some reason\<rparr>"

text \<open>The \<open>try\<close> and \<open>catch\<close> blocks; the update they return unawaited is a value.\<close>

definition otpCall ::
    "stamps \<Rightarrow> provider \<Rightarrow> string \<Rightarrow> string \<Rightarrow> settlement \<Rightarrow> (fin_db, (fin_db, settlement) op) op" where
  "otpCall n P org otp s =
     catching
            (bnd (from_sum (pv_finalizeTransferOtp P (the (s_transferCode s)) otp)) (\<lambda>result.
             bnd (from_sum (assertResult s result)) (\<lambda>_.
             case r_state result of
               FAILURE \<Rightarrow>
                 bnd (update_settlement (s_id s) (otpRejected ''OTP finalization was rejected'')) (\<lambda>_.
                 raise (conflict ''OTP finalization was rejected''))
             | NON_CONCLUSIVE \<Rightarrow>
                 ret (update_settlement (s_id s)
                   (\<lambda>x. x\<lparr>s_status := PROVIDER_PROCESSING, s_providerStatus := Some (r_providerStatus result),
                          s_transferCode := s_transferCode s, s_lastVerifiedAt := Some (n_now n),
                          s_failureReason := None\<rparr>))
             | _ \<Rightarrow>
                 bnd (update_settlement (s_id s)
                        (otpRejected ''OTP finalization returned an unexpected terminal state'')) (\<lambda>_.
                 raise (conflict ''OTP finalization requires provider verification'')))))
            (\<lambda>e. if is_ambiguous e then
                   ret (update_settlement (s_id s)
                     (\<lambda>x. x\<lparr>s_status := UNKNOWN, s_providerStatus := Some ''unknown'',
                            s_failureReason := Some ''OTP finalization outcome requires verification'',
                            s_lastVerifiedAt := Some (n_now n)\<rparr>))
                 else
                   bnd (updateMany_settlements
                          (\<lambda>x. s_id x = s_id s \<and> s_org x = org \<and> s_providerStatus x = Some ''otp_finalizing'')
                          (otpRejected ''OTP finalization was rejected'')) (\<lambda>_.
                   raise (if is_provider_error e then conflict ''OTP finalization was rejected'' else e)))"

definition finalizeProviderSettlementOtp ::
    "fin_env \<Rightarrow> stamps \<Rightarrow> provider \<Rightarrow> app_error + unit \<Rightarrow> string \<Rightarrow> string \<Rightarrow> string \<Rightarrow>
     (fin_db, settlement) op" where
  "finalizeProviderSettlementOtp E n P enabled org i otp =
     bnd (from_sum enabled) (\<lambda>_.
     bnd (assertTenantProviderMode E org) (\<lambda>_.
     bnd (find_own org i) (\<lambda>s.
     bnd (guard (s_method s = PROVIDER \<and> s_provider s = Some ''PAYSTACK'')
            (conflict ''Settlement is not a Paystack provider settlement'')) (\<lambda>_.
     bnd (guard (s_status s = PROVIDER_PROCESSING \<and> s_providerStatus s = Some ''otp'')
            (conflict ''Settlement is not awaiting OTP finalization'')) (\<lambda>_.
     bnd (guard (held s) (conflict ''Settlement does not have an active wallet reservation'')) (\<lambda>_.
     bnd (guard (\<not> falsy (s_transferCode s) \<and> \<not> falsy (s_transferReference s))
            (conflict ''Settlement provider transfer identity is incomplete'')) (\<lambda>_.
     bnd (updateMany_settlements (awaitsOtp org (s_id s))
            (\<lambda>x. x\<lparr>s_providerStatus := Some ''otp_finalizing'', s_failureReason := None\<rparr>)) (\<lambda>count.
     bnd (guard (count = 1) (conflict ''OTP finalization is already in progress or no longer eligible'')) (\<lambda>_.
     bnd (otpCall n P org otp s) (\<lambda>returned. returned))))))))))"

section \<open>Approval callbacks and the stale-settlement sweep\<close>

fun approvalRecipient :: "json option \<Rightarrow> json option" where
  "approvalRecipient (Some (JStr s)) = Some (JStr s)"
| "approvalRecipient (Some (JObj kvs)) = map_of kvs ''recipient_code''"
| "approvalRecipient _ = None"

definition validatePaystackTransferApproval :: "json \<Rightarrow> (fin_db, bool) op" where
  "validatePaystackTransferApproval payload =
     (let reference = jstring (jfield ''reference'' payload);
          amount = jnumber (jfield ''amount'' payload);
          currency = map_option toUpper (jstring (jfield ''currency'' payload));
          rec = approvalRecipient (jfield ''recipient'' payload)
      in if falsy reference \<or> amount = None \<or> falsy currency then ret False
         else
           bnd (find_settlement (\<lambda>s. s_provider s = Some ''PAYSTACK'' \<and> s_transferReference s = reference)) (\<lambda>found.
           ret (case found of
                  None \<Rightarrow> False
                | Some s \<Rightarrow> s_status s \<in> set activeStatuses \<and> held s \<and>
                    amount = Some (of_int (paystackMinorUnits (s_amount s))) \<and>
                    currency = Some (s_currency s) \<and>
                    (\<not> truthy rec \<or> rec = map_option JStr (s_recipientReference s)))))"

record sweep_counts =
  sw_claimed :: nat
  sw_reconciled :: nat
  sw_unresolved :: nat
  sw_errors :: nat

text \<open>One settlement of the sweep. The arguments that vary by row (clock, UUIDs, order of the
  overlapping writes) come from functions of its id.\<close>

definition sweepOne ::
    "fin_env \<Rightarrow> (string \<Rightarrow> stamps) \<Rightarrow> (string \<Rightarrow> time) \<Rightarrow> (string \<Rightarrow> bool) \<Rightarrow> provider \<Rightarrow> string \<Rightarrow>
     sweep_counts \<Rightarrow> (fin_db, sweep_counts) op" where
  "sweepOne E n later order P i c =
     bnd (claimProviderSettlementReconciliation E i (n_now (n i)) (n_uuid (n i))) (\<lambda>lease.
     case lease of
       None \<Rightarrow> ret c
     | Some (token, _) \<Rightarrow>
         catching
           (bnd (verifyAndReconcileProviderSettlement E (n i) (later i) (order i) P
                   (assertProviderTransfersEnabled E) i (Some token)) (\<lambda>result.
            ret (if s_status result \<in> {SUCCEEDED, FAILED, REVERSED}
                 then c\<lparr>sw_claimed := sw_claimed c + 1, sw_reconciled := sw_reconciled c + 1\<rparr>
                 else c\<lparr>sw_claimed := sw_claimed c + 1, sw_unresolved := sw_unresolved c + 1\<rparr>)))
           (\<lambda>e. bnd (ignoring (releaseProviderSettlementReconciliation i token (Some e))) (\<lambda>_.
                 ret (c\<lparr>sw_claimed := sw_claimed c + 1, sw_unresolved := sw_unresolved c + 1,
                        sw_errors := sw_errors c + 1\<rparr>))))"

fun sweepAll ::
    "(string \<Rightarrow> sweep_counts \<Rightarrow> (fin_db, sweep_counts) op) \<Rightarrow> string list \<Rightarrow> sweep_counts \<Rightarrow>
     (fin_db, sweep_counts) op" where
  "sweepAll one [] c = ret c"
| "sweepAll one (i # is) c = bnd (one i c) (sweepAll one is)"

definition staleSettlement :: "time \<Rightarrow> time \<Rightarrow> settlement \<Rightarrow> bool" where
  "staleSettlement cutoff now s \<longleftrightarrow>
     s_provider s = Some ''PAYSTACK'' \<and> s_method s = PROVIDER \<and> s_status s \<in> set recoverableStatuses \<and>
     (case s_processingAt s of None \<Rightarrow> False | Some t \<Rightarrow> t \<le> cutoff) \<and> leaseFree now s"

definition reconcileStaleProviderSettlements ::
    "fin_env \<Rightarrow> time \<Rightarrow> (string \<Rightarrow> stamps) \<Rightarrow> (string \<Rightarrow> time) \<Rightarrow> (string \<Rightarrow> bool) \<Rightarrow> provider \<Rightarrow>
     (fin_db, nat \<times> sweep_counts) op" where
  "reconcileStaleProviderSettlements E now n later order P =
     bnd (reads (\<lambda>db. map s_id (take (v_reconciliationBatch E) (sort_key (\<lambda>s. the (s_processingAt s))
            (filter (staleSettlement (now - v_staleMs E) now) (db_settlements db)))))) (\<lambda>rows.
     bnd (sweepAll (sweepOne E n later order P) rows
            \<lparr> sw_claimed = 0, sw_reconciled = 0, sw_unresolved = 0, sw_errors = 0 \<rparr>) (\<lambda>c.
     ret (length rows, c)))"

end
