(* ===== verification/Sample.thy ===== *)
theory Sample
  imports Funding ProviderSettlement
begin

text \<open>
  A small tenant, used to evaluate the model: one wallet, one approved payment request, a test
  provider whose answers are canned. Its run (manual funding, preparation, initiation,
  verification, reversal) instantiates the hypotheses of the properties.
\<close>

definition demo_env :: fin_env where
  "demo_env = \<lparr> v_transfersEnabled = True, v_transfersMode = Some ''test'', v_secretKey = Some ''sk_test_1'',
     v_leaseMs = 60000, v_webhookLeaseMs = 60000, v_webhookMaxAttempts = 5, v_webhookBatch = 10,
     v_staleMs = 1000, v_reconciliationBatch = 10, v_callbackUrl = Some ''https://app'',
     v_sha256 = (\<lambda>s. s), v_hmac256 = (\<lambda>s. s) \<rparr>"

definition demo_audit :: audit_env where
  "demo_audit = \<lparr> y_sha256 = (\<lambda>s. take 4 s), y_localeLe = (\<lambda>a b. True), y_context = None \<rparr>"

definition demo_stamps :: "int \<Rightarrow> string \<Rightarrow> stamps" where
  "demo_stamps now i = \<lparr> n_now = now, n_id = ''s'' @ i, n_ledgerId = ''t'' @ i, n_uuid = ''u'' @ i \<rparr>"

definition demo_wallet :: wallet where
  "demo_wallet = \<lparr> w_id = ''w1'', w_org = ''o1'', w_name = ''Main'', w_purpose = ''OPS'', w_balance = 0,
     w_reserved = 0, w_currency = ''NGN'' \<rparr>"

definition demo_request :: payment_request where
  "demo_request = \<lparr> q_id = ''r1'', q_org = ''o1'', q_status = ''APPROVED'', q_title = ''Rent'', q_description = None,
     q_amount = 400, q_currency = ''NGN'', q_requestedBy = None, q_requesterUserId = None, q_invoiceId = None,
     q_projectId = None, q_clientId = None, q_bankName = Some ''ABC'', q_bankCode = Some ''058'',
     q_accountNumber = Some ''0123456789'', q_accountName = Some ''Ada Obi'', q_approvedBy = None, q_approvedAt = None,
     q_decisionReason = None, q_declinedBy = None, q_declinedAt = None,
     q_disbursementReference = None, q_disbursedAt = None, q_createdAt = 0 \<rparr>"

definition demo0 :: fin_db where
  "demo0 = \<lparr> db_tenants = [\<lparr> o_id = ''o1'', o_test = True \<rparr>], db_wallets = [demo_wallet], db_ledger = [],
     db_settlements = [], db_recipients = [],
     db_requests = [demo_request],
     db_payslips = [], db_runs = [], db_inbox = [], db_fundings = [],
     db_audit = \<lparr> au_log = [], au_chains = [] \<rparr> \<rparr>"

definition demo_source :: source where
  "demo_source = \<lparr> src_org = ''o1'', src_wallet = ''w1'', src_type = ''ACCOUNTING_PAYMENT_REQUEST'', src_id = ''r1'',
     src_amount = 400, src_currency = ''NGN'',
     src_beneficiary = Some (JObj [(''bankCode'', JStr ''058''), (''accountNumber'', JStr ''0123456789''),
       (''accountName'', JStr ''Ada Obi'')]), src_createdBy = Some ''u1'' \<rparr>"

definition demo_result :: "transfer_state \<Rightarrow> string \<Rightarrow> transfer_result" where
  "demo_result state status = \<lparr> r_reference = ''stl_u2'', r_transferCode = Some ''TRF_1'', r_recipientReference = Some ''RCP_1'',
     r_providerStatus = status, r_state = state, r_amountMinor = 40000, r_currency = ''NGN'' \<rparr>"

text \<open>A provider that accepts every transfer and reports what it is told to.\<close>

definition demo_provider :: "app_error + transfer_result \<Rightarrow> provider" where
  "demo_provider verdict = \<lparr> pv_resolveAccount = (\<lambda>number bank. Inr (''ADA OBI'', number)),
     pv_createRecipient = (\<lambda>number bank name currency. Inr (''RCP_1'', Some ''7'')),
     pv_initiateTransfer = (\<lambda>rec amount currency ref reason. Inr (demo_result NON_CONCLUSIVE ''otp'')),
     pv_finalizeTransferOtp = (\<lambda>code otp. Inr (demo_result NON_CONCLUSIVE ''pending'')),
     pv_verifyTransfer = (\<lambda>ref. verdict), pv_getBalance = Inr [(''NGN'', 100000)] \<rparr>"

definition demo_paid :: provider where
  "demo_paid = demo_provider (Inr (demo_result SUCCESS ''success''))"

definition demo_user :: actor where
  "demo_user = \<lparr> u_id = ''u1'', u_email = ''a@b.c'' \<rparr>"

definition demo1 :: fin_db where
  "demo1 = snd (fundWalletManually demo_env demo_audit (demo_stamps 10 ''1'') ''o1'' ''w1'' 1000 ''ext-1'' ''Seed'' demo_user demo0)"

definition demo2 :: fin_db where
  "demo2 = snd (prepareProviderSettlement (demo_stamps 20 ''2'') demo_source ''key-1'' demo1)"

definition demo3 :: fin_db where
  "demo3 = snd (initiateProviderSettlement demo_env (demo_stamps 30 ''3'') demo_paid ''o1'' ''s2'' demo2)"

definition demo4 :: fin_db where
  "demo4 = snd (verifyAndReconcileProviderSettlement demo_env (demo_stamps 40 ''4'') 41 False demo_paid (Inr ()) ''s2'' None demo3)"

definition demo5 :: fin_db where
  "demo5 = snd (reverseSucceededSettlement demo_env (demo_stamps 50 ''5'') ''o1'' ''s2'' ''rev-1'' demo4)"

text \<open>A payment into the wallet through Paystack's checkout, from its initialization to its
  verification.\<close>

definition demo_net :: network where
  "demo_net path body = Responded 200 (Some (JObj [(''status'', JBool True), (''data'', JObj
     [(''authorization_url'', JStr ''https://pay''), (''access_code'', JStr ''ac''), (''reference'', JStr ''PSK-U6'')])]))"

definition demo_verify :: "app_error + verify_data" where
  "demo_verify = Inr \<lparr> vf_status = ''success'', vf_reference = ''PSK-U6'', vf_amount = 25000, vf_currency = ''ngn'',
     vf_paidAt = None, vf_metadata = [(''paymentDomain'', JStr ''WALLET_FUNDING''), (''fundingAttemptId'', JStr ''s6''),
       (''organizationId'', JStr ''o1''), (''walletAccountId'', JStr ''w1'')], vf_raw = JNull \<rparr>"

definition demo_funding :: fin_db where
  "demo_funding = snd (initializePaystackWalletFunding demo_env demo_audit demo_net (demo_stamps 60 ''6'') ''o1'' ''w1'' 250
     (Some ''fund-1'') demo_user demo0)"

definition demo_funded :: fin_db where
  "demo_funded = snd (verifyPaystackWalletFunding demo_env demo_audit (demo_stamps 70 ''7'') (\<lambda>ref. demo_verify) ''o1''
     ''PSK-U6'' demo_funding)"

lemma demo_funded_books: "map w_balance (db_wallets demo_funded) = [250] \<and>
    map f_status (db_fundings demo_funded) = [''COMPLETED'']"
  by code_simp

lemma demo1_books: "map w_balance (db_wallets demo1) = [1000]"
  by code_simp

lemma demo2_books: "map s_status (db_settlements demo2) = [PREPARED]"
  by code_simp

lemma demo3_books: "map w_reserved (db_wallets demo3) = [400] \<and> map s_status (db_settlements demo3) = [PROVIDER_PROCESSING]"
  by code_simp

lemma demo4_books: "map w_balance (db_wallets demo4) = [600] \<and> map s_status (db_settlements demo4) = [SUCCEEDED] \<and>
    map q_status (db_requests demo4) = [''PAID'']"
  by code_simp

lemma demo5_books: "map w_balance (db_wallets demo5) = [1000] \<and> map s_status (db_settlements demo5) = [REVERSED]"
  by code_simp

end
