(* ===== verification/CoreProperties.thy ===== *)
theory CoreProperties
  imports Sample
begin

text \<open>
  Properties of single components: the audit chain, calendar dates, amounts in minor units, the
  checks in front of the payment provider, the wallet updates.
\<close>

section \<open>The audit log\<close>

definition audit_run :: "audit_env \<Rightarrow> (time \<times> audit_input) list \<Rightarrow> audit_db \<Rightarrow> audit_db" where
  "audit_run Y calls db = foldl (\<lambda>d (now, inp). snd (createAuditLog Y now inp d)) db calls"

lemma create_run:
  assumes "audit_ok Y db"
  shows "audit_ok Y (snd (createAuditLog Y now inp db)) \<and>
    au_log (snd (createAuditLog Y now inp db)) = au_log db @ [next_entry Y now inp db]"
proof -
  obtain d where "persistAuditLog Y now inp db = (Inr (), d)" "audit_ok Y d" "au_log d = au_log db @ [next_entry Y now inp db]"
    using persist_run[OF assms, of now inp] by blast
  then show ?thesis by (simp add: createAuditLog_def tx_def)
qed

lemma audit_run_ok: "audit_ok Y db \<Longrightarrow> audit_ok Y (audit_run Y calls db)"
  by (induction calls arbitrary: db) (auto simp: audit_run_def create_run)

lemma audit_run_log:
  "audit_ok Y db \<Longrightarrow> map a_summary (au_log (audit_run Y calls db)) =
     map a_summary (au_log db) @ map (\<lambda>(now, inp). i_summary inp) calls"
proof (induction calls arbitrary: db)
  case Nil
  then show ?case by (simp add: audit_run_def)
next
  case (Cons c calls)
  obtain now inp where c: "c = (now, inp)" by (cases c)
  let ?db = "snd (createAuditLog Y now inp db)"
  have "audit_run Y (c # calls) db = audit_run Y calls ?db" by (simp add: audit_run_def c)
  with Cons.IH[of ?db] create_run[OF Cons.prems, of now inp] show ?case
    by (simp add: c next_entry_def Let_def)
qed

lemma empty_audit_ok: "audit_ok Y \<lparr> au_log = [], au_chains = [] \<rparr>"
  by (simp add: audit_ok_def entries_of_def chain_for_def)

text \<open>C10: Starting from an empty log, after any sequence of calls for any organizations the log holds
  the calls in order, and each organization's entries form an unbroken chain: numbered from 1
  without gaps, each carrying the hash of the one before and the digest of its own content, with
  the chain head at the last one.\<close>

theorem audit_chain_unbroken:
  fixes Y :: audit_env and org :: string and calls :: "(time \<times> audit_input) list"
  defines "db \<equiv> audit_run Y calls \<lparr> au_log = [], au_chains = [] \<rparr>"
  shows "map a_summary (au_log db) = map (\<lambda>(now, inp). i_summary inp) calls \<and>
    chain_from Y 0 None (entries_of org db) \<and>
    (case chain_for org db of
       None \<Rightarrow> entries_of org db = []
     | Some c \<Rightarrow> c_sequence c = length (entries_of org db) \<and> c_lastHash c = chain_end None (entries_of org db))"
  using audit_run_ok[OF empty_audit_ok, of Y calls] audit_run_log[OF empty_audit_ok, of Y calls]
  unfolding db_def by (simp add: audit_ok_def)





section \<open>Calendar dates\<close>

lemma digit_value_nonneg: "is_digit_char c \<Longrightarrow> 0 \<le> digit_value c"
  by (auto simp: is_digit_char_def digit_value_def)

lemma number_of_nonneg: "list_all is_digit_char s \<Longrightarrow> 0 \<le> number_of s"
proof -
  have "list_all is_digit_char s \<Longrightarrow> 0 \<le> n \<Longrightarrow> 0 \<le> foldl (\<lambda>n c. 10 * n + digit_value c) n s" for n
    by (induction s arbitrary: n) (auto simp: digit_value_nonneg)
  then show "list_all is_digit_char s \<Longrightarrow> ?thesis" by (simp add: number_of_def)
qed

lemma date_only_year_nonneg: "date_only_shape s \<Longrightarrow> date_only_parts s = (y, m, d) \<Longrightarrow> 0 \<le> y"
proof -
  assume s: "date_only_shape s" and p: "date_only_parts s = (y, m, d)"
  have "take 4 s = [s ! 0, s ! 1, s ! 2, s ! 3]"
    using s by (auto simp: date_only_shape_def take_Suc_conv_app_nth numeral_eq_Suc)
  with s have "list_all is_digit_char (take 4 s)" by (simp add: date_only_shape_def)
  with p show ?thesis using number_of_nonneg by (auto simp: date_only_parts_def)
qed

lemma year_shift: "civil_of_day (make_day (1900 + y) (m - 1) d) \<noteq> (y, m - 1, d)"
proof
  let ?n = "make_day (1900 + y) (m - 1) d"
  assume c: "civil_of_day ?n = (y, m - 1, d)"
  from civil_of_day_valid[OF c] have m: "0 \<le> m - 1" "m - 1 < 12" "1 \<le> d" by auto
  have "year_of_day ?n = y" using c by (simp add: civil_of_day_def Let_def)
  then have "?n < day_from_year (y + 1)" using year_of_day_bounds[of ?n] by simp
  also have "\<dots> \<le> day_from_year (1900 + y)" by (rule day_from_year_mono) simp
  also have "\<dots> \<le> ?n"
    using m month_start_year[of "nat (m - 1)" "is_leap (1900 + y)"] by (simp add: make_day_def nat_less_iff Let_def)
  finally show False by simp
qed

text \<open>The date check accepts exactly the strings YYYY-MM-DD that name a day of the Gregorian
  calendar in a year from 0100 on: the month is 1 to 12 and the day exists in that month (leap
  years included). The years 0000 to 0099 are rejected, because \<open>Date.UTC\<close> maps them to 1900.\<close>

theorem isValidDateOnly_iff:
  "isValidDateOnly s \<longleftrightarrow> date_only_shape s \<and>
     (case date_only_parts s of (y, m, d) \<Rightarrow> 100 \<le> y \<and> 1 \<le> m \<and> m \<le> 12 \<and> 1 \<le> d \<and> d \<le> days_in_month y (m - 1))"
proof (cases "date_only_shape s")
  case False
  then show ?thesis by (simp add: isValidDateOnly_def)
next
  case shape: True
  obtain y m d where p: "date_only_parts s = (y, m, d)" by (cases "date_only_parts s") auto
  have y: "0 \<le> y" using date_only_year_nonneg[OF shape p] .
  have fields: "utc_fields (date_UTC y (m - 1) d) = civil_of_day (make_day (if y \<le> 99 then 1900 + y else y) (m - 1) d)"
    using y by (simp add: utc_fields_def date_UTC_def msPerDay_def)
  show ?thesis
  proof (cases "y \<le> 99")
    case True
    then have "civil_of_day (make_day (1900 + y) (m - 1) d) \<noteq> (y, m - 1, d)" using year_shift by blast
    with True shape p fields show ?thesis by (simp add: isValidDateOnly_def)
  next
    case False
    have "civil_of_day (make_day y (m - 1) d) = (y, m - 1, d) \<longleftrightarrow> 1 \<le> m \<and> m \<le> 12 \<and> 1 \<le> d \<and> d \<le> days_in_month y (m - 1)"
      using civil_of_make_day[of "m - 1" d y] civil_of_day_valid[of "make_day y (m - 1) d" y "m - 1" d] by force
    with False shape p fields show ?thesis by (simp add: isValidDateOnly_def)
  qed
qed

text \<open>A date string survives its storage as an instant: the instant is a midnight, and reading its
  UTC fields gives back the year, month and day of the string.\<close>

theorem dateOnlyUtc_roundtrip:
  assumes "dateOnlyUtc s = Some t"
  shows "(case date_only_parts s of (y, m, d) \<Rightarrow> utc_fields t = (y, m - 1, d)) \<and> t mod msPerDay = 0"
proof -
  obtain y m d where p: "date_only_parts s = (y, m, d)" by (cases "date_only_parts s") auto
  with assms have v: "isValidDateOnly s" and t: "t = make_day y (m - 1) d * msPerDay"
    by (auto simp: dateOnlyUtc_def split: if_splits)
  from v p have "utc_fields (date_UTC y (m - 1) d) = (y, m - 1, d)" by (simp add: isValidDateOnly_def split: if_splits)
  then have "\<not> y \<le> 99 \<or> y < 0" using year_shift[of y m d] by (auto simp: utc_fields_def date_UTC_def msPerDay_def split: if_splits)
  with \<open>utc_fields (date_UTC y (m - 1) d) = (y, m - 1, d)\<close> show ?thesis
    by (auto simp: p t utc_fields_def date_UTC_def msPerDay_def)
qed

lemma dateOnlyUtc_roundtrip_witness: "utc_fields (the (dateOnlyUtc ''2024-02-29'')) = (2024, 1, 29)"
proof -
  have "dateOnlyUtc ''2024-02-29'' = Some (the (dateOnlyUtc ''2024-02-29''))" by code_simp
  moreover have "date_only_parts ''2024-02-29'' = (2024, 2, 29)" by code_simp
  ultimately show ?thesis using dateOnlyUtc_roundtrip by fastforce
qed

section \<open>Amounts and the provider\<close>

text \<open>The amount sent to the provider is the wallet's amount in minor units: exact for amounts of
  whole kobo, within half a kobo for any amount, never negative for a non-negative amount.\<close>

theorem minor_units_exact:
  "paystackMinorUnits (of_int k / 100) = k \<and> \<bar>of_int (paystackMinorUnits v) - v * 100\<bar> \<le> 1/2 \<and>
   (0 \<le> v \<longrightarrow> 0 \<le> paystackMinorUnits v)"
  using round_half_up_error[of "v * 100"] round_half_up_nonneg[of "v * 100"] by (simp add: paystackMinorUnits_def)

lemma minor_units_exact_witness: "paystackMinorUnits (of_int 12345 / 100) = 12345 \<and> 0 \<le> paystackMinorUnits (1/3)"
  using minor_units_exact[of 12345 "1/3"] by simp

text \<open>No request leaves the process while the credential does not belong to the configured transfer
  mode: every transfer method fails with the same configuration error whatever the network would
  have answered.\<close>

theorem credential_checked_first:
  assumes "assertPaystackTransferCredentialMode (v_transfersMode E) (v_secretKey E) = Inl e"
  shows "pv_resolveAccount (PaystackTransferProvider E net) a b = Inl e \<and>
    pv_createRecipient (PaystackTransferProvider E net) a b c d = Inl e \<and>
    pv_initiateTransfer (PaystackTransferProvider E net) a n b c d = Inl e \<and>
    pv_finalizeTransferOtp (PaystackTransferProvider E net) a b = Inl e \<and>
    pv_verifyTransfer (PaystackTransferProvider E net) a = Inl e \<and>
    pv_getBalance (PaystackTransferProvider E net) = Inl e"
  using assms by (simp add: PaystackTransferProvider_def ps_resolveAccount_def ps_createRecipient_def
      ps_initiateTransfer_def ps_finalizeTransferOtp_def ps_verifyTransfer_def ps_getBalance_def bind_sum_def
      assertCredentialMode_def)

lemma credential_checked_first_witness:
  "\<exists>e. pv_getBalance (PaystackTransferProvider (demo_env\<lparr>v_transfersMode := Some ''live''\<rparr>) demo_net) = Inl e"
proof -
  have "\<exists>e. assertPaystackTransferCredentialMode (v_transfersMode (demo_env\<lparr>v_transfersMode := Some ''live''\<rparr>))
      (v_secretKey (demo_env\<lparr>v_transfersMode := Some ''live''\<rparr>)) = Inl e"
    by (simp add: demo_env_def assertPaystackTransferCredentialMode_def falsy_def starts_with_def)
  then obtain e where "assertPaystackTransferCredentialMode (v_transfersMode (demo_env\<lparr>v_transfersMode := Some ''live''\<rparr>))
      (v_secretKey (demo_env\<lparr>v_transfersMode := Some ''live''\<rparr>)) = Inl e" by blast
  from credential_checked_first[OF this, of demo_net] show ?thesis by blast
qed

text \<open>The back-off between recovery attempts starts at a minute, never shrinks from one attempt to the
  next, and never exceeds six hours.\<close>

theorem recovery_delay_bounds:
  "60000 \<le> inboundRecoveryDelayMs k \<and> inboundRecoveryDelayMs k \<le> 21600000 \<and>
   inboundRecoveryDelayMs k \<le> inboundRecoveryDelayMs (k + 1)"
proof -
  have "(2::int) ^ nat (max 0 (k - 1)) \<le> 2 ^ nat (max 0 k)" by (intro power_increasing) auto
  then have "(60000::int) * 2 ^ nat (max 0 (k - 1)) \<le> 60000 * 2 ^ nat (max 0 k)" by simp
  moreover have "(1::int) \<le> 2 ^ nat (max 0 (k - 1))" by simp
  ultimately show ?thesis unfolding inboundRecoveryDelayMs_def by (simp only: add_diff_cancel) linarith
qed

end
