(* ===== verification/ProviderBooks.thy ===== *)
theory ProviderBooks
  imports ProviderSettlement
begin

text \<open>
  The operations of provider-settlement.ts keep the invariant of the books, each transaction and
  each single write on its own: \<open>books_ok\<close> therefore holds between any two writes of any
  interleaving, not only at the end of an operation.
\<close>

section \<open>Writes that touch no reservation\<close>

lemma keeps_quiet_updateMany:
  assumes "\<And>s. s_id (f s) = s_id s"
    and "\<And>s. P s \<Longrightarrow> settlement_ok s \<Longrightarrow>
      s_wallet (f s) = s_wallet s \<and> held_amount (f s) = held_amount s \<and> settlement_ok (f s)"
  shows "keeps books_ok (updateMany_settlements P f)"
proof (rule keepsI)
  fix db r db' assume ok: "books_ok db" and run: "updateMany_settlements P f db = (r, db')"
  show "books_ok db'"
  proof (cases r)
    case (Inl e)
    with run have "db' = db" by (auto simp: updateMany_settlements_def run_simps run_bnd_err)
    with ok show ?thesis by simp
  next
    case (Inr n)
    with run have "db' = db\<lparr>db_settlements := updateMany P f (db_settlements db)\<rparr>" by (auto simp: run_simps)
    then show ?thesis using books_quiet_update[OF ok, of f P] assms books_okD(3)[OF ok] by metis
  qed
qed

lemma keeps_quiet_update:
  assumes "\<And>s. s_id (f s) = s_id s"
    and "\<And>s. settlement_ok s \<Longrightarrow>
      s_wallet (f s) = s_wallet s \<and> held_amount (f s) = held_amount s \<and> settlement_ok (f s)"
  shows "keeps books_ok (update_settlement i f)"
  unfolding update_settlement_def
  by (intro keeps_rules keeps_quiet_updateMany) (use assms in auto)

lemmas quiet_simps = settlement_ok_def held_amount_def held_def

lemma keeps_settlement_by_id [keeps_rules]: "keeps I (settlement_by_id i)"
  unfolding settlement_by_id_def by (intro keeps_rules)

lemma keeps_find_own [keeps_rules]: "keeps I (find_own org i)"
  unfolding find_own_def by (intro keeps_rules)

lemma keeps_tenant_mode [keeps_rules]: "keeps I (assertTenantProviderMode E org)"
  unfolding assertTenantProviderMode_def by (intro keeps_rules)

lemma keeps_incident [keeps_rules]: "keeps I (assertIncidentWalletMutationAllowed E org i)"
  unfolding assertIncidentWalletMutationAllowed_def by (intro keeps_rules)

lemma books_requests [keeps_rules]: "keeps books_ok (updateMany_requests P f)"
  unfolding updateMany_requests_def by (intro keeps_rules keeps_writes) simp

lemma books_payslips [keeps_rules]: "keeps books_ok (updateMany_payslips P f)"
  unfolding updateMany_payslips_def by (intro keeps_rules keeps_writes) simp

lemma books_runs [keeps_rules]: "keeps books_ok (updateMany_runs P f)"
  unfolding updateMany_runs_def by (intro keeps_rules keeps_writes) simp

lemma books_recipient [keeps_rules]: "keeps books_ok (create_recipient r)"
  unfolding create_recipient_def by (intro keeps_rules keeps_writes) simp

lemma books_aggregate [keeps_rules]: "keeps books_ok (updatePayrollAggregate now i b)"
  unfolding updatePayrollAggregate_def update_run_def by (intro keeps_rules)

lemma books_obligation [keeps_rules]: "keeps books_ok (settleObligation now s)"
  unfolding settleObligation_def by (intro keeps_rules)

lemma books_ensureRecipient [keeps_rules]: "keeps books_ok (ensureRecipient E n P s)"
  unfolding ensureRecipient_def Let_def by (intro keeps_rules)

section \<open>Reserving\<close>

lemma reserve_posting:
  assumes ok: "books_ok db" and s: "find (\<lambda>x. s_id x = i) (db_settlements db) = Some s"
    and free: "\<not> held s"
    and run: "reserveWalletBalance org (s_wallet s) (s_amount s) c
      (db\<lparr>db_settlements := updateMany P f (db_settlements db)\<rparr>) = (Inr u, db2)"
    and P: "\<And>x. x \<in> set (db_settlements db) \<Longrightarrow> P x \<longleftrightarrow> s_id x = i"
    and f: "\<And>x. s_id (f x) = s_id x" "s_wallet (f s) = s_wallet s" "s_amount (f s) = s_amount s"
      "held (f s)" "settlement_ok (f s)"
  shows "books_ok db2"
proof -
  let ?ss = "updateMany P f (db_settlements db)"
  note wok = books_okD(1)[OF ok] and ids = books_okD(2)[OF ok]
  have ss: "?ss = updateMany (\<lambda>x. s_id x = i) f (db_settlements db)"
    unfolding updateMany_def using P by (intro map_cong) auto
  have wok1: "wallets_ok (db\<lparr>db_settlements := ?ss\<rparr>)" using wok by (simp add: wallets_ok_def)
  obtain w where db2: "db2 = post_wallet org (s_wallet s) 0 (s_amount s) (db\<lparr>db_settlements := ?ss\<rparr>)"
    and a: "0 \<le> s_amount s" and w: "find (wallet_key org (s_wallet s)) (db_wallets db) = Some w"
      "s_amount s \<le> w_balance w - w_reserved w"
    using reserve_run[OF wok1 run] by auto
  have one: "filter (\<lambda>x. s_id x = i) (db_settlements db) = [s]" by (rule find_key_unique[OF ids s])
  have "settlement_ok (f x)" if "x \<in> set (db_settlements db)" "s_id x = i" for x
  proof -
    from that have "x \<in> set (filter (\<lambda>x. s_id x = i) (db_settlements db))" by simp
    with one f(5) show ?thesis by simp
  qed
  with ok have oks: "\<forall>x \<in> set ?ss. settlement_ok x" unfolding ss
    by (intro settlement_ok_update) (auto dest: books_okD(3))
  have "books_ok ((post_wallet org (s_wallet s) 0 (s_amount s) db)
      \<lparr>db_settlements := ?ss, db_ledger := db_ledger db\<rparr>)"
    using wallet_in_bounds[OF wok w(1)] w(2) a free f(4) oks unfolding ss
    by (intro books_posting[OF ok w(1)])
      (auto simp: map_s_id_update f(1) ids reserved_for_update[OF ids s, of f] f(2,3) held_amount_def)
  then show ?thesis unfolding db2 same_ledger post_wallet_settlements .
qed

lemma books_claimInitiation [keeps_rules]: "keeps books_ok (claimInitiation now org s)"
  unfolding claimInitiation_def
  by (intro keeps_rules keeps_quiet_updateMany) (auto simp: claim_initiation_def quiet_simps)

lemma key_unique:
  "distinct (map s_id rows) \<Longrightarrow> s \<in> set rows \<Longrightarrow> x \<in> set rows \<Longrightarrow> s_id x = s_id s \<Longrightarrow> x = s"
  by (auto simp: distinct_map inj_on_def)

text \<open>What the transaction does: nothing; the initiation claim alone; or the reservation of a
  prepared settlement followed by the claim.\<close>

lemma claim_effect:
  assumes ids: "distinct (map s_id (db_settlements db))"
    and run: "reserveAndClaimProviderSettlement E now org i db = (r, db')"
  obtains "db' = db"
  | s x where "claimInitiation now org s db = (Inr x, db')"
  | s P u db2 row x where "find (\<lambda>x. s_id x = i) (db_settlements db) = Some s" "s_status s = PREPARED"
      "\<And>x. x \<in> set (db_settlements db) \<Longrightarrow> P x \<longleftrightarrow> s_id x = i"
      "reserveWalletBalance org (s_wallet s) (s_amount s) (s_currency s)
         (db\<lparr>db_settlements := updateMany P (claim_prepared now s) (db_settlements db)\<rparr>) = (Inr u, db2)"
      "claimInitiation now org row db2 = (Inr x, db')"
proof -
  from tx_effect[OF run[unfolded reserveAndClaimProviderSettlement_def]] show thesis
  proof (elim disjE exE conjE, goal_cases)
    case 1
    then show ?case by (rule that(1))
  next
    case (2 x)
    then obtain s where s: "find (\<lambda>s. s_id s = i \<and> s_org s = org) (db_settlements db) = Some s"
      by (auto simp: run_simps)
    note key = found_by_id[OF ids s]
    let ?P = "\<lambda>x. s_id x = s_id s \<and> s_org x = org \<and> s_status x = PREPARED"
    let ?db1 = "db\<lparr>db_settlements := updateMany ?P (claim_prepared now s) (db_settlements db)\<rparr>"
    have P: "?P x \<longleftrightarrow> s_id x = i" if "x \<in> set (db_settlements db)" "s_status s = PREPARED" for x
      using key_unique[OF ids key(2) that(1)] key that(2) by auto
    have one: "countWhere ?P (db_settlements db) = 1" if "s_status s = PREPARED"
      using filter_one_strengthen[OF filter_one_key[OF ids key(2)], of ?P] key that
      by (simp add: countWhere_def)
    consider "db' = db" | "claimInitiation now org s db = (Inr x, db')"
      | "s_status s = PREPARED" "countWhere ?P (db_settlements db) \<noteq> 1"
      | row u db2 where "s_status s = PREPARED"
          "reserveWalletBalance org (s_wallet s) (s_amount s) (s_currency s) ?db1 = (Inr u, db2)"
          "claimInitiation now org row db2 = (Inr x, db')"
      using 2(2) s by (force simp: run_simps settlement_by_id_def split: if_splits)
    then show ?case
    proof cases
      case 1
      then show ?thesis by (rule that(1))
    next
      case 2
      then show ?thesis by (rule that(2))
    next
      case 3
      with one show ?thesis by simp
    next
      case 4
      show ?thesis by (rule that(3)[OF key(1) 4(1) P[OF _ 4(1)] 4(2,3)])
    qed
  qed
qed

lemma books_reserveAndClaim: "keeps books_ok (reserveAndClaimProviderSettlement E now org i)"
proof (rule keepsI)
  fix db r db' assume ok: "books_ok db" and run: "reserveAndClaimProviderSettlement E now org i db = (r, db')"
  from books_okD(2)[OF ok] run show "books_ok db'"
  proof (cases rule: claim_effect)
    case 1
    with ok show ?thesis by simp
  next
    case 2
    with books_claimInitiation ok show ?thesis by (blast dest: keepsD)
  next
    case (3 s P u db2 row x)
    have sok: "settlement_ok s" using 3(1) find_SomeD books_okD(3)[OF ok] by metis
    have "books_ok db2"
      by (rule reserve_posting[OF ok 3(1) _ 3(4)])
        (use sok 3(2,3) in \<open>auto simp: claim_prepared_def quiet_simps\<close>)
    with books_claimInitiation 3(5) show ?thesis by (blast dest: keepsD)
  qed
qed

section \<open>Applying results\<close>

text \<open>The obligation's tables are not among those that hold money.\<close>

definition same_books :: "fin_db \<Rightarrow> fin_db \<Rightarrow> bool" where
  "same_books a b \<longleftrightarrow> db_wallets b = db_wallets a \<and> db_settlements b = db_settlements a \<and> db_ledger b = db_ledger a \<and>
     db_fundings b = db_fundings a"

lemma same_books_steps [keeps_rules]:
  "keeps (same_books a) (updateMany_requests P1 f1)" "keeps (same_books a) (updateMany_payslips P2 f2)"
  "keeps (same_books a) (updateMany_runs P3 f3)"
  by (auto simp: keeps_def same_books_def run_simps)

lemma settleObligation_same: "keeps (same_books a) (settleObligation now s)"
  unfolding settleObligation_def updatePayrollAggregate_def update_run_def by (intro keeps_rules)

text \<open>A payment: the reservation of a live settlement consumed, its debit written, its row marked.\<close>

lemma countWhere_pos: "countWhere P rows = Suc n \<Longrightarrow> \<exists>x \<in> set rows. P x"
proof -
  assume "countWhere P rows = Suc n"
  then have "filter P rows \<noteq> []" by (auto simp: countWhere_def)
  then show ?thesis by (auto simp: filter_empty_conv)
qed

lemma finalize_effect:
  assumes run: "finalizeProviderSettlementSuccess E n i result db = (r, db')"
  obtains "db' = db"
  | s w before after db1 where "find (\<lambda>x. s_id x = i) (db_settlements db) = Some s" "s_status s \<in> set activeStatuses" "held s"
      "consumeWalletReservation (s_org s) (s_wallet s) (s_amount s) (s_currency s) db = (Inr (w, before, after), db1)"
      "db_wallets db' = db_wallets db1" "db_ledger db' = db_ledger db1 @ [provider_ledger n s before after]"
      "db_settlements db' = updateMany (\<lambda>x. s_id x = i) (mark_succeeded (n_now n) result) (db_settlements db1)"
      "assertResult s result = Inr ()"
      "s_sourceType s = ''ACCOUNTING_PAYMENT_REQUEST'' \<Longrightarrow> \<exists>q \<in> set (db_requests db1).
         q_id q = s_sourceId s \<and> q_org q = s_org s \<and> q_status q = ''APPROVED''"
proof -
  from tx_effect[OF run[unfolded finalizeProviderSettlementSuccess_def]] show thesis
  proof (elim disjE exE conjE, goal_cases)
    case 1
    then show ?case by (rule that(1))
  next
    case (2 x)
    then obtain s where s: "find (\<lambda>s. s_id s = i) (db_settlements db) = Some s"
      by (auto simp: run_simps)
    have sid: "s_id s = i" using find_SomeD[OF s] by auto
    consider "db' = db"
      | w before after db1 db2 where "s_status s \<in> set activeStatuses" "held s"
          "assertResult s result = Inr ()"
          "consumeWalletReservation (s_org s) (s_wallet s) (s_amount s) (s_currency s) db = (Inr (w, before, after), db1)"
          "settleObligation (n_now n) s (db1\<lparr>db_ledger := db_ledger db1 @ [provider_ledger n s before after]\<rparr>) = (Inr (), db2)"
          "db' = db2\<lparr>db_settlements := updateMany (\<lambda>x. s_id x = i) (mark_succeeded (n_now n) result) (db_settlements db2)\<rparr>"
      using 2(2) s sid by (force simp: run_simps split: if_splits)
    then show ?case
    proof cases
      case 1
      then show ?thesis by (rule that(1))
    next
      case (2 w before after db1 db2)
      let ?l = "provider_ledger n s before after"
      have "same_books (db1\<lparr>db_ledger := db_ledger db1 @ [?l]\<rparr>) db2"
        by (rule keepsD[OF settleObligation_same _ 2(5)]) (simp add: same_books_def)
      moreover have "\<exists>q \<in> set (db_requests db1). q_id q = s_sourceId s \<and> q_org q = s_org s \<and> q_status q = ''APPROVED''"
        if "s_sourceType s = ''ACCOUNTING_PAYMENT_REQUEST''"
        using 2(5) that by (auto simp: settleObligation_def run_simps dest!: countWhere_pos)
      ultimately show ?thesis
        by (intro that(2)[OF s 2(1,2,4)]) (simp_all add: 2(3,6) same_books_def)
    qed
  qed
qed

lemma books_finalizeSuccess: "keeps books_ok (finalizeProviderSettlementSuccess E n i result)"
proof (rule keepsI)
  fix db r db' assume ok: "books_ok db" and run: "finalizeProviderSettlementSuccess E n i result db = (r, db')"
  from run show "books_ok db'"
  proof (cases rule: finalize_effect)
    case 1
    with ok show ?thesis by simp
  next
    case (2 s w before after db1)
    note wok = books_okD(1)[OF ok] and ids = books_okD(2)[OF ok]
    let ?f = "mark_succeeded (n_now n) result" and ?a = "s_amount s"
    let ?l = "provider_ledger n s before after"
    obtain w0 where db1: "db1 = post_wallet (s_org s) (s_wallet s) (- ?a) (- ?a) db"
      and w0: "find (wallet_key (s_org s) (s_wallet s)) (db_wallets db) = Some w0" "?a \<le> w_balance w0" "?a \<le> w_reserved w0"
      using consume_run[OF wok 2(4)] by blast
    have f: "s_id (?f x) = s_id x" "s_wallet (?f x) = s_wallet x" "\<not> held (?f x)" "s_amount (?f x) = s_amount x" for x
      by (simp_all add: mark_succeeded_def held_def)
    have oks: "\<forall>x \<in> set (updateMany (\<lambda>x. s_id x = i) ?f (db_settlements db)). settlement_ok x"
      using ok by (intro settlement_ok_update) (auto simp: mark_succeeded_def settlement_ok_def dest: books_okD(3))
    have "books_ok ((post_wallet (s_org s) (s_wallet s) (- ?a) (- ?a) db)
        \<lparr>db_settlements := updateMany (\<lambda>x. s_id x = i) ?f (db_settlements db), db_ledger := db_ledger db @ [?l]\<rparr>)"
      using wallet_in_bounds[OF wok w0(1)] w0(2,3) 2(3) oks
      by (intro books_posting[OF ok w0(1)])
        (auto simp: map_s_id_update f ids reserved_for_update[OF ids 2(1), of ?f] held_amount_def
          provider_ledger_def signed_amount_def)
    then show ?thesis using 2(5-7)
      by (subst books_ok_cong[of _ "(post_wallet (s_org s) (s_wallet s) (- ?a) (- ?a) db)
        \<lparr>db_settlements := updateMany (\<lambda>x. s_id x = i) ?f (db_settlements db), db_ledger := db_ledger db @ [?l]\<rparr>"])
        (simp_all add: db1)
  qed
qed

lemma books_reopen: "keeps books_ok (reopenObligation now s result i)"
  unfolding reopenObligation_def
  by (intro keeps_tx keeps_rules keeps_quiet_update) (auto simp: quiet_simps)

lemma books_reverseProvider: "keeps books_ok (reverseProviderSettlement E n s result)"
  unfolding reverseProviderSettlement_def by (intro keeps_rules reverse_keeps_books books_reopen)

lemma keeps_case_state [keeps_rules]:
  "(x = NON_CONCLUSIVE \<Longrightarrow> keeps I m1) \<Longrightarrow> (x = SUCCESS \<Longrightarrow> keeps I m2) \<Longrightarrow> (x = FAILURE \<Longrightarrow> keeps I m3) \<Longrightarrow>
   (x = REVERSAL \<Longrightarrow> keeps I m4) \<Longrightarrow>
   keeps I (case x of NON_CONCLUSIVE \<Rightarrow> m1 | SUCCESS \<Rightarrow> m2 | FAILURE \<Rightarrow> m3 | REVERSAL \<Rightarrow> m4)"
  by (cases x) auto

lemma books_apply: "keeps books_ok (applyProviderTransferResult E n s result)"
proof -
  have quiet: "keeps books_ok (update_settlement i (mark_verified now r))"
    "keeps books_ok (update_settlement i (\<lambda>x. (mark_verified now r x)\<lparr>s_status := PROVIDER_PROCESSING\<rparr>))" for i now r
    by (intro keeps_quiet_update; auto simp: mark_verified_def quiet_simps)+
  show ?thesis unfolding applyProviderTransferResult_def Let_def
    by (intro keeps_rules quiet books_finalizeSuccess release_keeps_books books_reverseProvider)
qed

section \<open>The operations\<close>

lemma books_initiationCall: "keeps books_ok (initiationCall E n P s)"
  unfolding initiationCall_def by (intro keeps_rules keeps_quiet_update) (auto simp: quiet_simps)

text \<open>An operation that returns an operation to run next.\<close>

lemma keeps_then_run:
  assumes "\<And>s t k. I s \<Longrightarrow> m s = (Inr k, t) \<Longrightarrow> keeps I k" and "keeps I m"
  shows "keeps I (bnd m (\<lambda>k. k))"
proof (rule keepsI)
  fix s r t assume "I s" and run: "bnd m (\<lambda>k. k) s = (r, t)"
  obtain q s1 where m: "m s = (q, s1)" by (cases "m s")
  with assms(2) \<open>I s\<close> have "I s1" by (blast dest: keepsD)
  show "I t"
  proof (cases q)
    case (Inl e)
    with m run \<open>I s1\<close> show ?thesis by (auto simp: bnd_def)
  next
    case (Inr k)
    with m run have "k s1 = (r, t)" by (simp add: bnd_def)
    with assms(1)[OF \<open>I s\<close>] m Inr \<open>I s1\<close> show ?thesis by (blast dest: keepsD)
  qed
qed

lemma books_initiate: "keeps books_ok (initiateProviderSettlement E n P org i)"
proof -
  have unknown: "keeps books_ok (update_settlement j (\<lambda>x. x\<lparr>s_status := UNKNOWN, s_failureReason := r\<rparr>))" for j r
    by (intro keeps_quiet_update) (auto simp: quiet_simps)
  have started: "keeps books_ok (bnd (catching
              (bnd (initiationCall E n P claimed) (\<lambda>(s, result). ret (applyProviderTransferResult E n s result)))
              (\<lambda>e. if is_ambiguous e then
                     bnd (update_settlement (s_id claimed)
                            (\<lambda>x. x\<lparr>s_status := UNKNOWN, s_failureReason := Some (error_message e)\<rparr>)) (\<lambda>row.
                     ret (ret row))
                   else
                     bnd (releaseSettlementReservation E (n_now n) org (s_id claimed) (error_message e)) (\<lambda>_.
                     raise e))) (\<lambda>returned. returned))" for claimed
  proof (rule keeps_then_run, goal_cases)
    case (1 s t k)
    from 1(2) show ?case
      by (auto simp: run_catching_ok run_simps intro: books_apply keeps_ret split: if_splits)
  qed (intro keeps_rules books_initiationCall unknown release_keeps_books)
  show ?thesis unfolding initiateProviderSettlement_def
    by (intro keeps_rules books_reserveAndClaim started)
qed

lemma books_claim: "keeps books_ok (claimProviderSettlementReconciliation E i now token)"
  unfolding claimProviderSettlementReconciliation_def
  by (intro keeps_rules keeps_quiet_updateMany) (auto simp: quiet_simps)

lemma books_releaseClaim: "keeps books_ok (releaseProviderSettlementReconciliation i token e)"
  unfolding releaseProviderSettlementReconciliation_def
  by (intro keeps_rules keeps_quiet_updateMany) (auto simp: quiet_simps)

lemma keeps_ignoring [keeps_rules]: "keeps I m \<Longrightarrow> keeps I (ignoring m)"
  unfolding ignoring_def by (intro keeps_rules)

lemma keeps_overlapping [keeps_rules]: "keeps I m \<Longrightarrow> keeps I f \<Longrightarrow> keeps I (overlapping b m f)"
  unfolding overlapping_def by (intro keeps_rules)

lemma books_verificationFailed: "keeps books_ok (verificationFailed E n P enabled s token e)"
  unfolding verificationFailed_def
  by (intro keeps_rules books_apply keeps_quiet_updateMany keeps_quiet_update) (auto simp: quiet_simps)

lemma books_verify:
  "keeps books_ok (verifyAndReconcileProviderSettlement E n later order P enabled i supplied)"
  unfolding verifyAndReconcileProviderSettlement_def Let_def
  by (intro keeps_rules books_claim books_apply books_releaseClaim books_verificationFailed)

lemma books_otp: "keeps books_ok (finalizeProviderSettlementOtp E n P enabled org i otp)"
proof -
  have rejected: "keeps books_ok (update_settlement j (otpRejected r))" for j r
    by (intro keeps_quiet_update) (auto simp: otpRejected_def quiet_simps)
  have rejected_many: "keeps books_ok (updateMany_settlements Q (otpRejected r))" for Q r
    by (intro keeps_quiet_updateMany) (auto simp: otpRejected_def quiet_simps)
  have marked: "keeps books_ok (updateMany_settlements Q
      (\<lambda>x. x\<lparr>s_providerStatus := Some ''otp_finalizing'', s_failureReason := None\<rparr>))" for Q
    by (intro keeps_quiet_updateMany) (auto simp: quiet_simps)
  have finished: "keeps books_ok (update_settlement j (\<lambda>x. x\<lparr>s_status := PROVIDER_PROCESSING,
      s_providerStatus := a, s_transferCode := b, s_lastVerifiedAt := c, s_failureReason := d\<rparr>))"
    "keeps books_ok (update_settlement j (\<lambda>x. x\<lparr>s_status := UNKNOWN, s_providerStatus := a,
      s_failureReason := b, s_lastVerifiedAt := c\<rparr>))" for j a b c d
    by (intro keeps_quiet_update; auto simp: quiet_simps)+
  have call: "keeps books_ok (bnd (otpCall n P org otp s) (\<lambda>k. k))" for s
  proof (rule keeps_then_run)
    show "keeps books_ok (otpCall n P org otp s)"
      unfolding otpCall_def by (intro keeps_rules rejected rejected_many)
    show "keeps books_ok k" if "otpCall n P org otp s db = (Inr k, t)" for db t k
      using that unfolding otpCall_def
      by (auto simp: run_catching_ok run_simps intro: finished split: if_splits transfer_state.splits)
  qed
  show ?thesis unfolding finalizeProviderSettlementOtp_def by (intro keeps_rules marked call)
qed

lemma books_sweep: "keeps books_ok (reconcileStaleProviderSettlements E now n later order P)"
proof -
  have one: "keeps books_ok (sweepOne E n later order P i c)" for i c
    unfolding sweepOne_def by (intro keeps_rules books_claim books_verify books_releaseClaim)
  have "keeps books_ok (sweepAll (sweepOne E n later order P) is c)" for "is" c
    by (induction "is" arbitrary: c) (auto intro!: keeps_rules one)
  then show ?thesis unfolding reconcileStaleProviderSettlements_def by (intro keeps_rules)
qed

end
