(* ===== verification/Lifecycle.thy ===== *)
theory Lifecycle
  imports ProviderBooks Funding
begin

text \<open>
  The life of a settlement across every transaction of financial-settlement.ts and
  provider-settlement.ts. A step relation has one rule per committed transaction or write, its
  arguments arbitrary, so stale snapshots and any interleaving of workers are covered; the
  operations are shown to be sequences of such steps. Over the steps two invariants hold:
  \<open>books_ok\<close> and \<open>once_ok\<close>, which says that a settlement is paid at most once and reversed at most
  once, whatever the provider reports and in whatever order.
\<close>

section \<open>Steps\<close>

text \<open>A write to a settlement that can only move its status to "in flight": lease columns,
  provider answers, recipients, markers.\<close>

definition quiet_write :: "(settlement \<Rightarrow> settlement) \<Rightarrow> bool" where
  "quiet_write f \<longleftrightarrow> (\<forall>s. s_id (f s) = s_id s \<and> s_org (f s) = s_org s \<and> s_wallet (f s) = s_wallet s \<and>
     s_sourceType (f s) = s_sourceType s \<and> s_sourceId (f s) = s_sourceId s \<and> s_amount (f s) = s_amount s \<and>
     s_reservedAt (f s) = s_reservedAt s \<and> s_releasedAt (f s) = s_releasedAt s \<and>
     s_settledAt (f s) = s_settledAt s \<and> s_reversedAt (f s) = s_reversedAt s \<and>
     (s_status (f s) = s_status s \<or> s_status (f s) \<in> set recoverableStatuses))"

text \<open>A write to a funding attempt that does not complete it.\<close>

definition quiet_funding :: "(funding \<Rightarrow> funding) \<Rightarrow> bool" where
  "quiet_funding g \<longleftrightarrow> (\<forall>f. f_id (g f) = f_id f \<and> f_amount (g f) = f_amount f \<and> f_wallet (g f) = f_wallet f \<and>
     (f_status (g f) = f_status f \<or> f_status (g f) \<noteq> ''COMPLETED''))"

inductive fin_step :: "fin_env \<Rightarrow> fin_db \<Rightarrow> fin_db \<Rightarrow> bool" for E where
  quiet: "quiet_write f \<Longrightarrow> updateMany_settlements P f db = (r, db') \<Longrightarrow> fin_step E db db'"
| other_tables: "same_books db db' \<Longrightarrow> fin_step E db db'"
| prepare: "0 \<le> src_amount src \<Longrightarrow> create_settlement (new_settlement n src c key) db = (r1, db') \<Longrightarrow>
    fin_step E db db'"
| claim: "reserveAndClaimProviderSettlement E now org i db = (r2, db') \<Longrightarrow> fin_step E db db'"
| release: "releaseSettlementReservation E now org i why db = (r3, db') \<Longrightarrow> fin_step E db db'"
| reverse: "reverseSucceededSettlement E n org i ref db = (r4, db') \<Longrightarrow> fin_step E db db'"
| finalize: "finalizeProviderSettlementSuccess E n i result db = (r5, db') \<Longrightarrow> fin_step E db db'"
| manual: "(\<And>s l a. keeps (same_books a) (fin s l)) \<Longrightarrow>
    completeManualSettlement E n src inp fin db = (r6 :: app_error + settlement \<times> unit option \<times> bool, db') \<Longrightarrow>
    fin_step E db db'"
| fund_start: "0 \<le> f_amount f \<Longrightarrow> f_status f \<noteq> ''COMPLETED'' \<Longrightarrow> create_funding f db = (r7, db') \<Longrightarrow>
    fin_step E db db'"
| fund_write: "quiet_funding g \<Longrightarrow> updateMany_fundings now Q g db = (r8, db') \<Longrightarrow> fin_step E db db'"
| fund_manual: "0 \<le> v \<Longrightarrow> fundWalletManually E Y n org i v ext descr u db = (r9, db') \<Longrightarrow> fin_step E db db'"
| fund_verified: "finalizeVerifiedPaystackFunding E Y n i vf db = (r10, db') \<Longrightarrow> fin_step E db db'"

inductive_simps fin_step_iff: "fin_step E db db'"

definition initial_db :: "fin_db \<Rightarrow> bool" where
  "initial_db db \<longleftrightarrow> db_settlements db = [] \<and> db_ledger db = [] \<and> db_fundings db = [] \<and> distinct (map w_id (db_wallets db)) \<and>
     (\<forall>w \<in> set (db_wallets db). w_balance w = 0 \<and> w_reserved w = 0)"

section \<open>Exactly once\<close>

definition evidence_for :: "settlement \<Rightarrow> ledger \<Rightarrow> bool" where
  "evidence_for s t \<longleftrightarrow> t_org t = s_org s \<and> t_sourceType t = Some (s_sourceType s) \<and> t_sourceId t = Some (s_sourceId s)"

definition is_debit :: "ledger \<Rightarrow> bool" where
  "is_debit t \<longleftrightarrow> t_direction t = ''DEBIT''"

definition is_reversal :: "ledger \<Rightarrow> bool" where
  "is_reversal t \<longleftrightarrow> t_direction t = ''CREDIT'' \<and> t_reversalOf t \<noteq> None"

definition debit_count :: "settlement \<Rightarrow> ledger list \<Rightarrow> nat" where
  "debit_count s = countWhere (\<lambda>t. evidence_for s t \<and> is_debit t)"

definition reversal_count :: "settlement \<Rightarrow> ledger list \<Rightarrow> nat" where
  "reversal_count s = countWhere (\<lambda>t. evidence_for s t \<and> is_reversal t)"

definition row_once :: "ledger list \<Rightarrow> settlement \<Rightarrow> bool" where
  "row_once rows s \<longleftrightarrow>
     debit_count s rows = (if s_settledAt s = None then 0 else 1) \<and>
     reversal_count s rows = (if s_reversedAt s = None then 0 else 1) \<and>
     (s_settledAt s \<noteq> None \<longrightarrow> s_releasedAt s \<noteq> None) \<and>
     (s_status s = PREPARED \<longrightarrow> s_settledAt s = None) \<and>
     (s_status s \<in> {SUCCEEDED, REVERSED} \<longrightarrow> s_settledAt s \<noteq> None) \<and>
     (s_status s = REVERSED \<longrightarrow> s_reversedAt s \<noteq> None) \<and>
     (s_reversedAt s \<noteq> None \<longrightarrow> s_settledAt s \<noteq> None \<and> s_status s \<notin> {SUCCEEDED, PREPARED})"

definition same_source :: "settlement \<Rightarrow> settlement \<Rightarrow> bool" where
  "same_source a b \<longleftrightarrow> s_org a = s_org b \<and> s_sourceType a = s_sourceType b \<and> s_sourceId a = s_sourceId b"

definition once_ok :: "fin_db \<Rightarrow> bool" where
  "once_ok db \<longleftrightarrow> distinct (map s_id (db_settlements db)) \<and>
     (\<forall>a \<in> set (db_settlements db). \<forall>b \<in> set (db_settlements db). same_source a b \<longrightarrow> s_id a = s_id b) \<and>
     (\<forall>s \<in> set (db_settlements db). row_once (db_ledger db) s) \<and>
     (\<forall>t \<in> set (db_ledger db). t_sourceType t \<noteq> None \<and> t_sourceId t \<noteq> None \<and> (is_debit t \<or> is_reversal t) \<longrightarrow>
        (\<exists>s \<in> set (db_settlements db). evidence_for s t))"

lemma once_okD:
  assumes "once_ok db"
  shows "distinct (map s_id (db_settlements db))"
    "a \<in> set (db_settlements db) \<Longrightarrow> b \<in> set (db_settlements db) \<Longrightarrow> same_source a b \<Longrightarrow> s_id a = s_id b"
    "s \<in> set (db_settlements db) \<Longrightarrow> row_once (db_ledger db) s"
    "t \<in> set (db_ledger db) \<Longrightarrow> evidence_for r t \<Longrightarrow> is_debit t \<or> is_reversal t \<Longrightarrow>
       \<exists>s \<in> set (db_settlements db). evidence_for s t"
proof -
  show "distinct (map s_id (db_settlements db))"
    "a \<in> set (db_settlements db) \<Longrightarrow> b \<in> set (db_settlements db) \<Longrightarrow> same_source a b \<Longrightarrow> s_id a = s_id b"
    "s \<in> set (db_settlements db) \<Longrightarrow> row_once (db_ledger db) s"
    using assms unfolding once_ok_def by blast+
  assume t: "t \<in> set (db_ledger db)" "evidence_for r t" "is_debit t \<or> is_reversal t"
  then have "t_sourceType t \<noteq> None \<and> t_sourceId t \<noteq> None" by (simp add: evidence_for_def)
  with t assms show "\<exists>s \<in> set (db_settlements db). evidence_for s t" unfolding once_ok_def by blast
qed

lemma counts_append [simp]:
  "debit_count s (rows @ [t]) = debit_count s rows + (if evidence_for s t \<and> is_debit t then 1 else 0)"
  "reversal_count s (rows @ [t]) = reversal_count s rows + (if evidence_for s t \<and> is_reversal t then 1 else 0)"
  by (auto simp: debit_count_def reversal_count_def countWhere_def)

lemma evidence_same_source: "evidence_for a t \<Longrightarrow> evidence_for b t \<Longrightarrow> same_source a b"
  by (auto simp: evidence_for_def same_source_def)

lemma counts_cong:
  "same_source a b \<Longrightarrow> debit_count a rows = debit_count b rows"
  "same_source a b \<Longrightarrow> reversal_count a rows = reversal_count b rows"
  by (simp_all add: debit_count_def reversal_count_def evidence_for_def same_source_def)

lemma same_source_sym: "same_source a b = same_source b a"
  by (auto simp: same_source_def)

text \<open>One settlement changes, and with it at most its own evidence.\<close>

lemma once_update:
  assumes ok: "once_ok db" and s: "find (\<lambda>x. s_id x = i) (db_settlements db) = Some s"
    and f: "\<And>x. s_id (f x) = s_id x" "same_source (f s) s"
    and ls: "ls = [] \<or> (\<exists>l. ls = [l] \<and> evidence_for s l)"
    and row: "row_once (db_ledger db) s \<Longrightarrow> row_once (db_ledger db @ ls) (f s)"
    and db': "db_settlements db' = updateMany (\<lambda>x. s_id x = i) f (db_settlements db)"
      "db_ledger db' = db_ledger db @ ls"
  shows "once_ok db'"
proof -
  note ids = once_okD(1)[OF ok]
  have sin: "s \<in> set (db_settlements db)" "s_id s = i" using find_SomeD[OF s] by auto
  have only: "x = s" if "x \<in> set (db_settlements db)" "s_id x = i" for x
    using key_unique[OF ids sin(1) that(1)] that(2) sin(2) by simp
  have rows: "y = f s \<or> y \<in> set (db_settlements db) \<and> s_id y \<noteq> i" if "y \<in> set (db_settlements db')" for y
    using that only by (auto simp: db' set_updateMany split: if_splits)
  have keep_row: "if s_id x = i then f s \<in> set (db_settlements db') else x \<in> set (db_settlements db')"
    if "x \<in> set (db_settlements db)" for x
    using that only sin by (auto simp: db' set_updateMany image_iff intro: bexI[of _ x])
  have old: "\<exists>x \<in> set (db_settlements db). s_id x = s_id y \<and> same_source x y"
    if "y \<in> set (db_settlements db')" for y
    using rows[OF that] sin f by (auto simp: same_source_def)
  have src: "s_id a = s_id b"
    if ab: "a \<in> set (db_settlements db')" "b \<in> set (db_settlements db')" "same_source a b" for a b
  proof -
    obtain x y where x: "x \<in> set (db_settlements db)" "s_id x = s_id a" "same_source x a"
      and y: "y \<in> set (db_settlements db)" "s_id y = s_id b" "same_source y b"
      using old[OF ab(1)] old[OF ab(2)] by blast
    then have "same_source x y" using ab(3) by (simp add: same_source_def)
    with once_okD(2)[OF ok x(1) y(1)] x(2) y(2) show ?thesis by simp
  qed
  have other: "row_once (db_ledger db @ ls) y" if y: "y \<in> set (db_settlements db)" "s_id y \<noteq> i" for y
  proof -
    have "\<not> evidence_for y l" if "evidence_for s l" for l
      using evidence_same_source[OF that] once_okD(2)[OF ok sin(1) y(1)] y(2) sin(2) by auto
    with ls once_okD(3)[OF ok y(1)] show ?thesis by (auto simp: row_once_def)
  qed
  have all: "row_once (db_ledger db') y" if "y \<in> set (db_settlements db')" for y
    using rows[OF that] other row once_okD(3)[OF ok sin(1)] by (auto simp: db')
  have "\<exists>y \<in> set (db_settlements db'). evidence_for y t"
    if t: "t \<in> set (db_ledger db')" "t_sourceType t \<noteq> None" "t_sourceId t \<noteq> None" "is_debit t \<or> is_reversal t" for t
  proof -
    have "\<exists>x \<in> set (db_settlements db). evidence_for x t"
      using t ls sin ok by (auto simp: db' once_ok_def)
    then obtain x where x: "x \<in> set (db_settlements db)" "evidence_for x t" by blast
    show ?thesis
    proof (cases "s_id x = i")
      case True
      with only x have "evidence_for s t" by auto
      with f(2) have "evidence_for (f s) t" by (simp add: evidence_for_def same_source_def)
      with keep_row[OF sin(1)] sin(2) show ?thesis by auto
    next
      case False
      with keep_row[OF x(1)] x(2) show ?thesis by auto
    qed
  qed
  moreover have "distinct (map s_id (db_settlements db'))" by (simp add: db' map_s_id_update f ids)
  ultimately show ?thesis using src all by (auto simp: once_ok_def)
qed

lemma once_create:
  assumes ok: "once_ok db" and new: "\<not> clashes settlement_clash r (db_settlements db)"
    and r': "s_id r' = s_id r" "same_source r' r"
    and ls: "ls = [] \<or> (\<exists>l. ls = [l] \<and> evidence_for r l)"
    and row: "debit_count r (db_ledger db) = 0 \<Longrightarrow> reversal_count r (db_ledger db) = 0 \<Longrightarrow> row_once (db_ledger db @ ls) r'"
    and db': "db_settlements db' = db_settlements db @ [r']" "db_ledger db' = db_ledger db @ ls"
  shows "once_ok db'"
proof -
  have fresh: "s_id x \<noteq> s_id r \<and> \<not> same_source x r" if "x \<in> set (db_settlements db)" for x
    using new that by (auto simp: clashes_def settlement_clash_def same_source_def)
  have none: "\<not> (evidence_for r t \<and> (is_debit t \<or> is_reversal t))" if "t \<in> set (db_ledger db)" for t
    using once_okD(4)[OF ok that] fresh evidence_same_source by blast
  then have zero: "debit_count r (db_ledger db) = 0" "reversal_count r (db_ledger db) = 0"
    by (auto simp: debit_count_def reversal_count_def countWhere_def filter_empty_conv)
  have other: "row_once (db_ledger db @ ls) y" if y: "y \<in> set (db_settlements db)" for y
  proof -
    have "\<not> evidence_for y l" if "evidence_for r l" for l
      using evidence_same_source[OF _ that] fresh[OF y] by blast
    with ls once_okD(3)[OF ok y] show ?thesis by (auto simp: row_once_def)
  qed
  have src: "s_id a = s_id b"
    if ab: "a \<in> set (db_settlements db')" "b \<in> set (db_settlements db')" "same_source a b" for a b
  proof -
    have no: "\<not> same_source x r'" if "x \<in> set (db_settlements db)" for x
      using fresh[OF that] r'(2) by (auto simp: same_source_def)
    from ab show ?thesis
      using no[of a] no[of b] once_okD(2)[OF ok, of a b] same_source_sym[of b a] by (auto simp: db')
  qed
  have "\<exists>y \<in> set (db_settlements db'). evidence_for y t"
    if t: "t \<in> set (db_ledger db')" "t_sourceType t \<noteq> None" "t_sourceId t \<noteq> None" "is_debit t \<or> is_reversal t" for t
  proof (cases "t \<in> set (db_ledger db)")
    case True
    with t ok show ?thesis by (auto simp: db' once_ok_def)
  next
    case False
    with t ls have "evidence_for r t" by (auto simp: db')
    with r'(2) show ?thesis by (auto simp: db' evidence_for_def same_source_def)
  qed
  moreover have "distinct (map s_id (db_settlements db'))"
  proof -
    have "s_id r' \<notin> set (map s_id (db_settlements db))" unfolding r'(1) using fresh by fastforce
    with once_okD(1)[OF ok] show ?thesis by (simp add: db')
  qed
  moreover have "row_once (db_ledger db') y" if "y \<in> set (db_settlements db')" for y
    using that other row[OF zero] by (auto simp: db')
  ultimately show ?thesis using src by (auto simp: once_ok_def)
qed

section \<open>Every step keeps the two invariants\<close>

lemma once_same_books: "same_books db db' \<Longrightarrow> once_ok db' = once_ok db"
  by (simp add: same_books_def once_ok_def)

lemma quiet_writeD:
  assumes "quiet_write f"
  shows "s_id (f s) = s_id s" "s_wallet (f s) = s_wallet s" "held_amount (f s) = held_amount s"
    "settlement_ok s \<Longrightarrow> settlement_ok (f s)" "same_source (f s) s" "row_once rows s \<Longrightarrow> row_once rows (f s)"
proof -
  note f = assms[unfolded quiet_write_def, rule_format, of s]
  show same: "same_source (f s) s" using f by (simp add: same_source_def)
  show "s_id (f s) = s_id s" "s_wallet (f s) = s_wallet s" "held_amount (f s) = held_amount s"
    using f by (auto simp: held_amount_def held_def)
  show "settlement_ok s \<Longrightarrow> settlement_ok (f s)"
    using f by (auto simp: settlement_ok_def recoverableStatuses_def)
  show "row_once rows s \<Longrightarrow> row_once rows (f s)"
    using f counts_cong[OF same, of rows] by (auto simp: row_once_def recoverableStatuses_def)
qed

lemma once_quiet:
  assumes ok: "once_ok db" and f: "quiet_write f"
  shows "once_ok (db\<lparr>db_settlements := updateMany P f (db_settlements db)\<rparr>)"
proof -
  note q = quiet_writeD[OF f]
  let ?ss = "updateMany P f (db_settlements db)"
  have old: "\<exists>x \<in> set (db_settlements db). s_id x = s_id y \<and> same_source y x \<and> (row_once rows x \<longrightarrow> row_once rows y)"
    if "y \<in> set ?ss" for y rows
  proof -
    from that obtain x where x: "x \<in> set (db_settlements db)" "y = (if P x then f x else x)"
      by (auto simp: set_updateMany)
    have "s_id x = s_id y \<and> same_source y x \<and> (row_once rows x \<longrightarrow> row_once rows y)"
      using q(1)[of x] q(5)[of x] q(6)[of rows x] by (simp add: x(2) same_source_def)
    with x(1) show ?thesis by blast
  qed
  have new: "\<exists>y \<in> set ?ss. same_source y x" if "x \<in> set (db_settlements db)" for x
  proof -
    have "(if P x then f x else x) \<in> set ?ss" using that by (simp add: set_updateMany)
    moreover have "same_source (if P x then f x else x) x" using q(5)[of x] by (simp add: same_source_def)
    ultimately show ?thesis by blast
  qed
  have "s_id a = s_id b" if ab: "a \<in> set ?ss" "b \<in> set ?ss" "same_source a b" for a b
  proof -
    obtain x y where "x \<in> set (db_settlements db)" "s_id x = s_id a" "same_source a x"
      and "y \<in> set (db_settlements db)" "s_id y = s_id b" "same_source b y"
      using old[OF ab(1)] old[OF ab(2)] by blast
    with once_okD(2)[OF ok, of x y] ab(3) show ?thesis by (auto simp: same_source_def)
  qed
  moreover have "\<exists>s \<in> set ?ss. evidence_for s t"
    if t: "t \<in> set (db_ledger db)" "t_sourceType t \<noteq> None" "t_sourceId t \<noteq> None" "is_debit t \<or> is_reversal t" for t
  proof -
    obtain x where x: "x \<in> set (db_settlements db)" "evidence_for x t" using ok t by (auto simp: once_ok_def)
    obtain y where y: "y \<in> set ?ss" "same_source y x" using new[OF x(1)] by blast
    with x(2) have "evidence_for y t" by (simp add: evidence_for_def same_source_def)
    with y(1) show ?thesis by blast
  qed
  moreover have "row_once (db_ledger db) y" if "y \<in> set ?ss" for y
    using old[OF that, of "db_ledger db"] once_okD(3)[OF ok] by blast
  ultimately show ?thesis using once_okD(1)[OF ok] by (auto simp: once_ok_def map_s_id_update q(1))
qed

lemma once_release:
  assumes ok: "once_ok db" and books: "books_ok db"
    and run: "releaseSettlementReservation E now org i why db = (r, db')"
  shows "once_ok db'"
  using once_okD(1)[OF ok] run
proof (cases rule: release_effect)
  case 1
  with ok show ?thesis by simp
next
  case (2 s u db1)
  have db1: "db_settlements db1 = db_settlements db" "db_ledger db1 = db_ledger db"
    using release_run[OF books_okD(1)[OF books] 2(4)] by auto
  show ?thesis
    by (rule once_update[OF ok 2(1), of "release_write now why" "[]"])
      (use 2(2,3) db1 in \<open>auto simp: 2(5) release_write_def same_source_def row_once_def debit_count_def
        reversal_count_def evidence_for_def held_def\<close>)
qed

lemma once_finalize:
  assumes ok: "once_ok db" and books: "books_ok db"
    and run: "finalizeProviderSettlementSuccess E n i result db = (r, db')"
  shows "once_ok db'"
  using run
proof (cases rule: finalize_effect)
  case 1
  with ok show ?thesis by simp
next
  case (2 s w before after db1)
  have db1: "db_settlements db1 = db_settlements db" "db_ledger db1 = db_ledger db"
    using consume_run[OF books_okD(1)[OF books] 2(4)] by auto
  show ?thesis
    by (rule once_update[OF ok 2(1), of "mark_succeeded (n_now n) result" "[provider_ledger n s before after]"])
      (use 2(2,3) db1 in \<open>auto simp: 2(6,7) mark_succeeded_def provider_ledger_def same_source_def row_once_def
        debit_count_def reversal_count_def countWhere_def evidence_for_def held_def is_debit_def is_reversal_def\<close>)
qed

lemma once_reverse:
  assumes ok: "once_ok db" and books: "books_ok db"
    and run: "reverseSucceededSettlement E n org i ref db = (r, db')"
  shows "once_ok db'"
  using once_okD(1)[OF ok] run
proof (cases rule: reverse_effect)
  case 1
  with ok show ?thesis by simp
next
  case (2 s w restored db1 original)
  have wid: "w_id w = s_wallet s" using find_SomeD[OF 2(4)] by (simp add: wallet_key_def)
  have db1: "db_settlements db1 = db_settlements db" "db_ledger db1 = db_ledger db"
    using credit_wallet_run(1)[OF books_okD(1)[OF books] 2(4) 2(5)[unfolded wid]] by auto
  show ?thesis
    by (rule once_update[OF ok 2(1), of "reverse_write n ref" "[reversal_ledger n s ref w restored original]"])
      (use 2(3) db1 in \<open>auto simp: 2(6) reverse_write_def reversal_ledger_def same_source_def row_once_def
        debit_count_def reversal_count_def countWhere_def evidence_for_def is_debit_def is_reversal_def\<close>)
qed

lemma quiet_run:
  assumes "updateMany_settlements P f db = (r, db')"
  shows "db' = db \<or> db' = db\<lparr>db_settlements := updateMany P f (db_settlements db)\<rparr>"
  using assms by (cases r) (auto simp: run_simps updateMany_settlements_def run_bnd_err)

lemma once_claimInitiation:
  assumes ok: "once_ok db" and run: "claimInitiation now org s db = (r, db')"
  shows "once_ok db'"
proof -
  have f: "quiet_write (claim_initiation now s)"
    by (simp add: quiet_write_def claim_initiation_def recoverableStatuses_def)
  have "keeps once_ok (updateMany_settlements P (claim_initiation now s))" for P
    using once_quiet[OF _ f] quiet_run by (intro keepsI) metis
  then have "keeps once_ok (claimInitiation now org s)" unfolding claimInitiation_def by (intro keeps_rules)
  with ok run show ?thesis by (blast dest: keepsD)
qed

lemma once_claim:
  assumes ok: "once_ok db" and books: "books_ok db"
    and run: "reserveAndClaimProviderSettlement E now org i db = (r, db')"
  shows "once_ok db'"
  using once_okD(1)[OF ok] run
proof (cases rule: claim_effect)
  case 1
  with ok show ?thesis by simp
next
  case 2
  with ok show ?thesis by (blast intro: once_claimInitiation)
next
  case (3 s P u db2 row x)
  let ?db1 = "db\<lparr>db_settlements := updateMany P (claim_prepared now s) (db_settlements db)\<rparr>"
  have wok: "wallets_ok ?db1" using books_okD(1)[OF books] by (simp add: wallets_ok_def)
  have db2: "db_settlements db2 = updateMany P (claim_prepared now s) (db_settlements db)" "db_ledger db2 = db_ledger db"
    using reserve_run[OF wok 3(4)] by auto
  have P: "updateMany P (claim_prepared now s) (db_settlements db) =
      updateMany (\<lambda>x. s_id x = i) (claim_prepared now s) (db_settlements db)"
    unfolding updateMany_def using 3(3) by (intro map_cong) auto
  have "once_ok db2"
    by (rule once_update[OF ok 3(1), of "claim_prepared now s" "[]"])
      (use 3(2) in \<open>auto simp: db2 P claim_prepared_def same_source_def row_once_def debit_count_def
        reversal_count_def evidence_for_def\<close>)
  with 3(5) show ?thesis by (blast intro: once_claimInitiation)
qed

lemma once_prepare:
  assumes ok: "once_ok db" and run: "create_settlement (new_settlement n src c key) db = (r, db')"
  shows "once_ok db'"
proof (cases r)
  case (Inl e)
  with run have "db' = db" by (auto simp: create_settlement_def run_simps run_bnd_err)
  with ok show ?thesis by simp
next
  case (Inr x)
  with run have new: "\<not> clashes settlement_clash (new_settlement n src c key) (db_settlements db)"
    and db': "db' = db\<lparr>db_settlements := db_settlements db @ [new_settlement n src c key]\<rparr>"
    by (auto simp: run_simps)
  show ?thesis
    by (rule once_create[OF ok new, of _ "[]"])
      (auto simp: db' same_source_def row_once_def new_settlement_def)
qed

lemma find_key_here:
  assumes "distinct (map s_id rows)" and "s \<in> set rows"
  shows "find (\<lambda>x. s_id x = s_id s) rows = Some s"
proof -
  have "find (\<lambda>x. s_id x = s_id s) rows \<noteq> None" using assms(2) by (auto simp: find_None_iff)
  then obtain y where y: "find (\<lambda>x. s_id x = s_id s) rows = Some y" by blast
  with key_unique[OF assms] find_SomeD[OF y] show ?thesis by auto
qed

lemma once_manual_settle:
  assumes ok: "once_ok db" and books: "books_ok db"
    and run: "manual_settle n src inp fin existing db = (Inr r, db')"
    and existing: "\<And>s. existing = Some s \<Longrightarrow> s \<in> set (db_settlements db) \<and> s_status s = PREPARED \<and>
      s_org s = src_org src \<and> s_sourceType s = src_type src \<and> s_sourceId s = src_id src"
    and fin: "\<And>s l a. keeps (same_books a) (fin s l)"
  shows "once_ok db'"
proof -
  let ?f = "\<lambda>x. manual_done n inp (manualData n inp x)"
  obtain c st l res ss and w :: wallet where f:
    "case existing of
       None \<Rightarrow> let m = manualData n inp (new_settlement n src c (mi_idempotencyKey inp)) in
         \<not> clashes settlement_clash m (db_settlements db) \<and> ss = db_settlements db @ [manual_done n inp m]
     | Some s \<Rightarrow> ss = updateMany (\<lambda>x. s_id x = s_id s) ?f (db_settlements db)"
    "l = manual_ledger n src inp st (w_balance w) (w_balance w - src_amount src)"
    "fin (fst r) (n_ledgerId n) ((post_wallet (src_org src) (src_wallet src) (- src_amount src) 0 db)
      \<lparr>db_ledger := db_ledger db @ [l], db_settlements := ss\<rparr>) = (Inr res, db')"
    using manual_settle_run[OF books_okD(1)[OF books] run] by (elim exE conjE) (rule that, assumption+)
  have db': "db_settlements db' = ss" "db_ledger db' = db_ledger db @ [l]"
    using keepsD[OF fin _ f(3), of "(post_wallet (src_org src) (src_wallet src) (- src_amount src) 0 db)
      \<lparr>db_ledger := db_ledger db @ [l], db_settlements := ss\<rparr>"] by (auto simp: same_books_def)
  have l: "is_debit l" "\<not> is_reversal l" "t_org l = src_org src" "t_sourceType l = Some (src_type src)"
    "t_sourceId l = Some (src_id src)"
    by (auto simp: f(2) is_debit_def is_reversal_def)
  show ?thesis
  proof (cases existing)
    case None
    let ?m = "manualData n inp (new_settlement n src c (mi_idempotencyKey inp))"
    from f(1) None have new: "\<not> clashes settlement_clash ?m (db_settlements db)"
      "ss = db_settlements db @ [manual_done n inp ?m]" by (simp_all add: Let_def)
    have same: "same_source (manual_done n inp ?m) ?m" by (simp add: same_source_def)
    have ev: "evidence_for ?m l" "evidence_for (manual_done n inp ?m) l" using l by (simp_all add: evidence_for_def)
    have row: "row_once (db_ledger db @ [l]) (manual_done n inp ?m)"
      if "debit_count ?m (db_ledger db) = 0" "reversal_count ?m (db_ledger db) = 0"
      using that l(1,2) ev(2) counts_cong[OF same, of "db_ledger db"]
      by (simp add: row_once_def manual_done_def)
    show ?thesis
      by (rule once_create[OF ok new(1) _ same _ row]) (use ev(1) db' in \<open>simp_all add: new(2)\<close>)
  next
    case (Some s)
    note ex = existing[OF Some]
    have found: "find (\<lambda>x. s_id x = s_id s) (db_settlements db) = Some s"
      using ex by (intro find_key_here[OF once_okD(1)[OF ok]]) simp
    have same: "same_source (?f s) s" by (simp add: same_source_def)
    have ev: "evidence_for s l" "evidence_for (?f s) l" using l ex by (simp_all add: evidence_for_def)
    have row: "row_once (db_ledger db @ [l]) (?f s)" if "row_once (db_ledger db) s"
      using that l(1,2) ev(2) ex counts_cong[OF same, of "db_ledger db"]
      by (simp add: row_once_def manual_done_def)
    show ?thesis
      by (rule once_update[OF ok found, of ?f "[l]"]) (use Some f(1) ev(1) db' same row in simp_all)
  qed
qed

lemma once_manual:
  assumes ok: "once_ok db" and books: "books_ok db"
    and run: "completeManualSettlement E n src inp fin db = (r, db')"
    and fin: "\<And>s l a. keeps (same_books a) (fin s l)"
  shows "once_ok db'"
  using run
proof (cases rule: complete_effect)
  case 1
  with ok show ?thesis by simp
next
  case (2 existing x)
  show ?thesis by (rule once_manual_settle[OF ok books 2(1)]) (use 2(2) fin in auto)
qed

lemma books_if_same: "(\<And>a. keeps (same_books a) m) \<Longrightarrow> keeps books_ok m"
proof (rule keepsI)
  fix s r t assume m: "\<And>a. keeps (same_books a) m" and "books_ok s" and run: "m s = (r, t)"
  have "same_books s t" by (rule keepsD[OF m _ run]) (simp add: same_books_def)
  with \<open>books_ok s\<close> show "books_ok t" using books_ok_cong[of t s] by (simp add: same_books_def)
qed

subsection \<open>The ledger only grows\<close>

definition ledger_unique :: "ledger list \<Rightarrow> bool" where
  "ledger_unique rows \<longleftrightarrow> sorted_wrt (\<lambda>a b. \<not> ledger_clash b a) rows"

text \<open>The row of a verified Paystack payment.\<close>

definition is_funding_row :: "ledger \<Rightarrow> bool" where
  "is_funding_row t \<longleftrightarrow> t_type t = ''WALLET_FUNDING''"

text \<open>The ledger extends \<open>L\<close> by rows of a kind, and no two of its rows clash.\<close>

definition grows :: "ledger list \<Rightarrow> (ledger \<Rightarrow> bool) \<Rightarrow> fin_db \<Rightarrow> bool" where
  "grows L R db \<longleftrightarrow> (\<exists>ls. db_ledger db = L @ ls \<and> (\<forall>t \<in> set ls. R t)) \<and> ledger_unique (db_ledger db)"

lemma grows_create_ledger: "R r \<Longrightarrow> keeps (grows L R) (create_ledger r)"
proof (rule keepsI)
  fix db x db' assume R: "R r" and g: "grows L R db" and run: "create_ledger r db = (x, db')"
  show "grows L R db'"
  proof (cases x)
    case (Inl e)
    with run have "db' = db" by (auto simp: create_ledger_def run_simps run_bnd_err)
    with g show ?thesis by simp
  next
    case (Inr y)
    from g obtain ls where ls: "db_ledger db = L @ ls" "\<forall>t \<in> set ls. R t" by (auto simp: grows_def)
    from run Inr have new: "\<not> clashes ledger_clash r (db_ledger db)"
      and db': "db_ledger db' = L @ (ls @ [r])" by (auto simp: run_simps ls)
    have "ledger_unique (db_ledger db')"
      using g new ls(1) by (auto simp: grows_def ledger_unique_def db' sorted_wrt_append clashes_def)
    moreover have "\<forall>t \<in> set (ls @ [r]). R t" using ls(2) R by simp
    ultimately show ?thesis unfolding grows_def using db' by blast
  qed
qed

lemma grows_other [simp]:
  "grows L R (db\<lparr>db_wallets := x1\<rparr>) = grows L R db" "grows L R (db\<lparr>db_settlements := x2\<rparr>) = grows L R db"
  "grows L R (db\<lparr>db_requests := x3\<rparr>) = grows L R db" "grows L R (db\<lparr>db_payslips := x4\<rparr>) = grows L R db"
  "grows L R (db\<lparr>db_runs := x5\<rparr>) = grows L R db" "grows L R (db\<lparr>db_fundings := x6\<rparr>) = grows L R db"
  "grows L R (db\<lparr>db_audit := x7\<rparr>) = grows L R db"
  by (simp_all add: grows_def)

lemma grows_tables [keeps_rules]:
  "keeps (grows L R) (updateMany_wallets P1 f1)" "keeps (grows L R) (updateMany_settlements P2 f2)"
  "keeps (grows L R) (updateMany_requests P3 f3)" "keeps (grows L R) (updateMany_payslips P4 f4)"
  "keeps (grows L R) (updateMany_runs P5 f5)" "keeps (grows L R) (updateMany_fundings now P6 f6)"
  "keeps (grows L R) (create_settlement s)" "keeps (grows L R) (create_funding f)"
  unfolding updateMany_wallets_def updateMany_settlements_def updateMany_requests_def updateMany_payslips_def
    updateMany_runs_def updateMany_fundings_def create_settlement_def create_funding_def
  by (intro keeps_rules keeps_writes; simp)+

lemma grows_audited [keeps_rules]: "keeps (grows L R) (audited Y now inp)"
  by (rule keepsI) (auto simp: run_simps)

lemma grows_update [keeps_rules]:
  "keeps (grows L R) (update_settlement i f)" "keeps (grows L R) (update_funding now j g)"
  "keeps (grows L R) (credit_wallet w a)"
  unfolding update_settlement_def update_funding_def credit_wallet_def by (intro keeps_rules)+

lemma grows_wallet [keeps_rules]:
  "keeps (grows L R) (reserveWalletBalance org i a c)" "keeps (grows L R) (consumeWalletReservation org i a c)"
  "keeps (grows L R) (releaseWalletReservation org i a c)"
  unfolding reserveWalletBalance_def consumeWalletReservation_def releaseWalletReservation_def changeWallet_def
    debitOutcome_def by (intro keeps_rules)+

lemma settlement_rows [simp]:
  "\<not> is_funding_row (manual_ledger n src inp s b a)" "\<not> is_funding_row (provider_ledger n s b a)"
  "\<not> is_funding_row (reversal_ledger n s ref w b l)"
  by (simp_all add: is_funding_row_def manual_ledger_def provider_ledger_def reversal_ledger_def)

abbreviation "no_funding \<equiv> (\<lambda>t. \<not> is_funding_row t)"

lemma grows_ops:
  "keeps (grows L no_funding) (reserveAndClaimProviderSettlement E now org i)"
  "keeps (grows L no_funding) (releaseSettlementReservation E now org i why)"
  "keeps (grows L no_funding) (reverseSucceededSettlement E n org i ref)"
  "keeps (grows L no_funding) (finalizeProviderSettlementSuccess E n i result)"
  "keeps (grows L no_funding) (fundWalletManually E Y n org i v ext d u)"
  "keeps (grows L (\<lambda>_. True)) (finalizeVerifiedPaystackFunding E Y n i vf)"
  unfolding reserveAndClaimProviderSettlement_def claimInitiation_def releaseSettlementReservation_def
    reverseSucceededSettlement_def finalizeProviderSettlementSuccess_def settleObligation_def
    updatePayrollAggregate_def update_run_def fundWalletManually_def find_transfer_def
    finalizeVerifiedPaystackFunding_def find_funding_def Let_def
  by (intro keeps_rules keeps_tx grows_create_ledger; simp add: is_funding_row_def[of "funding_ledger n org w ty v a tr d st si c" for n org w ty v a tr d st si c])+

lemma grows_manual:
  assumes "\<And>s l. keeps (grows L no_funding) (fin s l)"
  shows "keeps (grows L no_funding) (completeManualSettlement E n src inp fin)"
  unfolding completeManualSettlement_def manual_settle_def
  by (intro keeps_rules keeps_tx assms grows_create_ledger) simp_all

lemma grows_same: "same_books db db' \<Longrightarrow> grows L R db \<Longrightarrow> grows L R db'"
  by (simp add: same_books_def grows_def)

lemma if_same_books:
  assumes m: "\<And>a. keeps (same_books a) m" and I: "\<And>db db'. same_books db db' \<Longrightarrow> I db \<Longrightarrow> I db'"
  shows "keeps I m"
proof (rule keepsI)
  fix s r t assume "I s" and run: "m s = (r, t)"
  have "same_books s t" by (rule keepsD[OF m _ run]) (simp add: same_books_def)
  with \<open>I s\<close> show "I t" by (blast intro: I)
qed

lemma books_same: "same_books db db' \<Longrightarrow> books_ok db \<Longrightarrow> books_ok db'"
  using books_ok_cong[of db' db] by (simp add: same_books_def)

section \<open>The steps keep the invariants\<close>

lemma books_fundings_tables [keeps_rules]:
  "keeps books_ok (create_funding f)" "keeps books_ok (updateMany_fundings now Q g)"
  unfolding create_funding_def updateMany_fundings_def by (intro keeps_rules keeps_writes; simp)+

definition fin_books :: "fin_db \<Rightarrow> bool" where
  "fin_books db \<longleftrightarrow> books_ok db \<and> distinct (map f_id (db_fundings db)) \<and> (\<forall>f \<in> set (db_fundings db). 0 \<le> f_amount f)"

lemma fin_step_keeps_books:
  assumes step: "fin_step E db db'" and inv: "fin_books db"
  shows "books_ok db'"
proof -
  have ok: "books_ok db" using inv by (simp add: fin_books_def)
  from step show ?thesis
  proof cases
    case (quiet f P r)
    have "keeps books_ok (updateMany_settlements P f)"
      by (rule keeps_quiet_updateMany) (use quiet_writeD[OF quiet(1)] in auto)
    from keepsD[OF this ok quiet(2)] show ?thesis .
  next
    case other_tables
    with inv show ?thesis using books_same by (auto simp: fin_books_def)
  next
    case (prepare src n c key r)
    from keepsD[OF keeps_new_settlement[OF prepare(1)] ok prepare(2)] show ?thesis .
  next
    case (claim now org i r)
    from keepsD[OF books_reserveAndClaim ok claim] show ?thesis .
  next
    case (release now org i why r)
    from keepsD[OF release_keeps_books ok release] show ?thesis .
  next
    case (reverse n org i ref r)
    from keepsD[OF reverse_keeps_books ok reverse] show ?thesis .
  next
    case (finalize n i result r)
    from keepsD[OF books_finalizeSuccess ok finalize] show ?thesis .
  next
    case (manual fin n src inp r)
    have "keeps books_ok (completeManualSettlement E n src inp fin)"
      by (rule complete_keeps_books) (rule books_if_same, rule manual(1))
    from keepsD[OF this ok manual(2)] show ?thesis .
  next
    case (fund_start f r)
    from keepsD[OF books_fundings_tables(1) ok fund_start(3)] show ?thesis .
  next
    case (fund_write g now Q r)
    from keepsD[OF books_fundings_tables(2) ok fund_write(2)] show ?thesis .
  next
    case (fund_manual v Y n org i ext descr u r)
    from books_okD(1)[OF ok] fund_manual(2) show ?thesis
    proof (cases rule: fund_manual_effect)
      case 1
      with ok show ?thesis by simp
    next
      case (2 l)
      show ?thesis by (rule credited_books[OF ok 2(1) fund_manual(1)])
    qed
  next
    case (fund_verified Y n i vf r)
    have ids: "distinct (map f_id (db_fundings db))" using inv by (simp add: fin_books_def)
    from books_okD(1)[OF ok] ids fund_verified show ?thesis
    proof (cases rule: fund_verified_effect)
      case 1
      with ok show ?thesis by simp
    next
      case (2 f l)
      have "0 \<le> f_amount f" using inv 2(1) by (simp add: fin_books_def)
      with credited_books[OF ok 2(5)] show ?thesis by simp
    qed
  qed
qed

text \<open>No rule but the two credits touches a funding's money, and the settlement transactions
  leave the attempts alone.\<close>

definition fundings_are :: "funding list \<Rightarrow> fin_db \<Rightarrow> bool" where
  "fundings_are F db \<longleftrightarrow> db_fundings db = F"

lemma fundings_tables [keeps_rules]:
  "keeps (fundings_are F) (updateMany_wallets P1 f1)" "keeps (fundings_are F) (updateMany_settlements P2 f2)"
  "keeps (fundings_are F) (updateMany_requests P3 f3)" "keeps (fundings_are F) (updateMany_payslips P4 f4)"
  "keeps (fundings_are F) (updateMany_runs P5 f5)" "keeps (fundings_are F) (create_ledger l)"
  "keeps (fundings_are F) (create_settlement s)"
  unfolding updateMany_wallets_def updateMany_settlements_def updateMany_requests_def updateMany_payslips_def
    updateMany_runs_def create_settlement_def create_ledger_def
  by (intro keeps_rules keeps_writes; simp add: fundings_are_def)+

lemma fundings_updates [keeps_rules]:
  "keeps (fundings_are F) (update_settlement i f)" "keeps (fundings_are F) (credit_wallet w a)"
  unfolding update_settlement_def credit_wallet_def by (intro keeps_rules)+

lemma fundings_wallet [keeps_rules]:
  "keeps (fundings_are F) (reserveWalletBalance org i a c)" "keeps (fundings_are F) (consumeWalletReservation org i a c)"
  "keeps (fundings_are F) (releaseWalletReservation org i a c)" "keeps (fundings_are F) (debitUnreservedWallet org i a c)"
  unfolding reserveWalletBalance_def consumeWalletReservation_def releaseWalletReservation_def
    debitUnreservedWallet_def changeWallet_def debitOutcome_def by (intro keeps_rules)+

lemma fundings_ops:
  "keeps (fundings_are F) (reserveAndClaimProviderSettlement E now org i)"
  "keeps (fundings_are F) (releaseSettlementReservation E now org i why)"
  "keeps (fundings_are F) (reverseSucceededSettlement E n org i ref)"
  "keeps (fundings_are F) (finalizeProviderSettlementSuccess E n i result)"
  unfolding reserveAndClaimProviderSettlement_def claimInitiation_def releaseSettlementReservation_def
    reverseSucceededSettlement_def finalizeProviderSettlementSuccess_def settleObligation_def
    updatePayrollAggregate_def update_run_def Let_def
  by (intro keeps_rules keeps_tx)+

lemma fundings_manual:
  assumes "\<And>s l. keeps (fundings_are F) (fin s l)"
  shows "keeps (fundings_are F) (completeManualSettlement E n src inp fin)"
  unfolding completeManualSettlement_def manual_settle_def by (intro keeps_rules keeps_tx assms)

lemma fin_step_keeps_once:
  assumes step: "fin_step E db db'" and inv: "fin_books db" and once: "once_ok db"
  shows "once_ok db'"
proof -
  have books: "books_ok db" and ids: "distinct (map f_id (db_fundings db))" using inv by (simp_all add: fin_books_def)
  have credit: "once_ok db'"
    if "credited org i v l db db'" for org i v l
  proof -
    have l: "\<not> is_debit l" "\<not> is_reversal l" using that by (auto simp: credited_def is_debit_def is_reversal_def)
    have "row_once (db_ledger db @ [l]) s" if "row_once (db_ledger db) s" for s
      using that l by (simp add: row_once_def)
    with once that l show ?thesis by (auto simp: once_ok_def credited_def)
  qed
  have fundings: "once_ok db'" if "db' = db\<lparr>db_fundings := F\<rparr>" for F
    using once that by (simp add: once_ok_def)
  from step show ?thesis
  proof cases
    case (quiet f P r)
    from quiet_run[OF quiet(2)] once_quiet[OF once quiet(1), of P] once show ?thesis by auto
  next
    case other_tables
    with once once_same_books show ?thesis by blast
  next
    case (prepare src n c key r)
    from once_prepare[OF once prepare(2)] show ?thesis .
  next
    case (claim now org i r)
    from once_claim[OF once books claim] show ?thesis .
  next
    case (release now org i why r)
    from once_release[OF once books release] show ?thesis .
  next
    case (reverse n org i ref r)
    from once_reverse[OF once books reverse] show ?thesis .
  next
    case (finalize n i result r)
    from once_finalize[OF once books finalize] show ?thesis .
  next
    case (manual fin n src inp r)
    from once_manual[OF once books manual(2,1)] show ?thesis .
  next
    case (fund_start f r)
    then show ?thesis using once by (cases r) (auto simp: run_simps run_bnd_err create_funding_def once_ok_def)
  next
    case (fund_write g now Q r)
    then show ?thesis using once by (cases r) (auto simp: run_simps run_bnd_err updateMany_fundings_def once_ok_def)
  next
    case (fund_manual v Y n org i ext descr u r)
    from books_okD(1)[OF books] fund_manual(2) show ?thesis
      by (cases rule: fund_manual_effect) (use once credit in auto)
  next
    case (fund_verified Y n i vf r)
    from books_okD(1)[OF books] ids fund_verified show ?thesis
      by (cases rule: fund_verified_effect) (use once credit in auto)
  qed
qed

lemma fin_step_grows:
  assumes step: "fin_step E db db'" and u: "ledger_unique (db_ledger db)"
  shows "grows (db_ledger db) (\<lambda>_. True) db'"
proof -
  have start: "grows (db_ledger db) R db" for R using u by (simp add: grows_def)
  have weaken: "grows (db_ledger db) (\<lambda>_. True) db'" if "keeps (grows (db_ledger db) R) m" "m db = (r, db')"
    for R and r :: "app_error + 'x" and m
    using keepsD[OF that(1) start that(2)] by (auto simp: grows_def)
  from step show ?thesis
  proof cases
    case (manual fin n src inp r)
    have "keeps (grows (db_ledger db) no_funding) (fin s l)" for s l
      by (rule if_same_books[OF manual(1) grows_same])
    from weaken[OF grows_manual[OF this] manual(2)] show ?thesis .
  next
    case other_tables
    from grows_same[OF this start] show ?thesis .
  qed (blast intro: weaken grows_ops grows_tables)+
qed

section \<open>Verified fundings\<close>

definition funds :: "funding \<Rightarrow> ledger \<Rightarrow> bool" where
  "funds f t \<longleftrightarrow> is_funding_row t \<and> t_sourceType t = Some ''PAYSTACK_FUNDING'' \<and> t_sourceId t = Some (f_id f) \<and>
     t_wallet t = f_wallet f \<and> t_amount t = f_amount f \<and> t_direction t = ''CREDIT''"

definition funding_ok :: "fin_db \<Rightarrow> bool" where
  "funding_ok db \<longleftrightarrow> distinct (map f_id (db_fundings db)) \<and> (\<forall>f \<in> set (db_fundings db). 0 \<le> f_amount f) \<and>
     (\<forall>f \<in> set (db_fundings db). f_status f = ''COMPLETED'' \<longrightarrow> (\<exists>t \<in> set (db_ledger db). funds f t)) \<and>
     (\<forall>t \<in> set (db_ledger db). is_funding_row t \<longrightarrow> (\<exists>f \<in> set (db_fundings db). funds f t))"

lemma funding_okD:
  assumes "funding_ok db"
  shows "distinct (map f_id (db_fundings db))" "f \<in> set (db_fundings db) \<Longrightarrow> 0 \<le> f_amount f"
    "f \<in> set (db_fundings db) \<Longrightarrow> f_status f = ''COMPLETED'' \<Longrightarrow> \<exists>t \<in> set (db_ledger db). funds f t"
    "t \<in> set (db_ledger db) \<Longrightarrow> is_funding_row t \<Longrightarrow> \<exists>f \<in> set (db_fundings db). funds f t"
  using assms unfolding funding_ok_def by blast+

lemma funds_cong: "f_id a = f_id b \<Longrightarrow> f_wallet a = f_wallet b \<Longrightarrow> f_amount a = f_amount b \<Longrightarrow> funds a t = funds b t"
  by (simp add: funds_def)

text \<open>More rows of other kinds change nothing; nor does a write that completes no attempt.\<close>

lemma funding_ok_grows:
  assumes ok: "funding_ok db" and g: "grows (db_ledger db) no_funding db'" and same: "db_fundings db' = db_fundings db"
  shows "funding_ok db'"
proof -
  from g obtain ls where ls: "db_ledger db' = db_ledger db @ ls" "\<forall>t \<in> set ls. \<not> is_funding_row t" by (auto simp: grows_def)
  then show ?thesis using ok unfolding funding_ok_def same by (auto simp: ls)
qed

lemma funding_ok_rewrite:
  assumes ok: "funding_ok db" and ledger: "db_ledger db' = db_ledger db"
    and new: "\<And>x. x \<in> set (db_fundings db') \<Longrightarrow> \<exists>y \<in> set (db_fundings db). f_id x = f_id y \<and>
      f_amount x = f_amount y \<and> f_wallet x = f_wallet y \<and> (f_status x = ''COMPLETED'' \<longrightarrow> f_status y = ''COMPLETED'')"
    and ids: "map f_id (db_fundings db') = map f_id (db_fundings db)"
  shows "funding_ok db'"
proof -
  have "0 \<le> f_amount x" if "x \<in> set (db_fundings db')" for x
    using new[OF that] funding_okD(2)[OF ok] by metis
  moreover have "\<exists>t \<in> set (db_ledger db). funds x t" if "x \<in> set (db_fundings db')" "f_status x = ''COMPLETED''" for x
    using new[OF that(1)] that(2) funding_okD(3)[OF ok] funds_cong[of x] by metis
  moreover have "\<exists>x \<in> set (db_fundings db'). funds x t" if t: "t \<in> set (db_ledger db)" "is_funding_row t" for t
  proof -
    obtain y where y: "y \<in> set (db_fundings db)" "funds y t" using funding_okD(4)[OF ok t] by blast
    have "f_id y \<in> set (map f_id (db_fundings db'))" unfolding ids using y(1) by simp
    then obtain x where x: "x \<in> set (db_fundings db')" "f_id x = f_id y" by auto
    obtain z where z: "z \<in> set (db_fundings db)" "f_id x = f_id z" "f_amount x = f_amount z" "f_wallet x = f_wallet z"
      using new[OF x(1)] by blast
    have "z = y" using funding_okD(1)[OF ok] z(1,2) y(1) x(2) by (auto simp: distinct_map inj_on_def)
    with funds_cong[OF z(2,4,3)] y(2) x(1) show ?thesis by blast
  qed
  moreover have "distinct (map f_id (db_fundings db'))" unfolding ids by (rule funding_okD(1)[OF ok])
  ultimately show ?thesis by (simp add: funding_ok_def ledger)
qed

lemma funding_ok_create:
  assumes ok: "funding_ok db" and f: "0 \<le> f_amount f" "f_status f \<noteq> ''COMPLETED''"
    and run: "create_funding f db = (r, db')"
  shows "funding_ok db'"
proof (cases r)
  case (Inl e)
  with run have "db' = db" by (auto simp: create_funding_def run_simps run_bnd_err)
  with ok show ?thesis by simp
next
  case (Inr x)
  with run have "\<not> clashes funding_clash f (db_fundings db)" and db': "db' = db\<lparr>db_fundings := db_fundings db @ [f]\<rparr>"
    by (auto simp: run_simps)
  then have "f_id f \<notin> f_id ` set (db_fundings db)" by (auto simp: clashes_def funding_clash_def)
  with ok f show ?thesis by (auto simp: funding_ok_def db')
qed

lemma funding_ok_write:
  assumes ok: "funding_ok db" and g: "quiet_funding g" and run: "updateMany_fundings now Q g db = (r, db')"
  shows "funding_ok db'"
proof -
  let ?h = "\<lambda>f. (g f)\<lparr>f_updatedAt := now\<rparr>"
  consider "db' = db" | "db' = db\<lparr>db_fundings := updateMany Q ?h (db_fundings db)\<rparr>"
    using run by (cases r) (auto simp: run_simps run_bnd_err updateMany_fundings_def)
  then show ?thesis
  proof cases
    case 1
    with ok show ?thesis by simp
  next
    case 2
    have h: "f_id (?h x) = f_id x \<and> f_amount (?h x) = f_amount x \<and> f_wallet (?h x) = f_wallet x \<and>
        (f_status (?h x) = ''COMPLETED'' \<longrightarrow> f_status x = ''COMPLETED'')" for x
      using g[unfolded quiet_funding_def, rule_format, of x] by auto
    have "\<exists>y \<in> set (db_fundings db). f_id x = f_id y \<and> f_amount x = f_amount y \<and> f_wallet x = f_wallet y \<and>
        (f_status x = ''COMPLETED'' \<longrightarrow> f_status y = ''COMPLETED'')" if "x \<in> set (db_fundings db')" for x
    proof -
      from that obtain y where "y \<in> set (db_fundings db)" "x = (if Q y then ?h y else y)"
        unfolding 2 by (auto elim: updateManyE)
      with h[of y] show ?thesis by (intro bexI[of _ y]) auto
    qed
    moreover have "map f_id (db_fundings db') = map f_id (db_fundings db)" unfolding 2 using h by (simp add: map_updateMany_same)
    ultimately show ?thesis by (intro funding_ok_rewrite[OF ok]) (simp_all add: 2)
  qed
qed

lemma funding_ok_verified:
  assumes ok: "funding_ok db" and books: "books_ok db"
    and run: "finalizeVerifiedPaystackFunding E Y n i vf db = (r, db')"
  shows "funding_ok db'"
  using books_okD(1)[OF books] funding_okD(1)[OF ok] run
proof (cases rule: fund_verified_effect)
  case 1
  with ok show ?thesis by simp
next
  case (2 f l)
  note same = 2(9) and ids = 2(10)
  have ledger: "db_ledger db' = db_ledger db @ [l]" using 2(5) by (simp add: credited_def)
  have only: "y = f" if "y \<in> set (db_fundings db)" "f_id y = i" for y
    using funding_okD(1)[OF ok] 2(1,2) that by (auto simp: distinct_map inj_on_def)
  have l: "funds f l"
    using 2(2,5-8) by (auto simp: funds_def is_funding_row_def credited_def signed_amount_def)
  have "0 \<le> f_amount x" if "x \<in> set (db_fundings db')" for x
    using same[OF that] funding_okD(2)[OF ok] by metis
  moreover have "\<exists>t \<in> set (db_ledger db'). funds x t" if x: "x \<in> set (db_fundings db')" "f_status x = ''COMPLETED''" for x
  proof -
    obtain y where y: "y \<in> set (db_fundings db)" "f_id x = f_id y" "f_amount x = f_amount y" "f_wallet x = f_wallet y"
      "f_id x = i \<or> x = y" using same[OF x(1)] by blast
    from y(5) show ?thesis
    proof
      assume "f_id x = i"
      with only[OF y(1)] y(2) have "y = f" by simp
      with funds_cong[OF y(2,4,3)] l ledger show ?thesis by auto
    next
      assume "x = y"
      with funding_okD(3)[OF ok y(1)] x(2) ledger show ?thesis by auto
    qed
  qed
  moreover have "\<exists>x \<in> set (db_fundings db'). funds x t" if t: "t \<in> set (db_ledger db')" "is_funding_row t" for t
  proof -
    obtain y where y: "y \<in> set (db_fundings db)" "funds y t"
      using t l 2(1) funding_okD(4)[OF ok] by (auto simp: ledger)
    have "f_id y \<in> set (map f_id (db_fundings db'))" unfolding ids using y(1) by simp
    then obtain x where x: "x \<in> set (db_fundings db')" "f_id x = f_id y" by auto
    obtain z where z: "z \<in> set (db_fundings db)" "f_id x = f_id z" "f_amount x = f_amount z" "f_wallet x = f_wallet z"
      using same[OF x(1)] by blast
    have "z = y" using funding_okD(1)[OF ok] z(1,2) y(1) x(2) by (auto simp: distinct_map inj_on_def)
    with funds_cong[OF z(2,4,3)] y(2) x(1) show ?thesis by blast
  qed
  moreover have "distinct (map f_id (db_fundings db'))" unfolding ids by (rule funding_okD(1)[OF ok])
  ultimately show ?thesis by (simp add: funding_ok_def)
qed

lemma fin_step_keeps_funding:
  assumes step: "fin_step E db db'" and ok: "funding_ok db" and books: "books_ok db" and u: "ledger_unique (db_ledger db)"
  shows "funding_ok db'"
proof -
  have start: "grows (db_ledger db) R db" for R using u by (simp add: grows_def)
  have settle: "funding_ok db'"
    if "keeps (grows (db_ledger db) no_funding) m" "keeps (fundings_are (db_fundings db)) m" "m db = (r, db')"
    for m and r :: "app_error + 'x"
    using funding_ok_grows[OF ok keepsD[OF that(1) start that(3)]] keepsD[OF that(2) _ that(3)]
    by (simp add: fundings_are_def)
  from step show ?thesis
  proof cases
    case (quiet f P r)
    from settle[OF grows_tables(2) fundings_tables(2) quiet(2)] show ?thesis .
  next
    case other_tables
    with ok show ?thesis by (simp add: same_books_def funding_ok_def)
  next
    case (prepare src n c key r)
    from settle[OF grows_tables(7) fundings_tables(7) prepare(2)] show ?thesis .
  next
    case (claim now org i r)
    from settle[OF grows_ops(1) fundings_ops(1) claim] show ?thesis .
  next
    case (release now org i why r)
    from settle[OF grows_ops(2) fundings_ops(2) release] show ?thesis .
  next
    case (reverse n org i ref r)
    from settle[OF grows_ops(3) fundings_ops(3) reverse] show ?thesis .
  next
    case (finalize n i result r)
    from settle[OF grows_ops(4) fundings_ops(4) finalize] show ?thesis .
  next
    case (manual fin n src inp r)
    have f: "keeps (fundings_are F) (fin s l)" for s l F
      by (rule if_same_books[OF manual(1)]) (simp add: same_books_def fundings_are_def)
    have g: "keeps (grows L no_funding) (fin s l)" for s l L by (rule if_same_books[OF manual(1) grows_same])
    from settle[OF grows_manual[OF g] fundings_manual[OF f] manual(2)] show ?thesis .
  next
    case (fund_start f r)
    from funding_ok_create[OF ok fund_start] show ?thesis .
  next
    case (fund_write g now Q r)
    from funding_ok_write[OF ok fund_write] show ?thesis .
  next
    case (fund_manual v Y n org i ext descr u r)
    have g: "grows (db_ledger db) no_funding db'" by (rule keepsD[OF grows_ops(5) start fund_manual(2)])
    from books_okD(1)[OF books] fund_manual(2) show ?thesis
      by (cases rule: fund_manual_effect) (use ok funding_ok_grows[OF ok g] in auto)
  next
    case (fund_verified Y n i vf r)
    from funding_ok_verified[OF ok books fund_verified] show ?thesis .
  qed
qed

section \<open>The invariant of the financial core\<close>

definition fin_inv :: "fin_db \<Rightarrow> bool" where
  "fin_inv db \<longleftrightarrow> books_ok db \<and> once_ok db \<and> ledger_unique (db_ledger db) \<and> funding_ok db"

lemma initial_inv: "initial_db db \<Longrightarrow> fin_inv db"
  by (auto simp: initial_db_def fin_inv_def books_ok_def wallets_ok_def once_ok_def ledger_unique_def funding_ok_def
      reserved_for_def ledger_balance_def)

lemma step_inv:
  assumes "fin_step E db db'" and inv: "fin_inv db"
  shows "fin_inv db'"
proof -
  have books: "fin_books db" using inv by (simp add: fin_inv_def fin_books_def funding_ok_def)
  show ?thesis
    using fin_step_keeps_books[OF assms(1) books] fin_step_keeps_once[OF assms(1) books]
      fin_step_keeps_funding[OF assms(1)] fin_step_grows[OF assms(1)] inv
    by (simp add: fin_inv_def grows_def)
qed

abbreviation reachable :: "fin_env \<Rightarrow> fin_db \<Rightarrow> fin_db \<Rightarrow> bool" where
  "reachable E \<equiv> (fin_step E)\<^sup>*\<^sup>*"

lemma steps_inv: "reachable E db db' \<Longrightarrow> fin_inv db \<Longrightarrow> fin_inv db'"
  by (induction rule: rtranclp_induct) (auto intro: step_inv)

lemma steps_ledger:
  "reachable E db db' \<Longrightarrow> fin_inv db \<Longrightarrow> \<exists>ls. db_ledger db' = db_ledger db @ ls"
proof (induction rule: rtranclp_induct)
  case (step y z)
  have "ledger_unique (db_ledger y)" using steps_inv[OF step(1) step(4)] by (simp add: fin_inv_def)
  with fin_step_grows[OF step(2)] obtain ls where "db_ledger z = db_ledger y @ ls" by (auto simp: grows_def)
  with step(3)[OF step(4)] show ?case by auto
qed simp

section \<open>The operations are sequences of steps\<close>

text \<open>\<open>from_here E a\<close> holds of the states the financial core can reach from \<open>a\<close>; an operation that
  keeps it does nothing but steps.\<close>

definition from_here :: "fin_env \<Rightarrow> fin_db \<Rightarrow> fin_db \<Rightarrow> bool" where
  "from_here E a db \<longleftrightarrow> reachable E a db"

lemma here: "from_here E a a"
  by (simp add: from_here_def)

lemma by_step: "(\<And>db r db'. m db = (r, db') \<Longrightarrow> fin_step E db db') \<Longrightarrow> keeps (from_here E a) m"
  by (rule keepsI) (auto simp: from_here_def intro: rtranclp.rtrancl_into_rtrancl)

lemma by_other: "(\<And>b. keeps (same_books b) m) \<Longrightarrow> keeps (from_here E a) m"
proof (rule by_step, rule fin_step.other_tables)
  fix db r db' assume m: "\<And>b. keeps (same_books b) m" and run: "m db = (r, db')"
  show "same_books db db'" by (rule keepsD[OF m _ run]) (simp add: same_books_def)
qed

lemma by_quiet: "quiet_write f \<Longrightarrow> keeps (from_here E a) (updateMany_settlements P f)"
  by (rule by_step) (rule fin_step.quiet)

lemma by_quiet_one: "quiet_write f \<Longrightarrow> keeps (from_here E a) (update_settlement i f)"
  unfolding update_settlement_def by (intro keeps_rules by_quiet)

lemma by_transactions:
  "keeps (from_here E a) (reserveAndClaimProviderSettlement E now org i)"
  "keeps (from_here E a) (releaseSettlementReservation E now org i why)"
  "keeps (from_here E a) (reverseSucceededSettlement E n org i ref)"
  "keeps (from_here E a) (finalizeProviderSettlementSuccess E n i result)"
  "keeps (from_here E a) (finalizeVerifiedPaystackFunding E Y n j vf)"
  "0 \<le> v \<Longrightarrow> keeps (from_here E a) (fundWalletManually E Y n org k v ext d u)"
  "(\<And>s l b. keeps (same_books b) (fin s l)) \<Longrightarrow>
     keeps (from_here E a) (completeManualSettlement E n src inp (fin :: settlement \<Rightarrow> string \<Rightarrow> (fin_db, unit) op))"
  by (rule by_step, erule fin_step.claim fin_step.release fin_step.reverse fin_step.finalize fin_step.fund_verified
      fin_step.fund_manual fin_step.manual, assumption?)+

lemmas quiet_write_simps = quiet_write_def recoverableStatuses_def mark_verified_def otpRejected_def

lemma recipient_same: "keeps (same_books b) (create_recipient r)"
  unfolding create_recipient_def by (intro keeps_rules keeps_writes) (simp add: same_books_def)

lemma audited_same: "keeps (same_books b) (audited Y now inp)"
  by (rule keepsI) (auto simp: run_simps same_books_def)

lemmas from_here_tables [keeps_rules] =
  by_other[OF recipient_same] by_other[OF audited_same] by_other[OF same_books_steps(1)]
  by_other[OF same_books_steps(2)] by_other[OF same_books_steps(3)]

lemma from_here_aggregate [keeps_rules]: "keeps (from_here E a) (updatePayrollAggregate now i b)"
  unfolding updatePayrollAggregate_def update_run_def by (intro keeps_rules)

lemma from_here_recipient [keeps_rules]: "keeps (from_here E' a) (ensureRecipient E n P s)"
  unfolding ensureRecipient_def Let_def by (intro keeps_rules)

lemma from_here_reverse: "keeps (from_here E a) (reverseProviderSettlement E n s result)"
  unfolding reverseProviderSettlement_def reopenObligation_def
  by (intro keeps_rules keeps_tx by_transactions by_quiet_one) (simp add: quiet_write_simps)

lemma from_here_apply: "keeps (from_here E a) (applyProviderTransferResult E n s result)"
  unfolding applyProviderTransferResult_def Let_def
  by (intro keeps_rules by_transactions from_here_reverse by_quiet_one; simp add: quiet_write_simps)

lemma from_here_prepare:
  assumes "0 \<le> src_amount src"
  shows "keeps (from_here E a) (prepareProviderSettlement n src key)"
proof -
  have "keeps (from_here E a) (create_settlement (new_settlement n src c key))" for c
    by (rule by_step) (rule fin_step.prepare[OF assms])
  then show ?thesis unfolding prepareProviderSettlement_def by (intro keeps_rules)
qed

lemma from_here_initiationCall: "keeps (from_here E a) (initiationCall E n P s)"
  unfolding initiationCall_def by (intro keeps_rules by_quiet_one; simp add: quiet_write_simps)

lemma from_here_initiate: "keeps (from_here E a) (initiateProviderSettlement E n P org i)"
proof -
  have unknown: "keeps (from_here E a) (update_settlement j (\<lambda>x. x\<lparr>s_status := UNKNOWN, s_failureReason := r\<rparr>))" for j r
    by (intro by_quiet_one) (simp add: quiet_write_simps)
  have started: "keeps (from_here E a) (bnd (catching
              (bnd (initiationCall E n P claimed) (\<lambda>(s, result). ret (applyProviderTransferResult E n s result)))
              (\<lambda>e. if is_ambiguous e then
                     bnd (update_settlement (s_id claimed)
                            (\<lambda>x. x\<lparr>s_status := UNKNOWN, s_failureReason := Some (error_message e)\<rparr>)) (\<lambda>row.
                     ret (ret row))
                   else
                     bnd (releaseSettlementReservation E (n_now n) org (s_id claimed) (error_message e)) (\<lambda>_.
                     raise e))) (\<lambda>returned. returned))" for claimed
  proof (rule keeps_then_run, goal_cases)
    case (1 s t k)
    from 1(2) show ?case
      by (auto simp: run_catching_ok run_simps intro: from_here_apply keeps_ret split: if_splits)
  qed (intro keeps_rules from_here_initiationCall unknown by_transactions)
  show ?thesis unfolding initiateProviderSettlement_def by (intro keeps_rules by_transactions started)
qed

lemma from_here_leases:
  "keeps (from_here E' a) (claimProviderSettlementReconciliation E i now token)"
  "keeps (from_here E' a) (releaseProviderSettlementReconciliation i token e)"
  unfolding claimProviderSettlementReconciliation_def releaseProviderSettlementReconciliation_def
  by (intro keeps_rules by_quiet; simp add: quiet_write_simps)+

lemma from_here_verify:
  "keeps (from_here E a) (verifyAndReconcileProviderSettlement E n later order P enabled i supplied)"
proof -
  have failed: "keeps (from_here E a) (verificationFailed E n P en s token e)" for en s token e
    unfolding verificationFailed_def
    by (intro keeps_rules from_here_apply by_quiet by_quiet_one; simp add: quiet_write_simps)
  show ?thesis unfolding verifyAndReconcileProviderSettlement_def Let_def
    by (intro keeps_rules from_here_leases from_here_apply failed)
qed

lemma from_here_otp: "keeps (from_here E a) (finalizeProviderSettlementOtp E n P enabled org i otp)"
proof -
  have finished: "keeps (from_here E a) (update_settlement j (\<lambda>x. x\<lparr>s_status := PROVIDER_PROCESSING,
      s_providerStatus := p, s_transferCode := b, s_lastVerifiedAt := c, s_failureReason := d\<rparr>))"
    "keeps (from_here E a) (update_settlement j (\<lambda>x. x\<lparr>s_status := UNKNOWN, s_providerStatus := p,
      s_failureReason := b, s_lastVerifiedAt := c\<rparr>))" for j p b c d
    by (intro by_quiet_one; simp add: quiet_write_simps)+
  have call: "keeps (from_here E a) (bnd (otpCall n P org otp s) (\<lambda>k. k))" for s
  proof (rule keeps_then_run)
    show "keeps (from_here E a) (otpCall n P org otp s)"
      unfolding otpCall_def by (intro keeps_rules by_quiet by_quiet_one; simp add: quiet_write_simps)
    show "keeps (from_here E a) k" if "otpCall n P org otp s db = (Inr k, t)" for db t k
      using that unfolding otpCall_def
      by (auto simp: run_catching_ok run_simps intro: finished split: if_splits transfer_state.splits)
  qed
  show ?thesis unfolding finalizeProviderSettlementOtp_def
    by (intro keeps_rules call by_quiet; simp add: quiet_write_simps)
qed

lemma from_here_sweep: "keeps (from_here E a) (reconcileStaleProviderSettlements E now n later order P)"
proof -
  have one: "keeps (from_here E a) (sweepOne E n later order P i c)" for i c
    unfolding sweepOne_def by (intro keeps_rules from_here_leases from_here_verify)
  have "keeps (from_here E a) (sweepAll (sweepOne E n later order P) is c)" for "is" c
    by (induction "is" arbitrary: c) (auto intro!: keeps_rules one)
  then show ?thesis unfolding reconcileStaleProviderSettlements_def by (intro keeps_rules)
qed

subsection \<open>Funding\<close>

lemma by_funding: "quiet_funding g \<Longrightarrow> keeps (from_here E a) (updateMany_fundings now Q g)"
  by (rule by_step) (rule fin_step.fund_write)

lemma by_funding_one: "quiet_funding g \<Longrightarrow> keeps (from_here E a) (update_funding now i g)"
  unfolding update_funding_def by (intro keeps_rules by_funding)

lemma keeps_find_funding [keeps_rules]: "keeps I (find_funding i)"
  unfolding find_funding_def by (intro keeps_rules)

lemma keeps_find_by_key [keeps_rules]: "keeps I (find_by_key org key)"
  unfolding find_by_key_def by (intro keeps_rules)

lemma from_here_startFunding: "keeps (from_here E a) (startFunding E' Y net n org user w f)"
  unfolding startFunding_def
  by (intro keeps_rules by_funding_one; simp add: quiet_funding_def split: app_error.splits)

lemma from_here_initializeFunding:
  assumes "0 \<le> value"
  shows "keeps (from_here E a) (initializePaystackWalletFunding E' Y net n org walletId value key user)"
proof -
  have "keeps (from_here E a) (create_funding (new_funding n org w value key u))" for w u
    by (rule by_step, rule fin_step.fund_start) (simp_all add: new_funding_def assms)
  then show ?thesis unfolding initializePaystackWalletFunding_def Let_def
    by (intro keeps_rules from_here_startFunding)
qed

lemma from_here_verifyFunding: "keeps (from_here E a) (verifyPaystackWalletFunding E Y n verifier org ref)"
  unfolding verifyPaystackWalletFunding_def by (intro keeps_rules by_transactions)

lemma from_here_releaseFunding: "keeps (from_here E a) (releaseWalletFundingRecovery now i token e t d)"
  unfolding releaseWalletFundingRecovery_def by (intro by_funding) (simp add: quiet_funding_def)

lemma from_here_claimFunding: "keeps (from_here E a) (claimWalletFundingRecovery E' i now token)"
  unfolding claimWalletFundingRecovery_def
  by (intro keeps_rules keeps_tx by_funding_one; simp add: quiet_funding_def)

lemma from_here_sweepFundings: "keeps (from_here E a) (reconcileStaleWalletFundingAttempts E Y now limit n token verifier)"
proof -
  have "keeps (from_here E a) (settleFunding E Y m verifier i tk)" for m i tk
    unfolding settleFunding_def
    by (intro keeps_rules by_transactions from_here_releaseFunding by_funding; simp add: quiet_funding_def)
  moreover have "keeps (from_here E a) (fundingFailed E now m i tk e)" for m i tk e
    unfolding fundingFailed_def Let_def
    by (intro keeps_rules from_here_releaseFunding by_funding; simp add: quiet_funding_def)
  ultimately have one: "keeps (from_here E a) (recoverFunding E Y now n token verifier i c)" for i c
    unfolding recoverFunding_def by (intro keeps_rules from_here_claimFunding)
  have "keeps (from_here E a) (recoverFundings (recoverFunding E Y now n token verifier) is c)" for "is" c
    by (induction "is" arbitrary: c) (auto intro!: keeps_rules one)
  then show ?thesis unfolding reconcileStaleWalletFundingAttempts_def by (intro keeps_rules)
qed

end
