(* ===== verification/Payments.thy ===== *)
theory Payments
  imports Lifecycle
begin

text \<open>
  Starting a transfer is not paying. The client lemmas of the locale \<open>settlement_provider\<close>:
  initiation and one-time passwords write no debit, because the provider's contract never lets
  them report success; only a verification does. Paystack's interpretation gives the property of
  the program.
\<close>

definition debits_are :: "ledger list \<Rightarrow> fin_db \<Rightarrow> bool" where
  "debits_are D db \<longleftrightarrow> filter is_debit (db_ledger db) = D"

lemma debits_tables [keeps_rules]:
  "keeps (debits_are D) (updateMany_wallets P1 f1)" "keeps (debits_are D) (updateMany_settlements P2 f2)"
  "keeps (debits_are D) (updateMany_requests P3 f3)" "keeps (debits_are D) (updateMany_payslips P4 f4)"
  "keeps (debits_are D) (updateMany_runs P5 f5)" "keeps (debits_are D) (create_recipient r)"
  unfolding updateMany_wallets_def updateMany_settlements_def updateMany_requests_def updateMany_payslips_def
    updateMany_runs_def create_recipient_def
  by (intro keeps_rules keeps_writes; simp add: debits_are_def)+

lemma debits_create_ledger: "\<not> is_debit t \<Longrightarrow> keeps (debits_are D) (create_ledger t)"
  unfolding create_ledger_def by (intro keeps_rules keeps_writes) (simp add: debits_are_def)

lemma debits_updates [keeps_rules]:
  "keeps (debits_are D) (update_settlement i f)" "keeps (debits_are D) (credit_wallet w a)"
  unfolding update_settlement_def credit_wallet_def by (intro keeps_rules)+

lemma debits_wallet [keeps_rules]:
  "keeps (debits_are D) (reserveWalletBalance org i a c)" "keeps (debits_are D) (releaseWalletReservation org i a c)"
  unfolding reserveWalletBalance_def releaseWalletReservation_def changeWallet_def by (intro keeps_rules)+

lemma debits_settlements:
  "keeps (debits_are D) (reserveAndClaimProviderSettlement E now org i)"
  "keeps (debits_are D) (releaseSettlementReservation E now org i why)"
  "keeps (debits_are D) (reverseSucceededSettlement E n org i ref)"
  unfolding reserveAndClaimProviderSettlement_def claimInitiation_def releaseSettlementReservation_def
    reverseSucceededSettlement_def
  by (intro keeps_rules keeps_tx debits_create_ledger; simp add: is_debit_def)+

lemma debits_recipient [keeps_rules]: "keeps (debits_are D) (ensureRecipient E n P s)"
  unfolding ensureRecipient_def Let_def by (intro keeps_rules)

lemma debits_reverseProvider: "keeps (debits_are D) (reverseProviderSettlement E n s result)"
  unfolding reverseProviderSettlement_def reopenObligation_def updatePayrollAggregate_def update_run_def
  by (intro keeps_rules keeps_tx debits_settlements)

lemma debits_apply: "r_state result \<noteq> SUCCESS \<Longrightarrow> keeps (debits_are D) (applyProviderTransferResult E n s result)"
  unfolding applyProviderTransferResult_def Let_def
  by (intro keeps_rules debits_settlements debits_reverseProvider) simp_all

context settlement_provider
begin

lemma initiation_result:
  assumes "initiationCall E n P s db = (Inr (s', result), t)"
  shows "r_state result \<noteq> SUCCESS"
  using assms initiate_no_success by (auto simp: initiationCall_def run_simps call_initiate_def)

lemma initiate_no_debit: "keeps (debits_are D) (initiateProviderSettlement E n P org i)"
proof -
  have started: "keeps (debits_are D) (bnd (catching
              (bnd (initiationCall E n P claimed) (\<lambda>(s, result). ret (applyProviderTransferResult E n s result)))
              (\<lambda>e. if is_ambiguous e then
                     bnd (update_settlement (s_id claimed)
                            (\<lambda>x. x\<lparr>s_status := UNKNOWN, s_failureReason := Some (error_message e)\<rparr>)) (\<lambda>row.
                     ret (ret row))
                   else
                     bnd (releaseSettlementReservation E (n_now n) org (s_id claimed) (error_message e)) (\<lambda>_.
                     raise e))) (\<lambda>returned. returned))" for claimed
  proof (rule keeps_then_run, goal_cases)
    case (1 s t k)
    from 1(2) show ?case
      by (auto simp: run_catching_ok run_simps intro: debits_apply keeps_ret dest: initiation_result split: if_splits)
  next
    case 2
    show ?case unfolding initiationCall_def by (intro keeps_rules debits_settlements)
  qed
  show ?thesis unfolding initiateProviderSettlement_def by (intro keeps_rules debits_settlements started)
qed

lemma otp_no_debit: "keeps (debits_are D) (finalizeProviderSettlementOtp E n P enabled org i otp)"
proof -
  have call: "keeps (debits_are D) (bnd (otpCall n P org otp s) (\<lambda>k. k))" for s
  proof (rule keeps_then_run)
    show "keeps (debits_are D) (otpCall n P org otp s)" unfolding otpCall_def by (intro keeps_rules)
    show "keeps (debits_are D) k" if "otpCall n P org otp s db = (Inr k, t)" for db t k
      using that unfolding otpCall_def
      by (auto simp: run_catching_ok run_simps intro: debits_updates split: if_splits transfer_state.splits)
  qed
  show ?thesis unfolding finalizeProviderSettlementOtp_def by (intro keeps_rules call)
qed

end

text \<open>C6: With Paystack behind it, whatever the network answers, starting a transfer and entering its
  one-time password write no debit: a bank transfer leaves the ledger only when a later
  verification reports it as successful.\<close>

theorem starting_never_pays:
  "filter is_debit (db_ledger (snd (initiateProviderSettlement E n (PaystackTransferProvider E net) org i db))) =
     filter is_debit (db_ledger db) \<and>
   filter is_debit (db_ledger (snd (finalizeProviderSettlementOtp E n (PaystackTransferProvider E net) enabled org i otp db))) =
     filter is_debit (db_ledger db)"
proof -
  have run: "filter is_debit (db_ledger (snd (m db))) = filter is_debit (db_ledger db)"
    if "\<And>D. keeps (debits_are D) m" for m :: "(fin_db, settlement) op"
    using keepsD[OF that, of "filter is_debit (db_ledger db)" db "fst (m db)" "snd (m db)"] by (simp add: debits_are_def)
  show ?thesis by (intro conjI run paystack.initiate_no_debit paystack.otp_no_debit)
qed

end
