(* ===== verification/Table.thy ===== *)
theory Table
  imports Funding
begin

text \<open>
  Prisma calls on a table of a larger state, given the table's read and update functions:
  \<open>findFirst\<close>, \<open>count\<close>, \<open>create\<close> under a unique index, \<open>update\<close>, \<open>updateMany\<close>, \<open>delete\<close>. The locale
  \<open>table\<close> states what a table promises its clients.
\<close>

section \<open>Calls\<close>

definition find_row :: "('d \<Rightarrow> 'r list) \<Rightarrow> ('r \<Rightarrow> bool) \<Rightarrow> ('d, 'r option) op" where
  "find_row get P = reads (\<lambda>d. find P (get d))"

definition count_rows :: "('d \<Rightarrow> 'r list) \<Rightarrow> ('r \<Rightarrow> bool) \<Rightarrow> ('d, nat) op" where
  "count_rows get P = reads (\<lambda>d. countWhere P (get d))"

definition create_row ::
    "('d \<Rightarrow> 'r list) \<Rightarrow> (('r list \<Rightarrow> 'r list) \<Rightarrow> 'd \<Rightarrow> 'd) \<Rightarrow> ('r \<Rightarrow> 'r \<Rightarrow> bool) \<Rightarrow> 'r \<Rightarrow> ('d, 'r) op" where
  "create_row get upd clash r =
     bnd (reads (\<lambda>d. clashes clash r (get d))) (\<lambda>dup.
     bnd (guard (\<not> dup) P2002) (\<lambda>_.
     bnd (writes (upd (\<lambda>rows. rows @ [r]))) (\<lambda>_.
     ret r)))"

definition update_rows ::
    "('d \<Rightarrow> 'r list) \<Rightarrow> (('r list \<Rightarrow> 'r list) \<Rightarrow> 'd \<Rightarrow> 'd) \<Rightarrow> ('r \<Rightarrow> bool) \<Rightarrow> ('r \<Rightarrow> 'r) \<Rightarrow> ('d, nat) op" where
  "update_rows get upd P f =
     bnd (reads (\<lambda>d. countWhere P (get d))) (\<lambda>n.
     bnd (writes (upd (updateMany P f))) (\<lambda>_.
     ret n))"

text \<open>\<open>update({ where: { id } })\<close> returns the updated row and fails on a missing one.\<close>

definition update_row ::
    "('d \<Rightarrow> 'r list) \<Rightarrow> (('r list \<Rightarrow> 'r list) \<Rightarrow> 'd \<Rightarrow> 'd) \<Rightarrow> ('r \<Rightarrow> bool) \<Rightarrow> ('r \<Rightarrow> 'r) \<Rightarrow> ('d, 'r) op" where
  "update_row get upd P f =
     bnd (find_row get P) (\<lambda>found.
     bnd (required found P2025) (\<lambda>r.
     bnd (writes (upd (updateMany P f))) (\<lambda>_.
     ret (f r))))"

definition delete_row ::
    "('d \<Rightarrow> 'r list) \<Rightarrow> (('r list \<Rightarrow> 'r list) \<Rightarrow> 'd \<Rightarrow> 'd) \<Rightarrow> ('r \<Rightarrow> bool) \<Rightarrow> ('d, unit) op" where
  "delete_row get upd P =
     bnd (find_row get P) (\<lambda>found.
     bnd (required found P2025) (\<lambda>_.
     writes (upd (filter (\<lambda>r. \<not> P r)))))"

text \<open>\<open>undefined\<close> leaves a column alone.\<close>

definition keep :: "'a option \<Rightarrow> 'a \<Rightarrow> 'a" where
  "keep x old = (case x of None \<Rightarrow> old | Some v \<Rightarrow> v)"

definition keep_opt :: "'a option \<Rightarrow> 'a option \<Rightarrow> 'a option" where
  "keep_opt x old = (case x of None \<Rightarrow> old | Some v \<Rightarrow> Some v)"

lemma keep_simps [simp]: "keep None old = old" "keep (Some v) old = v" "keep_opt None o' = o'" "keep_opt (Some v) o' = Some v"
  by (simp_all add: keep_def keep_opt_def)

section \<open>Runs\<close>

lemma run_find_row [run_simps]: "find_row get P d = (r, d') \<longleftrightarrow> r = Inr (find P (get d)) \<and> d' = d"
  by (auto simp: find_row_def run_simps)

lemma run_count_rows [run_simps]: "count_rows get P d = (r, d') \<longleftrightarrow> r = Inr (countWhere P (get d)) \<and> d' = d"
  by (auto simp: count_rows_def run_simps)

lemma run_create_row [run_simps]:
  "create_row get upd clash r d = (Inr x, d') \<longleftrightarrow>
     \<not> clashes clash r (get d) \<and> x = r \<and> d' = upd (\<lambda>rows. rows @ [r]) d"
  by (auto simp: create_row_def run_simps)

lemma run_create_row_err: "create_row get upd clash r d = (Inl e, d') \<longleftrightarrow> clashes clash r (get d) \<and> e = P2002 \<and> d' = d"
  by (auto simp: create_row_def run_simps run_bnd_err)

lemma run_update_rows [run_simps]:
  "update_rows get upd P f d = (r, d') \<longleftrightarrow> r = Inr (countWhere P (get d)) \<and> d' = upd (updateMany P f) d"
  by (cases r) (auto simp: update_rows_def run_simps run_bnd_err)

lemma run_update_row [run_simps]:
  "update_row get upd P f d = (Inr x, d') \<longleftrightarrow>
     (\<exists>r. find P (get d) = Some r \<and> x = f r) \<and> d' = upd (updateMany P f) d"
  by (auto simp: update_row_def run_simps)

lemma run_update_row_err: "update_row get upd P f d = (Inl e, d') \<longleftrightarrow> find P (get d) = None \<and> e = P2025 \<and> d' = d"
  by (auto simp: update_row_def run_simps run_bnd_err)

lemma run_delete_row [run_simps]:
  "delete_row get upd P d = (Inr u, d') \<longleftrightarrow> find P (get d) \<noteq> None \<and> d' = upd (filter (\<lambda>r. \<not> P r)) d"
  by (auto simp: delete_row_def run_simps)

lemma run_delete_row_err: "delete_row get upd P d = (Inl e, d') \<longleftrightarrow> find P (get d) = None \<and> e = P2025 \<and> d' = d"
  by (auto simp: delete_row_def run_simps run_bnd_err)

section \<open>Invariants\<close>

lemma keeps_find_row [keeps_rules]: "keeps I (find_row get P)"
  unfolding find_row_def by (intro keeps_rules)

lemma keeps_count_rows [keeps_rules]: "keeps I (count_rows get P)"
  unfolding count_rows_def by (intro keeps_rules)

lemma keeps_create_row:
  "(\<And>d. I d \<Longrightarrow> \<not> clashes clash r (get d) \<Longrightarrow> I (upd (\<lambda>rows. rows @ [r]) d)) \<Longrightarrow> keeps I (create_row get upd clash r)"
proof (rule keepsI)
  fix d x d' assume I: "\<And>d. I d \<Longrightarrow> \<not> clashes clash r (get d) \<Longrightarrow> I (upd (\<lambda>rows. rows @ [r]) d)"
    and "I d" and run: "create_row get upd clash r d = (x, d')"
  then show "I d'" by (cases x) (auto simp: run_simps run_create_row_err)
qed

lemma keeps_update_rows: "(\<And>d. I d \<Longrightarrow> I (upd (updateMany P f) d)) \<Longrightarrow> keeps I (update_rows get upd P f)"
  by (rule keepsI) (auto simp: run_simps)

lemma keeps_update_row: "(\<And>d. I d \<Longrightarrow> I (upd (updateMany P f) d)) \<Longrightarrow> keeps I (update_row get upd P f)"
  unfolding update_row_def by (intro keeps_rules keeps_writes)

lemma keeps_delete_row: "(\<And>d. I d \<Longrightarrow> I (upd (filter (\<lambda>r. \<not> P r)) d)) \<Longrightarrow> keeps I (delete_row get upd P)"
  unfolding delete_row_def by (intro keeps_rules keeps_writes)

section \<open>What a table promises\<close>

lemma find_append_new: "find P rows = None \<Longrightarrow> P r \<Longrightarrow> find P (rows @ [r]) = Some r"
  by (induction rows) (auto split: if_splits)

text \<open>Reading a table after writing it gives what was written.\<close>

locale table =
  fixes get :: "'d \<Rightarrow> 'r list" and upd :: "('r list \<Rightarrow> 'r list) \<Rightarrow> 'd \<Rightarrow> 'd"
  assumes get_upd: "get (upd f d) = f (get d)"
begin

lemma created_row_found:
  assumes "create_row get upd clash r d = (Inr x, d')" and "P r" and "\<And>y. P y \<Longrightarrow> clash r y"
  shows "find P (get d') = Some r"
proof -
  from assms(1) have new: "\<not> clashes clash r (get d)" and d': "get d' = get d @ [r]"
    by (auto simp: run_simps get_upd)
  from new assms(3) have "\<not> P y" if "y \<in> set (get d)" for y using that by (auto simp: clashes_def)
  then have "find P (get d) = None" by (auto simp: find_None_iff)
  then show ?thesis using find_append_new[of P "get d" r] assms(2) by (simp add: d')
qed

lemma deleted_rows_gone: "delete_row get upd P d = (Inr u, d') \<Longrightarrow> find P (get d') = None"
  by (auto simp: run_simps get_upd find_None_iff)

lemma updated_row_found:
  assumes "update_row get upd P f d = (Inr x, d')" and "\<And>y. P (f y) = P y"
  shows "find P (get d') = Some x"
proof -
  from assms(1) obtain r where r: "find P (get d) = Some r" "x = f r" "get d' = updateMany P f (get d)"
    by (auto simp: run_simps get_upd)
  have "find P (updateMany P f rows) = map_option f (find P rows)" for rows
    using assms(2) by (induction rows) auto
  with r show ?thesis by simp
qed

end

end
