(* ===== verification/Accounting.thy ===== *)
theory Accounting
  imports Table
begin

text \<open>
  src/modules/accounting/accounting.service.ts, master data: customers, catalogue items and
  projects, with the rule that a row with accounting history is archived and not deleted. The
  state of the accounting module extends the financial state, which also holds the audit log and
  the payment requests.

  Values the code generates (ids, random reference bytes, the clock) come in a \<open>fresh\<close> record.
  Input fields are \<open>None\<close> for \<open>undefined\<close>; a nullable field is an option of an option.
\<close>

section \<open>State\<close>

record client =
  cl_id :: string
  cl_org :: string
  cl_reference :: string
  cl_name :: string
  cl_email :: "string option"
  cl_phone :: "string option"
  cl_address :: "string option"
  cl_taxId :: "string option"
  cl_contactPerson :: "string option"
  cl_status :: string
  cl_archivedAt :: "time option"
  cl_createdAt :: time

record catalogue_item =
  it_id :: string
  it_org :: string
  it_reference :: string
  it_name :: string
  it_type :: string
  it_unitPrice :: money
  it_unit :: string
  it_description :: "string option"
  it_vatApplicable :: bool
  it_status :: string
  it_archivedAt :: "time option"

record project =
  pj_id :: string
  pj_org :: string
  pj_reference :: string
  pj_name :: string
  pj_client :: string
  pj_agent :: "string option"
  pj_value :: money
  pj_startDate :: time
  pj_endDate :: "time option"
  pj_status :: string
  pj_archivedAt :: "time option"

record invoice_line =
  li_catalogueItemId :: "string option"
  li_description :: string
  li_quantity :: rat
  li_unitPrice :: money
  li_lineSubtotal :: money
  li_vatApplicable :: bool
  li_vatRate :: rat
  li_vatAmount :: money
  li_total :: money

record invoice =
  iv_id :: string
  iv_org :: string
  iv_client :: string
  iv_agent :: "string option"
  iv_project :: "string option"
  iv_invoiceNo :: string
  iv_issueDate :: time
  iv_dueDate :: "time option"
  iv_status :: string
  iv_subtotal :: money
  iv_taxAmount :: money
  iv_total :: money
  iv_whtApplicable :: bool
  iv_whtRate :: "rat option"
  iv_whtAmount :: money
  iv_amountPayable :: money
  iv_notes :: "string option"
  iv_template :: "string option"
  iv_sentAt :: "time option"
  iv_paidAt :: "time option"
  iv_paymentReference :: "string option"
  iv_items :: "invoice_line list"

record invoice_payment =
  ip_id :: string
  ip_org :: string
  ip_invoice :: string
  ip_reference :: string
  ip_amount :: money
  ip_paidAt :: time
  ip_recordedBy :: string
  ip_notes :: "string option"

record invoice_event =
  ih_org :: string
  ih_invoice :: string
  ih_status :: string
  ih_actor :: string
  ih_description :: string

record expense =
  ex_id :: string
  ex_org :: string
  ex_reference :: string
  ex_date :: time
  ex_category :: string
  ex_categoryId :: "string option"
  ex_description :: string
  ex_amount :: money
  ex_receipt :: "string option"
  ex_status :: string
  ex_loggedBy :: string
  ex_voidedAt :: "time option"
  ex_voidedBy :: "string option"

record expense_category =
  ec_id :: string
  ec_org :: string
  ec_reference :: string
  ec_name :: string
  ec_normalizedName :: string
  ec_description :: "string option"

record invoice_template =
  tp_id :: string
  tp_org :: string
  tp_name :: string
  tp_normalizedName :: string
  tp_paymentTerms :: "string option"
  tp_headerNote :: "string option"
  tp_footerNote :: "string option"
  tp_isDefault :: bool
  tp_defaultKey :: "string option"

text \<open>A user as the accounting module reads it: role permissions, module access, bank details of
  the employee record.\<close>

record member =
  mb_id :: string
  mb_org :: string
  mb_firstName :: string
  mb_lastName :: string
  mb_active :: bool
  mb_permissions :: "string list"
  mb_moduleAccess :: "string list option"
  mb_employee :: bool
  mb_bankName :: "string option"
  mb_bankCode :: "string option"
  mb_accountNumber :: "string option"
  mb_accountName :: "string option"

record acc_db =
  ac_fin :: fin_db
  ac_members :: "member list"
  ac_clients :: "client list"
  ac_items :: "catalogue_item list"
  ac_projects :: "project list"
  ac_invoices :: "invoice list"
  ac_payments :: "invoice_payment list"
  ac_history :: "invoice_event list"
  ac_expenses :: "expense list"
  ac_categories :: "expense_category list"
  ac_templates :: "invoice_template list"
  ac_vatPercent :: rat

text \<open>Every table keeps the contract of \<open>table\<close>.\<close>

interpretation clients: table ac_clients ac_clients_update by unfold_locales simp
interpretation items: table ac_items ac_items_update by unfold_locales simp
interpretation projects: table ac_projects ac_projects_update by unfold_locales simp
interpretation invoices: table ac_invoices ac_invoices_update by unfold_locales simp
interpretation payments: table ac_payments ac_payments_update by unfold_locales simp
interpretation expenses: table ac_expenses ac_expenses_update by unfold_locales simp
interpretation templates: table ac_templates ac_templates_update by unfold_locales simp

section \<open>Shared helpers\<close>

record fresh =
  fr_now :: time
  fr_id :: string
  fr_hex :: string

definition in_fin :: "(fin_db, 'a) op \<Rightarrow> (acc_db, 'a) op" where
  "in_fin m = zoom ac_fin (\<lambda>f d. d\<lparr>ac_fin := f\<rparr>) m"

text \<open>The helper \<open>audit\<close> of the module, outside any transaction.\<close>

definition audit_acc ::
    "audit_env \<Rightarrow> fresh \<Rightarrow> string \<Rightarrow> actor \<Rightarrow> string \<Rightarrow> string \<Rightarrow> string \<Rightarrow> string \<Rightarrow> json option \<Rightarrow> (acc_db, unit) op" where
  "audit_acc Y n org user action resource i summary metadata =
     in_fin (audited Y (fr_now n) (audit_of org (Some (u_id user)) action resource i summary metadata))"

text \<open>A \<open>Decimal(14,2)\<close> column stores two places.\<close>

definition cents :: "rat \<Rightarrow> money" where
  "cents v = toDecimalPlaces 2 v"

definition owned :: "('r \<Rightarrow> string) \<Rightarrow> ('r \<Rightarrow> string) \<Rightarrow> string \<Rightarrow> string \<Rightarrow> 'r \<Rightarrow> bool" where
  "owned key org_of org i r \<longleftrightarrow> key r = i \<and> org_of r = org"

text \<open>The archive column an update of the status writes: set on INACTIVE, cleared on ACTIVE.\<close>

definition archive_on :: "time \<Rightarrow> string option \<Rightarrow> time option \<Rightarrow> time option" where
  "archive_on now status old =
     (if status = Some ''INACTIVE'' then Some now else if status = Some ''ACTIVE'' then None else old)"

section \<open>Customers\<close>

record customer_input =
  ci_companyName :: "string option"
  ci_taxId :: "string option"
  ci_contactPerson :: "string option"
  ci_email :: "string option"
  ci_phone :: "string option"
  ci_address :: "string option"
  ci_status :: "string option"

definition client_clash :: "client \<Rightarrow> client \<Rightarrow> bool" where
  "client_clash a b \<longleftrightarrow> cl_id a = cl_id b \<or> cl_org a = cl_org b \<and> cl_reference a = cl_reference b"

definition customerOwned :: "string \<Rightarrow> string \<Rightarrow> (acc_db, client) op" where
  "customerOwned org i =
     bnd (find_row ac_clients (owned cl_id cl_org org i)) (\<lambda>found.
     required found (notFound ''Customer not found''))"

text \<open>The schema requires \<open>companyName\<close> here, so it is an argument of its own.\<close>

definition createAccountingCustomer ::
    "audit_env \<Rightarrow> fresh \<Rightarrow> string \<Rightarrow> string \<Rightarrow> customer_input \<Rightarrow> actor \<Rightarrow> (acc_db, client) op" where
  "createAccountingCustomer Y n org companyName inp user =
     bnd (create_row ac_clients ac_clients_update client_clash
            \<lparr> cl_id = fr_id n, cl_org = org, cl_reference = reference ''CLT'' (fr_hex n), cl_name = companyName,
              cl_email = ci_email inp, cl_phone = ci_phone inp, cl_address = ci_address inp,
              cl_taxId = ci_taxId inp, cl_contactPerson = ci_contactPerson inp, cl_status = ''ACTIVE'',
              cl_archivedAt = None, cl_createdAt = fr_now n \<rparr>) (\<lambda>row.
     bnd (audit_acc Y n org user ''ACCOUNTING_CUSTOMER_CREATED'' ''CLIENT'' (cl_id row)
            (''Created customer '' @ cl_name row) None) (\<lambda>_.
     ret row))"

definition updateAccountingCustomer ::
    "audit_env \<Rightarrow> fresh \<Rightarrow> string \<Rightarrow> string \<Rightarrow> customer_input \<Rightarrow> actor \<Rightarrow> (acc_db, client) op" where
  "updateAccountingCustomer Y n org i inp user =
     bnd (customerOwned org i) (\<lambda>_.
     bnd (update_row ac_clients ac_clients_update (\<lambda>c. cl_id c = i)
            (\<lambda>c. c\<lparr>cl_name := keep (ci_companyName inp) (cl_name c),
                   cl_taxId := keep_opt (ci_taxId inp) (cl_taxId c),
                   cl_contactPerson := keep_opt (ci_contactPerson inp) (cl_contactPerson c),
                   cl_email := keep_opt (ci_email inp) (cl_email c),
                   cl_phone := keep_opt (ci_phone inp) (cl_phone c),
                   cl_address := keep_opt (ci_address inp) (cl_address c),
                   cl_status := keep (ci_status inp) (cl_status c),
                   cl_archivedAt := archive_on (fr_now n) (ci_status inp) (cl_archivedAt c)\<rparr>)) (\<lambda>row.
     bnd (audit_acc Y n org user ''ACCOUNTING_CUSTOMER_UPDATED'' ''CLIENT'' i
            (''Updated customer '' @ cl_name row) None) (\<lambda>_.
     ret row)))"

datatype 'r disposition = ARCHIVED 'r | DELETED

definition counts_of :: "string \<Rightarrow> nat \<Rightarrow> string \<Rightarrow> nat \<Rightarrow> json option" where
  "counts_of a m b n = Some (JObj [(a, JNum (of_nat m)), (b, JNum (of_nat n))])"

text \<open>Deleting a client clears the optional foreign key of its payment requests.\<close>

definition forget_client :: "string \<Rightarrow> (acc_db, unit) op" where
  "forget_client i = in_fin (bnd (updateMany_requests (\<lambda>q. q_clientId q = Some i) (\<lambda>q. q\<lparr>q_clientId := None\<rparr>)) (\<lambda>_. ret ()))"

definition deleteAccountingCustomer ::
    "audit_env \<Rightarrow> fresh \<Rightarrow> string \<Rightarrow> string \<Rightarrow> actor \<Rightarrow> (acc_db, client disposition) op" where
  "deleteAccountingCustomer Y n org i user =
     bnd (customerOwned org i) (\<lambda>current.
     bnd (count_rows ac_invoices (\<lambda>v. iv_org v = org \<and> iv_client v = i)) (\<lambda>invoices.
     bnd (count_rows ac_projects (\<lambda>p. pj_org p = org \<and> pj_client p = i)) (\<lambda>projects.
     if invoices \<noteq> 0 \<or> projects \<noteq> 0 then
       bnd (update_row ac_clients ac_clients_update (\<lambda>c. cl_id c = i)
              (\<lambda>c. c\<lparr>cl_status := ''INACTIVE'', cl_archivedAt := Some (fr_now n)\<rparr>)) (\<lambda>row.
       bnd (audit_acc Y n org user ''ACCOUNTING_CUSTOMER_ARCHIVED'' ''CLIENT'' i
              (''Archived customer '' @ cl_name current) (counts_of ''invoices'' invoices ''projects'' projects)) (\<lambda>_.
       ret (ARCHIVED row)))
     else
       bnd (delete_row ac_clients ac_clients_update (\<lambda>c. cl_id c = i)) (\<lambda>_.
       bnd (forget_client i) (\<lambda>_.
       bnd (audit_acc Y n org user ''ACCOUNTING_CUSTOMER_DELETED'' ''CLIENT'' i
              (''Deleted unused customer '' @ cl_name current) None) (\<lambda>_.
       ret DELETED))))))"

section \<open>Items and services\<close>

record item_input =
  ii_name :: "string option"
  ii_type :: "string option"
  ii_unitPrice :: "rat option"
  ii_unit :: "string option"
  ii_description :: "string option"
  ii_vatApplicable :: "bool option"
  ii_status :: "string option"

record new_item =
  ni_name :: string
  ni_type :: string
  ni_unitPrice :: rat
  ni_unit :: string
  ni_description :: "string option"
  ni_vatApplicable :: bool

definition item_clash :: "catalogue_item \<Rightarrow> catalogue_item \<Rightarrow> bool" where
  "item_clash a b \<longleftrightarrow> it_id a = it_id b \<or> it_org a = it_org b \<and> it_reference a = it_reference b"

text \<open>The item with the number of invoice lines that refer to it.\<close>

definition itemOwned :: "string \<Rightarrow> string \<Rightarrow> (acc_db, catalogue_item \<times> nat) op" where
  "itemOwned org i =
     bnd (find_row ac_items (owned it_id it_org org i)) (\<lambda>found.
     bnd (required found (notFound ''Item or service not found'')) (\<lambda>row.
     bnd (reads (\<lambda>d. countWhere (\<lambda>l. li_catalogueItemId l = Some i) (concat (map iv_items (ac_invoices d))))) (\<lambda>lines.
     ret (row, lines))))"

definition createCatalogueItem ::
    "audit_env \<Rightarrow> fresh \<Rightarrow> string \<Rightarrow> new_item \<Rightarrow> actor \<Rightarrow> (acc_db, catalogue_item) op" where
  "createCatalogueItem Y n org inp user =
     bnd (create_row ac_items ac_items_update item_clash
            \<lparr> it_id = fr_id n, it_org = org,
              it_reference = reference (if ni_type inp = ''SERVICE'' then ''SRV'' else ''ITM'') (fr_hex n),
              it_name = ni_name inp, it_type = ni_type inp, it_unitPrice = cents (ni_unitPrice inp),
              it_unit = ni_unit inp, it_description = ni_description inp, it_vatApplicable = ni_vatApplicable inp,
              it_status = ''ACTIVE'', it_archivedAt = None \<rparr>) (\<lambda>row.
     bnd (audit_acc Y n org user ''ACCOUNTING_ITEM_CREATED'' ''ACCOUNTING_CATALOGUE_ITEM'' (it_id row)
            (''Created '' @ toLower (it_type row) @ '' '' @ it_name row) None) (\<lambda>_.
     ret row))"

definition updateCatalogueItem ::
    "audit_env \<Rightarrow> fresh \<Rightarrow> string \<Rightarrow> string \<Rightarrow> item_input \<Rightarrow> actor \<Rightarrow> (acc_db, catalogue_item) op" where
  "updateCatalogueItem Y n org i inp user =
     bnd (itemOwned org i) (\<lambda>_.
     bnd (update_row ac_items ac_items_update (\<lambda>r. it_id r = i)
            (\<lambda>r. r\<lparr>it_name := keep (ii_name inp) (it_name r), it_type := keep (ii_type inp) (it_type r),
                   it_unit := keep (ii_unit inp) (it_unit r),
                   it_description := keep_opt (ii_description inp) (it_description r),
                   it_vatApplicable := keep (ii_vatApplicable inp) (it_vatApplicable r),
                   it_status := keep (ii_status inp) (it_status r),
                   it_unitPrice := keep (map_option cents (ii_unitPrice inp)) (it_unitPrice r),
                   it_archivedAt := archive_on (fr_now n) (ii_status inp) (it_archivedAt r)\<rparr>)) (\<lambda>row.
     bnd (audit_acc Y n org user ''ACCOUNTING_ITEM_UPDATED'' ''ACCOUNTING_CATALOGUE_ITEM'' i
            (''Updated '' @ toLower (it_type row) @ '' '' @ it_name row) None) (\<lambda>_.
     ret row)))"

definition deleteCatalogueItem ::
    "audit_env \<Rightarrow> fresh \<Rightarrow> string \<Rightarrow> string \<Rightarrow> actor \<Rightarrow> (acc_db, catalogue_item disposition) op" where
  "deleteCatalogueItem Y n org i user =
     bnd (itemOwned org i) (\<lambda>(row, lines).
     if lines \<noteq> 0 then
       bnd (update_row ac_items ac_items_update (\<lambda>r. it_id r = i)
              (\<lambda>r. r\<lparr>it_status := ''INACTIVE'', it_archivedAt := Some (fr_now n)\<rparr>)) (\<lambda>archived.
       bnd (audit_acc Y n org user ''ACCOUNTING_ITEM_ARCHIVED'' ''ACCOUNTING_CATALOGUE_ITEM'' i
              (''Archived referenced item '' @ it_name row) None) (\<lambda>_.
       ret (ARCHIVED archived)))
     else
       bnd (delete_row ac_items ac_items_update (\<lambda>r. it_id r = i)) (\<lambda>_.
       bnd (audit_acc Y n org user ''ACCOUNTING_ITEM_DELETED'' ''ACCOUNTING_CATALOGUE_ITEM'' i
              (''Deleted unused item '' @ it_name row) None) (\<lambda>_.
       ret DELETED)))"

section \<open>Projects\<close>

text \<open>The customer must be active; an assigned agent must be an active user of the organization with
  some accounting permission and access to the module.\<close>

definition is_agent :: "member \<Rightarrow> bool" where
  "is_agent m \<longleftrightarrow> list_ex (starts_with ''accounting:'') (mb_permissions m) \<and>
     (case mb_moduleAccess m of Some modules \<Rightarrow> ''ACCOUNTING'' \<in> set modules | None \<Rightarrow> True)"

definition assertProjectRelations :: "string \<Rightarrow> string \<Rightarrow> string option \<Rightarrow> (acc_db, unit) op" where
  "assertProjectRelations org clientId assignedAgentId =
     bnd (find_row ac_clients (\<lambda>c. cl_id c = clientId \<and> cl_org c = org \<and> cl_status c = ''ACTIVE'')) (\<lambda>found.
     bnd (required found (notFound ''Active customer not found'')) (\<lambda>_.
     if falsy assignedAgentId then ret ()
     else
       bnd (find_row ac_members (\<lambda>m. mb_id m = the assignedAgentId \<and> mb_org m = org \<and> mb_active m)) (\<lambda>agent.
       guard (case agent of None \<Rightarrow> False | Some m \<Rightarrow> is_agent m) (notFound ''Accounting agent not found''))))"

definition projectOwned :: "string \<Rightarrow> string \<Rightarrow> (acc_db, project) op" where
  "projectOwned org i =
     bnd (find_row ac_projects (owned pj_id pj_org org i)) (\<lambda>found.
     required found (notFound ''Project not found''))"

record new_project =
  np_name :: string
  np_client :: string
  np_agent :: "string option"
  np_value :: rat
  np_startDate :: time
  np_endDate :: "time option"
  np_status :: string

record project_input =
  pi_name :: "string option"
  pi_client :: "string option"
  pi_agent :: "string option option"
  pi_value :: "rat option"
  pi_startDate :: "time option"
  pi_endDate :: "time option option"
  pi_status :: "string option"

definition project_clash :: "project \<Rightarrow> project \<Rightarrow> bool" where
  "project_clash a b \<longleftrightarrow> pj_id a = pj_id b \<or> pj_org a = pj_org b \<and> pj_reference a = pj_reference b"

definition createAccountingProject ::
    "audit_env \<Rightarrow> fresh \<Rightarrow> string \<Rightarrow> new_project \<Rightarrow> actor \<Rightarrow> (acc_db, project) op" where
  "createAccountingProject Y n org inp user =
     bnd (assertProjectRelations org (np_client inp) (np_agent inp)) (\<lambda>_.
     bnd (create_row ac_projects ac_projects_update project_clash
            \<lparr> pj_id = fr_id n, pj_org = org, pj_reference = reference ''PRJ'' (fr_hex n), pj_name = np_name inp,
              pj_client = np_client inp, pj_agent = np_agent inp, pj_value = cents (np_value inp),
              pj_startDate = np_startDate inp, pj_endDate = np_endDate inp, pj_status = np_status inp,
              pj_archivedAt = None \<rparr>) (\<lambda>row.
     bnd (audit_acc Y n org user ''ACCOUNTING_PROJECT_CREATED'' ''ACCOUNTING_PROJECT'' (pj_id row)
            (''Created project '' @ pj_name row) None) (\<lambda>_.
     ret row)))"

definition updateAccountingProject ::
    "audit_env \<Rightarrow> fresh \<Rightarrow> string \<Rightarrow> string \<Rightarrow> project_input \<Rightarrow> actor \<Rightarrow> (acc_db, project) op" where
  "updateAccountingProject Y n org i inp user =
     bnd (projectOwned org i) (\<lambda>current.
     let startDate = keep (pi_startDate inp) (pj_startDate current);
         endDate = keep (pi_endDate inp) (pj_endDate current) in
     bnd (guard (case endDate of None \<Rightarrow> True | Some e \<Rightarrow> startDate \<le> e) (conflict ''End date cannot precede start date'')) (\<lambda>_.
     bnd (assertProjectRelations org (keep (pi_client inp) (pj_client current)) (keep (pi_agent inp) (pj_agent current))) (\<lambda>_.
     bnd (update_row ac_projects ac_projects_update (\<lambda>p. pj_id p = i)
            (\<lambda>p. p\<lparr>pj_name := keep (pi_name inp) (pj_name p), pj_client := keep (pi_client inp) (pj_client p),
                   pj_agent := keep (pi_agent inp) (pj_agent p),
                   pj_value := keep (map_option cents (pi_value inp)) (pj_value p),
                   pj_startDate := keep (pi_startDate inp) (pj_startDate p),
                   pj_endDate := keep (pi_endDate inp) (pj_endDate p),
                   pj_status := keep (pi_status inp) (pj_status p)\<rparr>)) (\<lambda>row.
     bnd (audit_acc Y n org user ''ACCOUNTING_PROJECT_UPDATED'' ''ACCOUNTING_PROJECT'' i
            (''Updated project '' @ pj_name row) None) (\<lambda>_.
     ret row)))))"

definition deleteAccountingProject ::
    "audit_env \<Rightarrow> fresh \<Rightarrow> string \<Rightarrow> string \<Rightarrow> actor \<Rightarrow> (acc_db, project disposition) op" where
  "deleteAccountingProject Y n org i user =
     bnd (projectOwned org i) (\<lambda>row.
     bnd (count_rows ac_invoices (\<lambda>v. iv_org v = org \<and> iv_project v = Some i)) (\<lambda>invoices.
     bnd (in_fin (count_rows db_requests (\<lambda>q. q_org q = org \<and> q_projectId q = Some i))) (\<lambda>requests.
     if invoices \<noteq> 0 \<or> requests \<noteq> 0 then
       bnd (update_row ac_projects ac_projects_update (\<lambda>p. pj_id p = i)
              (\<lambda>p. p\<lparr>pj_status := ''COMPLETED'', pj_archivedAt := Some (fr_now n)\<rparr>)) (\<lambda>archived.
       bnd (audit_acc Y n org user ''ACCOUNTING_PROJECT_ARCHIVED'' ''ACCOUNTING_PROJECT'' i
              (''Archived referenced project '' @ pj_name row) (counts_of ''invoices'' invoices ''requests'' requests)) (\<lambda>_.
       ret (ARCHIVED archived)))
     else
       bnd (delete_row ac_projects ac_projects_update (\<lambda>p. pj_id p = i)) (\<lambda>_.
       bnd (audit_acc Y n org user ''ACCOUNTING_PROJECT_DELETED'' ''ACCOUNTING_PROJECT'' i
              (''Deleted unused project '' @ pj_name row) None) (\<lambda>_.
       ret DELETED)))))"

text \<open>A customer must exist and not be archived.\<close>

definition assertClientOwnership :: "string \<Rightarrow> string \<Rightarrow> (acc_db, unit) op" where
  "assertClientOwnership org clientId =
     bnd (find_row ac_clients (\<lambda>c. cl_id c = clientId \<and> cl_org c = org \<and> cl_archivedAt c = None)) (\<lambda>found.
     bnd (required found (notFound ''Customer not found'')) (\<lambda>_. ret ()))"

end
