(* ===== verification/Invoices.thy ===== *)
theory Invoices
  imports Accounting
begin

text \<open>
  The invoice half of src/modules/accounting/accounting.service.ts: resolving lines against the
  catalogue, VAT and withholding tax, the draft that is edited and sent, payments against it, and
  what the client is shown. Money columns hold two decimals; sums over lines and payments are
  exact.
\<close>

section \<open>Amounts\<close>

text \<open>\<open>calculateInvoiceWht\<close>\<close>

definition calculateInvoiceWht :: "rat \<Rightarrow> bool \<Rightarrow> rat option \<Rightarrow> app_error + (rat option \<times> money)" where
  "calculateInvoiceWht subtotal applicable rate =
     (if \<not> applicable then Inr (None, 0)
      else if rate \<noteq> Some 5 \<and> rate \<noteq> Some 10 then Inl (conflict ''WHT rate must be 5 or 10 percent'')
      else Inr (Some (the rate / 100), toDecimalPlaces 2 (subtotal * (the rate / 100))))"

definition invoiceReceivable :: "invoice \<Rightarrow> money" where
  "invoiceReceivable v =
     (if 0 < iv_amountPayable v then iv_amountPayable v else iv_total v - iv_whtAmount v)"

definition accountingInvoiceDisplayStatus :: "string \<Rightarrow> time option \<Rightarrow> time \<Rightarrow> string" where
  "accountingInvoiceDisplayStatus status dueDate now =
     (if status \<in> set [''SENT'', ''PARTIALLY_PAID''] \<and> (case dueDate of None \<Rightarrow> False | Some d \<Rightarrow> d < now)
      then ''OVERDUE'' else status)"

definition percentage :: "rat \<Rightarrow> rat \<Rightarrow> rat" where
  "percentage part whole = (if 0 < whole then toDecimalPlaces 2 (part / whole * 100) else 0)"

definition billedVsValuePercentage :: "rat \<Rightarrow> rat \<Rightarrow> rat" where
  "billedVsValuePercentage billed v = percentage billed v"

record pagination =
  pg_page :: int
  pg_limit :: int
  pg_total :: int
  pg_totalPages :: int
  pg_hasNext :: bool
  pg_hasPrevious :: bool

definition pagination_of :: "int \<Rightarrow> int \<Rightarrow> int \<Rightarrow> pagination" where
  "pagination_of page limit rows =
     \<lparr> pg_page = page, pg_limit = limit, pg_total = rows,
       pg_totalPages = \<lceil>of_int rows / of_int limit :: rat\<rceil>,
       pg_hasNext = (page * limit < rows), pg_hasPrevious = (1 < page) \<rparr>"

section \<open>Lines\<close>

record line_input =
  il_catalogueItemId :: "string option"
  il_description :: "string option"
  il_quantity :: rat
  il_unitPrice :: "rat option"
  il_vatApplicable :: "bool option"

text \<open>One line, given its catalogue item; without one, the schema requires description and price.\<close>

definition resolve_line :: "rat \<Rightarrow> line_input \<Rightarrow> catalogue_item option \<Rightarrow> invoice_line" where
  "resolve_line vatRate line item =
     (let unitPrice = (case il_unitPrice line of Some p \<Rightarrow> p | None \<Rightarrow> it_unitPrice (the item));
          lineSubtotal = toDecimalPlaces 2 (unitPrice * il_quantity line);
          vatApplicable = (case il_vatApplicable line of Some b \<Rightarrow> b
             | None \<Rightarrow> (case item of Some r \<Rightarrow> it_vatApplicable r | None \<Rightarrow> False));
          rate = (if vatApplicable then vatRate else 0);
          vatAmount = toDecimalPlaces 2 (lineSubtotal * rate)
      in \<lparr> li_catalogueItemId = map_option it_id item,
           li_description = (case il_description line of Some t \<Rightarrow> t | None \<Rightarrow> it_name (the item)),
           li_quantity = il_quantity line, li_unitPrice = unitPrice, li_lineSubtotal = lineSubtotal,
           li_vatApplicable = vatApplicable, li_vatRate = rate, li_vatAmount = vatAmount,
           li_total = lineSubtotal + vatAmount \<rparr>)"

definition resolveInvoiceLines :: "string \<Rightarrow> line_input list \<Rightarrow> (acc_db, invoice_line list) op" where
  "resolveInvoiceLines org lines =
     (let ids = remdups (concat (map (\<lambda>l. if falsy (il_catalogueItemId l) then [] else [the (il_catalogueItemId l)]) lines)) in
      bnd (reads (\<lambda>d. filter (\<lambda>r. it_org r = org \<and> it_id r \<in> set ids \<and> it_status r = ''ACTIVE'') (ac_items d))) (\<lambda>catalogue.
      bnd (guard (length catalogue = length ids) (notFound ''One or more catalogue items were not found'')) (\<lambda>_.
      bnd (reads (\<lambda>d. ac_vatPercent d / 100)) (\<lambda>vatRate.
      ret (map (\<lambda>l. resolve_line vatRate l
                 (if falsy (il_catalogueItemId l) then None
                  else find (\<lambda>r. it_id r = the (il_catalogueItemId l)) catalogue)) lines)))))"

definition lines_subtotal :: "invoice_line list \<Rightarrow> money" where
  "lines_subtotal ls = sum_list (map li_lineSubtotal ls)"

definition lines_tax :: "invoice_line list \<Rightarrow> money" where
  "lines_tax ls = sum_list (map li_vatAmount ls)"

section \<open>Lookups and checks\<close>

definition invoiceOwned :: "string \<Rightarrow> string \<Rightarrow> (acc_db, invoice) op" where
  "invoiceOwned org i =
     bnd (find_row ac_invoices (owned iv_id iv_org org i)) (\<lambda>found.
     required found (notFound ''Invoice not found''))"

definition assertInvoiceRelations ::
    "string \<Rightarrow> string \<Rightarrow> string option \<Rightarrow> string option \<Rightarrow> (acc_db, unit) op" where
  "assertInvoiceRelations org clientId projectId agentId =
     bnd (assertClientOwnership org clientId) (\<lambda>_.
     bnd (if falsy projectId then ret ()
          else
            bnd (find_row ac_projects (\<lambda>p. pj_id p = the projectId \<and> pj_org p = org \<and> pj_client p = clientId \<and>
                   pj_archivedAt p = None)) (\<lambda>found.
            bnd (required found (notFound ''Project not found for selected customer'')) (\<lambda>_. ret ()))) (\<lambda>_.
     if falsy agentId then ret () else assertProjectRelations org clientId agentId))"

definition invoice_paid :: "invoice_payment list \<Rightarrow> string \<Rightarrow> money" where
  "invoice_paid ps i = sum_list (map ip_amount (filter (\<lambda>p. ip_invoice p = i) ps))"

text \<open>The derived part of \<open>invoiceView\<close>; the other fields are the row's own.\<close>

record invoice_view =
  vw_invoice :: invoice
  vw_status :: string
  vw_amountPayable :: money
  vw_paidAmount :: money
  vw_balanceDue :: money
  vw_edit :: bool
  vw_send :: bool
  vw_recordPayment :: bool
  vw_delete :: bool

definition invoiceView :: "invoice \<Rightarrow> money \<Rightarrow> time \<Rightarrow> invoice_view" where
  "invoiceView row paidAmount now =
     (let balanceDue = max 0 (invoiceReceivable row - paidAmount);
          displayStatus = accountingInvoiceDisplayStatus (iv_status row) (iv_dueDate row) now
      in \<lparr> vw_invoice = row, vw_status = displayStatus, vw_amountPayable = invoiceReceivable row,
           vw_paidAmount = paidAmount, vw_balanceDue = balanceDue,
           vw_edit = (iv_status row = ''DRAFT''), vw_send = (iv_status row = ''DRAFT''),
           vw_recordPayment = (displayStatus \<in> set [''SENT'', ''PARTIALLY_PAID'', ''OVERDUE''] \<and> 0 < balanceDue),
           vw_delete = (iv_status row = ''DRAFT'') \<rparr>)"

definition getInvoiceById :: "time \<Rightarrow> string \<Rightarrow> string \<Rightarrow> (acc_db, invoice_view) op" where
  "getInvoiceById now org i =
     bnd (invoiceOwned org i) (\<lambda>row.
     bnd (reads (\<lambda>d. invoice_paid (ac_payments d) i)) (\<lambda>paid.
     ret (invoiceView row paid now)))"

definition add_history :: "string \<Rightarrow> string \<Rightarrow> string \<Rightarrow> actor \<Rightarrow> string \<Rightarrow> (acc_db, unit) op" where
  "add_history org i status user description =
     writes (\<lambda>d. d\<lparr>ac_history := ac_history d @
       [\<lparr> ih_org = org, ih_invoice = i, ih_status = status, ih_actor = u_id user, ih_description = description \<rparr>]\<rparr>)"

definition invoice_clash :: "invoice \<Rightarrow> invoice \<Rightarrow> bool" where
  "invoice_clash a b \<longleftrightarrow> iv_id a = iv_id b \<or> iv_org a = iv_org b \<and>
     (iv_invoiceNo a = iv_invoiceNo b \<or> same_key (iv_paymentReference a) (iv_paymentReference b))"

section \<open>Drafts\<close>

record new_invoice =
  nv_client :: string
  nv_agent :: "string option"
  nv_project :: "string option"
  nv_issueDate :: "time option"
  nv_dueDate :: time
  nv_notes :: "string option"
  nv_whtApplicable :: "bool option"
  nv_whtRate :: "rat option"
  nv_items :: "line_input list"

text \<open>What the database stores of a resolved line.\<close>

definition stored_line :: "invoice_line \<Rightarrow> invoice_line" where
  "stored_line l = l\<lparr>li_quantity := cents (li_quantity l), li_unitPrice := cents (li_unitPrice l),
     li_vatRate := toDecimalPlaces 4 (li_vatRate l)\<rparr>"

definition draft_invoice ::
    "fresh \<Rightarrow> string \<Rightarrow> new_invoice \<Rightarrow> invoice_line list \<Rightarrow> string option \<Rightarrow> rat option \<times> money \<Rightarrow> invoice" where
  "draft_invoice n org inp lines templateId wht =
     (let subtotal = lines_subtotal lines; taxAmount = lines_tax lines; totalAmount = subtotal + taxAmount in
      \<lparr> iv_id = fr_id n, iv_org = org, iv_client = nv_client inp, iv_agent = nv_agent inp,
        iv_project = nv_project inp, iv_invoiceNo = reference ''INV'' (fr_hex n),
        iv_issueDate = keep (nv_issueDate inp) (fr_now n), iv_dueDate = Some (nv_dueDate inp),
        iv_status = ''DRAFT'', iv_subtotal = subtotal, iv_taxAmount = taxAmount, iv_total = totalAmount,
        iv_whtApplicable = keep (nv_whtApplicable inp) False, iv_whtRate = fst wht,
        iv_whtAmount = snd wht, iv_amountPayable = totalAmount - snd wht, iv_notes = nv_notes inp,
        iv_template = templateId, iv_sentAt = None, iv_paidAt = None,
        iv_paymentReference = None, iv_items = map stored_line lines \<rparr>)"

definition createInvoice ::
    "audit_env \<Rightarrow> fresh \<Rightarrow> string \<Rightarrow> new_invoice \<Rightarrow> actor \<Rightarrow> (acc_db, invoice_view) op" where
  "createInvoice Y n org inp user =
     bnd (assertInvoiceRelations org (nv_client inp) (nv_project inp) (nv_agent inp)) (\<lambda>_.
     bnd (resolveInvoiceLines org (nv_items inp)) (\<lambda>lines.
     bnd (find_row ac_templates (\<lambda>t. tp_org t = org \<and> tp_isDefault t)) (\<lambda>defaultTemplate.
     bnd (from_sum (calculateInvoiceWht (lines_subtotal lines) (keep (nv_whtApplicable inp) False) (nv_whtRate inp))) (\<lambda>wht.
     bnd (tx (bnd (create_row ac_invoices ac_invoices_update invoice_clash
            (draft_invoice n org inp lines (map_option tp_id defaultTemplate) wht)) (\<lambda>row.
          bnd (add_history org (iv_id row) ''DRAFT'' user ''Invoice created'') (\<lambda>_. ret row)))) (\<lambda>invoice.
     bnd (audit_acc Y n org user ''ACCOUNTING_INVOICE_CREATED'' ''INVOICE'' (iv_id invoice)
            (''Created invoice '' @ iv_invoiceNo invoice) None) (\<lambda>_.
     getInvoiceById (fr_now n) org (iv_id invoice)))))))"

record invoice_input =
  vi_client :: "string option"
  vi_agent :: "string option option"
  vi_project :: "string option option"
  vi_issueDate :: "time option"
  vi_dueDate :: "time option"
  vi_notes :: "string option"
  vi_whtApplicable :: "bool option"
  vi_whtRate :: "rat option"
  vi_items :: "line_input list option"

text \<open>The new amounts of a draft: its lines' sums where lines were given, its own otherwise.\<close>

definition reprice :: "invoice_line list option \<Rightarrow> money \<Rightarrow> money \<Rightarrow> bool \<Rightarrow> rat option \<times> money \<Rightarrow> invoice \<Rightarrow> invoice" where
  "reprice lines finalSubtotal finalTaxAmount whtApplicable wht v =
     (let w = v\<lparr>iv_whtApplicable := whtApplicable, iv_whtRate := fst wht, iv_whtAmount := snd wht,
                iv_amountPayable := finalSubtotal + finalTaxAmount - snd wht\<rparr>
      in case lines of
           None \<Rightarrow> w
         | Some ls \<Rightarrow> w\<lparr>iv_subtotal := finalSubtotal, iv_taxAmount := finalTaxAmount,
             iv_total := finalSubtotal + finalTaxAmount, iv_items := map stored_line ls\<rparr>)"

definition updateInvoice ::
    "audit_env \<Rightarrow> fresh \<Rightarrow> string \<Rightarrow> string \<Rightarrow> invoice_input \<Rightarrow> actor \<Rightarrow> (acc_db, invoice_view) op" where
  "updateInvoice Y n org i inp user =
     bnd (invoiceOwned org i) (\<lambda>current.
     bnd (guard (iv_status current = ''DRAFT'') (conflict ''Only draft invoices can be edited'')) (\<lambda>_.
     bnd (assertInvoiceRelations org (keep (vi_client inp) (iv_client current))
            (keep (vi_project inp) (iv_project current)) (keep (vi_agent inp) (iv_agent current))) (\<lambda>_.
     bnd (case vi_items inp of
            None \<Rightarrow> ret None
          | Some its \<Rightarrow> bnd (resolveInvoiceLines org its) (\<lambda>ls. ret (Some ls))) (\<lambda>lines.
     let finalSubtotal = (case lines of Some ls \<Rightarrow> lines_subtotal ls | None \<Rightarrow> iv_subtotal current);
         finalTaxAmount = (case lines of Some ls \<Rightarrow> lines_tax ls | None \<Rightarrow> iv_taxAmount current);
         whtApplicable = keep (vi_whtApplicable inp) (iv_whtApplicable current);
         requestedRate = (case vi_whtRate inp of Some r \<Rightarrow> Some r
            | None \<Rightarrow> map_option (\<lambda>r. r * 100) (iv_whtRate current)) in
     bnd (guard (whtApplicable \<or> vi_whtRate inp = None) (conflict ''WHT rate requires WHT to be enabled'')) (\<lambda>_.
     bnd (from_sum (calculateInvoiceWht finalSubtotal whtApplicable requestedRate)) (\<lambda>wht.
     bnd (update_row ac_invoices ac_invoices_update (\<lambda>v. iv_id v = i)
            (\<lambda>v. (reprice lines finalSubtotal finalTaxAmount whtApplicable wht v)
               \<lparr>iv_client := keep (vi_client inp) (iv_client v), iv_agent := keep (vi_agent inp) (iv_agent v),
                iv_project := keep (vi_project inp) (iv_project v),
                iv_issueDate := keep (vi_issueDate inp) (iv_issueDate v),
                iv_dueDate := keep_opt (vi_dueDate inp) (iv_dueDate v),
                iv_notes := keep_opt (vi_notes inp) (iv_notes v)\<rparr>)) (\<lambda>_.
     bnd (audit_acc Y n org user ''ACCOUNTING_INVOICE_UPDATED'' ''INVOICE'' i
            (''Updated invoice '' @ iv_invoiceNo current) None) (\<lambda>_.
     getInvoiceById (fr_now n) org i))))))))"

section \<open>Sending\<close>

text \<open>The e-mail goes out before the status changes; the mailer is a parameter.\<close>

definition sendInvoice ::
    "audit_env \<Rightarrow> fresh \<Rightarrow> (string \<Rightarrow> invoice \<Rightarrow> app_error + unit) \<Rightarrow> string \<Rightarrow> string \<Rightarrow> actor \<Rightarrow>
     (acc_db, invoice_view) op" where
  "sendInvoice Y n mail org i user =
     bnd (invoiceOwned org i) (\<lambda>current.
     bnd (guard (iv_status current = ''DRAFT'') (conflict ''Only draft invoices can be sent'')) (\<lambda>_.
     bnd (find_row ac_clients (\<lambda>c. cl_id c = iv_client current)) (\<lambda>client.
     bnd (guard (case client of None \<Rightarrow> False | Some c \<Rightarrow> \<not> falsy (cl_email c))
            (conflict ''Customer email is required before sending an invoice'')) (\<lambda>_.
     bnd (from_sum (mail (the (cl_email (the client))) current)) (\<lambda>_.
     bnd (tx (bnd (update_row ac_invoices ac_invoices_update (\<lambda>v. iv_id v = i)
                (\<lambda>v. v\<lparr>iv_status := ''SENT'', iv_sentAt := Some (fr_now n)\<rparr>)) (\<lambda>_.
              add_history org i ''SENT'' user ''Invoice sent to customer''))) (\<lambda>_.
     bnd (audit_acc Y n org user ''ACCOUNTING_INVOICE_SENT'' ''INVOICE'' i
            (''Sent invoice '' @ iv_invoiceNo current) None) (\<lambda>_.
     getInvoiceById (fr_now n) org i)))))))"

section \<open>Payments\<close>

record payment_input =
  py_reference :: string
  py_amount :: rat
  py_paidAt :: "time option"
  py_notes :: "string option"

definition payment_clash :: "invoice_payment \<Rightarrow> invoice_payment \<Rightarrow> bool" where
  "payment_clash a b \<longleftrightarrow> ip_id a = ip_id b \<or> ip_org a = ip_org b \<and> ip_reference a = ip_reference b"

text \<open>Another invoice of the organization already carries the reference as its final payment.\<close>

definition final_reference_taken :: "string \<Rightarrow> string \<Rightarrow> string \<Rightarrow> acc_db \<Rightarrow> bool" where
  "final_reference_taken org i ref d \<longleftrightarrow>
     (\<exists>v \<in> set (ac_invoices d). iv_id v \<noteq> i \<and> iv_org v = org \<and> iv_paymentReference v = Some ref)"

definition payable_statuses :: "string list" where
  "payable_statuses = [''SENT'', ''PARTIALLY_PAID'', ''OVERDUE'']"

definition settle_invoice :: "string \<Rightarrow> time \<Rightarrow> string \<Rightarrow> invoice \<Rightarrow> invoice" where
  "settle_invoice nextStatus paidAt ref v =
     v\<lparr>iv_status := nextStatus, iv_paidAt := (if nextStatus = ''PAID'' then Some paidAt else None),
       iv_paymentReference := (if nextStatus = ''PAID'' then Some ref else None)\<rparr>"

text \<open>A payment under a reference not seen before, inside the transaction.\<close>

definition receivePayment ::
    "audit_env \<Rightarrow> fresh \<Rightarrow> string \<Rightarrow> string \<Rightarrow> payment_input \<Rightarrow> actor \<Rightarrow> (acc_db, unit) op" where
  "receivePayment Y n org i inp user =
     (let paidAt = keep (py_paidAt inp) (fr_now n) in
      bnd (invoiceOwned org i) (\<lambda>current.
      bnd (guard (accountingInvoiceDisplayStatus (iv_status current) (iv_dueDate current) (fr_now n) \<in> set payable_statuses)
             (conflict ''Only sent, partially paid, or overdue invoices can receive payment'')) (\<lambda>_.
      bnd (reads (\<lambda>d. invoice_paid (ac_payments d) i)) (\<lambda>alreadyPaid.
      let balance = invoiceReceivable current - alreadyPaid;
          nextStatus = (if py_amount inp = balance then ''PAID'' else ''PARTIALLY_PAID'') in
      bnd (guard (py_amount inp \<le> balance) (conflict ''Payment amount cannot exceed the invoice balance'')) (\<lambda>_.
      bnd (create_row ac_payments ac_payments_update payment_clash
             \<lparr> ip_id = fr_id n, ip_org = org, ip_invoice = i, ip_reference = py_reference inp,
               ip_amount = cents (py_amount inp), ip_paidAt = paidAt, ip_recordedBy = u_id user,
               ip_notes = py_notes inp \<rparr>) (\<lambda>_.
      bnd (reads (final_reference_taken org i (py_reference inp))) (\<lambda>taken.
      bnd (guard (nextStatus \<noteq> ''PAID'' \<or> \<not> taken) P2002) (\<lambda>_.
      bnd (update_row ac_invoices ac_invoices_update (\<lambda>v. iv_id v = i)
             (settle_invoice nextStatus paidAt (py_reference inp))) (\<lambda>_.
      bnd (add_history org i nextStatus user
             ((if nextStatus = ''PAID'' then ''Final'' else ''Partial'') @ '' payment '' @ py_reference inp @ '' recorded'')) (\<lambda>_.
      audit_acc Y n org user ''ACCOUNTING_INVOICE_PAYMENT_RECORDED'' ''INVOICE'' i
        (''Recorded '' @ (if nextStatus = ''PAID'' then ''final'' else ''partial'') @ '' payment for '' @ iv_invoiceNo current)
        (Some (JObj [(''paymentReference'', JStr (py_reference inp)), (''amount'', JNum (py_amount inp)),
          (''status'', JStr nextStatus)]))))))))))))"

definition recordInvoicePayment ::
    "audit_env \<Rightarrow> fresh \<Rightarrow> string \<Rightarrow> string \<Rightarrow> payment_input \<Rightarrow> actor \<Rightarrow> (acc_db, invoice_view) op" where
  "recordInvoicePayment Y n org i inp user =
     bnd (on_P2002
       (tx (bnd (find_row ac_payments (\<lambda>p. ip_org p = org \<and> ip_reference p = py_reference inp)) (\<lambda>existing.
            case existing of
              Some p \<Rightarrow>
                bnd (guard (ip_invoice p = i \<and> ip_amount p = py_amount inp)
                       (conflict ''Payment reference has already been used'')) (\<lambda>_.
                bnd (invoiceOwned org i) (\<lambda>_. ret ()))
            | None \<Rightarrow> receivePayment Y n org i inp user)))
       (raise (conflict ''Payment reference has already been used''))) (\<lambda>_.
     getInvoiceById (fr_now n) org i)"

section \<open>Deleting\<close>

text \<open>Lines and history go with the invoice; a payment would forbid the deletion.\<close>

definition deleteInvoice :: "audit_env \<Rightarrow> fresh \<Rightarrow> string \<Rightarrow> string \<Rightarrow> actor \<Rightarrow> (acc_db, unit) op" where
  "deleteInvoice Y n org i user =
     bnd (invoiceOwned org i) (\<lambda>current.
     bnd (in_fin (count_rows db_requests (\<lambda>q. q_invoiceId q = Some i))) (\<lambda>requests.
     bnd (guard (iv_status current = ''DRAFT'' \<and> requests = 0)
            (conflict ''Only draft invoices without financial activity can be deleted'')) (\<lambda>_.
     bnd (count_rows ac_payments (\<lambda>p. ip_invoice p = i)) (\<lambda>received.
     bnd (guard (received = 0) (PrismaError ''P2003'')) (\<lambda>_.
     bnd (delete_row ac_invoices ac_invoices_update (\<lambda>v. iv_id v = i)) (\<lambda>_.
     bnd (writes (\<lambda>d. d\<lparr>ac_history := filter (\<lambda>h. ih_invoice h \<noteq> i) (ac_history d)\<rparr>)) (\<lambda>_.
     audit_acc Y n org user ''ACCOUNTING_INVOICE_DELETED'' ''INVOICE'' i
       (''Deleted draft invoice '' @ iv_invoiceNo current) None)))))))"

end
