(* ===== verification/Triples.thy ===== *)
theory Triples
  imports Prelude
begin

text \<open>
  Partial-correctness triples for operations, for the places where an invariant depends on what an
  earlier read returned: \<open>holds P m Q E\<close> says that from a state with \<open>P\<close>, a run of \<open>m\<close> that returns
  \<open>x\<close> ends in a state with \<open>Q x\<close>, and one that throws in a state with \<open>E\<close>. One rule per combinator.
\<close>

named_theorems holds_rules

definition holds :: "('s \<Rightarrow> bool) \<Rightarrow> ('s, 'a) op \<Rightarrow> ('a \<Rightarrow> 's \<Rightarrow> bool) \<Rightarrow> ('s \<Rightarrow> bool) \<Rightarrow> bool" where
  "holds P m Q E \<longleftrightarrow> (\<forall>s r t. P s \<longrightarrow> m s = (r, t) \<longrightarrow> (case r of Inl e \<Rightarrow> E t | Inr x \<Rightarrow> Q x t))"

lemma holdsI:
  assumes "\<And>s x t. P s \<Longrightarrow> m s = (Inr x, t) \<Longrightarrow> Q x t" and "\<And>s e t. P s \<Longrightarrow> m s = (Inl e, t) \<Longrightarrow> E t"
  shows "holds P m Q E"
  unfolding holds_def using assms by (auto split: sum.splits)

lemma holdsD:
  assumes "holds P m Q E" and "P s"
  shows "m s = (Inr x, t) \<Longrightarrow> Q x t" and "m s = (Inl e, t) \<Longrightarrow> E t"
  using assms unfolding holds_def by fastforce+

lemma holds_bnd [holds_rules]:
  assumes m: "holds P m Q E" and f: "\<And>x. holds (Q x) (f x) R E"
  shows "holds P (bnd m f) R E"
proof (rule holdsI)
  fix s x t assume "P s" and "bnd m f s = (Inr x, t)"
  then show "R x t" using holdsD[OF m] holdsD[OF f] by (fastforce simp: run_bnd_ok)
next
  fix s e t assume "P s" and "bnd m f s = (Inl e, t)"
  then show "E t" using holdsD[OF m] holdsD[OF f] by (fastforce simp: run_bnd_err)
qed

lemma holds_reads [holds_rules]: "holds P (reads f) (\<lambda>x s. P s \<and> x = f s) E"
  by (rule holdsI) (auto simp: run_simps)

lemma holds_ret [holds_rules]: "holds P (ret x) (\<lambda>y s. P s \<and> y = x) E"
  by (rule holdsI) (auto simp: run_simps)

lemma holds_guard [holds_rules]:
  "(\<And>s. P s \<Longrightarrow> \<not> b \<Longrightarrow> E s) \<Longrightarrow> holds P (guard b e) (\<lambda>_ s. P s \<and> b) E"
  by (rule holdsI) (auto simp: run_simps)

lemma holds_required [holds_rules]:
  "(\<And>s. P s \<Longrightarrow> x = None \<Longrightarrow> E s) \<Longrightarrow> holds P (required x e) (\<lambda>v s. P s \<and> x = Some v) E"
  by (rule holdsI) (auto simp: run_simps)

lemma holds_from_sum [holds_rules]:
  "(\<And>s e. P s \<Longrightarrow> x = Inl e \<Longrightarrow> E s) \<Longrightarrow> holds P (from_sum x) (\<lambda>v s. P s \<and> x = Inr v) E"
  by (rule holdsI) (auto simp: run_simps)

lemma holds_writes: "(\<And>s. P s \<Longrightarrow> Q (f s)) \<Longrightarrow> holds P (writes f) (\<lambda>_. Q) E"
  by (rule holdsI) (auto simp: run_simps)

lemma holds_keeps: "keeps I m \<Longrightarrow> (\<And>s. P s \<Longrightarrow> I s) \<Longrightarrow> holds P m (\<lambda>_. I) I"
  by (rule holdsI) (auto dest: keepsD)

text \<open>A step that does not change the state keeps everything known about it.\<close>

lemma holds_pure:
  assumes "\<And>s r t. m s = (r, t) \<Longrightarrow> t = s" and "\<And>s. P s \<Longrightarrow> E s"
  shows "holds P m (\<lambda>_. P) E"
  by (rule holdsI) (use assms in \<open>blast+\<close>)

lemma holds_pure_returns:
  assumes "\<And>s r t. m s = (r, t) \<Longrightarrow> t = s" and "\<And>s x t. m s = (Inr x, t) \<Longrightarrow> R x" and "\<And>s. P s \<Longrightarrow> E s"
  shows "holds P m (\<lambda>x s. P s \<and> R x) E"
  by (rule holdsI) (use assms in \<open>blast+\<close>)

lemma holds_if:
  "(b \<Longrightarrow> holds P m Q E) \<Longrightarrow> (\<not> b \<Longrightarrow> holds P n Q E) \<Longrightarrow> holds P (if b then m else n) Q E"
  by simp

lemma holds_case_option:
  "(x = None \<Longrightarrow> holds P m Q E) \<Longrightarrow> (\<And>v. x = Some v \<Longrightarrow> holds P (n v) Q E) \<Longrightarrow>
   holds P (case x of None \<Rightarrow> m | Some v \<Rightarrow> n v) Q E"
  by (cases x) auto

lemma holds_let: "(\<And>y. y = x \<Longrightarrow> holds P (f y) Q E) \<Longrightarrow> holds P (let y = x in f y) Q E"
  by simp

lemma holds_weaken: "holds P' m Q' E' \<Longrightarrow> (\<And>s. P s \<Longrightarrow> P' s) \<Longrightarrow> (\<And>x s. Q' x s \<Longrightarrow> Q x s) \<Longrightarrow> (\<And>s. E' s \<Longrightarrow> E s) \<Longrightarrow>
   holds P m Q E"
  unfolding holds_def by (auto split: sum.splits) (metis (no_types, lifting) sum.case)+

text \<open>A transaction that throws leaves the state it started in.\<close>

lemma holds_tx: "holds P m Q (\<lambda>_. True) \<Longrightarrow> (\<And>s. P s \<Longrightarrow> E s) \<Longrightarrow> holds P (tx m) Q E"
proof (rule holdsI)
  fix s x t assume "holds P m Q (\<lambda>_. True)" "P s" "tx m s = (Inr x, t)"
  then show "Q x t" using holdsD(1) by (auto simp: run_simps)
next
  fix s e t assume "\<And>s. P s \<Longrightarrow> E s" "P s" "tx m s = (Inl e, t)"
  then show "E t" by (auto simp: run_simps)
qed

lemma keeps_by_holds: "holds I m (\<lambda>_. I) I \<Longrightarrow> keeps I m"
  unfolding holds_def by (rule keepsI) (auto split: sum.splits)

text \<open>An operation that keeps everything changes nothing; the next one may use what it returned.\<close>

lemma keeps_all_pure: "(\<And>I. keeps I m) \<Longrightarrow> m s = (r, t) \<Longrightarrow> t = s"
  using keepsD[of "\<lambda>t. t = s" m s] by blast

lemma keeps_bnd_returns:
  assumes "keeps I m" and "\<And>s x t. m s = (Inr x, t) \<Longrightarrow> R x" and "\<And>x. R x \<Longrightarrow> keeps I (f x)"
  shows "keeps I (bnd m f)"
proof (rule keepsI)
  fix s r t assume "I s" and run: "bnd m f s = (r, t)"
  obtain r1 s1 where m: "m s = (r1, s1)" by (cases "m s")
  with assms(1) \<open>I s\<close> have "I s1" by (rule keepsD)
  show "I t"
  proof (cases r1)
    case (Inl e)
    with run m \<open>I s1\<close> show ?thesis by (simp add: bnd_def)
  next
    case (Inr x)
    with run m have f: "f x s1 = (r, t)" by (simp add: bnd_def)
    have "R x" using assms(2) m Inr by blast
    from keepsD[OF assms(3)[OF this] \<open>I s1\<close> f] show ?thesis .
  qed
qed

lemma holds_learn:
  assumes "\<And>I. keeps I m" and "\<And>s. P s \<Longrightarrow> E s" and "\<And>x. holds (\<lambda>s. P s \<and> m s = (Inr x, s)) (f x) Q E"
  shows "holds P (bnd m f) Q E"
proof (rule holds_bnd)
  show "holds P m (\<lambda>x s. P s \<and> m s = (Inr x, s)) E"
    by (rule holdsI) (use keeps_all_pure[OF assms(1)] assms(2) in blast)+
qed (rule assms(3))

lemma holds_skip:
  assumes "\<And>I. keeps I m" and "\<And>s. P s \<Longrightarrow> E s" and "\<And>x. holds P (f x) Q E"
  shows "holds P (bnd m f) Q E"
  by (rule holds_learn[OF assms(1,2)], assumption, rule holds_weaken[OF assms(3)]) auto

lemma holds_skip_guard:
  assumes "\<And>s. P s \<Longrightarrow> E s" and "b \<Longrightarrow> holds P m Q E"
  shows "holds P (bnd (guard b e) (\<lambda>_. m)) Q E"
  by (cases b) (use assms in \<open>auto simp: holds_def bnd_def guard_def ret_def raise_def\<close>)

lemma holds_skip_sum:
  assumes "\<And>s. P s \<Longrightarrow> E s" and "\<And>v. x = Inr v \<Longrightarrow> holds P (f v) Q E"
  shows "holds P (bnd (from_sum x) f) Q E"
  by (cases x) (use assms in \<open>auto simp: holds_def bnd_def from_sum_def\<close>)

lemma keeps_then: "holds P m (\<lambda>_. I) I \<Longrightarrow> (\<And>x. keeps I (f x)) \<Longrightarrow> holds P (bnd m f) (\<lambda>_. I) I"
  by (rule holds_bnd, assumption, rule holds_weaken[OF holds_keeps], assumption+)

lemma holds_skip_returns:
  assumes "\<And>I. keeps I m" and "\<And>s x t. m s = (Inr x, t) \<Longrightarrow> R x" and "\<And>s. P s \<Longrightarrow> E s"
    and "\<And>x. R x \<Longrightarrow> holds P (f x) Q E"
  shows "holds P (bnd m f) Q E"
proof (rule holds_learn[OF assms(1,3)], assumption)
  fix x
  show "holds (\<lambda>s. P s \<and> m s = (Inr x, s)) (f x) Q E"
  proof (cases "R x")
    case True
    then show ?thesis by (rule holds_weaken[OF assms(4)]) auto
  next
    case False
    with assms(2) show ?thesis by (auto simp: holds_def)
  qed
qed

end
