(* ===== verification/InvoiceLedger.thy ===== *)
theory InvoiceLedger
  imports Invoices Triples
begin

text \<open>
  What the invoice operations keep: the amounts of an invoice follow from its lines, payments
  never exceed what is receivable, a paid invoice is paid exactly, payment references are used
  once, and the last history entry of an invoice is its status. \<open>acc_step\<close> is the relation of all
  accounting operations on master data and invoices; the invariant holds along it.
\<close>

section \<open>Whole kobo\<close>

definition whole_kobo :: "rat \<Rightarrow> bool" where
  "whole_kobo v \<longleftrightarrow> cents v = v"

lemma whole_kobo_iff: "whole_kobo v \<longleftrightarrow> (\<exists>k::int. v = of_int k / 100)"
proof
  assume "whole_kobo v"
  then have "v = of_int (round_half_up (v * 100)) / 100" by (simp add: whole_kobo_def cents_def toDecimalPlaces_def)
  then show "\<exists>k::int. v = of_int k / 100" by blast
next
  assume "\<exists>k::int. v = of_int k / 100"
  then show "whole_kobo v" by (auto simp: whole_kobo_def cents_def toDecimalPlaces_def)
qed

lemma whole_kobo_cents [simp]: "whole_kobo (cents v)" "whole_kobo (toDecimalPlaces 2 v)"
  by (simp_all add: whole_kobo_def cents_def)

lemma whole_kobo_0 [simp]: "whole_kobo 0"
  by (auto simp: whole_kobo_iff intro!: exI[of _ 0])

lemma whole_kobo_add [intro]: "whole_kobo a \<Longrightarrow> whole_kobo b \<Longrightarrow> whole_kobo (a + b)"
  unfolding whole_kobo_iff by (metis add_divide_distrib of_int_add)

lemma whole_kobo_diff [intro]: "whole_kobo a \<Longrightarrow> whole_kobo b \<Longrightarrow> whole_kobo (a - b)"
  unfolding whole_kobo_iff by (metis diff_divide_distrib of_int_diff)

lemma whole_kobo_sum: "(\<And>x. x \<in> set xs \<Longrightarrow> whole_kobo (f x)) \<Longrightarrow> whole_kobo (sum_list (map f xs))"
  by (induction xs) auto

lemma toDecimalPlaces_0 [simp]: "toDecimalPlaces n 0 = 0"
  using round_half_up_int[of 0] by (simp add: toDecimalPlaces_def)

lemma cents_mono: "a \<le> b \<Longrightarrow> cents a \<le> cents b"
  by (simp add: cents_def toDecimalPlaces_mono)

lemma cents_below: "a \<le> b \<Longrightarrow> whole_kobo b \<Longrightarrow> cents a \<le> b"
  using cents_mono[of a b] by (simp add: whole_kobo_def)

section \<open>The invariant\<close>

definition line_ok :: "invoice_line \<Rightarrow> bool" where
  "line_ok l \<longleftrightarrow> whole_kobo (li_lineSubtotal l) \<and> whole_kobo (li_vatAmount l) \<and>
     li_total l = li_lineSubtotal l + li_vatAmount l \<and> (\<not> li_vatApplicable l \<longrightarrow> li_vatAmount l = 0)"

definition wht_ok :: "money \<Rightarrow> bool \<Rightarrow> rat option \<Rightarrow> money \<Rightarrow> bool" where
  "wht_ok subtotal applicable rate v \<longleftrightarrow>
     (if applicable then rate \<in> {Some (1/20), Some (1/10)} \<and> v = cents (subtotal * the rate)
      else rate = None \<and> v = 0)"

definition amounts_ok :: "invoice \<Rightarrow> bool" where
  "amounts_ok v \<longleftrightarrow> (\<forall>l \<in> set (iv_items v). line_ok l) \<and>
     iv_subtotal v = lines_subtotal (iv_items v) \<and> iv_taxAmount v = lines_tax (iv_items v) \<and>
     iv_total v = iv_subtotal v + iv_taxAmount v \<and>
     wht_ok (iv_subtotal v) (iv_whtApplicable v) (iv_whtRate v) (iv_whtAmount v) \<and>
     iv_amountPayable v = iv_total v - iv_whtAmount v"

definition payments_of :: "invoice_payment list \<Rightarrow> string \<Rightarrow> invoice_payment list" where
  "payments_of ps i = filter (\<lambda>p. ip_invoice p = i) ps"

definition events_of :: "invoice_event list \<Rightarrow> string \<Rightarrow> string list" where
  "events_of hist i = map ih_status (filter (\<lambda>h. ih_invoice h = i) hist)"

definition progress_ok :: "invoice_payment list \<Rightarrow> invoice_event list \<Rightarrow> invoice \<Rightarrow> bool" where
  "progress_ok ps hist v \<longleftrightarrow>
     iv_status v \<in> set [''DRAFT'', ''SENT'', ''PARTIALLY_PAID'', ''PAID''] \<and>
     (iv_status v \<in> set [''DRAFT'', ''SENT''] \<longleftrightarrow> payments_of ps (iv_id v) = []) \<and>
     (payments_of ps (iv_id v) \<noteq> [] \<longrightarrow> invoice_paid ps (iv_id v) \<le> invoiceReceivable v) \<and>
     (iv_status v = ''PAID'' \<longrightarrow> invoice_paid ps (iv_id v) = invoiceReceivable v) \<and>
     (iv_status v = ''PAID'' \<longleftrightarrow> iv_paymentReference v \<noteq> None) \<and>
     events_of hist (iv_id v) \<noteq> [] \<and> last (events_of hist (iv_id v)) = iv_status v"

definition invoices_ok :: "invoice list \<Rightarrow> invoice_payment list \<Rightarrow> invoice_event list \<Rightarrow> bool" where
  "invoices_ok vs ps hist \<longleftrightarrow> distinct (map iv_id vs) \<and> (\<forall>v \<in> set vs. amounts_ok v \<and> progress_ok ps hist v) \<and>
     (\<forall>p \<in> set ps. whole_kobo (ip_amount p) \<and> (\<exists>v \<in> set vs. iv_id v = ip_invoice p \<and> iv_org v = ip_org p)) \<and>
     (\<forall>h \<in> set hist. ih_invoice h \<in> iv_id ` set vs) \<and>
     distinct (map (\<lambda>p. (ip_org p, ip_reference p)) ps)"

lemma invoices_okD:
  assumes "invoices_ok vs ps hist"
  shows "distinct (map iv_id vs)" and "v \<in> set vs \<Longrightarrow> amounts_ok v" and "v \<in> set vs \<Longrightarrow> progress_ok ps hist v"
    and "p \<in> set ps \<Longrightarrow> \<exists>v \<in> set vs. iv_id v = ip_invoice p \<and> iv_org v = ip_org p"
    and "p \<in> set ps \<Longrightarrow> whole_kobo (ip_amount p)"
    and "distinct (map (\<lambda>p. (ip_org p, ip_reference p)) ps)"
  using assms unfolding invoices_ok_def by blast+

definition acc_ok :: "acc_db \<Rightarrow> bool" where
  "acc_ok d \<longleftrightarrow> invoices_ok (ac_invoices d) (ac_payments d) (ac_history d)"

lemma receivable_is: "amounts_ok v \<Longrightarrow> invoiceReceivable v = iv_total v - iv_whtAmount v"
  by (simp add: invoiceReceivable_def amounts_ok_def)

lemma wht_whole: "wht_ok s a r v \<Longrightarrow> whole_kobo v"
  by (auto simp: wht_ok_def split: if_splits)

lemma lines_whole: "\<forall>l \<in> set ls. line_ok l \<Longrightarrow> whole_kobo (lines_subtotal ls) \<and> whole_kobo (lines_tax ls)"
  by (simp add: lines_subtotal_def lines_tax_def line_ok_def whole_kobo_sum)

lemma receivable_whole: "amounts_ok v \<Longrightarrow> whole_kobo (invoiceReceivable v)"
proof -
  assume a: "amounts_ok v"
  then have "whole_kobo (iv_total v)" using lines_whole[of "iv_items v"] by (auto simp: amounts_ok_def)
  moreover have "whole_kobo (iv_whtAmount v)" using a wht_whole by (auto simp: amounts_ok_def)
  ultimately show ?thesis using receivable_is[OF a] by auto
qed

lemma paid_whole:
  assumes "\<forall>p \<in> set ps. whole_kobo (ip_amount p)"
  shows "whole_kobo (invoice_paid ps i)"
  unfolding invoice_paid_def by (rule whole_kobo_sum) (use assms in simp)

lemma resolve_line_ok: "line_ok (resolve_line r l it)"
  by (simp add: resolve_line_def line_ok_def Let_def)

lemma stored_lines:
  "lines_subtotal (map stored_line ls) = lines_subtotal ls" "lines_tax (map stored_line ls) = lines_tax ls"
  "line_ok (stored_line l) = line_ok l"
  by (simp_all add: lines_subtotal_def lines_tax_def stored_line_def line_ok_def comp_def)

lemma calculated_wht: "calculateInvoiceWht s a r = Inr w \<Longrightarrow> wht_ok s a (fst w) (snd w)"
  by (auto simp: calculateInvoiceWht_def wht_ok_def cents_def split: if_splits)

section \<open>Transitions\<close>

lemma ids_unique: "distinct (map iv_id vs) \<Longrightarrow> v \<in> set vs \<Longrightarrow> w \<in> set vs \<Longrightarrow> iv_id v = iv_id w \<Longrightarrow> v = w"
  by (auto simp: distinct_map dest: inj_onD)

lemma same_paid: "(\<And>p. p \<in> set qs \<Longrightarrow> ip_invoice p \<noteq> i) \<Longrightarrow> invoice_paid (ps @ qs) i = invoice_paid ps i"
  by (simp add: invoice_paid_def)

lemma ok_new_invoice:
  assumes "invoices_ok vs ps hist" "amounts_ok v" "iv_id v \<notin> iv_id ` set vs" "iv_status v = ''DRAFT''"
    and "iv_paymentReference v = None" "ih_invoice h = iv_id v" "ih_status h = ''DRAFT''"
  shows "invoices_ok (vs @ [v]) ps (hist @ [h])"
proof -
  have "\<forall>p \<in> set ps. ip_invoice p \<in> iv_id ` set vs" "\<forall>x \<in> set hist. ih_invoice x \<in> iv_id ` set vs"
    using assms(1) unfolding invoices_ok_def by (metis imageI)+
  with assms(3) have none: "\<forall>p \<in> set ps. ip_invoice p \<noteq> iv_id v" and no_events: "\<forall>x \<in> set hist. ih_invoice x \<noteq> iv_id v"
    by metis+
  then have new: "payments_of ps (iv_id v) = []" "events_of hist (iv_id v) = []"
    by (auto simp: payments_of_def events_of_def filter_empty_conv)
  then have "progress_ok ps (hist @ [h]) v" using assms by (simp add: progress_ok_def events_of_def)
  moreover have "progress_ok ps (hist @ [h]) w = progress_ok ps hist w" if "w \<in> set vs" for w
    using that assms(3,6) by (auto simp: progress_ok_def events_of_def)
  ultimately show ?thesis using assms by (auto simp: invoices_ok_def)
qed

text \<open>One invoice rewritten, with new payments and history entries of its own.\<close>

lemma ok_update_invoice:
  assumes ok: "invoices_ok vs ps hist" and v: "v \<in> set vs" and f: "iv_id (f v) = iv_id v" "iv_org (f v) = iv_org v"
    and new: "amounts_ok (f v)" "progress_ok (ps @ qs) (hist @ hs) (f v)"
    and qs: "\<forall>p \<in> set qs. ip_invoice p = iv_id v \<and> ip_org p = iv_org v \<and> whole_kobo (ip_amount p)"
    and refs: "distinct (map (\<lambda>p. (ip_org p, ip_reference p)) (ps @ qs))"
    and hs: "\<forall>h \<in> set hs. ih_invoice h = iv_id v"
  shows "invoices_ok (updateMany (\<lambda>w. iv_id w = iv_id v) f vs) (ps @ qs) (hist @ hs)"
proof -
  let ?vs = "updateMany (\<lambda>w. iv_id w = iv_id v) f vs"
  from ok have ids: "distinct (map iv_id vs)" by (simp add: invoices_ok_def)
  have only: "w = v" if "w \<in> set vs" "iv_id w = iv_id v" for w using ids_unique[OF ids that(1) v] that(2) by simp
  have row: "w \<in> set ?vs \<longleftrightarrow> w = f v \<or> w \<in> set vs \<and> iv_id w \<noteq> iv_id v" for w
    using v only by (auto simp: set_updateMany image_iff)
  have "map iv_id ?vs = map iv_id vs" using only f by (auto simp: updateMany_def)
  with ids have "distinct (map iv_id ?vs)" by simp
  moreover have "amounts_ok w \<and> progress_ok (ps @ qs) (hist @ hs) w" if "w \<in> set ?vs" for w
  proof (cases "w = f v")
    case False
    with that row have w: "w \<in> set vs" "iv_id w \<noteq> iv_id v" by auto
    then have "payments_of (ps @ qs) (iv_id w) = payments_of ps (iv_id w)" "invoice_paid (ps @ qs) (iv_id w) = invoice_paid ps (iv_id w)"
      "events_of (hist @ hs) (iv_id w) = events_of hist (iv_id w)"
      using qs hs same_paid[of qs "iv_id w" ps] by (auto simp: payments_of_def events_of_def filter_empty_conv)
    with w ok show ?thesis by (auto simp: invoices_ok_def progress_ok_def)
  qed (use new in simp)
  moreover have "\<exists>w \<in> set ?vs. iv_id w = ip_invoice p \<and> iv_org w = ip_org p" if "p \<in> set (ps @ qs)" for p
  proof (cases "ip_invoice p = iv_id v")
    case True
    have "iv_org v = ip_org p"
    proof (cases "p \<in> set ps")
      case True
      with ok obtain w where "w \<in> set vs" "iv_id w = ip_invoice p" "iv_org w = ip_org p" by (auto simp: invoices_ok_def)
      with only \<open>ip_invoice p = iv_id v\<close> show ?thesis by auto
    qed (use that qs in auto)
    with True f row show ?thesis by metis
  next
    case False
    with that qs have "p \<in> set ps" by auto
    with ok obtain w where "w \<in> set vs" "iv_id w = ip_invoice p" "iv_org w = ip_org p" by (auto simp: invoices_ok_def)
    with False row show ?thesis by metis
  qed
  moreover have "ih_invoice h \<in> iv_id ` set ?vs" if "h \<in> set (hist @ hs)" for h
  proof -
    have "iv_id ` set ?vs = iv_id ` set vs" using \<open>map iv_id ?vs = map iv_id vs\<close> by (metis list.set_map)
    with that ok hs v show ?thesis by (auto simp: invoices_ok_def)
  qed
  ultimately show ?thesis using ok qs refs unfolding invoices_ok_def by auto
qed

lemma ok_delete_invoice:
  assumes ok: "invoices_ok vs ps hist" and none: "payments_of ps i = []"
  shows "invoices_ok (filter (\<lambda>v. iv_id v \<noteq> i) vs) ps (filter (\<lambda>h. ih_invoice h \<noteq> i) hist)"
proof -
  have "distinct (map iv_id (filter (\<lambda>v. iv_id v \<noteq> i) vs))"
    using ok distinct_map_filter[of iv_id vs] by (simp add: invoices_ok_def)
  moreover have "progress_ok ps (filter (\<lambda>h. ih_invoice h \<noteq> i) hist) v" if "v \<in> set vs" "iv_id v \<noteq> i" for v
  proof -
    have "filter (\<lambda>h. ih_invoice h = iv_id v) (filter (\<lambda>h. ih_invoice h \<noteq> i) hist) = filter (\<lambda>h. ih_invoice h = iv_id v) hist"
      using that(2) by (auto simp: filter_filter intro: filter_cong)
    then have "events_of (filter (\<lambda>h. ih_invoice h \<noteq> i) hist) (iv_id v) = events_of hist (iv_id v)" by (simp add: events_of_def)
    then have "progress_ok ps (filter (\<lambda>h. ih_invoice h \<noteq> i) hist) v = progress_ok ps hist v" by (simp only: progress_ok_def)
    with that ok show ?thesis by (simp add: invoices_ok_def)
  qed
  moreover have "\<forall>p \<in> set ps. ip_invoice p \<noteq> i" using none by (simp add: payments_of_def filter_empty_conv)
  ultimately show ?thesis using ok by (fastforce simp: invoices_ok_def)
qed

section \<open>Operations\<close>

text \<open>Reading keeps everything; what only touches the financial state keeps \<open>acc_ok\<close>.\<close>

lemma keeps_in_fin [keeps_rules]: "keeps acc_ok (in_fin m)"
  unfolding in_fin_def by (rule keeps_zoom[of "\<lambda>_. True"]) (auto simp: acc_ok_def keeps_def)

lemma keeps_audit_acc [keeps_rules]: "keeps acc_ok (audit_acc Y n org user action resource i summary metadata)"
  unfolding audit_acc_def by (rule keeps_in_fin)

lemma keeps_invoiceOwned [keeps_rules]: "keeps I (invoiceOwned org i)"
  unfolding invoiceOwned_def by (intro keeps_rules)

lemma keeps_assertClientOwnership [keeps_rules]: "keeps I (assertClientOwnership org i)"
  unfolding assertClientOwnership_def by (intro keeps_rules)

lemma keeps_assertProjectRelations [keeps_rules]: "keeps I (assertProjectRelations org i a)"
  unfolding assertProjectRelations_def by (intro keeps_rules)

lemma keeps_assertInvoiceRelations [keeps_rules]: "keeps I (assertInvoiceRelations org c p a)"
  unfolding assertInvoiceRelations_def by (intro keeps_rules)

lemma keeps_resolveInvoiceLines [keeps_rules]: "keeps I (resolveInvoiceLines org ls)"
  unfolding resolveInvoiceLines_def Let_def by (intro keeps_rules)

lemma keeps_getInvoiceById [keeps_rules]: "keeps I (getInvoiceById now org i)"
  unfolding getInvoiceById_def by (intro keeps_rules)

lemma resolved_lines_ok: "resolveInvoiceLines org ls d = (Inr lines, d') \<Longrightarrow> \<forall>l \<in> set lines. line_ok l"
  by (auto simp: resolveInvoiceLines_def Let_def run_simps resolve_line_ok)

text \<open>\<open>add_history\<close> and the invoice found\<close>

lemma run_add_history [run_simps]:
  "add_history org i st user txt d = (r, d') \<longleftrightarrow> r = Inr () \<and> d' = d\<lparr>ac_history := ac_history d @
     [\<lparr> ih_org = org, ih_invoice = i, ih_status = st, ih_actor = u_id user, ih_description = txt \<rparr>]\<rparr>"
  by (auto simp: add_history_def run_simps)

lemma run_invoiceOwned [run_simps]:
  "invoiceOwned org i d = (Inr v, d') \<longleftrightarrow> find (owned iv_id iv_org org i) (ac_invoices d) = Some v \<and> d' = d"
  by (auto simp: invoiceOwned_def run_simps)

lemma owned_row: "find (owned iv_id iv_org org i) vs = Some v \<Longrightarrow> v \<in> set vs \<and> iv_id v = i \<and> iv_org v = org"
  using find_SomeD[of "owned iv_id iv_org org i" vs v] by (auto simp: owned_def)

lemma keeps_new_draft:
  assumes "amounts_ok v" "iv_status v = ''DRAFT''" "iv_paymentReference v = None"
  shows "keeps acc_ok (tx (bnd (create_row ac_invoices ac_invoices_update invoice_clash v) (\<lambda>row.
    bnd (add_history org (iv_id row) ''DRAFT'' user txt) (\<lambda>_. ret row))))"
proof (rule keeps_tx_ok)
  fix d x d' assume "acc_ok d" and run: "bnd (create_row ac_invoices ac_invoices_update invoice_clash v) (\<lambda>row.
    bnd (add_history org (iv_id row) ''DRAFT'' user txt) (\<lambda>_. ret row)) d = (Inr x, d')"
  then have "iv_id v \<notin> iv_id ` set (ac_invoices d)" by (auto simp: run_simps clashes_def invoice_clash_def)
  with assms \<open>acc_ok d\<close> run show "acc_ok d'" by (auto simp: acc_ok_def run_simps intro!: ok_new_invoice)
qed

lemma draft_amounts:
  "\<forall>l \<in> set lines. line_ok l \<Longrightarrow> wht_ok (lines_subtotal lines) (keep (nv_whtApplicable inp) False) (fst wht) (snd wht) \<Longrightarrow>
   amounts_ok (draft_invoice n org inp lines t wht)"
  by (simp add: amounts_ok_def draft_invoice_def stored_lines Let_def)

lemma keeps_createInvoice: "keeps acc_ok (createInvoice Y n org inp user)"
  unfolding createInvoice_def
proof (rule keeps_bnd[OF keeps_assertInvoiceRelations], rule keeps_bnd_returns[OF keeps_resolveInvoiceLines resolved_lines_ok],
    assumption, rule keeps_bnd[OF keeps_find_row], rule keeps_bnd_returns[OF keeps_from_sum])
  fix s x t lines
  show "from_sum (calculateInvoiceWht (lines_subtotal lines) (keep (nv_whtApplicable inp) False) (nv_whtRate inp)) s = (Inr x, t) \<Longrightarrow>
    wht_ok (lines_subtotal lines) (keep (nv_whtApplicable inp) False) (fst x) (snd x)"
    by (auto simp: run_simps dest: calculated_wht)
qed (intro keeps_bnd keeps_audit_acc keeps_getInvoiceById keeps_new_draft draft_amounts, assumption+,
     simp_all add: draft_invoice_def Let_def)

text \<open>An update of one invoice that was just read.\<close>

definition found_here :: "string \<Rightarrow> string \<Rightarrow> invoice \<Rightarrow> acc_db \<Rightarrow> bool" where
  "found_here org i v d \<longleftrightarrow> acc_ok d \<and> invoiceOwned org i d = (Inr v, d)"

lemma found_here_row:
  "found_here org i v d \<Longrightarrow> invoices_ok (ac_invoices d) (ac_payments d) (ac_history d) \<and> v \<in> set (ac_invoices d) \<and>
     iv_id v = i \<and> iv_org v = org \<and> amounts_ok v \<and> progress_ok (ac_payments d) (ac_history d) v"
  by (auto simp: found_here_def acc_ok_def invoices_ok_def run_simps dest: owned_row)

lemma found_here_acc: "found_here org i v d \<Longrightarrow> acc_ok d"
  by (simp add: found_here_def)

lemma reprice_amounts:
  assumes "amounts_ok v" and "\<And>ls. lines = Some ls \<Longrightarrow> \<forall>l \<in> set ls. line_ok l"
    and "wht_ok (case lines of Some ls \<Rightarrow> lines_subtotal ls | None \<Rightarrow> iv_subtotal v) a (fst w) (snd w)"
  shows "amounts_ok (reprice lines (case lines of Some ls \<Rightarrow> lines_subtotal ls | None \<Rightarrow> iv_subtotal v)
    (case lines of Some ls \<Rightarrow> lines_tax ls | None \<Rightarrow> iv_taxAmount v) a w v)"
  using assms by (cases lines) (auto simp: reprice_def amounts_ok_def stored_lines)

lemma amounts_other_fields [simp]:
  "amounts_ok (v\<lparr>iv_client := c\<rparr>) = amounts_ok v" "amounts_ok (v\<lparr>iv_agent := ag\<rparr>) = amounts_ok v"
  "amounts_ok (v\<lparr>iv_project := p\<rparr>) = amounts_ok v" "amounts_ok (v\<lparr>iv_issueDate := x\<rparr>) = amounts_ok v"
  "amounts_ok (v\<lparr>iv_dueDate := y\<rparr>) = amounts_ok v" "amounts_ok (v\<lparr>iv_notes := z\<rparr>) = amounts_ok v"
  "amounts_ok (v\<lparr>iv_status := st\<rparr>) = amounts_ok v" "amounts_ok (v\<lparr>iv_sentAt := t\<rparr>) = amounts_ok v"
  "amounts_ok (v\<lparr>iv_paidAt := t\<rparr>) = amounts_ok v" "amounts_ok (v\<lparr>iv_paymentReference := r\<rparr>) = amounts_ok v"
  by (simp_all add: amounts_ok_def)

lemma reprice_same [simp]:
  "iv_id (reprice lines s t a w v) = iv_id v" "iv_org (reprice lines s t a w v) = iv_org v"
  "iv_status (reprice lines s t a w v) = iv_status v" "iv_paymentReference (reprice lines s t a w v) = iv_paymentReference v"
  by (simp_all add: reprice_def Let_def split: option.split)

lemma progress_draft:
  "progress_ok ps hist v \<Longrightarrow> iv_status v = ''DRAFT'' \<Longrightarrow> iv_id w = iv_id v \<Longrightarrow> iv_status w = iv_status v \<Longrightarrow>
   iv_paymentReference w = iv_paymentReference v \<Longrightarrow> progress_ok ps hist w"
  by (simp add: progress_ok_def)

lemma holds_update_draft:
  assumes f: "iv_id (f v) = iv_id v" "iv_org (f v) = iv_org v" "iv_status (f v) = iv_status v"
      "iv_paymentReference (f v) = iv_paymentReference v"
    and draft: "iv_status v = ''DRAFT''" and new: "amounts_ok v \<Longrightarrow> amounts_ok (f v)"
  shows "holds (found_here org i v) (update_row ac_invoices ac_invoices_update (\<lambda>w. iv_id w = i) f) (\<lambda>_. acc_ok) acc_ok"
proof (rule holdsI)
  fix d x d' assume "found_here org i v d" and run: "update_row ac_invoices ac_invoices_update (\<lambda>w. iv_id w = i) f d = (Inr x, d')"
  then have v: "invoices_ok (ac_invoices d) (ac_payments d) (ac_history d)" "v \<in> set (ac_invoices d)" "iv_id v = i"
    "amounts_ok v" "progress_ok (ac_payments d) (ac_history d) v" by (auto dest: found_here_row)
  have "invoices_ok (updateMany (\<lambda>w. iv_id w = iv_id v) f (ac_invoices d)) (ac_payments d @ []) (ac_history d @ [])"
    using v f new draft by (intro ok_update_invoice progress_draft[OF v(5)]) (auto simp: invoices_ok_def intro: progress_draft)
  with v(3) run show "acc_ok d'" by (auto simp: run_simps acc_ok_def)
qed (auto simp: run_update_row_err dest: found_here_acc)

lemma keeps_updateInvoice: "keeps acc_ok (updateInvoice Y n org i inp user)"
  unfolding updateInvoice_def Let_def
proof (rule keeps_by_holds, rule holds_learn[OF keeps_invoiceOwned], assumption, fold found_here_def,
    rule holds_skip_guard[OF found_here_acc], assumption, rule holds_skip[OF keeps_assertInvoiceRelations found_here_acc], assumption,
    rule holds_skip_returns[where R = "\<lambda>lines. \<forall>ls. lines = Some ls \<longrightarrow> (\<forall>l \<in> set ls. line_ok l)", OF _ _ found_here_acc])
  fix I show "keeps I (case vi_items inp of None \<Rightarrow> ret None | Some its \<Rightarrow> bnd (resolveInvoiceLines org its) (\<lambda>ls. ret (Some ls)))"
    by (intro keeps_rules)
next
  fix s x t
  show "(case vi_items inp of None \<Rightarrow> ret None | Some its \<Rightarrow> bnd (resolveInvoiceLines org its) (\<lambda>ls. ret (Some ls))) s = (Inr x, t) \<Longrightarrow>
    \<forall>ls. x = Some ls \<longrightarrow> (\<forall>l \<in> set ls. line_ok l)"
    by (auto simp: run_simps split: option.splits dest: resolved_lines_ok)
qed (assumption, rule holds_skip_guard[OF found_here_acc], assumption, rule holds_skip_sum[OF found_here_acc], assumption,
    rule keeps_then[OF holds_update_draft], auto intro!: keeps_rules reprice_amounts dest: calculated_wht)

lemma receivable_fields [simp]:
  "invoiceReceivable (v\<lparr>iv_status := st\<rparr>) = invoiceReceivable v" "invoiceReceivable (v\<lparr>iv_sentAt := t\<rparr>) = invoiceReceivable v"
  "invoiceReceivable (v\<lparr>iv_paidAt := t\<rparr>) = invoiceReceivable v"
  "invoiceReceivable (v\<lparr>iv_paymentReference := r\<rparr>) = invoiceReceivable v"
  by (simp_all add: invoiceReceivable_def)

lemma holds_mark_sent:
  assumes draft: "iv_status v = ''DRAFT''"
  shows "holds (found_here org i v)
    (tx (bnd (update_row ac_invoices ac_invoices_update (\<lambda>v. iv_id v = i) (\<lambda>v. v\<lparr>iv_status := ''SENT'', iv_sentAt := Some now\<rparr>)) (\<lambda>_.
       add_history org i ''SENT'' user txt))) (\<lambda>_. acc_ok) acc_ok"
proof (rule holds_tx[OF holdsI found_here_acc], rename_tac d x d')
  fix d x d' assume "found_here org i v d"
    and run: "bnd (update_row ac_invoices ac_invoices_update (\<lambda>v. iv_id v = i) (\<lambda>v. v\<lparr>iv_status := ''SENT'', iv_sentAt := Some now\<rparr>)) (\<lambda>_.
       add_history org i ''SENT'' user txt) d = (Inr x, d')"
  then have v: "invoices_ok (ac_invoices d) (ac_payments d) (ac_history d)" "v \<in> set (ac_invoices d)" "iv_id v = i" "iv_org v = org"
    "amounts_ok v" "progress_ok (ac_payments d) (ac_history d) v" by (auto dest: found_here_row)
  have "invoices_ok (updateMany (\<lambda>w. iv_id w = iv_id v) (\<lambda>v. v\<lparr>iv_status := ''SENT'', iv_sentAt := Some now\<rparr>) (ac_invoices d))
    (ac_payments d @ []) (ac_history d @ [\<lparr> ih_org = org, ih_invoice = i, ih_status = ''SENT'', ih_actor = u_id user, ih_description = txt \<rparr>])"
    using v draft by (intro ok_update_invoice) (auto simp: invoices_ok_def progress_ok_def events_of_def)
  with v(3) run show "acc_ok d'" by (auto simp: run_simps acc_ok_def)
qed simp_all

lemma keeps_sendInvoice: "keeps acc_ok (sendInvoice Y n mail org i user)"
  unfolding sendInvoice_def
  by (rule keeps_by_holds, rule holds_learn[OF keeps_invoiceOwned], assumption, fold found_here_def,
      rule holds_skip_guard[OF found_here_acc], assumption, rule holds_skip[OF keeps_find_row found_here_acc], assumption,
      rule holds_skip_guard[OF found_here_acc], assumption, rule holds_skip_sum[OF found_here_acc], assumption,
      rule keeps_then[OF holds_mark_sent]) (auto intro!: keeps_rules)

text \<open>The payment itself, and the transaction around it.\<close>

lemma ok_payment:
  assumes ok: "invoices_ok vs ps hist" and v: "v \<in> set vs" and p: "ip_invoice p = iv_id v" "ip_org p = iv_org v" "ip_amount p = cents a"
    and status: "iv_status v \<in> set [''SENT'', ''PARTIALLY_PAID'']" and fits: "a \<le> invoiceReceivable v - invoice_paid ps (iv_id v)"
    and fresh: "\<forall>q \<in> set ps. \<not> (ip_org q = ip_org p \<and> ip_reference q = ip_reference p)"
    and st: "st = (if a = invoiceReceivable v - invoice_paid ps (iv_id v) then ''PAID'' else ''PARTIALLY_PAID'')"
    and h: "ih_invoice h = iv_id v" "ih_status h = st"
  shows "invoices_ok (updateMany (\<lambda>w. iv_id w = iv_id v) (settle_invoice st now ref) vs) (ps @ [p]) (hist @ [h])"
proof -
  from ok v have a: "amounts_ok v" and pr: "progress_ok ps hist v" and w: "\<forall>p \<in> set ps. whole_kobo (ip_amount p)"
    by (auto simp: invoices_ok_def)
  have whole: "whole_kobo (invoiceReceivable v - invoice_paid ps (iv_id v))"
    using receivable_whole[OF a] paid_whole[OF w] by (rule whole_kobo_diff)
  have paid: "invoice_paid (ps @ [p]) (iv_id v) = invoice_paid ps (iv_id v) + cents a" using p by (simp add: invoice_paid_def)
  have "cents a \<le> invoiceReceivable v - invoice_paid ps (iv_id v)" using fits whole by (rule cents_below)
  moreover have "cents a = a" if "st = ''PAID''" using that st whole by (auto simp: whole_kobo_def split: if_splits)
  ultimately have "progress_ok (ps @ [p]) (hist @ [h]) (settle_invoice st now ref v)"
    using pr p h st paid by (auto simp: progress_ok_def settle_invoice_def payments_of_def events_of_def split: if_splits)
  moreover have "amounts_ok (settle_invoice st now ref v)" using a by (simp add: settle_invoice_def)
  ultimately show ?thesis
    using ok v p h fresh by (intro ok_update_invoice) (auto simp: settle_invoice_def invoices_ok_def)
qed

lemma display_payable:
  "accountingInvoiceDisplayStatus s due now \<in> set payable_statuses \<Longrightarrow> s \<in> set [''DRAFT'', ''SENT'', ''PARTIALLY_PAID'', ''PAID''] \<Longrightarrow>
   s \<in> set [''SENT'', ''PARTIALLY_PAID'']"
  by (auto simp: accountingInvoiceDisplayStatus_def payable_statuses_def split: if_splits)

lemma audit_acc_elsewhere:
  "audit_acc Y n org user action resource i summary metadata d = (r, d') \<Longrightarrow>
   ac_invoices d' = ac_invoices d \<and> ac_payments d' = ac_payments d \<and> ac_history d' = ac_history d"
  by (auto simp: audit_acc_def in_fin_def run_simps)

lemma receive_run:
  assumes "receivePayment Y n org i inp user d = (Inr u, d')"
  obtains v p h st where "find (owned iv_id iv_org org i) (ac_invoices d) = Some v"
    "accountingInvoiceDisplayStatus (iv_status v) (iv_dueDate v) (fr_now n) \<in> set payable_statuses"
    "py_amount inp \<le> invoiceReceivable v - invoice_paid (ac_payments d) i"
    "st = (if py_amount inp = invoiceReceivable v - invoice_paid (ac_payments d) i then ''PAID'' else ''PARTIALLY_PAID'')"
    "ac_invoices d' = updateMany (\<lambda>w. iv_id w = i) (settle_invoice st (keep (py_paidAt inp) (fr_now n)) (py_reference inp)) (ac_invoices d)"
    "ac_payments d' = ac_payments d @ [p]" "ac_history d' = ac_history d @ [h]"
    "ip_invoice p = i" "ip_org p = org" "ip_reference p = py_reference inp" "ip_amount p = cents (py_amount inp)"
    "\<not> clashes payment_clash p (ac_payments d)" "ih_invoice h = i" "ih_status h = st"
  using assms unfolding receivePayment_def Let_def
  apply (simp add: run_simps split del: if_split)
  apply (elim exE conjE, drule audit_acc_elsewhere, elim conjE)
  apply (rule that, assumption, assumption, assumption, rule refl)
  apply (simp split del: if_split, simp, simp)
  apply (simp_all split del: if_split)
  done

lemma keeps_receivePayment_tx:
  "keeps acc_ok (tx (receivePayment Y n org i inp user))"
proof (rule keeps_tx_ok)
  fix d u d' assume d: "acc_ok d" and "receivePayment Y n org i inp user d = (Inr u, d')"
  from this(2) show "acc_ok d'"
  proof (rule receive_run)
    fix v p h st
    assume v: "find (owned iv_id iv_org org i) (ac_invoices d) = Some v"
      and "accountingInvoiceDisplayStatus (iv_status v) (iv_dueDate v) (fr_now n) \<in> set payable_statuses"
      and fits: "py_amount inp \<le> invoiceReceivable v - invoice_paid (ac_payments d) i"
        "st = (if py_amount inp = invoiceReceivable v - invoice_paid (ac_payments d) i then ''PAID'' else ''PARTIALLY_PAID'')"
      and d': "ac_invoices d' = updateMany (\<lambda>w. iv_id w = i) (settle_invoice st (keep (py_paidAt inp) (fr_now n)) (py_reference inp)) (ac_invoices d)"
        "ac_payments d' = ac_payments d @ [p]" "ac_history d' = ac_history d @ [h]"
      and p: "ip_invoice p = i" "ip_org p = org" "ip_reference p = py_reference inp" "ip_amount p = cents (py_amount inp)"
      and new: "\<not> clashes payment_clash p (ac_payments d)" and h: "ih_invoice h = i" "ih_status h = st"
    from d v have row: "v \<in> set (ac_invoices d)" "iv_id v = i" "iv_org v = org" and "progress_ok (ac_payments d) (ac_history d) v"
      by (auto simp: acc_ok_def invoices_ok_def dest: owned_row)
    then have "iv_status v \<in> set [''SENT'', ''PARTIALLY_PAID'']"
      using display_payable \<open>_ \<in> set payable_statuses\<close> by (auto simp: progress_ok_def)
    moreover have "\<forall>q \<in> set (ac_payments d). \<not> (ip_org q = ip_org p \<and> ip_reference q = ip_reference p)"
      using new by (auto simp: clashes_def payment_clash_def)
    ultimately have "invoices_ok (updateMany (\<lambda>w. iv_id w = iv_id v) (settle_invoice st (keep (py_paidAt inp) (fr_now n)) (py_reference inp)) (ac_invoices d))
        (ac_payments d @ [p]) (ac_history d @ [h])"
      using d row p h fits by (intro ok_payment[where a = "py_amount inp"]) (simp_all add: acc_ok_def)
    with row show "acc_ok d'" by (simp add: acc_ok_def d')
  qed
qed

text \<open>A transaction around a read and a transaction is one transaction.\<close>

lemma keeps_tx_read:
  assumes "\<And>J. keeps J m" and "\<And>x. keeps I (tx (f x))"
  shows "keeps I (tx (bnd m f))"
proof (rule keeps_tx_ok)
  fix s y t assume I: "I s" and "bnd m f s = (Inr y, t)"
  then obtain x s1 where m: "m s = (Inr x, s1)" and f: "f x s1 = (Inr y, t)" by (auto simp: run_simps)
  from keeps_all_pure[OF assms(1) m] f have "tx (f x) s = (Inr y, t)" by (simp add: run_simps)
  with keepsD[OF assms(2) I] show "I t" by blast
qed

lemma keeps_recordInvoicePayment: "keeps acc_ok (recordInvoicePayment Y n org i inp user)"
  unfolding recordInvoicePayment_def on_P2002_def
proof (intro keeps_bnd keeps_getInvoiceById keeps_catching keeps_if keeps_raise, rule keeps_tx_read[OF keeps_find_row])
  fix x
  show "keeps acc_ok (tx (case x of
      Some p \<Rightarrow> bnd (guard (ip_invoice p = i \<and> ip_amount p = py_amount inp)
         (conflict ''Payment reference has already been used'')) (\<lambda>_. bnd (invoiceOwned org i) (\<lambda>_. ret ()))
    | None \<Rightarrow> receivePayment Y n org i inp user))"
    by (cases x) (simp_all add: keeps_receivePayment_tx, intro keeps_tx keeps_rules)
qed

section \<open>Deletion\<close>

lemma holds_drop_draft:
  "holds (\<lambda>d. found_here org i v d \<and> payments_of (ac_payments d) i = [])
     (bnd (delete_row ac_invoices ac_invoices_update (\<lambda>v. iv_id v = i)) (\<lambda>_.
      writes (\<lambda>d. d\<lparr>ac_history := filter (\<lambda>h. ih_invoice h \<noteq> i) (ac_history d)\<rparr>))) (\<lambda>_. acc_ok) acc_ok"
  by (rule holdsI) (auto simp: run_simps run_bnd_err run_delete_row_err acc_ok_def dest: found_here_acc found_here_row
      intro: ok_delete_invoice)

lemma keeps_in_fin_read:
  assumes "\<And>J. keeps J m"
  shows "keeps I (in_fin m)"
proof (rule keepsI)
  fix d r d' assume "I d" and "in_fin m d = (r, d')"
  then obtain f where "m (ac_fin d) = (r, f)" "d' = d\<lparr>ac_fin := f\<rparr>" by (auto simp: in_fin_def run_simps)
  with keeps_all_pure[OF assms this(1)] \<open>I d\<close> show "I d'" by simp
qed

lemma keeps_deleteInvoice: "keeps acc_ok (deleteInvoice Y n org i user)"
proof (rule keeps_by_holds, unfold deleteInvoice_def, rule holds_learn[OF keeps_invoiceOwned], assumption, fold found_here_def,
    rule holds_skip[OF keeps_in_fin_read[OF keeps_count_rows] found_here_acc], assumption, rule holds_skip_guard[OF found_here_acc], assumption,
    rule holds_learn[OF keeps_count_rows found_here_acc], assumption, rule holds_skip_guard, elim conjE, erule found_here_acc)
  fix v :: invoice and received :: nat
  let ?drop = "bnd (delete_row ac_invoices ac_invoices_update (\<lambda>v. iv_id v = i)) (\<lambda>_.
      writes (\<lambda>d. d\<lparr>ac_history := filter (\<lambda>h. ih_invoice h \<noteq> i) (ac_history d)\<rparr>))"
  let ?audit = "audit_acc Y n org user ''ACCOUNTING_INVOICE_DELETED'' ''INVOICE'' i (''Deleted draft invoice '' @ iv_invoiceNo v) None"
  let ?P = "\<lambda>d. found_here org i v d \<and> count_rows ac_payments (\<lambda>p. ip_invoice p = i) d = (Inr received, d)"
  assume "received = 0"
  then have "holds ?P ?drop (\<lambda>_. acc_ok) acc_ok"
    by (intro holds_weaken[OF holds_drop_draft]) (auto simp: run_simps countWhere_def payments_of_def)
  then have "holds ?P (bnd ?drop (\<lambda>_. ?audit)) (\<lambda>_. acc_ok) acc_ok" by (rule keeps_then) (rule keeps_audit_acc)
  then show "holds ?P (bnd (delete_row ac_invoices ac_invoices_update (\<lambda>v. iv_id v = i)) (\<lambda>_. bnd
      (writes (\<lambda>d. d\<lparr>ac_history := filter (\<lambda>h. ih_invoice h \<noteq> i) (ac_history d)\<rparr>)) (\<lambda>_. ?audit))) (\<lambda>_. acc_ok) acc_ok"
    by (simp only: bnd_assoc)
qed

end
