(* ===== verification/Expenses.thy ===== *)
theory Expenses
  imports InvoiceLedger
begin

text \<open>
  Expenses, expense categories and invoice templates of
  src/modules/accounting/accounting.service.ts, and the creation of accounting wallets.
\<close>

section \<open>Expenses\<close>

record expense_input =
  xi_date :: "time option"
  xi_category :: "string option"
  xi_categoryId :: "string option"
  xi_description :: "string option"
  xi_amount :: "rat option"
  xi_receipt :: "string option"

record new_expense =
  nx_date :: time
  nx_category :: "string option"
  nx_categoryId :: "string option"
  nx_description :: string
  nx_amount :: rat
  nx_receipt :: "string option"

definition expense_clash :: "expense \<Rightarrow> expense \<Rightarrow> bool" where
  "expense_clash a b \<longleftrightarrow> ex_id a = ex_id b \<or> ex_org a = ex_org b \<and> ex_reference a = ex_reference b"

definition expenseOwned :: "string \<Rightarrow> string \<Rightarrow> (acc_db, expense) op" where
  "expenseOwned org i =
     bnd (find_row ac_expenses (owned ex_id ex_org org i)) (\<lambda>found.
     required found (notFound ''Expense not found''))"

text \<open>The category an input names by id, which must be the organization's.\<close>

definition expenseCategory :: "string \<Rightarrow> string option \<Rightarrow> (acc_db, expense_category option) op" where
  "expenseCategory org categoryId =
     (if falsy categoryId then ret None
      else
        bnd (find_row ac_categories (owned ec_id ec_org org (the categoryId))) (\<lambda>found.
        bnd (required found (notFound ''Expense category not found'')) (\<lambda>c. ret (Some c))))"

definition createExpense :: "audit_env \<Rightarrow> fresh \<Rightarrow> string \<Rightarrow> new_expense \<Rightarrow> actor \<Rightarrow> (acc_db, expense) op" where
  "createExpense Y n org inp user =
     bnd (expenseCategory org (nx_categoryId inp)) (\<lambda>category.
     bnd (create_row ac_expenses ac_expenses_update expense_clash
            \<lparr> ex_id = fr_id n, ex_org = org, ex_reference = reference ''EXP'' (fr_hex n), ex_date = nx_date inp,
              ex_category = (case category of Some c \<Rightarrow> ec_name c | None \<Rightarrow> the (nx_category inp)),
              ex_categoryId = map_option ec_id category, ex_description = nx_description inp,
              ex_amount = cents (nx_amount inp), ex_receipt = nx_receipt inp, ex_status = ''ACTIVE'',
              ex_loggedBy = u_id user, ex_voidedAt = None, ex_voidedBy = None \<rparr>) (\<lambda>row.
     bnd (audit_acc Y n org user ''ACCOUNTING_EXPENSE_CREATED'' ''ACCOUNTING_EXPENSE'' (ex_id row)
            (''Logged expense '' @ ex_reference row) None) (\<lambda>_.
     ret row)))"

definition updateExpense ::
    "audit_env \<Rightarrow> fresh \<Rightarrow> string \<Rightarrow> string \<Rightarrow> expense_input \<Rightarrow> actor \<Rightarrow> (acc_db, expense) op" where
  "updateExpense Y n org i inp user =
     bnd (expenseOwned org i) (\<lambda>current.
     bnd (guard (ex_status current = ''ACTIVE'') (conflict ''Voided expenses cannot be edited'')) (\<lambda>_.
     bnd (expenseCategory org (xi_categoryId inp)) (\<lambda>category.
     bnd (update_row ac_expenses ac_expenses_update (\<lambda>e. ex_id e = i)
            (\<lambda>e. e\<lparr>ex_date := keep (xi_date inp) (ex_date e),
                   ex_category := (case category of Some c \<Rightarrow> ec_name c | None \<Rightarrow> keep (xi_category inp) (ex_category e)),
                   ex_categoryId := (case category of Some c \<Rightarrow> Some (ec_id c) | None \<Rightarrow> keep_opt (xi_categoryId inp) (ex_categoryId e)),
                   ex_description := keep (xi_description inp) (ex_description e),
                   ex_amount := keep (map_option cents (xi_amount inp)) (ex_amount e),
                   ex_receipt := keep_opt (xi_receipt inp) (ex_receipt e)\<rparr>)) (\<lambda>row.
     bnd (audit_acc Y n org user ''ACCOUNTING_EXPENSE_UPDATED'' ''ACCOUNTING_EXPENSE'' i
            (''Updated expense '' @ ex_reference current) None) (\<lambda>_.
     ret row)))))"

definition voidExpense :: "audit_env \<Rightarrow> fresh \<Rightarrow> string \<Rightarrow> string \<Rightarrow> actor \<Rightarrow> (acc_db, expense) op" where
  "voidExpense Y n org i user =
     bnd (expenseOwned org i) (\<lambda>current.
     if ex_status current = ''VOID'' then ret current
     else
       bnd (update_row ac_expenses ac_expenses_update (\<lambda>e. ex_id e = i)
              (\<lambda>e. e\<lparr>ex_status := ''VOID'', ex_voidedAt := Some (fr_now n), ex_voidedBy := Some (u_id user)\<rparr>)) (\<lambda>row.
       bnd (audit_acc Y n org user ''ACCOUNTING_EXPENSE_VOIDED'' ''ACCOUNTING_EXPENSE'' i
              (''Voided expense '' @ ex_reference current) None) (\<lambda>_.
       ret row)))"

section \<open>Expense categories\<close>

definition category_clash :: "expense_category \<Rightarrow> expense_category \<Rightarrow> bool" where
  "category_clash a b \<longleftrightarrow> ec_id a = ec_id b \<or> ec_org a = ec_org b \<and>
     (ec_reference a = ec_reference b \<or> ec_normalizedName a = ec_normalizedName b)"

definition createExpenseCategory ::
    "audit_env \<Rightarrow> fresh \<Rightarrow> string \<Rightarrow> string \<Rightarrow> string option \<Rightarrow> actor \<Rightarrow> (acc_db, expense_category) op" where
  "createExpenseCategory Y n org name description user =
     bnd (create_row ac_categories ac_categories_update category_clash
            \<lparr> ec_id = fr_id n, ec_org = org, ec_reference = reference ''EXC'' (fr_hex n), ec_name = name,
              ec_normalizedName = toLower (trim name), ec_description = description \<rparr>) (\<lambda>row.
     bnd (audit_acc Y n org user ''ACCOUNTING_EXPENSE_CATEGORY_CREATED'' ''ACCOUNTING_EXPENSE_CATEGORY'' (ec_id row)
            ''Created expense category'' None) (\<lambda>_.
     ret row))"

definition deleteExpenseCategory :: "audit_env \<Rightarrow> fresh \<Rightarrow> string \<Rightarrow> string \<Rightarrow> actor \<Rightarrow> (acc_db, unit) op" where
  "deleteExpenseCategory Y n org i user =
     bnd (find_row ac_categories (owned ec_id ec_org org i)) (\<lambda>found.
     bnd (required found (notFound ''Expense category not found'')) (\<lambda>_.
     bnd (count_rows ac_expenses (\<lambda>e. ex_org e = org \<and> ex_categoryId e = Some i)) (\<lambda>used.
     bnd (guard (used = 0) (conflict ''Expense category cannot be deleted because it is used by existing expenses.'')) (\<lambda>_.
     bnd (delete_row ac_categories ac_categories_update (\<lambda>c. ec_id c = i)) (\<lambda>_.
     audit_acc Y n org user ''ACCOUNTING_EXPENSE_CATEGORY_DELETED'' ''ACCOUNTING_EXPENSE_CATEGORY'' i
       ''Deleted expense category'' None)))))"

section \<open>Invoice templates\<close>

record template_input =
  ti_name :: "string option"
  ti_paymentTerms :: "string option"
  ti_headerNote :: "string option"
  ti_footerNote :: "string option"

definition template_clash :: "invoice_template \<Rightarrow> invoice_template \<Rightarrow> bool" where
  "template_clash a b \<longleftrightarrow> tp_id a = tp_id b \<or> tp_org a = tp_org b \<and>
     (tp_normalizedName a = tp_normalizedName b \<or> same_key (tp_defaultKey a) (tp_defaultKey b))"

definition templateOwned :: "string \<Rightarrow> string \<Rightarrow> (acc_db, invoice_template) op" where
  "templateOwned org i =
     bnd (find_row ac_templates (owned tp_id tp_org org i)) (\<lambda>found.
     required found (notFound ''Invoice template not found''))"

text \<open>The first template of an organization becomes its default.\<close>

definition createInvoiceTemplate ::
    "audit_env \<Rightarrow> fresh \<Rightarrow> string \<Rightarrow> string \<Rightarrow> template_input \<Rightarrow> actor \<Rightarrow> (acc_db, invoice_template) op" where
  "createInvoiceTemplate Y n org name inp user =
     bnd (tx (bnd (count_rows ac_templates (\<lambda>t. tp_org t = org)) (\<lambda>existing.
          create_row ac_templates ac_templates_update template_clash
            \<lparr> tp_id = fr_id n, tp_org = org, tp_name = name, tp_normalizedName = toLower (trim name),
              tp_paymentTerms = ti_paymentTerms inp, tp_headerNote = ti_headerNote inp,
              tp_footerNote = ti_footerNote inp, tp_isDefault = (existing = 0),
              tp_defaultKey = (if existing = 0 then Some ''DEFAULT'' else None) \<rparr>))) (\<lambda>row.
     bnd (audit_acc Y n org user ''ACCOUNTING_INVOICE_TEMPLATE_CREATED'' ''ACCOUNTING_INVOICE_TEMPLATE'' (tp_id row)
            ''Created invoice template'' None) (\<lambda>_.
     ret row))"

text \<open>A new name is checked against the unique index of the other rows.\<close>

definition template_name_taken :: "string \<Rightarrow> string \<Rightarrow> string option \<Rightarrow> acc_db \<Rightarrow> bool" where
  "template_name_taken org i name d \<longleftrightarrow> \<not> falsy name \<and>
     (\<exists>t \<in> set (ac_templates d). tp_id t \<noteq> i \<and> tp_org t = org \<and> tp_normalizedName t = toLower (trim (the name)))"

definition updateInvoiceTemplate ::
    "audit_env \<Rightarrow> fresh \<Rightarrow> string \<Rightarrow> string \<Rightarrow> template_input \<Rightarrow> actor \<Rightarrow> (acc_db, invoice_template) op" where
  "updateInvoiceTemplate Y n org i inp user =
     bnd (templateOwned org i) (\<lambda>_.
     bnd (reads (template_name_taken org i (ti_name inp))) (\<lambda>taken.
     bnd (guard (\<not> taken) P2002) (\<lambda>_.
     bnd (update_row ac_templates ac_templates_update (\<lambda>t. tp_id t = i)
            (\<lambda>t. t\<lparr>tp_name := keep (ti_name inp) (tp_name t),
                   tp_normalizedName := (if falsy (ti_name inp) then tp_normalizedName t else toLower (trim (the (ti_name inp)))),
                   tp_paymentTerms := keep_opt (ti_paymentTerms inp) (tp_paymentTerms t),
                   tp_headerNote := keep_opt (ti_headerNote inp) (tp_headerNote t),
                   tp_footerNote := keep_opt (ti_footerNote inp) (tp_footerNote t)\<rparr>)) (\<lambda>row.
     bnd (audit_acc Y n org user ''ACCOUNTING_INVOICE_TEMPLATE_UPDATED'' ''ACCOUNTING_INVOICE_TEMPLATE'' i
            ''Updated invoice template'' None) (\<lambda>_.
     ret row)))))"

definition setDefaultInvoiceTemplate ::
    "audit_env \<Rightarrow> fresh \<Rightarrow> string \<Rightarrow> string \<Rightarrow> actor \<Rightarrow> (acc_db, invoice_template) op" where
  "setDefaultInvoiceTemplate Y n org i user =
     bnd (templateOwned org i) (\<lambda>_.
     bnd (tx (bnd (update_rows ac_templates ac_templates_update (\<lambda>t. tp_org t = org \<and> tp_isDefault t)
                    (\<lambda>t. t\<lparr>tp_isDefault := False, tp_defaultKey := None\<rparr>)) (\<lambda>_.
              update_row ac_templates ac_templates_update (\<lambda>t. tp_id t = i)
                (\<lambda>t. t\<lparr>tp_isDefault := True, tp_defaultKey := Some ''DEFAULT''\<rparr>)))) (\<lambda>_.
     bnd (audit_acc Y n org user ''ACCOUNTING_INVOICE_TEMPLATE_DEFAULTED'' ''ACCOUNTING_INVOICE_TEMPLATE'' i
            ''Set default invoice template'' None) (\<lambda>_.
     bnd (find_row ac_templates (\<lambda>t. tp_id t = i)) (\<lambda>found. required found P2025))))"

definition deleteInvoiceTemplate :: "audit_env \<Rightarrow> fresh \<Rightarrow> string \<Rightarrow> string \<Rightarrow> actor \<Rightarrow> (acc_db, unit) op" where
  "deleteInvoiceTemplate Y n org i user =
     bnd (templateOwned org i) (\<lambda>found.
     bnd (guard (\<not> tp_isDefault found) (conflict ''Set another template as default before deleting this template'')) (\<lambda>_.
     bnd (delete_row ac_templates ac_templates_update (\<lambda>t. tp_id t = i)) (\<lambda>_.
     audit_acc Y n org user ''ACCOUNTING_INVOICE_TEMPLATE_DELETED'' ''ACCOUNTING_INVOICE_TEMPLATE'' i
       ''Deleted invoice template'' None)))"

section \<open>One default template\<close>

definition templates_of :: "string \<Rightarrow> invoice_template list \<Rightarrow> invoice_template list" where
  "templates_of org ts = filter (\<lambda>t. tp_org t = org) ts"

definition defaults_of :: "string \<Rightarrow> invoice_template list \<Rightarrow> invoice_template list" where
  "defaults_of org ts = filter (\<lambda>t. tp_org t = org \<and> tp_isDefault t) ts"

definition templates_ok :: "invoice_template list \<Rightarrow> bool" where
  "templates_ok ts \<longleftrightarrow> distinct (map tp_id ts) \<and>
     (\<forall>org. templates_of org ts \<noteq> [] \<longrightarrow> length (defaults_of org ts) = 1) \<and>
     (\<forall>t \<in> set ts. tp_defaultKey t = (if tp_isDefault t then Some ''DEFAULT'' else None))"

definition tpl_ok :: "acc_db \<Rightarrow> bool" where
  "tpl_ok d \<longleftrightarrow> templates_ok (ac_templates d)"

lemma filter_updateMany_map:
  "(\<And>x. P x \<Longrightarrow> Q (f x) = Q x) \<Longrightarrow> length (filter Q (updateMany P f rows)) = length (filter Q rows)"
  by (simp add: filter_updateMany_same)

lemma templates_new:
  assumes ok: "templates_ok ts" and "tp_id t \<notin> tp_id ` set ts"
    and t: "tp_isDefault t = (templates_of (tp_org t) ts = [])" "tp_defaultKey t = (if tp_isDefault t then Some ''DEFAULT'' else None)"
  shows "templates_ok (ts @ [t])"
proof -
  have "length (defaults_of org (ts @ [t])) = 1" if "templates_of org (ts @ [t]) \<noteq> []" for org
  proof (cases "tp_org t = org")
    case True
    have "defaults_of org ts = []" if "templates_of org ts = []" using that by (auto simp: defaults_of_def templates_of_def filter_empty_conv)
    with ok t True show ?thesis by (auto simp: templates_ok_def defaults_of_def)
  qed (use ok that in \<open>auto simp: templates_ok_def templates_of_def defaults_of_def\<close>)
  with assms show ?thesis by (auto simp: templates_ok_def)
qed

lemma templates_edit:
  assumes ok: "templates_ok ts"
    and f: "\<And>t. tp_id (f t) = tp_id t \<and> tp_org (f t) = tp_org t \<and> tp_isDefault (f t) = tp_isDefault t \<and> tp_defaultKey (f t) = tp_defaultKey t"
  shows "templates_ok (updateMany P f ts)"
proof -
  have ids: "map tp_id (updateMany P f ts) = map tp_id ts" using f by (intro map_updateMany_same) simp
  have empty: "updateMany P f xs = [] \<longleftrightarrow> xs = []" for xs by (cases xs) auto
  have len: "length (defaults_of org (updateMany P f ts)) = 1" if "templates_of org (updateMany P f ts) \<noteq> []" for org
  proof -
    have "templates_of org (updateMany P f ts) = updateMany P f (templates_of org ts)"
      unfolding templates_of_def using f by (intro filter_updateMany_same) simp
    with that have "templates_of org ts \<noteq> []" by (simp add: empty)
    moreover have "defaults_of org (updateMany P f ts) = updateMany P f (defaults_of org ts)"
      unfolding defaults_of_def using f by (intro filter_updateMany_same) simp
    ultimately show ?thesis using ok by (simp add: templates_ok_def)
  qed
  have key: "tp_defaultKey t = (if tp_isDefault t then Some ''DEFAULT'' else None)" if "t \<in> set (updateMany P f ts)" for t
    using that
  proof (rule updateManyE)
    fix x assume x: "x \<in> set ts" "t = (if P x then f x else x)"
    with f[of x] have "tp_defaultKey t = tp_defaultKey x" "tp_isDefault t = tp_isDefault x" by simp_all
    with x ok show ?thesis by (simp add: templates_ok_def)
  qed
  show ?thesis unfolding templates_ok_def
  proof (intro conjI allI impI ballI)
    show "distinct (map tp_id (updateMany P f ts))" using ok by (simp only: ids templates_ok_def)
  qed (fact len, fact key)
qed

text \<open>Clearing the organization's default and setting one of its templates.\<close>

lemma templates_set_default:
  assumes ok: "templates_ok ts" and t: "t \<in> set ts" "tp_id t = i" "tp_org t = org"
  defines "clear \<equiv> updateMany (\<lambda>t. tp_org t = org \<and> tp_isDefault t) (\<lambda>t. t\<lparr>tp_isDefault := False, tp_defaultKey := None\<rparr>) ts"
  shows "templates_ok (updateMany (\<lambda>t. tp_id t = i) (\<lambda>t. t\<lparr>tp_isDefault := True, tp_defaultKey := Some ''DEFAULT''\<rparr>) clear)"
proof -
  define g where "g x = (let y = (if tp_org x = org \<and> tp_isDefault x then x\<lparr>tp_isDefault := False, tp_defaultKey := None\<rparr> else x)
    in if tp_id x = i then y\<lparr>tp_isDefault := True, tp_defaultKey := Some ''DEFAULT''\<rparr> else y)" for x :: invoice_template
  have new: "updateMany (\<lambda>t. tp_id t = i) (\<lambda>t. t\<lparr>tp_isDefault := True, tp_defaultKey := Some ''DEFAULT''\<rparr>) clear = map g ts"
    by (auto simp: clear_def updateMany_def comp_def Let_def g_def)
  from ok have ids: "distinct (map tp_id ts)" by (simp add: templates_ok_def)
  then have only: "x = t" if "x \<in> set ts" "tp_id x = i" for x using that t by (auto simp: distinct_map dest: inj_onD)
  have fields: "tp_id (g x) = tp_id x" "tp_org (g x) = tp_org x" for x by (simp_all add: Let_def g_def)
  have dflt: "tp_isDefault (g x) = (if tp_org x = org then tp_id x = i else tp_isDefault x)" if "x \<in> set ts" for x
    using only[OF that] t by (auto simp: Let_def g_def)
  have len: "length (defaults_of o' (map g ts)) = 1" if ne: "templates_of o' (map g ts) \<noteq> []" for o'
  proof (cases "o' = org")
    case True
    have "(tp_org (g x) = org \<and> tp_isDefault (g x)) = (tp_id x = tp_id t)" if "x \<in> set ts" for x
      using dflt[OF that] only[OF that] t by (auto simp: fields)
    then have "filter (\<lambda>x. tp_org (g x) = org \<and> tp_isDefault (g x)) ts = filter (\<lambda>x. tp_id x = tp_id t) ts"
      by (rule filter_cong[OF refl])
    also have "\<dots> = [t]" using ids t(1) by (rule filter_one_key)
    finally show ?thesis using True by (simp add: defaults_of_def filter_map comp_def)
  next
    case False
    have "(tp_org (g x) = o' \<and> tp_isDefault (g x)) = (tp_org x = o' \<and> tp_isDefault x)" if "x \<in> set ts" for x
      using dflt[OF that] False by (auto simp: fields)
    then have "filter (\<lambda>x. tp_org (g x) = o' \<and> tp_isDefault (g x)) ts = defaults_of o' ts"
      unfolding defaults_of_def by (rule filter_cong[OF refl])
    moreover have "templates_of o' ts \<noteq> []"
      using ne by (auto simp: templates_of_def filter_map comp_def fields)
    ultimately show ?thesis using ok by (simp add: templates_ok_def defaults_of_def filter_map comp_def)
  qed
  have key: "tp_defaultKey x = (if tp_isDefault x then Some ''DEFAULT'' else None)" if "x \<in> set (map g ts)" for x
    using ok that by (auto simp: templates_ok_def Let_def g_def)
  show ?thesis unfolding new templates_ok_def
  proof (intro conjI allI impI ballI)
    show "distinct (map tp_id (map g ts))" using ids by (simp add: comp_def fields)
  qed (fact len, fact key)
qed

lemma templates_delete:
  assumes ok: "templates_ok ts" and t: "t \<in> set ts" "tp_id t = i" "\<not> tp_isDefault t"
  shows "templates_ok (filter (\<lambda>t. tp_id t \<noteq> i) ts)"
proof -
  from ok have ids: "distinct (map tp_id ts)" by (simp add: templates_ok_def)
  then have only: "x = t" if "x \<in> set ts" "tp_id x = i" for x using that t by (auto simp: distinct_map dest: inj_onD)
  have "defaults_of org (filter (\<lambda>t. tp_id t \<noteq> i) ts) = defaults_of org ts" for org
    unfolding defaults_of_def using only t(3) by (auto simp: filter_filter intro!: filter_cong)
  moreover have "templates_of org ts \<noteq> []" if "templates_of org (filter (\<lambda>t. tp_id t \<noteq> i) ts) \<noteq> []" for org
    using that by (auto simp: templates_of_def filter_empty_conv)
  ultimately show ?thesis using ok distinct_map_filter[OF ids] by (auto simp: templates_ok_def)
qed

end
