(* ===== verification/Listing.thy ===== *)
theory Listing
  imports Invoices
begin

text \<open>
  The list endpoints and CSV exports of src/modules/accounting/accounting.service.ts: filters,
  paging, the loop that collects every page, and CSV cells.

  SQL's \<open>LIKE\<close> and \<open>ORDER BY\<close> depend on the database's collation: \<open>like needle text\<close> and
  \<open>order column direction rows\<close> are parameters.
\<close>

section \<open>Pages\<close>

record page_query =
  pq_search :: "string option"
  pq_status :: string
  pq_page :: nat
  pq_limit :: nat
  pq_sortBy :: string
  pq_sortOrder :: string

text \<open>\<open>skip: (page - 1) * limit, take: limit\<close>\<close>

definition page_rows :: "'r list \<Rightarrow> nat \<Rightarrow> nat \<Rightarrow> 'r list" where
  "page_rows rows page limit = take limit (drop ((page - 1) * limit) rows)"

definition page_info :: "'r list \<Rightarrow> nat \<Rightarrow> nat \<Rightarrow> pagination" where
  "page_info rows page limit = pagination_of (int page) (int limit) (int (length rows))"

text \<open>The export loop: pages 1, 2, ... until the page number reaches \<open>totalPages\<close>.\<close>

function collect_pages :: "'r list \<Rightarrow> nat \<Rightarrow> nat \<Rightarrow> 'r list" where
  "collect_pages rows limit page =
     page_rows rows page limit @
     (if pg_totalPages (page_info rows page limit) \<le> int page then [] else collect_pages rows limit (Suc page))"
  by pat_completeness auto

termination
  by (relation "measure (\<lambda>(rows, limit, page). nat (\<lceil>of_int (int (length rows)) / of_int (int limit) :: rat\<rceil> - int page))")
    (auto simp: page_info_def pagination_of_def)

declare collect_pages.simps [simp del]

lemma more_pages:
  assumes "0 < limit"
  shows "pg_totalPages (page_info rows page limit) \<le> int page \<longleftrightarrow> length rows \<le> page * limit"
proof -
  have "pg_totalPages (page_info rows page limit) \<le> int page \<longleftrightarrow>
      (of_nat (length rows) :: rat) / of_nat limit \<le> of_nat page"
    by (simp add: page_info_def pagination_of_def ceiling_le_iff)
  also have "\<dots> \<longleftrightarrow> (of_nat (length rows) :: rat) \<le> of_nat (page * limit)"
    using assms by (simp add: divide_le_eq)
  finally show ?thesis by (simp only: of_nat_le_iff)
qed

lemma collect_from:
  assumes "0 < limit"
  shows "collect_pages rows limit (Suc k) = drop (k * limit) rows"
proof (induction "length rows - k * limit" arbitrary: k rule: less_induct)
  case less
  have page: "page_rows rows (Suc k) limit = take limit (drop (k * limit) rows)" by (simp add: page_rows_def)
  show ?case
  proof (cases "length rows \<le> Suc k * limit")
    case True
    then have c: "pg_totalPages (page_info rows (Suc k) limit) \<le> int (Suc k)" using more_pages[OF assms] by blast
    have "collect_pages rows limit (Suc k) = take limit (drop (k * limit) rows)"
      by (subst collect_pages.simps) (simp only: c page if_True append_Nil2)
    with True show ?thesis by simp
  next
    case False
    then have c: "\<not> pg_totalPages (page_info rows (Suc k) limit) \<le> int (Suc k)" using more_pages[OF assms] by blast
    have "collect_pages rows limit (Suc k) = take limit (drop (k * limit) rows) @ collect_pages rows limit (Suc (Suc k))"
      by (subst collect_pages.simps) (simp only: c page if_False)
    also have "collect_pages rows limit (Suc (Suc k)) = drop (Suc k * limit) rows"
      using False assms by (intro less) simp
    also have "drop (Suc k * limit) rows = drop limit (drop (k * limit) rows)" by (simp add: add.commute)
    finally show ?thesis using append_take_drop_id[of limit "drop (k * limit) rows"] by simp
  qed
qed

lemma collect_all: "0 < limit \<Longrightarrow> collect_pages rows limit 1 = rows"
  using collect_from[of limit rows 0] by simp

section \<open>CSV\<close>

definition csvCell :: "string \<Rightarrow> string" where
  "csvCell v =
     (let safe = (case v of c # _ \<Rightarrow> if c \<in> set ''=+-@'' then CHR 0x27 # v else v | [] \<Rightarrow> [])
      in CHR 0x22 # concat (map (\<lambda>c. if c = CHR 0x22 then [CHR 0x22, CHR 0x22] else [c]) safe) @ [CHR 0x22])"

definition csv_line :: "string list \<Rightarrow> string" where
  "csv_line cells = join '','' (map csvCell cells)"

text \<open>The byte order mark as UTF-8 encodes it.\<close>

definition csv_file :: "string list list \<Rightarrow> string" where
  "csv_file lines = [CHR 0xEF, CHR 0xBB, CHR 0xBF] @
     join [CHR 0x0D, CHR 0x0A] (map csv_line lines) @ [CHR 0x0D, CHR 0x0A]"

text \<open>How a reader of RFC 4180 reads a line of quoted cells: \<open>acc\<close> holds the cell read so far.\<close>

function read_cells :: "string \<Rightarrow> string \<Rightarrow> string list option" where
  "read_cells acc [] = None"
| "read_cells acc (c # s) =
     (if c \<noteq> CHR 0x22 then read_cells (acc @ [c]) s
      else case s of
        [] \<Rightarrow> Some [acc]
      | d # t \<Rightarrow>
          if d = CHR 0x22 then read_cells (acc @ [CHR 0x22]) t
          else if d = CHR 0x2C \<and> t \<noteq> [] \<and> hd t = CHR 0x22 then map_option (\<lambda>cs. acc # cs) (read_cells [] (tl t))
          else None)"
  by pat_completeness auto

termination
proof (relation "measure (\<lambda>(acc, s). length s)")
  fix acc :: string and c s d t
  assume "s = d # t" and "d = CHR 0x2C \<and> t \<noteq> [] \<and> hd t = CHR 0x22"
  then show "(([], tl t), acc, c # s) \<in> measure (\<lambda>(acc, s). length s)" by (cases t) auto
qed auto

definition read_line :: "string \<Rightarrow> string list option" where
  "read_line s = (if s \<noteq> [] \<and> hd s = CHR 0x22 then read_cells [] (tl s) else None)"

definition formula_like :: "string \<Rightarrow> bool" where
  "formula_like s \<longleftrightarrow> s \<noteq> [] \<and> hd s \<in> set ''=+-@''"

definition defused :: "string \<Rightarrow> string" where
  "defused v = (if formula_like v then CHR 0x27 # v else v)"

definition doubled :: "string \<Rightarrow> string" where
  "doubled s = concat (map (\<lambda>c. if c = CHR 0x22 then [CHR 0x22, CHR 0x22] else [c]) s)"

lemma csvCell_alt: "csvCell v = CHR 0x22 # doubled (defused v) @ [CHR 0x22]"
  by (cases v) (simp_all add: csvCell_def doubled_def defused_def formula_like_def Let_def)

lemma defused_safe: "\<not> formula_like (defused v)"
  by (simp add: defused_def formula_like_def)

lemma read_doubled: "read_cells acc (doubled s @ CHR 0x22 # rest) = read_cells (acc @ s) (CHR 0x22 # rest)"
proof (induction s arbitrary: acc)
  case (Cons c s)
  from Cons[of "acc @ [c]"] show ?case
    by (cases "c = CHR 0x22") (simp_all add: doubled_def)
qed (simp add: doubled_def)

lemma csv_line_Cons:
  "csv_line (c # cs) = CHR 0x22 # doubled (defused c) @ CHR 0x22 # (if cs = [] then [] else CHR 0x2C # csv_line cs)"
  by (cases cs) (simp_all add: csv_line_def csvCell_alt)

lemma csv_line_head: "cs \<noteq> [] \<Longrightarrow> csv_line cs \<noteq> [] \<and> hd (csv_line cs) = CHR 0x22"
  by (cases cs) (simp_all add: csv_line_Cons)

lemma read_csv_cells: "cells \<noteq> [] \<Longrightarrow> read_cells [] (tl (csv_line cells)) = Some (map defused cells)"
proof (induction cells)
  case (Cons c cs)
  show ?case
  proof (cases "cs = []")
    case False
    with Cons.IH csv_line_head show ?thesis by (simp add: csv_line_Cons[of c] read_doubled)
  qed (simp add: csv_line_Cons read_doubled)
qed simp

lemma read_csv_line: "cells \<noteq> [] \<Longrightarrow> read_line (csv_line cells) = Some (map defused cells)"
  using csv_line_head read_csv_cells by (simp add: read_line_def)

section \<open>List endpoints\<close>

text \<open>\<open>{ contains: query.search }\<close> on a nullable column never matches NULL.\<close>

definition like_opt :: "(string \<Rightarrow> string \<Rightarrow> bool) \<Rightarrow> string \<Rightarrow> string option \<Rightarrow> bool" where
  "like_opt like needle x = (case x of None \<Rightarrow> False | Some t \<Rightarrow> like needle t)"

text \<open>A search clause is present only for a non-empty search text.\<close>

definition searching :: "string option \<Rightarrow> (string \<Rightarrow> bool) \<Rightarrow> bool" where
  "searching search hit = (if falsy search then True else hit (the search))"

definition in_range :: "time option \<Rightarrow> time option \<Rightarrow> time \<Rightarrow> bool" where
  "in_range lo hi t \<longleftrightarrow> (case lo of None \<Rightarrow> True | Some a \<Rightarrow> a \<le> t) \<and> (case hi of None \<Rightarrow> True | Some b \<Rightarrow> t \<le> b)"

definition wanted :: "string option \<Rightarrow> string \<Rightarrow> bool" where
  "wanted v x = (falsy v \<or> v = Some x)"

type_synonym 'r ordering = "string \<Rightarrow> string \<Rightarrow> 'r list \<Rightarrow> 'r list"

definition listed :: "'r ordering \<Rightarrow> 'x page_query_scheme \<Rightarrow> 'r list \<Rightarrow> 'r list" where
  "listed order q rows = page_rows (order (pq_sortBy q) (pq_sortOrder q) rows) (pq_page q) (pq_limit q)"

end
