(* ===== verification/AccountingLists.thy ===== *)
theory AccountingLists
  imports Listing
begin

text \<open>
  The list endpoints of src/modules/accounting/accounting.service.ts and the two CSV exports: for
  each endpoint its filter (\<open>where\<close>), its summary counts, and the page it returns. Rows come with
  what the endpoint includes of other tables.
\<close>

section \<open>Master data\<close>

definition customer_where :: "(string \<Rightarrow> string \<Rightarrow> bool) \<Rightarrow> string \<Rightarrow> page_query \<Rightarrow> client \<Rightarrow> bool" where
  "customer_where like org q c \<longleftrightarrow> cl_org c = org \<and> (pq_status q \<noteq> ''ALL'' \<longrightarrow> cl_status c = pq_status q) \<and>
     searching (pq_search q) (\<lambda>t. like t (cl_name c) \<or> like t (cl_reference c) \<or> like_opt like t (cl_taxId c) \<or>
       like_opt like t (cl_contactPerson c) \<or> like_opt like t (cl_email c))"

record customer_list =
  kl_total :: nat
  kl_active :: nat
  kl_rows :: "(client \<times> nat \<times> nat) list"
  kl_pagination :: pagination

definition listAccountingCustomers ::
    "(string \<Rightarrow> string \<Rightarrow> bool) \<Rightarrow> client ordering \<Rightarrow> string \<Rightarrow> page_query \<Rightarrow> (acc_db, customer_list) op" where
  "listAccountingCustomers like order org q =
     reads (\<lambda>d. let rows = filter (customer_where like org q) (ac_clients d) in
       \<lparr> kl_total = countWhere (\<lambda>c. cl_org c = org) (ac_clients d),
         kl_active = countWhere (\<lambda>c. cl_org c = org \<and> cl_status c = ''ACTIVE'') (ac_clients d),
         kl_rows = map (\<lambda>c. (c, countWhere (\<lambda>v. iv_client v = cl_id c) (ac_invoices d),
                                countWhere (\<lambda>p. pj_client p = cl_id c) (ac_projects d))) (listed order q rows),
         kl_pagination = page_info rows (pq_page q) (pq_limit q) \<rparr>)"

record item_query = page_query +
  tq_type :: string

definition item_where :: "(string \<Rightarrow> string \<Rightarrow> bool) \<Rightarrow> string \<Rightarrow> item_query \<Rightarrow> catalogue_item \<Rightarrow> bool" where
  "item_where like org q r \<longleftrightarrow> it_org r = org \<and> (tq_type q \<noteq> ''ALL'' \<longrightarrow> it_type r = tq_type q) \<and>
     (pq_status q \<noteq> ''ALL'' \<longrightarrow> it_status r = pq_status q) \<and>
     searching (pq_search q) (\<lambda>t. like t (it_name r) \<or> like t (it_reference r) \<or> like_opt like t (it_description r))"

definition listCatalogueItems ::
    "(string \<Rightarrow> string \<Rightarrow> bool) \<Rightarrow> catalogue_item ordering \<Rightarrow> string \<Rightarrow> item_query \<Rightarrow>
     (acc_db, (catalogue_item \<times> nat) list \<times> pagination) op" where
  "listCatalogueItems like order org q =
     reads (\<lambda>d. let rows = filter (item_where like org q) (ac_items d) in
       (map (\<lambda>r. (r, countWhere (\<lambda>l. li_catalogueItemId l = Some (it_id r)) (concat (map iv_items (ac_invoices d)))))
          (listed order q rows),
        page_info rows (pq_page q) (pq_limit q)))"

definition project_where :: "(string \<Rightarrow> string \<Rightarrow> bool) \<Rightarrow> string \<Rightarrow> page_query \<Rightarrow> client list \<Rightarrow> project \<Rightarrow> bool" where
  "project_where like org q cs p \<longleftrightarrow> pj_org p = org \<and> (pq_status q \<noteq> ''ALL'' \<longrightarrow> pj_status p = pq_status q) \<and>
     searching (pq_search q) (\<lambda>t. like t (pj_name p) \<or> like t (pj_reference p) \<or>
       (\<exists>c \<in> set cs. cl_id c = pj_client p \<and> like t (cl_name c)))"

record project_list =
  jl_total :: nat
  jl_active :: nat
  jl_rows :: "(project \<times> nat) list"
  jl_pagination :: pagination

definition listAccountingProjects ::
    "(string \<Rightarrow> string \<Rightarrow> bool) \<Rightarrow> project ordering \<Rightarrow> string \<Rightarrow> page_query \<Rightarrow> (acc_db, project_list) op" where
  "listAccountingProjects like order org q =
     reads (\<lambda>d. let rows = filter (project_where like org q (ac_clients d)) (ac_projects d) in
       \<lparr> jl_total = countWhere (\<lambda>p. pj_org p = org) (ac_projects d),
         jl_active = countWhere (\<lambda>p. pj_org p = org \<and> pj_status p = ''ACTIVE'') (ac_projects d),
         jl_rows = map (\<lambda>p. (p, countWhere (\<lambda>v. iv_project v = Some (pj_id p)) (ac_invoices d))) (listed order q rows),
         jl_pagination = page_info rows (pq_page q) (pq_limit q) \<rparr>)"

section \<open>Invoices\<close>

record invoice_query = page_query +
  vq_client :: "string option"
  vq_agent :: "string option"
  vq_project :: "string option"
  vq_fromDate :: "time option"
  vq_toDate :: "time option"

definition wanted_opt :: "string option \<Rightarrow> string option \<Rightarrow> bool" where
  "wanted_opt v x = (falsy v \<or> v = x)"

definition overdue_row :: "time \<Rightarrow> invoice \<Rightarrow> bool" where
  "overdue_row now v \<longleftrightarrow> iv_status v = ''OVERDUE'' \<or>
     iv_status v \<in> set [''SENT'', ''PARTIALLY_PAID''] \<and> (case iv_dueDate v of None \<Rightarrow> False | Some t \<Rightarrow> t < now)"

text \<open>The filter object has one \<open>OR\<close> key: a search clause replaces the one of the status OVERDUE.\<close>

definition invoice_where ::
    "(string \<Rightarrow> string \<Rightarrow> bool) \<Rightarrow> string \<Rightarrow> time \<Rightarrow> invoice_query \<Rightarrow> client list \<Rightarrow> invoice \<Rightarrow> bool" where
  "invoice_where like org now q cs v \<longleftrightarrow> iv_org v = org \<and> wanted (vq_client q) (iv_client v) \<and>
     wanted_opt (vq_agent q) (iv_agent v) \<and> wanted_opt (vq_project q) (iv_project v) \<and>
     (pq_status q \<noteq> [] \<and> pq_status q \<noteq> ''ALL'' \<and> pq_status q \<noteq> ''OVERDUE'' \<longrightarrow> iv_status v = pq_status q) \<and>
     (pq_status q = ''OVERDUE'' \<and> falsy (pq_search q) \<longrightarrow> overdue_row now v) \<and>
     in_range (vq_fromDate q) (vq_toDate q) (iv_issueDate v) \<and>
     searching (pq_search q) (\<lambda>t. like t (iv_invoiceNo v) \<or> (\<exists>c \<in> set cs. cl_id c = iv_client v \<and> like t (cl_name c)))"

definition invoice_rows ::
    "(string \<Rightarrow> string \<Rightarrow> bool) \<Rightarrow> string \<Rightarrow> time \<Rightarrow> invoice_query \<Rightarrow> acc_db \<Rightarrow> invoice list" where
  "invoice_rows like org now q d = filter (invoice_where like org now q (ac_clients d)) (ac_invoices d)"

definition listInvoices ::
    "(string \<Rightarrow> string \<Rightarrow> bool) \<Rightarrow> invoice ordering \<Rightarrow> time \<Rightarrow> string \<Rightarrow> invoice_query \<Rightarrow>
     (acc_db, invoice_view list \<times> pagination) op" where
  "listInvoices like order now org q =
     reads (\<lambda>d. (map (\<lambda>v. invoiceView v (invoice_paid (ac_payments d) (iv_id v)) now) (listed order q (invoice_rows like org now q d)),
       page_info (invoice_rows like org now q d) (pq_page q) (pq_limit q)))"

definition name_of_client :: "client list \<Rightarrow> string \<Rightarrow> string" where
  "name_of_client cs i = (case find (\<lambda>c. cl_id c = i) cs of None \<Rightarrow> [] | Some c \<Rightarrow> cl_name c)"

definition full_name :: "member list \<Rightarrow> string \<Rightarrow> string" where
  "full_name ms i = (case find (\<lambda>m. mb_id m = i) ms of None \<Rightarrow> [] | Some m \<Rightarrow> mb_firstName m @ '' '' @ mb_lastName m)"

definition name_of_project :: "project list \<Rightarrow> string \<Rightarrow> string" where
  "name_of_project ps i = (case find (\<lambda>p. pj_id p = i) ps of None \<Rightarrow> [] | Some p \<Rightarrow> pj_name p)"

definition invoice_header :: "string list" where
  "invoice_header = [''Invoice'', ''Customer'', ''Agent'', ''Project'', ''Subtotal'', ''VAT'', ''Total'', ''WHT Rate'',
     ''WHT Amount'', ''Amount Payable'', ''Paid'', ''Balance'', ''Issue Date'', ''Due Date'', ''Status'']"

definition invoice_cells :: "acc_db \<Rightarrow> invoice_view \<Rightarrow> string list" where
  "invoice_cells d w =
     (let v = vw_invoice w in
      [iv_invoiceNo v, name_of_client (ac_clients d) (iv_client v),
       (case iv_agent v of None \<Rightarrow> [] | Some a \<Rightarrow> full_name (ac_members d) a),
       (case iv_project v of None \<Rightarrow> [] | Some p \<Rightarrow> name_of_project (ac_projects d) p),
       number_string (iv_subtotal v), number_string (iv_taxAmount v), number_string (iv_total v),
       (case iv_whtRate v of None \<Rightarrow> [] | Some r \<Rightarrow> number_string (r * 100)),
       number_string (iv_whtAmount v), number_string (vw_amountPayable w), number_string (vw_paidAmount w),
       number_string (vw_balanceDue w), toISOString (iv_issueDate v),
       (case iv_dueDate v of None \<Rightarrow> [] | Some t \<Rightarrow> toISOString t), vw_status w])"

text \<open>Every page of 100 rows, then one file and an audit entry.\<close>

definition exportInvoices ::
    "audit_env \<Rightarrow> fresh \<Rightarrow> (string \<Rightarrow> string \<Rightarrow> bool) \<Rightarrow> invoice ordering \<Rightarrow> string \<Rightarrow> invoice_query \<Rightarrow> actor \<Rightarrow>
     (acc_db, string) op" where
  "exportInvoices Y n like order org q user =
     bnd (reads (\<lambda>d. map (\<lambda>v. invoice_cells d (invoiceView v (invoice_paid (ac_payments d) (iv_id v)) (fr_now n)))
            (collect_pages (order (pq_sortBy q) (pq_sortOrder q) (invoice_rows like org (fr_now n) q d)) 100 1))) (\<lambda>lines.
     bnd (audit_acc Y n org user ''ACCOUNTING_INVOICES_EXPORTED'' ''INVOICE'' ''export'' ''Exported filtered invoices'' None) (\<lambda>_.
     ret (csv_file (invoice_header # lines))))"

section \<open>Expenses\<close>

record expense_query = page_query +
  xq_category :: "string option"
  xq_fromDate :: "time option"
  xq_toDate :: "time option"

definition expense_where :: "(string \<Rightarrow> string \<Rightarrow> bool) \<Rightarrow> string \<Rightarrow> expense_query \<Rightarrow> expense \<Rightarrow> bool" where
  "expense_where like org q e \<longleftrightarrow> ex_org e = org \<and> wanted (xq_category q) (ex_category e) \<and>
     in_range (xq_fromDate q) (xq_toDate q) (ex_date e) \<and>
     searching (pq_search q) (\<lambda>t. like t (ex_description e) \<or> like t (ex_reference e) \<or> like_opt like t (ex_receipt e))"

definition expense_sum :: "expense list \<Rightarrow> money" where
  "expense_sum es = sum_list (map ex_amount es)"

definition month_start_of :: "time \<Rightarrow> time" where
  "month_start_of now = (case utc_fields now of (y, m, d) \<Rightarrow> date_UTC y m 1)"

text \<open>\<open>groupBy category\<close>, then the first of the groups sorted by falling sum (the sort is stable).\<close>

definition category_sums :: "expense list \<Rightarrow> (string \<times> money) list" where
  "category_sums es = map (\<lambda>c. (c, expense_sum (filter (\<lambda>e. ex_category e = c) es))) (remdups (map ex_category es))"

definition top_category :: "expense list \<Rightarrow> (string \<times> money) option" where
  "top_category es = (case sort_key (\<lambda>(c, v). - v) (category_sums es) of [] \<Rightarrow> None | g # _ \<Rightarrow> Some g)"

record expense_list =
  el_total :: money
  el_thisMonth :: money
  el_entries :: nat
  el_top :: "(string \<times> money) option"
  el_rows :: "expense list"
  el_pagination :: pagination

definition listExpenses ::
    "(string \<Rightarrow> string \<Rightarrow> bool) \<Rightarrow> expense ordering \<Rightarrow> time \<Rightarrow> string \<Rightarrow> expense_query \<Rightarrow> (acc_db, expense_list) op" where
  "listExpenses like order now org q =
     reads (\<lambda>d. let rows = filter (expense_where like org q) (ac_expenses d);
                    active = filter (\<lambda>e. ex_org e = org \<and> ex_status e = ''ACTIVE'') (ac_expenses d) in
       \<lparr> el_total = expense_sum active,
         el_thisMonth = expense_sum (filter (\<lambda>e. month_start_of now \<le> ex_date e) active),
         el_entries = length active, el_top = top_category active, el_rows = listed order q rows,
         el_pagination = page_info rows (pq_page q) (pq_limit q) \<rparr>)"

definition expense_header :: "string list" where
  "expense_header = [''ID'', ''Date'', ''Category'', ''Description'', ''Amount'', ''Receipt Reference'', ''Logged By'', ''Status'']"

definition expense_cells :: "acc_db \<Rightarrow> expense \<Rightarrow> string list" where
  "expense_cells d e = [ex_reference e, toISOString (ex_date e), ex_category e, ex_description e, number_string (ex_amount e),
     (case ex_receipt e of None \<Rightarrow> [] | Some r \<Rightarrow> r), full_name (ac_members d) (ex_loggedBy e), ex_status e]"

definition exportExpenses ::
    "audit_env \<Rightarrow> fresh \<Rightarrow> (string \<Rightarrow> string \<Rightarrow> bool) \<Rightarrow> expense ordering \<Rightarrow> string \<Rightarrow> expense_query \<Rightarrow> actor \<Rightarrow>
     (acc_db, string) op" where
  "exportExpenses Y n like order org q user =
     bnd (reads (\<lambda>d. map (expense_cells d)
            (collect_pages (order (pq_sortBy q) (pq_sortOrder q) (filter (expense_where like org q) (ac_expenses d))) 100 1))) (\<lambda>lines.
     bnd (audit_acc Y n org user ''ACCOUNTING_EXPENSES_EXPORTED'' ''ACCOUNTING_EXPENSE'' ''export'' ''Exported filtered expenses'' None) (\<lambda>_.
     ret (csv_file (expense_header # lines))))"

section \<open>Payment requests\<close>

record request_query = page_query +
  rq_fromDate :: "time option"
  rq_toDate :: "time option"

definition request_where ::
    "(string \<Rightarrow> string \<Rightarrow> bool) \<Rightarrow> string \<Rightarrow> request_query \<Rightarrow> invoice list \<Rightarrow> payment_request \<Rightarrow> bool" where
  "request_where like org q vs r \<longleftrightarrow> q_org r = org \<and> (pq_status q \<noteq> ''ALL'' \<longrightarrow> q_status r = pq_status q) \<and>
     in_range (rq_fromDate q) (rq_toDate q) (q_createdAt r) \<and>
     searching (pq_search q) (\<lambda>t. like t (q_title r) \<or> like_opt like t (q_description r) \<or>
       (\<exists>v \<in> set vs. q_invoiceId r = Some (iv_id v) \<and> like t (iv_invoiceNo v)))"

text \<open>Only the last four digits of the account number are shown.\<close>

definition masked_account :: "string option \<Rightarrow> string option" where
  "masked_account v = (if falsy v then None else Some (''****'' @ drop (length (the v) - 4) (the v)))"

definition shown_status :: "string \<Rightarrow> string" where
  "shown_status s = (if s = ''PAID'' then ''COMPLETED'' else if s = ''REJECTED'' then ''DECLINED'' else s)"

record request_list =
  rl_pending :: nat
  rl_completed :: money
  rl_declined :: nat
  rl_rows :: "(payment_request \<times> string option \<times> string) list"
  rl_pagination :: pagination

definition listPaymentRequests ::
    "(string \<Rightarrow> string \<Rightarrow> bool) \<Rightarrow> payment_request ordering \<Rightarrow> string \<Rightarrow> request_query \<Rightarrow> (acc_db, request_list) op" where
  "listPaymentRequests like order org q =
     reads (\<lambda>d. let requests = db_requests (ac_fin d); rows = filter (request_where like org q (ac_invoices d)) requests;
                    of_status = (\<lambda>st r. q_org r = org \<and> q_status r = st) in
       \<lparr> rl_pending = countWhere (of_status ''PENDING'') requests,
         rl_completed = sum_list (map q_amount (filter (of_status ''PAID'') requests)),
         rl_declined = countWhere (of_status ''REJECTED'') requests,
         rl_rows = map (\<lambda>r. (r, masked_account (q_accountNumber r), shown_status (q_status r)))
                     (page_rows (order ''createdAt'' ''desc'' rows) (pq_page q) (pq_limit q)),
         rl_pagination = page_info rows (pq_page q) (pq_limit q) \<rparr>)"

end
