(* ===== verification/PaymentRequests.thy ===== *)
theory PaymentRequests
  imports AccountingLists Lifecycle InvoiceLedger
begin

text \<open>
  Payment requests of src/modules/accounting/accounting.service.ts: creation against an invoice, a
  project or a customer, approval, decline, and disbursement through a manual or a provider
  settlement. The request rows and the money live in the financial state.
\<close>

section \<open>Lookups\<close>

definition paymentRequestOwned :: "string \<Rightarrow> string \<Rightarrow> (fin_db, payment_request) op" where
  "paymentRequestOwned org i =
     bnd (find_row db_requests (owned q_id q_org org i)) (\<lambda>found.
     required found (notFound ''Payment request not found''))"

section \<open>Creation\<close>

record request_input =
  ri_title :: string
  ri_description :: "string option"
  ri_invoiceId :: "string option"
  ri_projectId :: "string option"
  ri_clientId :: "string option"
  ri_amount :: rat

definition request_clash :: "payment_request \<Rightarrow> payment_request \<Rightarrow> bool" where
  "request_clash a b \<longleftrightarrow> q_id a = q_id b \<or> q_org a = q_org b \<and>
     same_key (q_disbursementReference a) (q_disbursementReference b)"

definition requestInvoice :: "string \<Rightarrow> request_input \<Rightarrow> (acc_db, invoice option) op" where
  "requestInvoice org inp =
     (if falsy (ri_invoiceId inp) then ret None
      else
        bnd (find_row ac_invoices (owned iv_id iv_org org (the (ri_invoiceId inp)))) (\<lambda>found.
        bnd (required found (notFound ''Invoice not found'')) (\<lambda>v.
        bnd (guard (iv_status v \<noteq> ''PAID'' \<and> ri_amount inp \<le> iv_total v)
               (conflict ''Payment request amount exceeds the payable invoice amount'')) (\<lambda>_.
        ret (Some v)))))"

definition requestProject :: "string \<Rightarrow> request_input \<Rightarrow> string option \<Rightarrow> (acc_db, project option) op" where
  "requestProject org inp clientId =
     (if falsy (ri_projectId inp) then ret None
      else
        bnd (find_row ac_projects (owned pj_id pj_org org (the (ri_projectId inp)))) (\<lambda>found.
        bnd (required found (notFound ''Project not found'')) (\<lambda>p.
        bnd (guard (falsy clientId \<or> Some (pj_client p) = clientId)
               (conflict ''Project, invoice and customer do not match'')) (\<lambda>_.
        ret (Some p)))))"

definition new_request ::
    "fresh \<Rightarrow> string \<Rightarrow> request_input \<Rightarrow> actor \<Rightarrow> invoice option \<Rightarrow> project option \<Rightarrow> string option \<Rightarrow> member option \<Rightarrow>
     payment_request" where
  "new_request n org inp user invoice project clientId requester =
     (let bank = (\<lambda>f. case requester of None \<Rightarrow> None | Some m \<Rightarrow> if mb_employee m then f m else None) in
      \<lparr> q_id = fr_id n, q_org = org, q_status = ''PENDING'', q_title = ri_title inp,
        q_description = ri_description inp, q_amount = cents (ri_amount inp), q_currency = ''NGN'',
        q_requestedBy = Some (case requester of None \<Rightarrow> u_email user | Some m \<Rightarrow> mb_firstName m @ '' '' @ mb_lastName m),
        q_requesterUserId = Some (u_id user), q_invoiceId = map_option iv_id invoice,
        q_projectId = (case project of Some p \<Rightarrow> Some (pj_id p) | None \<Rightarrow> Option.bind invoice iv_project),
        q_clientId = clientId, q_bankName = bank mb_bankName, q_bankCode = bank mb_bankCode,
        q_accountNumber = bank mb_accountNumber, q_accountName = bank mb_accountName,
        q_approvedBy = None, q_approvedAt = None, q_decisionReason = None, q_declinedBy = None,
        q_declinedAt = None, q_disbursementReference = None, q_disbursedAt = None, q_createdAt = fr_now n \<rparr>)"

definition createPaymentRequest ::
    "audit_env \<Rightarrow> fresh \<Rightarrow> string \<Rightarrow> request_input \<Rightarrow> actor \<Rightarrow> (acc_db, payment_request) op" where
  "createPaymentRequest Y n org inp user =
     bnd (requestInvoice org inp) (\<lambda>invoice.
     let invoiceClient = (case invoice of None \<Rightarrow> ri_clientId inp | Some v \<Rightarrow> Some (iv_client v)) in
     bnd (requestProject org inp invoiceClient) (\<lambda>project.
     let clientId = (case project of None \<Rightarrow> invoiceClient | Some p \<Rightarrow> Some (pj_client p)) in
     bnd (if falsy clientId then ret () else assertClientOwnership org (the clientId)) (\<lambda>_.
     bnd (find_row ac_members (\<lambda>m. mb_id m = u_id user \<and> mb_org m = org)) (\<lambda>requester.
     bnd (in_fin (create_row db_requests db_requests_update request_clash
            (new_request n org inp user invoice project clientId requester))) (\<lambda>row.
     bnd (audit_acc Y n org user ''ACCOUNTING_PAYMENT_REQUEST_CREATED'' ''PAYMENT_REQUEST'' (q_id row)
            (''Created payment request '' @ q_title row) None) (\<lambda>_.
     in_fin (paymentRequestOwned org (q_id row))))))))"

section \<open>Decisions\<close>

text \<open>The conditional update decides the race between two deciders.\<close>

definition decide ::
    "string \<Rightarrow> string \<Rightarrow> (payment_request \<Rightarrow> payment_request) \<Rightarrow> (fin_db, payment_request) op" where
  "decide org i decision =
     bnd (updateMany_requests (\<lambda>q. q_id q = i \<and> q_org q = org \<and> q_status q = ''PENDING'') decision) (\<lambda>count.
     bnd (guard (count = 1) (conflict ''Payment request has already been decided'')) (\<lambda>_.
     paymentRequestOwned org i))"

definition approvePaymentRequest ::
    "audit_env \<Rightarrow> fresh \<Rightarrow> string \<Rightarrow> string \<Rightarrow> actor \<Rightarrow> (acc_db, payment_request) op" where
  "approvePaymentRequest Y n org i user =
     bnd (in_fin (paymentRequestOwned org i)) (\<lambda>row.
     bnd (guard (q_status row = ''PENDING'') (conflict ''Only pending payment requests can be approved'')) (\<lambda>_.
     bnd (in_fin (decide org i (\<lambda>q. q\<lparr>q_status := ''APPROVED'', q_approvedBy := Some (u_id user),
            q_approvedAt := Some (fr_now n)\<rparr>))) (\<lambda>updated.
     bnd (audit_acc Y n org user ''ACCOUNTING_PAYMENT_REQUEST_APPROVED'' ''PAYMENT_REQUEST'' i
            (''Approved payment request '' @ q_title row) None) (\<lambda>_.
     ret updated))))"

definition declinePaymentRequest ::
    "audit_env \<Rightarrow> fresh \<Rightarrow> string \<Rightarrow> string \<Rightarrow> string option \<Rightarrow> actor \<Rightarrow> (acc_db, payment_request) op" where
  "declinePaymentRequest Y n org i reason user =
     bnd (in_fin (paymentRequestOwned org i)) (\<lambda>row.
     bnd (guard (q_status row = ''PENDING'') (conflict ''Only pending payment requests can be declined'')) (\<lambda>_.
     bnd (in_fin (decide org i (\<lambda>q. q\<lparr>q_status := ''REJECTED'', q_declinedBy := Some (u_id user),
            q_declinedAt := Some (fr_now n), q_decisionReason := keep_opt reason (q_decisionReason q)\<rparr>))) (\<lambda>updated.
     bnd (audit_acc Y n org user ''ACCOUNTING_PAYMENT_REQUEST_DECLINED'' ''PAYMENT_REQUEST'' i
            (''Declined payment request '' @ q_title row)
            (Some (JObj [(''reason'', jopt reason)]))) (\<lambda>_.
     ret updated))))"

section \<open>Disbursement\<close>

datatype settlement_route =
    ByProvider
  | ByHand (hand_reference: string) (hand_settledAt: time) (hand_note: string)

datatype disbursement =
    Settled payment_request settlement bool
  | SettledBefore payment_request "ledger option"

definition request_source :: "string \<Rightarrow> wallet \<Rightarrow> payment_request \<Rightarrow> actor \<Rightarrow> source" where
  "request_source org w q user =
     \<lparr> src_org = org, src_wallet = w_id w, src_type = ''ACCOUNTING_PAYMENT_REQUEST'', src_id = q_id q,
       src_amount = q_amount q, src_currency = q_currency q,
       src_beneficiary = Some (JObj [(''bankName'', jopt (q_bankName q)), (''bankCode'', jopt (q_bankCode q)),
         (''accountNumber'', jopt (q_accountNumber q)), (''accountName'', jopt (q_accountName q))]),
       src_createdBy = Some (u_id user) \<rparr>"

definition replayDisbursement :: "string \<Rightarrow> string \<Rightarrow> string \<Rightarrow> payment_request \<Rightarrow> (fin_db, disbursement) op" where
  "replayDisbursement org i key current =
     bnd (find_settlement (\<lambda>s. s_org s = org \<and> s_sourceType s = ''ACCOUNTING_PAYMENT_REQUEST'' \<and> s_sourceId s = i \<and>
            s_idempotencyKey s = key)) (\<lambda>found.
     case found of
       Some s \<Rightarrow> ret (Settled current s True)
     | None \<Rightarrow>
         bnd (guard (q_disbursementReference current = Some key)
                (conflict ''Payment request has already been settled'')) (\<lambda>_.
         bnd (find_row db_ledger (\<lambda>t. t_org t = org \<and> t_sourceType t = Some ''ACCOUNTING_PAYMENT_REQUEST'' \<and>
                t_sourceId t = Some i \<and> t_type t = ''ACCOUNTING_DISBURSEMENT'')) (\<lambda>transaction.
         ret (SettledBefore current transaction))))"

definition mark_paid :: "string \<Rightarrow> string \<Rightarrow> settlement \<Rightarrow> string \<Rightarrow> (fin_db, payment_request) op" where
  "mark_paid org i s ledgerId =
     bnd (updateMany_requests (\<lambda>q. q_id q = i \<and> q_org q = org \<and> q_status q = ''APPROVED'')
            (\<lambda>q. q\<lparr>q_status := ''PAID'', q_disbursementReference := Some (s_internalReference s),
                   q_disbursedAt := s_settledAt s\<rparr>)) (\<lambda>count.
     bnd (guard (count = 1) (conflict ''Payment request has already been settled'')) (\<lambda>_.
     bnd (find_row db_requests (\<lambda>q. q_id q = i)) (\<lambda>found. required found P2025)))"

definition settleByProvider ::
    "fin_env \<Rightarrow> stamps \<Rightarrow> stamps \<Rightarrow> provider \<Rightarrow> string \<Rightarrow> string \<Rightarrow> payment_request \<Rightarrow> source \<Rightarrow>
     (fin_db, disbursement) op" where
  "settleByProvider E n n' P org key current src =
     bnd (prepareProviderSettlement n src key) (\<lambda>prepared.
     bnd (from_sum (assertProviderTransfersEnabled E)) (\<lambda>_.
     bnd (initiateProviderSettlement E n' P org (s_id prepared)) (\<lambda>processing.
     ret (Settled current processing (s_id processing \<noteq> s_id prepared)))))"

definition settleByHand ::
    "fin_env \<Rightarrow> audit_env \<Rightarrow> stamps \<Rightarrow> string \<Rightarrow> string \<Rightarrow> string \<Rightarrow> string \<Rightarrow> time \<Rightarrow> string \<Rightarrow> payment_request \<Rightarrow>
     source \<Rightarrow> actor \<Rightarrow> (fin_db, disbursement) op" where
  "settleByHand E Y n org i key externalReference settledAt note current src user =
     bnd (completeManualSettlement E n src
            \<lparr> mi_idempotencyKey = key, mi_externalReference = externalReference, mi_settledAt = settledAt, mi_note = note \<rparr>
            (mark_paid org i)) (\<lambda>(s, result, replay).
     bnd (audited Y (n_now n) (audit_of org (Some (u_id user)) ''ACCOUNTING_PAYMENT_REQUEST_MANUALLY_SETTLED''
            ''PAYMENT_REQUEST'' i (''Recorded external settlement for '' @ q_title current)
            (Some (JObj [(''settlementId'', JStr (s_id s)), (''externalReference'', JStr externalReference)])))) (\<lambda>_.
     bnd (case result of Some q \<Rightarrow> ret q | None \<Rightarrow> paymentRequestOwned org i) (\<lambda>request.
     ret (Settled request s replay))))"

definition disbursePaymentRequest ::
    "fin_env \<Rightarrow> audit_env \<Rightarrow> stamps \<Rightarrow> stamps \<Rightarrow> provider \<Rightarrow> string \<Rightarrow> string \<Rightarrow> string \<Rightarrow> string \<Rightarrow> settlement_route \<Rightarrow>
     actor \<Rightarrow> (fin_db, disbursement) op" where
  "disbursePaymentRequest E Y n n' P org i walletId key route user =
     bnd (paymentRequestOwned org i) (\<lambda>current.
     if q_status current = ''PAID'' then replayDisbursement org i key current
     else
       bnd (guard (q_status current = ''APPROVED'') (conflict ''Only approved payment requests can be disbursed'')) (\<lambda>_.
       bnd (guard (\<not> falsy (q_bankName current) \<and> \<not> falsy (q_accountNumber current) \<and> \<not> falsy (q_accountName current))
              (conflict ''Approved bank destination is incomplete'')) (\<lambda>_.
       bnd (guard (route \<noteq> ByProvider \<or> \<not> falsy (q_bankCode current))
              (conflict ''Provider settlement requires an authoritative beneficiary bank code'')) (\<lambda>_.
       bnd (find_row db_wallets (wallet_key org walletId)) (\<lambda>found.
       bnd (required found (notFound ''Wallet not found'')) (\<lambda>w.
       case route of
         ByProvider \<Rightarrow> settleByProvider E n n' P org key current (request_source org w current user)
       | ByHand ref settledAt note \<Rightarrow>
           settleByHand E Y n org i key ref settledAt note current (request_source org w current user) user))))))"

section \<open>One-time passwords\<close>

definition finalizeAccountingSettlementOtp ::
    "fin_env \<Rightarrow> audit_env \<Rightarrow> stamps \<Rightarrow> provider \<Rightarrow> app_error + unit \<Rightarrow> string \<Rightarrow> string \<Rightarrow> string \<Rightarrow> actor \<Rightarrow>
     (fin_db, settlement) op" where
  "finalizeAccountingSettlementOtp E Y n P enabled org settlementId otp user =
     (let log = (\<lambda>i summary fields. audited Y (n_now n) (audit_of org (Some (u_id user))
            ''ACCOUNTING_PROVIDER_TRANSFER_OTP_FINALIZATION_ATTEMPTED'' ''FINANCIAL_SETTLEMENT'' i summary
            (Some (JObj ((''provider'', JStr ''PAYSTACK'') # fields)))))
      in catching
        (bnd (finalizeProviderSettlementOtp E n P enabled org settlementId otp) (\<lambda>s.
         bnd (log (s_id s) ''Submitted provider transfer OTP for finalization''
                [(''outcome'', JStr ''ACCEPTED_FOR_PROCESSING''), (''providerStatus'', jopt (s_providerStatus s))]) (\<lambda>_.
         ret s)))
        (\<lambda>e. bnd (log settlementId ''Provider transfer OTP finalization attempt was rejected''
                [(''outcome'', JStr ''REJECTED'')]) (\<lambda>_.
         raise e)))"

section \<open>Disbursement is made of financial steps\<close>

text \<open>Two operations with the same states and errors, whatever they return.\<close>

definition outcome :: "(app_error + 'a) \<times> 's \<Rightarrow> app_error option \<times> 's" where
  "outcome p = ((case fst p of Inl e \<Rightarrow> Some e | Inr _ \<Rightarrow> None), snd p)"

definition same_run :: "('s, 'a) op \<Rightarrow> ('s, 'b) op \<Rightarrow> bool" where
  "same_run m k \<longleftrightarrow> (\<forall>s. outcome (m s) = outcome (k s))"

named_theorems same_run_rules

lemma outcome_simps [simp]: "outcome (Inl e, s) = (Some e, s)" "outcome (Inr x, s) = (None, s)"
  by (simp_all add: outcome_def)

lemma same_run_cases:
  assumes "same_run m k"
  obtains e t where "m s = (Inl e, t)" "k s = (Inl e, t)" | x y t where "m s = (Inr x, t)" "k s = (Inr y, t)"
proof -
  obtain r t where m: "m s = (r, t)" by (cases "m s")
  obtain r' t' where k: "k s = (r', t')" by (cases "k s")
  have "outcome (m s) = outcome (k s)" using assms by (simp add: same_run_def)
  with m k that show ?thesis by (cases r; cases r') auto
qed

lemma same_run_bnd [same_run_rules]: "(\<And>x. same_run (f x) (g x)) \<Longrightarrow> same_run (bnd m f) (bnd m g)"
  by (auto simp: same_run_def bnd_def split: prod.splits sum.splits)

lemma same_run_forget [same_run_rules]: "same_run (bnd m (\<lambda>x. ret (f x))) (bnd (bnd m (\<lambda>_. ret ())) (\<lambda>x. ret (g x)))"
  by (auto simp: same_run_def bnd_def ret_def split: prod.splits sum.splits)

lemma same_run_ret [same_run_rules]: "same_run (ret x) (ret y)"
  by (simp add: same_run_def ret_def)

lemma same_run_raise [same_run_rules]: "same_run (raise e) (raise e)"
  by (simp add: same_run_def raise_def)

lemma same_run_tx [same_run_rules]:
  assumes "same_run m k"
  shows "same_run (tx m) (tx k)"
proof -
  have "outcome (tx m s) = outcome (tx k s)" for s
    by (rule same_run_cases[OF assms, of s]) (simp_all add: tx_def)
  then show ?thesis by (simp add: same_run_def)
qed

lemma same_run_catching [same_run_rules]:
  assumes "same_run m k" and h: "\<And>e. same_run (h e) (h' e)"
  shows "same_run (catching m h) (catching k h')"
proof -
  have "outcome (catching m h s) = outcome (catching k h' s)" for s
    by (rule same_run_cases[OF assms(1), of s]) (use h in \<open>simp_all add: catching_def same_run_def\<close>)
  then show ?thesis by (simp add: same_run_def)
qed

lemma same_run_if [same_run_rules]: "same_run m k \<Longrightarrow> same_run n l \<Longrightarrow> same_run (if b then m else n) (if b then k else l)"
  by simp

lemma same_run_option [same_run_rules]:
  "same_run m k \<Longrightarrow> (\<And>v. same_run (f v) (g v)) \<Longrightarrow>
   same_run (case x of None \<Rightarrow> m | Some v \<Rightarrow> f v) (case x of None \<Rightarrow> k | Some v \<Rightarrow> g v)"
  by (cases x) simp_all

lemma manual_forgets_result:
  "same_run (completeManualSettlement E n src inp fin) (completeManualSettlement E n src inp (\<lambda>s l. bnd (fin s l) (\<lambda>_. ret ())))"
  unfolding completeManualSettlement_def manual_settle_def on_P2002_def by (intro same_run_rules)

lemma from_here_manual:
  assumes "\<And>s l b. keeps (same_books b) (fin s l)"
  shows "keeps (from_here E a) (completeManualSettlement E n src inp fin)"
proof (rule keepsI)
  fix d r d' assume d: "from_here E a d" and run: "completeManualSettlement E n src inp fin d = (r, d')"
  let ?k = "completeManualSettlement E n src inp (\<lambda>s l. bnd (fin s l) (\<lambda>_. ret ()))"
  have "keeps (from_here E a) ?k" by (rule by_transactions(7)) (intro keeps_rules assms)
  then have "from_here E a (snd (?k d))" using d by (rule keeps_snd)
  moreover have "snd (?k d) = d'"
    by (rule same_run_cases[OF manual_forgets_result[of E n src inp fin], of d]) (use run in simp_all)
  ultimately show "from_here E a d'" by simp
qed

lemma from_here_find_row [keeps_rules]: "keeps (from_here E a) (find_row get P)"
  by (rule keeps_find_row)

lemma from_here_owned [keeps_rules]: "keeps I (paymentRequestOwned org i)"
  unfolding paymentRequestOwned_def by (intro keeps_rules)

lemma same_books_mark_paid: "keeps (same_books b) (mark_paid org i s l)"
  unfolding mark_paid_def by (intro keeps_rules same_books_steps)

lemma from_here_routes:
  assumes "0 \<le> q_amount q"
  shows "keeps (from_here E a) (settleByProvider E n n' P org key q (request_source org w q user))"
    "keeps (from_here E a) (settleByHand E Y n org i key ref t note q src user)"
  unfolding settleByProvider_def settleByHand_def
  by (intro keeps_rules from_here_prepare from_here_initiate from_here_manual same_books_mark_paid;
      simp add: request_source_def assms)+

lemma from_here_replay [keeps_rules]: "keeps I (replayDisbursement org i key q)"
  unfolding replayDisbursement_def find_settlement_def by (intro keeps_rules)

text \<open>A row read from the state the operation starts in.\<close>

lemma reachable_after_read:
  assumes run: "bnd m f d = (r, d')" and pure: "\<And>I. keeps I m"
    and f: "\<And>x. m d = (Inr x, d) \<Longrightarrow> keeps (from_here E d) (f x)"
  shows "reachable E d d'"
proof -
  obtain r1 d1 where m: "m d = (r1, d1)" by (cases "m d")
  then have "d1 = d" using keeps_all_pure[OF pure] by blast
  have "from_here E d d'"
  proof (cases r1)
    case (Inl e)
    with run m \<open>d1 = d\<close> here[of E d] show ?thesis by (simp add: bnd_def)
  next
    case (Inr x)
    with m \<open>d1 = d\<close> have x: "m d = (Inr x, d)" by simp
    with run have "f x d = (r, d')" by (simp add: bnd_def)
    from keepsD[OF f[OF x] here this] show ?thesis .
  qed
  then show ?thesis by (simp add: from_here_def)
qed

lemma disburse_steps:
  assumes nonneg: "\<forall>q \<in> set (db_requests d). 0 \<le> q_amount q"
    and run: "disbursePaymentRequest E Y n n' P org i walletId key route user d = (r, d')"
  shows "reachable E d d'"
  using run unfolding disbursePaymentRequest_def
proof (rule reachable_after_read[OF _ from_here_owned])
  fix q assume "paymentRequestOwned org i d = (Inr q, d)"
  then have "q \<in> set (db_requests d)" by (auto simp: paymentRequestOwned_def run_simps dest: find_SomeD)
  with nonneg have "0 \<le> q_amount q" by blast
  note routes = from_here_routes[OF this]
  show "keeps (from_here E d) (if q_status q = ''PAID'' then replayDisbursement org i key q
     else
       bnd (guard (q_status q = ''APPROVED'') (conflict ''Only approved payment requests can be disbursed'')) (\<lambda>_.
       bnd (guard (\<not> falsy (q_bankName q) \<and> \<not> falsy (q_accountNumber q) \<and> \<not> falsy (q_accountName q))
              (conflict ''Approved bank destination is incomplete'')) (\<lambda>_.
       bnd (guard (route \<noteq> ByProvider \<or> \<not> falsy (q_bankCode q))
              (conflict ''Provider settlement requires an authoritative beneficiary bank code'')) (\<lambda>_.
       bnd (find_row db_wallets (wallet_key org walletId)) (\<lambda>found.
       bnd (required found (notFound ''Wallet not found'')) (\<lambda>w.
       case route of
         ByProvider \<Rightarrow> settleByProvider E n n' P org key q (request_source org w q user)
       | ByHand ref settledAt note \<Rightarrow>
           settleByHand E Y n org i key ref settledAt note q (request_source org w q user) user))))))"
    by (intro keeps_rules) (cases route; simp add: routes)
qed

lemma from_here_otp_final: "keeps (from_here E a) (finalizeAccountingSettlementOtp E Y n P enabled org settlementId otp user)"
  unfolding finalizeAccountingSettlementOtp_def Let_def by (intro keeps_rules from_here_otp)

end
