(* ===== verification/AccountingLedger.thy ===== *)
theory AccountingLedger
  imports Expenses PaymentRequests
begin

text \<open>
  The accounting module as one step relation: every operation on customers, items, projects,
  invoices, payments, expenses, templates and payment requests, successful or not. Along it the
  invoice invariant, the template invariant and (through the financial steps) the books hold.
\<close>

inductive acc_step :: "fin_env \<Rightarrow> acc_db \<Rightarrow> acc_db \<Rightarrow> bool" for E where
  customer_create: "createAccountingCustomer Y n org name ci user d = (r1, d') \<Longrightarrow> acc_step E d d'"
| customer_update: "updateAccountingCustomer Y n org i ci user d = (r2, d') \<Longrightarrow> acc_step E d d'"
| customer_delete: "deleteAccountingCustomer Y n org i user d = (r3, d') \<Longrightarrow> acc_step E d d'"
| item_create: "createCatalogueItem Y n org ni user d = (r4, d') \<Longrightarrow> acc_step E d d'"
| item_update: "updateCatalogueItem Y n org i ii user d = (r5, d') \<Longrightarrow> acc_step E d d'"
| item_delete: "deleteCatalogueItem Y n org i user d = (r6, d') \<Longrightarrow> acc_step E d d'"
| project_create: "createAccountingProject Y n org np user d = (r7, d') \<Longrightarrow> acc_step E d d'"
| project_update: "updateAccountingProject Y n org i pj user d = (r8, d') \<Longrightarrow> acc_step E d d'"
| project_delete: "deleteAccountingProject Y n org i user d = (r9, d') \<Longrightarrow> acc_step E d d'"
| invoice_create: "createInvoice Y n org nv user d = (r10, d') \<Longrightarrow> acc_step E d d'"
| invoice_update: "updateInvoice Y n org i vi user d = (r11, d') \<Longrightarrow> acc_step E d d'"
| invoice_send: "sendInvoice Y n mail org i user d = (r12, d') \<Longrightarrow> acc_step E d d'"
| invoice_pay: "recordInvoicePayment Y n org i py user d = (r13, d') \<Longrightarrow> acc_step E d d'"
| invoice_delete: "deleteInvoice Y n org i user d = (r14, d') \<Longrightarrow> acc_step E d d'"
| expense_create: "createExpense Y n org nx user d = (r15, d') \<Longrightarrow> acc_step E d d'"
| expense_update: "updateExpense Y n org i xi user d = (r16, d') \<Longrightarrow> acc_step E d d'"
| expense_void: "voidExpense Y n org i user d = (r17, d') \<Longrightarrow> acc_step E d d'"
| category_create: "createExpenseCategory Y n org name descr user d = (r18, d') \<Longrightarrow> acc_step E d d'"
| category_delete: "deleteExpenseCategory Y n org i user d = (r19, d') \<Longrightarrow> acc_step E d d'"
| template_create: "createInvoiceTemplate Y n org name ti user d = (r20, d') \<Longrightarrow> acc_step E d d'"
| template_update: "updateInvoiceTemplate Y n org i ti user d = (r21, d') \<Longrightarrow> acc_step E d d'"
| template_default: "setDefaultInvoiceTemplate Y n org i user d = (r22, d') \<Longrightarrow> acc_step E d d'"
| template_delete: "deleteInvoiceTemplate Y n org i user d = (r23, d') \<Longrightarrow> acc_step E d d'"
| request_create: "createPaymentRequest Y n org ri user d = (r24, d') \<Longrightarrow> acc_step E d d'"
| request_approve: "approvePaymentRequest Y n org i user d = (r25, d') \<Longrightarrow> acc_step E d d'"
| request_decline: "declinePaymentRequest Y n org i reason user d = (r26, d') \<Longrightarrow> acc_step E d d'"
| request_disburse: "\<forall>q \<in> set (db_requests (ac_fin d)). 0 \<le> q_amount q \<Longrightarrow>
    in_fin (disbursePaymentRequest E Y s s' P org i walletId key route user) d = (r27, d') \<Longrightarrow> acc_step E d d'"
| request_otp: "in_fin (finalizeAccountingSettlementOtp E Y s P enabled org i otp user) d = (r28, d') \<Longrightarrow> acc_step E d d'"
| fin: "fin_step E (ac_fin d) f \<Longrightarrow> d' = d\<lparr>ac_fin := f\<rparr> \<Longrightarrow> acc_step E d d'"

inductive_simps acc_step_iff: "acc_step E d d'"

section \<open>The invoice invariant\<close>

lemmas acc_writes = keeps_create_row keeps_update_row keeps_update_rows keeps_delete_row

lemma keeps_owned [keeps_rules]:
  "keeps I (customerOwned org i)" "keeps I (itemOwned org i)" "keeps I (projectOwned org i)"
  "keeps I (expenseOwned org i)" "keeps I (templateOwned org i)" "keeps I (expenseCategory org c)"
  unfolding customerOwned_def itemOwned_def projectOwned_def expenseOwned_def templateOwned_def expenseCategory_def
  by (intro keeps_rules)+

lemma keeps_request_lookups [keeps_rules]: "keeps I (requestInvoice org inp)" "keeps I (requestProject org inp c)"
  unfolding requestInvoice_def requestProject_def by (intro keeps_rules)+

lemmas master_data_defs =
  createAccountingCustomer_def updateAccountingCustomer_def deleteAccountingCustomer_def
  createCatalogueItem_def updateCatalogueItem_def deleteCatalogueItem_def
  createAccountingProject_def updateAccountingProject_def deleteAccountingProject_def

lemmas expense_op_defs =
  createExpense_def updateExpense_def voidExpense_def createExpenseCategory_def deleteExpenseCategory_def

lemmas template_op_defs =
  createInvoiceTemplate_def updateInvoiceTemplate_def setDefaultInvoiceTemplate_def deleteInvoiceTemplate_def

lemmas request_op_defs = createPaymentRequest_def approvePaymentRequest_def declinePaymentRequest_def

lemma acc_ok_master_data:
  "keeps acc_ok (createAccountingCustomer Y n org name ci user)" "keeps acc_ok (updateAccountingCustomer Y n org i ci user)"
  "keeps acc_ok (deleteAccountingCustomer Y n org i user)" "keeps acc_ok (createCatalogueItem Y n org ni user)"
  "keeps acc_ok (updateCatalogueItem Y n org i ii user)" "keeps acc_ok (deleteCatalogueItem Y n org i user)"
  "keeps acc_ok (createAccountingProject Y n org np user)" "keeps acc_ok (updateAccountingProject Y n org i pj user)"
  "keeps acc_ok (deleteAccountingProject Y n org i user)"
  unfolding master_data_defs forget_client_def Let_def
  by (intro keeps_rules acc_writes; simp add: acc_ok_def)+

lemma acc_ok_expenses:
  "keeps acc_ok (createExpense Y n org nx user)" "keeps acc_ok (updateExpense Y n org i xi user)"
  "keeps acc_ok (voidExpense Y n org i user)" "keeps acc_ok (createExpenseCategory Y n org name descr user)"
  "keeps acc_ok (deleteExpenseCategory Y n org i user)"
  unfolding expense_op_defs by (intro keeps_rules acc_writes; simp add: acc_ok_def)+

lemma acc_ok_templates:
  "keeps acc_ok (createInvoiceTemplate Y n org name ti user)" "keeps acc_ok (updateInvoiceTemplate Y n org i ti user)"
  "keeps acc_ok (setDefaultInvoiceTemplate Y n org i user)" "keeps acc_ok (deleteInvoiceTemplate Y n org i user)"
  unfolding template_op_defs by (intro keeps_rules keeps_tx acc_writes; simp add: acc_ok_def)+

lemma acc_ok_requests:
  "keeps acc_ok (createPaymentRequest Y n org ri user)" "keeps acc_ok (approvePaymentRequest Y n org i user)"
  "keeps acc_ok (declinePaymentRequest Y n org i reason user)"
  unfolding request_op_defs Let_def by (intro keeps_rules)+

lemmas acc_ok_operations = acc_ok_master_data acc_ok_expenses acc_ok_templates acc_ok_requests
  keeps_createInvoice keeps_updateInvoice keeps_sendInvoice keeps_recordInvoicePayment keeps_deleteInvoice

lemma acc_ok_fin [simp]: "acc_ok (d\<lparr>ac_fin := f\<rparr>) = acc_ok d"
  by (simp add: acc_ok_def)

lemma acc_ok_step: "acc_step E d d' \<Longrightarrow> acc_ok d \<Longrightarrow> acc_ok d'"
  by (induction rule: acc_step.induct)
    ((erule keepsD[rotated 2], rule acc_ok_operations keeps_in_fin, assumption)+, simp)

section \<open>The template invariant\<close>

lemma tpl_ok_fin [simp]: "tpl_ok (d\<lparr>ac_fin := f\<rparr>) = tpl_ok d"
  by (simp add: tpl_ok_def)

lemma tpl_in_fin [keeps_rules]: "keeps tpl_ok (in_fin m)"
  unfolding in_fin_def by (rule keeps_zoom[of "\<lambda>_. True"]) (auto simp: keeps_def)

lemma tpl_audit [keeps_rules]: "keeps tpl_ok (audit_acc Y n org user action resource i summary metadata)"
  unfolding audit_acc_def by (rule tpl_in_fin)

lemma tpl_history [keeps_rules]: "keeps tpl_ok (add_history org i st user txt)"
  unfolding add_history_def by (intro keeps_writes) (simp add: tpl_ok_def)

lemma tpl_ok_master_data:
  "keeps tpl_ok (createAccountingCustomer Y n org name ci user)" "keeps tpl_ok (updateAccountingCustomer Y n org i ci user)"
  "keeps tpl_ok (deleteAccountingCustomer Y n org i user)" "keeps tpl_ok (createCatalogueItem Y n org ni user)"
  "keeps tpl_ok (updateCatalogueItem Y n org i ii user)" "keeps tpl_ok (deleteCatalogueItem Y n org i user)"
  "keeps tpl_ok (createAccountingProject Y n org np user)" "keeps tpl_ok (updateAccountingProject Y n org i pj user)"
  "keeps tpl_ok (deleteAccountingProject Y n org i user)"
  unfolding master_data_defs forget_client_def Let_def
  by (intro keeps_rules acc_writes; simp add: tpl_ok_def)+

lemma tpl_ok_expenses:
  "keeps tpl_ok (createExpense Y n org nx user)" "keeps tpl_ok (updateExpense Y n org i xi user)"
  "keeps tpl_ok (voidExpense Y n org i user)" "keeps tpl_ok (createExpenseCategory Y n org name descr user)"
  "keeps tpl_ok (deleteExpenseCategory Y n org i user)"
  unfolding expense_op_defs by (intro keeps_rules acc_writes; simp add: tpl_ok_def)+

lemma tpl_ok_requests:
  "keeps tpl_ok (createPaymentRequest Y n org ri user)" "keeps tpl_ok (approvePaymentRequest Y n org i user)"
  "keeps tpl_ok (declinePaymentRequest Y n org i reason user)"
  unfolding request_op_defs Let_def by (intro keeps_rules)+

lemma tpl_ok_invoices:
  "keeps tpl_ok (createInvoice Y n org nv user)" "keeps tpl_ok (updateInvoice Y n org i vi user)"
  "keeps tpl_ok (sendInvoice Y n mail org i user)" "keeps tpl_ok (recordInvoicePayment Y n org i py user)"
  "keeps tpl_ok (deleteInvoice Y n org i user)"
  unfolding createInvoice_def updateInvoice_def sendInvoice_def recordInvoicePayment_def receivePayment_def deleteInvoice_def
    on_P2002_def Let_def
  by (intro keeps_rules keeps_tx acc_writes keeps_writes; simp add: tpl_ok_def)+

lemma tpl_create: "keeps tpl_ok (createInvoiceTemplate Y n org name ti user)"
  unfolding createInvoiceTemplate_def
proof (intro keeps_bnd keeps_tx_ok keeps_ret tpl_audit)
  fix d x d' assume "tpl_ok d"
    and "bnd (count_rows ac_templates (\<lambda>t. tp_org t = org)) (\<lambda>existing.
          create_row ac_templates ac_templates_update template_clash
            \<lparr> tp_id = fr_id n, tp_org = org, tp_name = name, tp_normalizedName = toLower (trim name),
              tp_paymentTerms = ti_paymentTerms ti, tp_headerNote = ti_headerNote ti,
              tp_footerNote = ti_footerNote ti, tp_isDefault = (existing = 0),
              tp_defaultKey = (if existing = 0 then Some ''DEFAULT'' else None) \<rparr>) d = (Inr x, d')"
  then show "tpl_ok d'"
    by (auto simp: run_simps tpl_ok_def clashes_def template_clash_def templates_of_def countWhere_def intro!: templates_new)
qed

lemma tpl_update: "keeps tpl_ok (updateInvoiceTemplate Y n org i ti user)"
  unfolding updateInvoiceTemplate_def
  by (intro keeps_rules acc_writes) (auto simp: tpl_ok_def intro!: templates_edit)

lemma templateOwned_row:
  "templateOwned org i d = (Inr t, d') \<Longrightarrow> t \<in> set (ac_templates d) \<and> tp_id t = i \<and> tp_org t = org \<and> d' = d"
  by (auto simp: templateOwned_def run_simps owned_def dest: find_SomeD)

lemma tpl_default: "keeps tpl_ok (setDefaultInvoiceTemplate Y n org i user)"
  unfolding setDefaultInvoiceTemplate_def
proof (rule keeps_by_holds, rule holds_learn, rule keeps_owned, assumption, rule keeps_then)
  fix t
  show "holds (\<lambda>d. tpl_ok d \<and> templateOwned org i d = (Inr t, d))
    (tx (bnd (update_rows ac_templates ac_templates_update (\<lambda>t. tp_org t = org \<and> tp_isDefault t)
               (\<lambda>t. t\<lparr>tp_isDefault := False, tp_defaultKey := None\<rparr>)) (\<lambda>_.
         update_row ac_templates ac_templates_update (\<lambda>t. tp_id t = i)
           (\<lambda>t. t\<lparr>tp_isDefault := True, tp_defaultKey := Some ''DEFAULT''\<rparr>)))) (\<lambda>_. tpl_ok) tpl_ok"
    by (rule holds_tx[OF holdsI]) (auto simp: run_simps tpl_ok_def dest!: templateOwned_row intro!: templates_set_default)
qed (intro keeps_rules)

lemma tpl_delete: "keeps tpl_ok (deleteInvoiceTemplate Y n org i user)"
  unfolding deleteInvoiceTemplate_def
proof (rule keeps_by_holds, rule holds_learn, rule keeps_owned, assumption, rule holds_skip_guard, simp, rule keeps_then)
  fix t :: invoice_template assume "\<not> tp_isDefault t"
  then show "holds (\<lambda>d. tpl_ok d \<and> templateOwned org i d = (Inr t, d))
    (delete_row ac_templates ac_templates_update (\<lambda>t. tp_id t = i)) (\<lambda>_. tpl_ok) tpl_ok"
    by (intro holdsI) (auto simp: run_simps run_delete_row_err tpl_ok_def dest!: templateOwned_row intro: templates_delete)
qed (intro keeps_rules)

lemmas tpl_ok_operations = tpl_ok_master_data tpl_ok_expenses tpl_ok_requests tpl_ok_invoices
  tpl_create tpl_update tpl_default tpl_delete

lemma tpl_ok_step: "acc_step E d d' \<Longrightarrow> tpl_ok d \<Longrightarrow> tpl_ok d'"
  by (induction rule: acc_step.induct)
    ((erule keepsD[rotated 2], rule tpl_ok_operations tpl_in_fin, assumption)+, simp)

section \<open>The books\<close>

definition fin_from :: "fin_env \<Rightarrow> fin_db \<Rightarrow> acc_db \<Rightarrow> bool" where
  "fin_from E a d \<longleftrightarrow> from_here E a (ac_fin d)"

lemma fin_from_simps [simp]:
  "fin_from E a (d\<lparr>ac_fin := f\<rparr>) = from_here E a f"
  "fin_from E a (ac_clients_update g1 d) = fin_from E a d" "fin_from E a (ac_items_update g2 d) = fin_from E a d"
  "fin_from E a (ac_projects_update g3 d) = fin_from E a d" "fin_from E a (ac_invoices_update g4 d) = fin_from E a d"
  "fin_from E a (ac_payments_update g5 d) = fin_from E a d" "fin_from E a (ac_history_update g6 d) = fin_from E a d"
  "fin_from E a (ac_expenses_update g7 d) = fin_from E a d" "fin_from E a (ac_categories_update g8 d) = fin_from E a d"
  "fin_from E a (ac_templates_update g9 d) = fin_from E a d"
  by (simp_all add: fin_from_def)

lemma fin_in_fin: "keeps (from_here E a) m \<Longrightarrow> keeps (fin_from E a) (in_fin m)"
  unfolding in_fin_def by (rule keeps_zoom) (auto simp: fin_from_def)

lemma fin_audit [keeps_rules]: "keeps (fin_from E a) (audit_acc Y n org user action resource i summary metadata)"
  unfolding audit_acc_def by (intro fin_in_fin keeps_rules)

lemma fin_history [keeps_rules]: "keeps (fin_from E a) (add_history org i st user txt)"
  unfolding add_history_def by (intro keeps_writes) simp

lemma fin_requests [keeps_rules]: "keeps (from_here E a) (create_row db_requests db_requests_update clash q)"
  by (rule by_other, rule keeps_create_row) (simp add: same_books_def)

lemma fin_decide [keeps_rules]: "keeps (from_here E a) (decide org i f)"
  unfolding decide_def by (intro keeps_rules)

lemma fin_operations:
  "keeps (fin_from E a) (createAccountingCustomer Y n org name ci user)" "keeps (fin_from E a) (updateAccountingCustomer Y n org i ci user)"
  "keeps (fin_from E a) (deleteAccountingCustomer Y n org i user)" "keeps (fin_from E a) (createCatalogueItem Y n org ni user)"
  "keeps (fin_from E a) (updateCatalogueItem Y n org i ii user)" "keeps (fin_from E a) (deleteCatalogueItem Y n org i user)"
  "keeps (fin_from E a) (createAccountingProject Y n org np user)" "keeps (fin_from E a) (updateAccountingProject Y n org i pj user)"
  "keeps (fin_from E a) (deleteAccountingProject Y n org i user)"
  "keeps (fin_from E a) (createExpense Y n org nx user)" "keeps (fin_from E a) (updateExpense Y n org i xi user)"
  "keeps (fin_from E a) (voidExpense Y n org i user)" "keeps (fin_from E a) (createExpenseCategory Y n org name descr user)"
  "keeps (fin_from E a) (deleteExpenseCategory Y n org i user)"
  "keeps (fin_from E a) (createInvoiceTemplate Y n org name ti user)" "keeps (fin_from E a) (updateInvoiceTemplate Y n org i ti user)"
  "keeps (fin_from E a) (setDefaultInvoiceTemplate Y n org i user)" "keeps (fin_from E a) (deleteInvoiceTemplate Y n org i user)"
  unfolding master_data_defs expense_op_defs template_op_defs forget_client_def Let_def
  by (intro keeps_rules keeps_tx acc_writes fin_in_fin; simp)+

lemma fin_invoices:
  "keeps (fin_from E a) (createInvoice Y n org nv user)" "keeps (fin_from E a) (updateInvoice Y n org i vi user)"
  "keeps (fin_from E a) (sendInvoice Y n mail org i user)" "keeps (fin_from E a) (recordInvoicePayment Y n org i py user)"
  "keeps (fin_from E a) (deleteInvoice Y n org i user)"
  unfolding createInvoice_def updateInvoice_def sendInvoice_def recordInvoicePayment_def receivePayment_def deleteInvoice_def
    on_P2002_def Let_def
  by (intro keeps_rules keeps_tx acc_writes keeps_writes fin_in_fin; simp)+

lemma fin_request_operations:
  "keeps (fin_from E a) (createPaymentRequest Y n org ri user)" "keeps (fin_from E a) (approvePaymentRequest Y n org i user)"
  "keeps (fin_from E a) (declinePaymentRequest Y n org i reason user)"
  "keeps (fin_from E a) (in_fin (finalizeAccountingSettlementOtp E Y s P enabled org i otp user))"
  unfolding request_op_defs Let_def by (intro keeps_rules fin_in_fin from_here_otp_final)+

lemma fin_from_start: "fin_from E (ac_fin d) d"
  by (simp add: fin_from_def here)

lemma fin_from_reachable: "fin_from E a d \<Longrightarrow> reachable E a (ac_fin d)"
  by (simp add: fin_from_def from_here_def)

lemma acc_step_fin: "acc_step E d d' \<Longrightarrow> reachable E (ac_fin d) (ac_fin d')"
proof (induction rule: acc_step.induct)
  case (request_disburse d Y s s' P org i walletId key route user r27 d')
  then show ?case by (auto simp: in_fin_def run_simps intro: disburse_steps)
next
  case (fin d f d')
  then show ?case by simp
qed (rule fin_from_reachable, erule keepsD[rotated 2], rule fin_operations fin_invoices fin_request_operations, rule fin_from_start)+

section \<open>Runs\<close>

definition acc_reachable :: "fin_env \<Rightarrow> acc_db \<Rightarrow> acc_db \<Rightarrow> bool" where
  "acc_reachable E = (acc_step E)\<^sup>*\<^sup>*"

text \<open>A new installation: master data without accounting activity, empty books.\<close>

definition acc_initial :: "acc_db \<Rightarrow> bool" where
  "acc_initial d \<longleftrightarrow> ac_invoices d = [] \<and> ac_payments d = [] \<and> ac_history d = [] \<and> ac_templates d = [] \<and> initial_db (ac_fin d)"

lemma acc_initial_ok: "acc_initial d \<Longrightarrow> acc_ok d \<and> tpl_ok d"
  by (simp add: acc_initial_def acc_ok_def invoices_ok_def tpl_ok_def templates_ok_def templates_of_def)

lemma acc_reachable_ok: "acc_reachable E d d' \<Longrightarrow> acc_ok d \<Longrightarrow> tpl_ok d \<Longrightarrow> acc_ok d' \<and> tpl_ok d'"
  unfolding acc_reachable_def by (induction rule: rtranclp_induct) (auto intro: acc_ok_step tpl_ok_step)

lemma acc_reachable_fin: "acc_reachable E d d' \<Longrightarrow> reachable E (ac_fin d) (ac_fin d')"
  unfolding acc_reachable_def by (induction rule: rtranclp_induct) (auto dest: acc_step_fin)

end
