(* ===== verification/FinProperties.thy ===== *)
theory FinProperties
  imports Lifecycle Sample
begin

text \<open>
  What the financial core guarantees, over every sequence of its transactions and writes from a
  tenant with empty wallets, and the run of the sample tenant that instantiates it.
\<close>

section \<open>The sample run is made of steps\<close>

lemma reach_run: "keeps (from_here E a) m \<Longrightarrow> reachable E a db \<Longrightarrow> reachable E a (snd (m db))"
  using keepsD[of "from_here E a" m db "fst (m db)" "snd (m db)"] by (simp add: from_here_def)

lemma demo_reach1: "reachable demo_env demo0 demo1"
  unfolding demo1_def by (rule reach_run[OF by_transactions(6)]) simp_all

lemma demo_reach2: "reachable demo_env demo0 demo2"
  unfolding demo2_def by (rule reach_run[OF from_here_prepare demo_reach1]) (simp add: demo_source_def)

lemma demo_reach3: "reachable demo_env demo0 demo3"
  unfolding demo3_def by (rule reach_run[OF from_here_initiate demo_reach2])

lemma demo_reach4: "reachable demo_env demo0 demo4"
  unfolding demo4_def by (rule reach_run[OF from_here_verify demo_reach3])

lemma demo_reach5: "reachable demo_env demo0 demo5"
  unfolding demo5_def by (rule reach_run[OF by_transactions(3) demo_reach4])

lemma demo_initial: "initial_db demo0"
  by (simp add: initial_db_def demo0_def demo_wallet_def)

lemma reached_inv: "initial_db db0 \<Longrightarrow> reachable E db0 db \<Longrightarrow> fin_inv db"
  using steps_inv initial_inv by blast

lemma unique_at_most_one:
  assumes "ledger_unique rows" and "\<And>a b. P a \<Longrightarrow> P b \<Longrightarrow> ledger_clash b a"
  shows "countWhere P rows \<le> 1"
proof -
  have "sorted_wrt (\<lambda>a b. \<not> ledger_clash b a) (filter P rows)"
    using assms(1) by (simp add: ledger_unique_def sorted_wrt_filter)
  moreover have "set (filter P rows) \<subseteq> Collect P" by auto
  ultimately show ?thesis using assms(2) unfolding countWhere_def
    by (cases "filter P rows"; cases "tl (filter P rows)") auto
qed

section \<open>The books\<close>

text \<open>C1: In every reachable state each wallet satisfies \<open>0 \<le> reserved \<le> balance\<close>, its reserved balance
  is the sum of the amounts of the settlements that hold a reservation on it, and its balance is
  the signed sum of its ledger rows.\<close>

theorem books_always_balance:
  assumes "initial_db db0" and "reachable E db0 db" and "w \<in> set (db_wallets db)"
  shows "0 \<le> w_reserved w \<and> w_reserved w \<le> w_balance w \<and>
    w_reserved w = reserved_for (w_id w) (db_settlements db) \<and>
    w_balance w = ledger_balance (w_id w) (db_ledger db)"
proof -
  have "books_ok db" using reached_inv[OF assms(1,2)] by (simp add: fin_inv_def)
  with assms(3) show ?thesis by (auto simp: books_ok_def wallets_ok_def)
qed

lemma books_always_balance_witness:
  "\<exists>w \<in> set (db_wallets demo3). w_reserved w = 400 \<and> w_reserved w \<le> w_balance w \<and>
     w_reserved w = reserved_for (w_id w) (db_settlements demo3) \<and>
     w_balance w = ledger_balance (w_id w) (db_ledger demo3)"
proof -
  obtain w where w: "w \<in> set (db_wallets demo3)" "w_reserved w = 400"
    using demo3_books by (cases "db_wallets demo3") auto
  with books_always_balance[OF demo_initial demo_reach3 w(1)] show ?thesis by blast
qed

text \<open>C2: However often providers report, callbacks are replayed and workers race, a settlement is
  debited at most once and reversed at most once and only after its debit; a settlement marked
  SUCCEEDED has been debited exactly once and not reversed, one marked REVERSED has one debit and
  one reversal.\<close>

theorem settled_at_most_once:
  assumes "initial_db db0" and "reachable E db0 db" and "s \<in> set (db_settlements db)"
  shows "debit_count s (db_ledger db) \<le> 1 \<and> reversal_count s (db_ledger db) \<le> debit_count s (db_ledger db) \<and>
    (s_status s = PREPARED \<longrightarrow> debit_count s (db_ledger db) = 0) \<and>
    (s_status s = SUCCEEDED \<longrightarrow> debit_count s (db_ledger db) = 1 \<and> reversal_count s (db_ledger db) = 0) \<and>
    (s_status s = REVERSED \<longrightarrow> debit_count s (db_ledger db) = 1 \<and> reversal_count s (db_ledger db) = 1)"
proof -
  have "row_once (db_ledger db) s"
    using reached_inv[OF assms(1,2)] assms(3) by (auto simp: fin_inv_def dest: once_okD(3))
  then show ?thesis by (auto simp: row_once_def split: if_splits)
qed

lemma settled_at_most_once_witness:
  "\<exists>s \<in> set (db_settlements demo5). s_status s = REVERSED \<and> debit_count s (db_ledger demo5) = 1 \<and>
     reversal_count s (db_ledger demo5) = 1"
proof -
  obtain s where s: "s \<in> set (db_settlements demo5)" "s_status s = REVERSED"
    using demo5_books by (cases "db_settlements demo5") auto
  with settled_at_most_once[OF demo_initial demo_reach5 s(1)] show ?thesis by blast
qed

text \<open>C7: The ledger is append-only and its rows stay unique: whatever runs next, the rows written
  so far remain, in place and unchanged, and no two rows of one organization share a reference, a
  transfer reference or the business event they stand for.\<close>

theorem ledger_append_only:
  assumes "initial_db db0" and "reachable E db0 db" and "reachable E db db'"
  shows "take (length (db_ledger db)) (db_ledger db') = db_ledger db \<and>
    (\<forall>i j. i < j \<and> j < length (db_ledger db') \<longrightarrow> \<not> ledger_clash (db_ledger db' ! j) (db_ledger db' ! i))"
proof -
  note inv = reached_inv[OF assms(1,2)]
  obtain ls where "db_ledger db' = db_ledger db @ ls" using steps_ledger[OF assms(3) inv] by blast
  moreover have "ledger_unique (db_ledger db')" using steps_inv[OF assms(3) inv] by (simp add: fin_inv_def)
  ultimately show ?thesis by (simp add: ledger_unique_def sorted_wrt_iff_nth_less)
qed

lemma ledger_append_only_witness: "take (length (db_ledger demo1)) (db_ledger demo5) = db_ledger demo1"
proof -
  have "reachable demo_env demo1 demo5"
    unfolding demo5_def demo4_def demo3_def demo2_def
    by (intro reach_run by_transactions(3) from_here_verify from_here_initiate from_here_prepare)
      (simp_all add: demo_source_def)
  from ledger_append_only[OF demo_initial demo_reach1 this] show ?thesis by simp
qed

text \<open>C4: Money enters a wallet once per verified payment: a completed funding attempt has exactly one
  credit in the ledger, for its wallet and its amount; any attempt has at most one; and every
  such credit belongs to an attempt.\<close>

theorem funding_credited_once:
  assumes "initial_db db0" and "reachable E db0 db"
  shows "(\<forall>f \<in> set (db_fundings db). countWhere (funds f) (db_ledger db) \<le> 1 \<and>
      (f_status f = ''COMPLETED'' \<longrightarrow> countWhere (funds f) (db_ledger db) = 1)) \<and>
    (\<forall>t \<in> set (db_ledger db). t_type t = ''WALLET_FUNDING'' \<longrightarrow> (\<exists>f \<in> set (db_fundings db). funds f t))"
proof -
  have ok: "funding_ok db" and u: "ledger_unique (db_ledger db)"
    using reached_inv[OF assms] by (simp_all add: fin_inv_def)
  have one: "countWhere (funds f) (db_ledger db) \<le> 1" for f
    by (rule unique_at_most_one[OF u]) (auto simp: funds_def is_funding_row_def ledger_clash_def same_key_def)
  have some: "1 \<le> countWhere (funds f) (db_ledger db)"
    if "f \<in> set (db_fundings db)" "f_status f = ''COMPLETED''" for f
  proof -
    have "\<exists>t \<in> set (db_ledger db). funds f t" by (rule funding_okD(3)[OF ok that])
    then obtain t where "t \<in> set (db_ledger db)" "funds f t" by blast
    then have "t \<in> set (filter (funds f) (db_ledger db))" by simp
    then show ?thesis unfolding countWhere_def by (cases "filter (funds f) (db_ledger db)") auto
  qed
  have "countWhere (funds f) (db_ledger db) = 1" if "f \<in> set (db_fundings db)" "f_status f = ''COMPLETED''" for f
    using one[of f] some[OF that] by simp
  moreover have "\<exists>f \<in> set (db_fundings db). funds f t" if "t \<in> set (db_ledger db)" "t_type t = ''WALLET_FUNDING''" for t
    using funding_okD(4)[OF ok that(1)] that(2) by (simp add: is_funding_row_def)
  ultimately show ?thesis using one by blast
qed

lemma demo_reach_funded: "reachable demo_env demo0 demo_funded"
  unfolding demo_funded_def demo_funding_def
  by (intro reach_run from_here_verifyFunding from_here_initializeFunding) simp_all

lemma funding_credited_once_witness:
  "\<exists>f \<in> set (db_fundings demo_funded). f_status f = ''COMPLETED'' \<and> countWhere (funds f) (db_ledger demo_funded) = 1"
proof -
  obtain f where f: "f \<in> set (db_fundings demo_funded)" "f_status f = ''COMPLETED''"
    using demo_funded_books by (cases "db_fundings demo_funded") auto
  with funding_credited_once[OF demo_initial demo_reach_funded] show ?thesis by blast
qed

section \<open>The operations refine the steps\<close>


section \<open>Paying\<close>





section \<open>Starting a transfer\<close>

lemma find_own_here:
  assumes "distinct (map s_id rows)" and "s \<in> set rows" "s_id s = i" "s_org s = org"
  shows "find (\<lambda>x. s_id x = i \<and> s_org x = org) rows = Some s"
proof -
  have "find (\<lambda>x. s_id x = i \<and> s_org x = org) rows \<noteq> None" using assms(2-4) by (auto simp: find_None_iff)
  then obtain y where y: "find (\<lambda>x. s_id x = i \<and> s_org x = org) rows = Some y" by blast
  with key_unique[OF assms(1,2)] find_SomeD[OF y] assms(3) show ?thesis by auto
qed



lemma fin_inv_wallets: "fin_inv db \<Longrightarrow> wallets_ok db \<and> distinct (map s_id (db_settlements db))"
  by (simp add: fin_inv_def books_okD)

lemmas demo3_ok = reached_inv[OF demo_initial demo_reach3, THEN fin_inv_wallets]


text \<open>Releasing a reservation gives the wallet back exactly what the settlement held and marks it
  FAILED, without touching the ledger; repeating the call returns the row and changes nothing.\<close>

theorem release_returns_hold:
  assumes "wallets_ok db" and "distinct (map s_id (db_settlements db))"
    and "releaseSettlementReservation E now org i reason db = (Inr s, db1)"
  shows "s_status s = FAILED \<and> db_ledger db1 = db_ledger db \<and>
    (db1 = db \<or> (\<exists>x. find (\<lambda>x. s_id x = i) (db_settlements db) = Some x \<and> held x \<and>
       db_wallets db1 = db_wallets (post_wallet org (s_wallet x) 0 (- s_amount x) db))) \<and>
    releaseSettlementReservation E now' org i reason' db1 = (Inr s, db1)"
proof -
  from assms(3) obtain x where x: "find (\<lambda>s. s_id s = i \<and> s_org s = org) (db_settlements db) = Some x"
    by (auto simp: releaseSettlementReservation_def run_simps)
  note key = found_by_id[OF assms(2) x]
  have again: "releaseSettlementReservation E now' org i reason' db1 = (Inr s, db1)"
    if "find (\<lambda>s. s_id s = i \<and> s_org s = org) (db_settlements db1) = Some s" "s_status s = FAILED" "s_releasedAt s \<noteq> None"
    using that by (simp add: releaseSettlementReservation_def run_simps)
  show ?thesis
  proof (cases "s_status x = FAILED \<and> s_releasedAt x \<noteq> None")
    case True
    with assms(3) x have "s = x" "db1 = db" by (auto simp: releaseSettlementReservation_def run_simps)
    with True x again show ?thesis by auto
  next
    case False
    then obtain db2 u where r: "held x" "releaseWalletReservation org (s_wallet x) (s_amount x) (s_currency x) db = (Inr u, db2)"
      and db1: "db1 = db2\<lparr>db_settlements := updateMany (\<lambda>y. s_id y = i) (release_write now reason) (db_settlements db2)\<rparr>"
      and s: "\<exists>y. find (\<lambda>y. s_id y = i) (db_settlements db2) = Some y \<and> s = release_write now reason y"
      using assms(3) x key(3) by (auto simp: releaseSettlementReservation_def run_simps release_write_def[abs_def])
    have db2: "db2 = post_wallet org (s_wallet x) 0 (- s_amount x) db" using release_run[OF assms(1) r(2)] by blast
    with s key(1) have sx: "s = release_write now reason x" by simp
    have ids1: "distinct (map s_id (db_settlements db1))" using assms(2) by (simp add: db1 db2 map_s_id_update release_write_def)
    have "s \<in> set (db_settlements db1)" using key(2,3) by (auto simp: sx db1 db2 set_updateMany)
    with find_own_here[OF ids1] key(3,4) have "find (\<lambda>s. s_id s = i \<and> s_org s = org) (db_settlements db1) = Some s"
      by (simp add: sx release_write_def)
    with again have "releaseSettlementReservation E now' org i reason' db1 = (Inr s, db1)" by (simp add: sx release_write_def)
    with r(1) key(1) show ?thesis by (auto simp: sx db1 db2 release_write_def)
  qed
qed

lemma release_returns_hold_witness:
  "\<exists>s db1. releaseSettlementReservation demo_env 35 ''o1'' ''s2'' ''declined'' demo3 = (Inr s, db1) \<and> s_status s = FAILED \<and>
     db_ledger db1 = db_ledger demo3 \<and> releaseSettlementReservation demo_env 36 ''o1'' ''s2'' ''again'' db1 = (Inr s, db1)"
proof -
  have "\<not> isl (fst (releaseSettlementReservation demo_env 35 ''o1'' ''s2'' ''declined'' demo3))" by code_simp
  then obtain s db1 where "releaseSettlementReservation demo_env 35 ''o1'' ''s2'' ''declined'' demo3 = (Inr s, db1)"
    by (metis prod.collapse sum.collapse(2))
  with release_returns_hold[OF conjunct1[OF demo3_ok] conjunct2[OF demo3_ok] this] show ?thesis by blast
qed

text \<open>C9: A reconciliation lease is exclusive: while it has not expired, no other claim on the settlement
  succeeds, whatever its token, and a release with another token leaves it in place.\<close>

theorem reconciliation_lease_exclusive:
  assumes "distinct (map s_id (db_settlements db))"
    and "claimProviderSettlementReconciliation E i now token db = (Inr (Some lease), db1)"
    and "now' < now + v_leaseMs E" and "other \<noteq> token"
  shows "claimProviderSettlementReconciliation E i now' other db1 = (Inr None, db1) \<and>
    releaseProviderSettlementReconciliation i other e db1 = (Inr (), db1)"
proof -
  let ?P = "\<lambda>s. s_id s = i \<and> s_provider s = Some ''PAYSTACK'' \<and> s_method s = PROVIDER \<and>
      s_status s \<in> set recoverableStatuses \<and> leaseFree now s"
  let ?f = "\<lambda>s. s\<lparr>s_claimToken := Some token, s_claimedAt := Some now, s_leaseExpiresAt := Some (now + v_leaseMs E),
      s_attempts := s_attempts s + 1, s_lastError := None\<rparr>"
  from assms(2) have count: "countWhere ?P (db_settlements db) = 1"
    and db1: "db1 = db\<lparr>db_settlements := updateMany ?P ?f (db_settlements db)\<rparr>"
    by (auto simp: claimProviderSettlementReconciliation_def run_simps split: if_splits)
  obtain s where s: "s \<in> set (db_settlements db)" "?P s" using countWhere_pos[of ?P _ 0] count by auto
  have leased: "s_leaseExpiresAt y = Some (now + v_leaseMs E) \<and> s_claimToken y = Some token"
    if y: "y \<in> set (db_settlements db1)" "s_id y = i" for y
  proof -
    from y(1) obtain x where x: "x \<in> set (db_settlements db)" "y = (if ?P x then ?f x else x)"
      unfolding db1 by (auto elim: updateManyE)
    with y(2) have "s_id x = s_id s" using s(2) by (auto split: if_splits)
    with key_unique[OF assms(1) s(1) x(1)] have "x = s" by simp
    with x(2) s(2) show ?thesis by simp
  qed
  have none: "updateMany Q g (db_settlements db1) = db_settlements db1 \<and> countWhere Q (db_settlements db1) = 0"
    if "\<And>y. y \<in> set (db_settlements db1) \<Longrightarrow> \<not> Q y" for Q g
    using updateMany_none[of "db_settlements db1" Q g] that by (auto simp: countWhere_def filter_empty_conv)
  have "claimProviderSettlementReconciliation E i now' other db1 = (Inr None, db1)"
    using leased assms(3) none unfolding claimProviderSettlementReconciliation_def
    by (subst run_simps)+ (auto simp: leaseFree_def)
  moreover have "releaseProviderSettlementReconciliation i other e db1 = (Inr (), db1)"
    using leased assms(4) none unfolding releaseProviderSettlementReconciliation_def by (subst run_simps)+ auto
  ultimately show ?thesis by blast
qed

lemma reconciliation_lease_exclusive_witness:
  "\<exists>db1. claimProviderSettlementReconciliation demo_env ''s2'' 100 ''tok-a'' demo3 = (Inr (Some (''tok-a'', 60100)), db1) \<and>
     claimProviderSettlementReconciliation demo_env ''s2'' 60099 ''tok-b'' db1 = (Inr None, db1)"
proof -
  have "fst (claimProviderSettlementReconciliation demo_env ''s2'' 100 ''tok-a'' demo3) = Inr (Some (''tok-a'', 60100))"
    by code_simp
  then obtain db1 where run: "claimProviderSettlementReconciliation demo_env ''s2'' 100 ''tok-a'' demo3 = (Inr (Some (''tok-a'', 60100)), db1)"
    by (metis prod.collapse)
  have "60099 < 100 + v_leaseMs demo_env" "''tok-b'' \<noteq> ''tok-a''" by (simp_all add: demo_env_def)
  from reconciliation_lease_exclusive[OF conjunct2[OF demo3_ok] run this] run show ?thesis by blast
qed

end
