(* ===== verification/AccountingProperties.thy ===== *)
theory AccountingProperties
  imports AccountingLedger FinProperties
begin

text \<open>
  What the accounting module guarantees over every sequence of its operations from a new
  installation, what its exports contain, and a sample run that instantiates the properties.
\<close>

section \<open>A sample run\<close>

definition acc0 :: acc_db where
  "acc0 = \<lparr> ac_fin = demo0, ac_members = [],
     ac_clients = [\<lparr> cl_id = ''c1'', cl_org = ''o1'', cl_reference = ''CLT-1'', cl_name = ''Acme'', cl_email = Some ''a@c.me'',
       cl_phone = None, cl_address = None, cl_taxId = None, cl_contactPerson = None, cl_status = ''ACTIVE'',
       cl_archivedAt = None, cl_createdAt = 0 \<rparr>],
     ac_items = [\<lparr> it_id = ''i1'', it_org = ''o1'', it_reference = ''ITM-1'', it_name = ''Audit'', it_type = ''SERVICE'',
       it_unitPrice = 50, it_unit = ''day'', it_description = None, it_vatApplicable = True, it_status = ''ACTIVE'', it_archivedAt = None \<rparr>],
     ac_projects = [], ac_invoices = [], ac_payments = [], ac_history = [], ac_expenses = [], ac_categories = [],
     ac_templates = [], ac_vatPercent = 15/2 \<rparr>"

definition acc_fresh :: "int \<Rightarrow> string \<Rightarrow> fresh" where
  "acc_fresh now i = \<lparr> fr_now = now, fr_id = i, fr_hex = i \<rparr>"

definition demo_invoice :: new_invoice where
  "demo_invoice = \<lparr> nv_client = ''c1'', nv_agent = None, nv_project = None, nv_issueDate = None, nv_dueDate = 5000,
     nv_notes = None, nv_whtApplicable = Some True, nv_whtRate = Some 5,
     nv_items = [\<lparr> il_catalogueItemId = Some ''i1'', il_description = None, il_quantity = 2, il_unitPrice = None,
       il_vatApplicable = None \<rparr>] \<rparr>"

definition demo_payment :: "string \<Rightarrow> rat \<Rightarrow> payment_input" where
  "demo_payment ref v = \<lparr> py_reference = ref, py_amount = v, py_paidAt = None, py_notes = None \<rparr>"

definition acc1 :: acc_db where
  "acc1 = snd (createInvoice demo_audit (acc_fresh 10 ''v1'') ''o1'' demo_invoice demo_user acc0)"

definition acc2 :: acc_db where
  "acc2 = snd (sendInvoice demo_audit (acc_fresh 20 ''h2'') (\<lambda>to v. Inr ()) ''o1'' ''v1'' demo_user acc1)"

definition acc3 :: acc_db where
  "acc3 = snd (recordInvoicePayment demo_audit (acc_fresh 30 ''p3'') ''o1'' ''v1'' (demo_payment ''ref-3'' 2) demo_user acc2)"

definition acc4 :: acc_db where
  "acc4 = snd (recordInvoicePayment demo_audit (acc_fresh 40 ''p4'') ''o1'' ''v1'' (demo_payment ''ref-4'' (201/2)) demo_user acc3)"

lemma acc1_invoice: "map (\<lambda>v. (iv_status v, iv_total v, iv_amountPayable v)) (ac_invoices acc1) = [(''DRAFT'', 215/2, 205/2)]"
  by code_simp

lemma acc2_invoice: "map iv_status (ac_invoices acc2) = [''SENT'']"
  by code_simp

lemma acc3_invoice: "map iv_status (ac_invoices acc3) = [''PARTIALLY_PAID'']"
  by code_simp

lemma acc4_invoice: "map iv_status (ac_invoices acc4) = [''PAID''] \<and> map ip_amount (ac_payments acc4) = [2, 201/2]"
  by code_simp

lemma acc_to: "acc_reachable E a d \<Longrightarrow> acc_step E d d' \<Longrightarrow> acc_reachable E a d'"
  unfolding acc_reachable_def by (rule rtranclp.rtrancl_into_rtrancl)

lemma acc_reach0: "acc_reachable demo_env acc0 acc0"
  by (simp add: acc_reachable_def)

lemma acc_reach1: "acc_reachable demo_env acc0 acc1"
  unfolding acc1_def by (rule acc_to[OF acc_reach0 acc_step.invoice_create[OF surjective_pairing]])

lemma acc_reach2: "acc_reachable demo_env acc0 acc2"
  unfolding acc2_def by (rule acc_to[OF acc_reach1 acc_step.invoice_send[OF surjective_pairing]])

lemma acc_reach3: "acc_reachable demo_env acc0 acc3"
  unfolding acc3_def by (rule acc_to[OF acc_reach2 acc_step.invoice_pay[OF surjective_pairing]])

lemma acc_reach4: "acc_reachable demo_env acc0 acc4"
  unfolding acc4_def by (rule acc_to[OF acc_reach3 acc_step.invoice_pay[OF surjective_pairing]])

lemma acc0_initial: "acc_initial acc0"
  using demo_initial by (simp add: acc_initial_def acc0_def)

lemma reached_acc_ok: "acc_initial d0 \<Longrightarrow> acc_reachable E d0 d \<Longrightarrow> acc_ok d \<and> tpl_ok d"
  using acc_initial_ok acc_reachable_ok by blast

section \<open>Invoices\<close>

lemma lines_total: "\<forall>l \<in> set ls. line_ok l \<Longrightarrow> sum_list (map li_total ls) = lines_subtotal ls + lines_tax ls"
  by (induction ls) (auto simp: lines_subtotal_def lines_tax_def line_ok_def)

text \<open>C12: Through every sequence of accounting operations the amounts of an invoice follow from its
  lines: the total is the sum of the line totals, withholding tax is 5 or 10 percent of the subtotal
  rounded to the kobo (or nothing where it does not apply), the amount payable is the total less
  that tax, and all of them are whole kobo.\<close>

theorem invoices_add_up:
  assumes "acc_initial d0" and "acc_reachable E d0 d" and "v \<in> set (ac_invoices d)"
  shows "iv_total v = sum_list (map li_total (iv_items v)) \<and> iv_total v = iv_subtotal v + iv_taxAmount v \<and>
    iv_amountPayable v = iv_total v - iv_whtAmount v \<and>
    (if iv_whtApplicable v then \<exists>r \<in> {1/20, 1/10}. iv_whtRate v = Some r \<and> iv_whtAmount v = cents (iv_subtotal v * r)
     else iv_whtAmount v = 0) \<and>
    cents (iv_subtotal v) = iv_subtotal v \<and> cents (iv_total v) = iv_total v \<and> cents (iv_amountPayable v) = iv_amountPayable v"
proof -
  have ok: "amounts_ok v" using reached_acc_ok[OF assms(1,2)] assms(3) by (auto simp: acc_ok_def invoices_ok_def)
  then have lines: "\<forall>l \<in> set (iv_items v). line_ok l" and wht: "wht_ok (iv_subtotal v) (iv_whtApplicable v) (iv_whtRate v) (iv_whtAmount v)"
    by (auto simp: amounts_ok_def)
  have whole: "whole_kobo (iv_subtotal v)" "whole_kobo (iv_taxAmount v)" "whole_kobo (iv_whtAmount v)"
    using ok lines_whole[OF lines] wht_whole[OF wht] by (auto simp: amounts_ok_def)
  then have "whole_kobo (iv_total v)" using ok by (auto simp: amounts_ok_def)
  moreover from this whole have "whole_kobo (iv_total v - iv_whtAmount v)" by blast
  ultimately show ?thesis
    using ok lines_total[OF lines] wht whole by (auto simp: amounts_ok_def wht_ok_def whole_kobo_def split: if_splits)
qed

lemma invoices_add_up_witness:
  "\<exists>v \<in> set (ac_invoices acc4). iv_status v = ''PAID'' \<and> iv_total v = sum_list (map li_total (iv_items v))"
proof -
  obtain v where "v \<in> set (ac_invoices acc4)" "iv_status v = ''PAID''" using acc4_invoice by (cases "ac_invoices acc4") auto
  with invoices_add_up[OF acc0_initial acc_reach4 this(1)] show ?thesis by blast
qed

text \<open>C13: An invoice moves from DRAFT to SENT without payments, and after that its status tells what was
  received: a PARTIALLY_PAID invoice has payments that do not exceed what is receivable, a PAID one
  has received exactly that and carries the reference of its last payment. Each payment belongs to
  an invoice of its organization, its reference is used once in the organization, and the last
  entry of the invoice's history is its status.\<close>

theorem payments_match_status:
  assumes "acc_initial d0" and "acc_reachable E d0 d" and "v \<in> set (ac_invoices d)"
  shows "iv_status v \<in> {''DRAFT'', ''SENT'', ''PARTIALLY_PAID'', ''PAID''} \<and>
    (iv_status v \<in> {''DRAFT'', ''SENT''} \<longleftrightarrow> (\<forall>p \<in> set (ac_payments d). ip_invoice p \<noteq> iv_id v)) \<and>
    (iv_status v = ''PARTIALLY_PAID'' \<longrightarrow> invoice_paid (ac_payments d) (iv_id v) \<le> invoiceReceivable v) \<and>
    (iv_status v = ''PAID'' \<longrightarrow> invoice_paid (ac_payments d) (iv_id v) = invoiceReceivable v \<and> iv_paymentReference v \<noteq> None) \<and>
    (\<forall>p \<in> set (ac_payments d). ip_invoice p = iv_id v \<longrightarrow> ip_org p = iv_org v) \<and>
    distinct (map (\<lambda>p. (ip_org p, ip_reference p)) (ac_payments d)) \<and>
    last (events_of (ac_history d) (iv_id v)) = iv_status v"
proof -
  have ok: "invoices_ok (ac_invoices d) (ac_payments d) (ac_history d)" using reached_acc_ok[OF assms(1,2)] by (simp add: acc_ok_def)
  note pr = invoices_okD(3)[OF ok assms(3)] and ids = invoices_okD(1)[OF ok] and refs = invoices_okD(6)[OF ok]
  have "ip_org p = iv_org v" if p: "p \<in> set (ac_payments d)" "ip_invoice p = iv_id v" for p
  proof -
    from invoices_okD(4)[OF ok p(1)] obtain w where w: "w \<in> set (ac_invoices d)" "iv_id w = ip_invoice p" "iv_org w = ip_org p" by blast
    with ids_unique[OF ids w(1) assms(3)] p(2) show ?thesis by simp
  qed
  then have org: "\<forall>p \<in> set (ac_payments d). ip_invoice p = iv_id v \<longrightarrow> ip_org p = iv_org v" by blast
  have none: "payments_of (ac_payments d) (iv_id v) = [] \<longleftrightarrow> (\<forall>p \<in> set (ac_payments d). ip_invoice p \<noteq> iv_id v)"
    by (simp add: payments_of_def filter_empty_conv)
  have paid: "invoice_paid (ac_payments d) (iv_id v) \<le> invoiceReceivable v" if "iv_status v = ''PARTIALLY_PAID''"
    using pr that unfolding progress_ok_def by simp
  show ?thesis
    using pr paid unfolding progress_ok_def none
    by (intro conjI org refs) auto
qed

lemma payments_match_status_witness:
  "\<exists>v \<in> set (ac_invoices acc4). iv_status v = ''PAID'' \<and> invoice_paid (ac_payments acc4) (iv_id v) = invoiceReceivable v"
proof -
  obtain v where "v \<in> set (ac_invoices acc4)" "iv_status v = ''PAID''" using acc4_invoice by (cases "ac_invoices acc4") auto
  with payments_match_status[OF acc0_initial acc_reach4 this(1)] show ?thesis by blast
qed



text \<open>C15: An organization with invoice templates has exactly one default template.\<close>

theorem one_default_template:
  assumes "acc_initial d0" and "acc_reachable E d0 d" and "\<exists>t \<in> set (ac_templates d). tp_org t = org"
  shows "\<exists>!t. t \<in> set (ac_templates d) \<and> tp_org t = org \<and> tp_isDefault t"
proof -
  have ok: "templates_ok (ac_templates d)" using reached_acc_ok[OF assms(1,2)] by (simp add: tpl_ok_def)
  have "templates_of org (ac_templates d) \<noteq> []" using assms(3) by (auto simp: templates_of_def filter_empty_conv)
  with ok have "length (defaults_of org (ac_templates d)) = 1" by (simp add: templates_ok_def)
  then obtain t where "defaults_of org (ac_templates d) = [t]" by (auto simp: length_Suc_conv)
  then have "set (defaults_of org (ac_templates d)) = {t}" by simp
  then have "t' \<in> set (ac_templates d) \<and> tp_org t' = org \<and> tp_isDefault t' \<longleftrightarrow> t' = t" for t'
    unfolding defaults_of_def by auto
  then show ?thesis by auto
qed

definition acc_tpl :: acc_db where
  "acc_tpl = snd (createInvoiceTemplate demo_audit (acc_fresh 5 ''t1'') ''o1'' '' Plain '' \<lparr> ti_name = None,
     ti_paymentTerms = None, ti_headerNote = None, ti_footerNote = None \<rparr> demo_user acc0)"

lemma one_default_template_witness: "\<exists>t \<in> set (ac_templates acc_tpl). tp_isDefault t"
proof -
  have "acc_reachable demo_env acc0 acc_tpl"
    unfolding acc_tpl_def by (rule acc_to[OF acc_reach0 acc_step.template_create[OF surjective_pairing]])
  moreover have "map tp_org (ac_templates acc_tpl) = [''o1'']" by code_simp
  then have "\<exists>t \<in> set (ac_templates acc_tpl). tp_org t = ''o1''" by (cases "ac_templates acc_tpl") auto
  ultimately show ?thesis using one_default_template[OF acc0_initial] by blast
qed

section \<open>Payments\<close>

lemma run_recordPayment_ok:
  "recordInvoicePayment Y n org i inp user d = (Inr w, d') \<longleftrightarrow>
     (case find (\<lambda>p. ip_org p = org \<and> ip_reference p = py_reference inp) (ac_payments d) of
        Some p \<Rightarrow> ip_invoice p = i \<and> ip_amount p = py_amount inp \<and> getInvoiceById (fr_now n) org i d = (Inr w, d')
      | None \<Rightarrow> \<exists>d1. receivePayment Y n org i inp user d = (Inr (), d1) \<and> getInvoiceById (fr_now n) org i d1 = (Inr w, d'))"
  unfolding recordInvoicePayment_def on_P2002_def
  by (auto simp: run_simps run_catching_ok getInvoiceById_def split: option.splits if_splits)

lemma run_getInvoice:
  "getInvoiceById now org i d = (r, d') \<longleftrightarrow> d' = d \<and>
     r = (case find (owned iv_id iv_org org i) (ac_invoices d) of None \<Rightarrow> Inl (notFound ''Invoice not found'')
          | Some v \<Rightarrow> Inr (invoiceView v (invoice_paid (ac_payments d) i) now))"
  by (auto simp: getInvoiceById_def invoiceOwned_def find_row_def required_def bnd_def reads_def ret_def raise_def split: option.splits)

lemma find_settled:
  "find (owned iv_id iv_org org i) vs = Some v \<Longrightarrow>
   find (owned iv_id iv_org org i) (updateMany (\<lambda>w. iv_id w = i) (settle_invoice st t ref) vs) = Some (settle_invoice st t ref v)"
  by (induction vs) (auto simp: owned_def settle_invoice_def split: if_splits)

text \<open>Recording the same payment again (same reference, invoice and amount, an amount of whole kobo)
  succeeds and changes nothing: no second payment, no status change, no history entry, no audit
  entry.\<close>

theorem payment_idempotent:
  assumes "recordInvoicePayment Y n org i inp user d = (Inr w, d')" and "cents (py_amount inp) = py_amount inp"
  shows "\<exists>w'. recordInvoicePayment Y' n' org i inp user' d' = (Inr w', d')"
proof (cases "find (\<lambda>p. ip_org p = org \<and> ip_reference p = py_reference inp) (ac_payments d)")
  case (Some p)
  with assms(1) have p: "ip_invoice p = i" "ip_amount p = py_amount inp" and "d' = d"
    "find (owned iv_id iv_org org i) (ac_invoices d) \<noteq> None"
    by (auto simp: run_recordPayment_ok run_getInvoice split: option.splits)
  with Some show ?thesis by (auto simp: run_recordPayment_ok run_getInvoice)
next
  case None
  with assms(1) obtain d1 where run: "receivePayment Y n org i inp user d = (Inr (), d1)" and "d' = d1"
    by (auto simp: run_recordPayment_ok run_getInvoice)
  from run show ?thesis
  proof (rule receive_run)
    fix v p h st
    assume v: "find (owned iv_id iv_org org i) (ac_invoices d) = Some v"
      and d1: "ac_invoices d1 = updateMany (\<lambda>w. iv_id w = i) (settle_invoice st (keep (py_paidAt inp) (fr_now n)) (py_reference inp)) (ac_invoices d)"
        "ac_payments d1 = ac_payments d @ [p]"
      and p: "ip_invoice p = i" "ip_org p = org" "ip_reference p = py_reference inp" "ip_amount p = cents (py_amount inp)"
    have "find (\<lambda>p. ip_org p = org \<and> ip_reference p = py_reference inp) (ac_payments d1) = Some p"
      unfolding d1 using None p by (intro find_append_new) simp_all
    moreover have "find (owned iv_id iv_org org i) (ac_invoices d1) \<noteq> None" using find_settled[OF v] d1 by simp
    ultimately show ?thesis using p assms(2) \<open>d' = d1\<close> by (auto simp: run_recordPayment_ok run_getInvoice)
  qed
qed

lemma payment_idempotent_witness:
  "\<exists>w. recordInvoicePayment demo_audit (acc_fresh 99 ''p9'') ''o1'' ''v1'' (demo_payment ''ref-3'' 2) demo_user acc3 = (Inr w, acc3)"
proof -
  have "\<not> isl (fst (recordInvoicePayment demo_audit (acc_fresh 30 ''p3'') ''o1'' ''v1'' (demo_payment ''ref-3'' 2) demo_user acc2))"
    by code_simp
  then obtain w where run: "recordInvoicePayment demo_audit (acc_fresh 30 ''p3'') ''o1'' ''v1'' (demo_payment ''ref-3'' 2) demo_user acc2 = (Inr w, acc3)"
    unfolding acc3_def by (metis prod.collapse sum.collapse(2))
  show ?thesis
    by (rule payment_idempotent[OF run]) code_simp
qed

text \<open>C40: A payment under a new reference is refused, and nothing changes, whenever the invoice does not
  offer one or the amount exceeds the balance shown.\<close>

theorem payment_refused:
  assumes shown: "getInvoiceById (fr_now n) org i d = (Inr w, d)" and "0 < py_amount inp"
    and fresh: "\<forall>p \<in> set (ac_payments d). \<not> (ip_org p = org \<and> ip_reference p = py_reference inp)"
    and "\<not> vw_recordPayment w \<or> vw_balanceDue w < py_amount inp"
  shows "\<exists>e. recordInvoicePayment Y n org i inp user d = (Inl e, d)"
proof -
  from shown obtain v where v: "find (owned iv_id iv_org org i) (ac_invoices d) = Some v"
    and w: "w = invoiceView v (invoice_paid (ac_payments d) i) (fr_now n)"
    by (auto simp: run_getInvoice split: option.splits)
  have "\<not> (accountingInvoiceDisplayStatus (iv_status v) (iv_dueDate v) (fr_now n) \<in> set payable_statuses \<and>
      py_amount inp \<le> invoiceReceivable v - invoice_paid (ac_payments d) i)"
    using assms(2,4) by (auto simp: w invoiceView_def Let_def payable_statuses_def max_def split: if_splits)
  then have "receivePayment Y n org i inp user d \<noteq> (Inr u, d')" for u d'
    by (metis receive_run v option.inject)
  then obtain e d1 where refused: "receivePayment Y n org i inp user d = (Inl e, d1)"
    by (metis prod.collapse sum.exhaust)
  have "find (\<lambda>p. ip_org p = org \<and> ip_reference p = py_reference inp) (ac_payments d) = None"
    using fresh by (simp add: find_None_iff)
  with refused show ?thesis
    by (simp add: recordInvoicePayment_def on_P2002_def bnd_def find_row_def reads_def tx_def catching_def raise_def)
qed

lemma payment_refused_witness:
  "\<exists>e. recordInvoicePayment demo_audit (acc_fresh 50 ''p5'') ''o1'' ''v1'' (demo_payment ''ref-5'' 1) demo_user acc4 = (Inl e, acc4)"
proof -
  obtain w where w: "getInvoiceById (fr_now (acc_fresh 50 ''p5'')) ''o1'' ''v1'' acc4 = (Inr w, acc4)" "\<not> vw_recordPayment w"
  proof -
    have "case fst (getInvoiceById 50 ''o1'' ''v1'' acc4) of Inl _ \<Rightarrow> False | Inr w \<Rightarrow> \<not> vw_recordPayment w" by code_simp
    moreover have "snd (getInvoiceById 50 ''o1'' ''v1'' acc4) = acc4" by (metis run_getInvoice prod.collapse)
    ultimately show ?thesis using that by (auto simp: acc_fresh_def split: sum.splits) (metis prod.collapse)
  qed
  have "list_all (\<lambda>p. ip_reference p \<noteq> ''ref-5'') (ac_payments acc4)" by code_simp
  then have "\<forall>p \<in> set (ac_payments acc4). ip_reference p \<noteq> ''ref-5''" by (simp only: list_all_iff)
  with payment_refused[OF w(1), of "demo_payment ''ref-5'' 1"] w(2) show ?thesis by (simp add: demo_payment_def)
qed

end
