(* ===== verification/AccountingReports.thy ===== *)
theory AccountingReports
  imports AccountingProperties
begin

text \<open>
  Properties of the list and export endpoints, of payments that are not whole kobo, and of the
  decisions on payment requests.
\<close>

section \<open>Exports\<close>

text \<open>A spreadsheet that reads an exported line gets back every cell, with an apostrophe in front
  of the cells that would start a formula: no cell it reads starts with one of \<open>= + - @\<close>, and a
  cell without such a start is read unchanged, whatever quotes, commas or line breaks it holds.\<close>

theorem csv_cells_survive:
  assumes "cells \<noteq> []"
  shows "read_line (csv_line cells) = Some (map defused cells) \<and>
    (\<forall>c \<in> set (map defused cells). \<not> formula_like c) \<and> (\<forall>c \<in> set cells. \<not> formula_like c \<longrightarrow> defused c = c)"
proof (intro conjI ballI impI)
  fix c assume "c \<in> set (map defused cells)"
  then show "\<not> formula_like c" using defused_safe by auto
qed (simp_all add: read_csv_line[OF assms] defused_def)

lemma csv_cells_survive_witness:
  "read_line (csv_line [''=SUM(A1)'', ''a \"quoted\", b'']) = Some [CHR 0x27 # ''=SUM(A1)'', ''a \"quoted\", b'']"
  using csv_cells_survive[of "[''=SUM(A1)'', ''a \"quoted\", b'']"] by (simp add: defused_def formula_like_def)

text \<open>The export loop ends, and its file holds one line for each invoice that matches the filter, in
  the requested order, none missing and none twice, whatever the number of pages; the stored data
  are left as they were.\<close>

theorem export_is_complete:
  assumes "exportInvoices Y n like order org q user d = (Inr file, d')"
  shows "file = csv_file (invoice_header #
      map (\<lambda>v. invoice_cells d (invoiceView v (invoice_paid (ac_payments d) (iv_id v)) (fr_now n)))
        (order (pq_sortBy q) (pq_sortOrder q) (invoice_rows like org (fr_now n) q d))) \<and>
    ac_invoices d' = ac_invoices d \<and> ac_payments d' = ac_payments d \<and> ac_history d' = ac_history d"
  using assms unfolding exportInvoices_def
  by (auto simp: run_simps collect_all[of 100, simplified] dest: audit_acc_elsewhere)

definition any_query :: invoice_query where
  "any_query = \<lparr> pq_search = None, pq_status = ''ALL'', pq_page = 1, pq_limit = 20, pq_sortBy = ''createdAt'',
     pq_sortOrder = ''desc'', vq_client = None, vq_agent = None, vq_project = None, vq_fromDate = None, vq_toDate = None \<rparr>"

lemma export_is_complete_witness:
  "\<exists>file d'. exportInvoices demo_audit (acc_fresh 60 ''e6'') (=) (\<lambda>_ _. rev) ''o1'' any_query demo_user acc4 = (Inr file, d') \<and>
     ac_invoices d' = ac_invoices acc4"
proof -
  have "\<not> isl (fst (audit_acc demo_audit (acc_fresh 60 ''e6'') ''o1'' demo_user ''ACCOUNTING_INVOICES_EXPORTED'' ''INVOICE''
      ''export'' ''Exported filtered invoices'' None acc4))" by code_simp
  from succeeded[OF this] obtain u d1 where "audit_acc demo_audit (acc_fresh 60 ''e6'') ''o1'' demo_user
      ''ACCOUNTING_INVOICES_EXPORTED'' ''INVOICE'' ''export'' ''Exported filtered invoices'' None acc4 = (Inr u, d1)" by blast
  then obtain content d' where "exportInvoices demo_audit (acc_fresh 60 ''e6'') (=) (\<lambda>_ _. rev) ''o1'' any_query demo_user acc4 = (Inr content, d')"
    unfolding exportInvoices_def bnd_def reads_def ret_def by simp
  with export_is_complete[OF this] show ?thesis by blast
qed

section \<open>Searching among overdue invoices\<close>

text \<open>A search text switches the OVERDUE filter off: the search clause takes the place of the status
  clause in the filter, so the list of overdue invoices that match a text is the list of all
  invoices that match it, drafts and paid ones included.\<close>

theorem overdue_search_ignores_status:
  assumes "pq_status q = ''OVERDUE''" and "pq_search q = Some t" and "t \<noteq> []"
  shows "invoice_rows like org now q d = invoice_rows like org now (q\<lparr>pq_status := ''ALL''\<rparr>) d"
  using assms by (auto simp: invoice_rows_def invoice_where_def falsy_def searching_def intro!: filter_cong)

lemma overdue_search_ignores_status_witness:
  "map iv_status (invoice_rows (\<lambda>a b. True) ''o1'' 9999 (any_query\<lparr>pq_status := ''OVERDUE'', pq_search := Some ''INV''\<rparr>) acc4) = [''PAID'']"
proof -
  have "map iv_status (invoice_rows (\<lambda>a b. True) ''o1'' 9999 (any_query\<lparr>pq_status := ''ALL'', pq_search := Some ''INV''\<rparr>) acc4) = [''PAID'']"
    by code_simp
  then show ?thesis by (subst overdue_search_ignores_status[where t = "''INV''"]) (simp_all add: any_query_def)
qed

section \<open>Payments below the kobo\<close>

text \<open>A payment below the balance that rounds to it on storage leaves the invoice PARTIALLY_PAID
  although nothing is due any more: the balance shown is zero, no payment is offered, and by the
  refusal of payments above the balance no later payment can close it.\<close>

theorem rounded_payment_never_closes:
  assumes "receivePayment Y n org i inp user d = (Inr u, d')" and "find (owned iv_id iv_org org i) (ac_invoices d) = Some v"
    and "py_amount inp < invoiceReceivable v - invoice_paid (ac_payments d) i"
    and "cents (py_amount inp) = invoiceReceivable v - invoice_paid (ac_payments d) i"
  shows "\<exists>w. getInvoiceById now org i d' = (Inr w, d') \<and> iv_status (vw_invoice w) = ''PARTIALLY_PAID'' \<and>
    vw_balanceDue w = 0 \<and> \<not> vw_recordPayment w"
  using assms(1)
proof (rule receive_run)
  fix v' p h st
  assume v': "find (owned iv_id iv_org org i) (ac_invoices d) = Some v'"
    and st: "st = (if py_amount inp = invoiceReceivable v' - invoice_paid (ac_payments d) i then ''PAID'' else ''PARTIALLY_PAID'')"
    and d': "ac_invoices d' = updateMany (\<lambda>w. iv_id w = i) (settle_invoice st (keep (py_paidAt inp) (fr_now n)) (py_reference inp)) (ac_invoices d)"
      "ac_payments d' = ac_payments d @ [p]"
    and p: "ip_invoice p = i" "ip_amount p = cents (py_amount inp)"
  from v' assms(2) have "v' = v" by simp
  with st assms(3) have st: "st = ''PARTIALLY_PAID''" by simp
  have found: "find (owned iv_id iv_org org i) (ac_invoices d') =
      Some (settle_invoice st (keep (py_paidAt inp) (fr_now n)) (py_reference inp) v)"
    using find_settled[OF assms(2)] d' by simp
  have "invoice_paid (ac_payments d') i = invoiceReceivable v"
    using p assms(4) d' by (simp add: invoice_paid_def)
  moreover have "invoiceReceivable (settle_invoice st t r v) = invoiceReceivable v" for t r by (simp add: settle_invoice_def)
  ultimately show ?thesis using found st
    by (simp add: run_getInvoice invoiceView_def Let_def settle_invoice_def)
qed

lemma rounded_payment_never_closes_witness:
  "\<exists>d' w. receivePayment demo_audit (acc_fresh 30 ''p3'') ''o1'' ''v1'' (demo_payment ''ref-3'' (102499/1000)) demo_user acc2 = (Inr (), d') \<and>
     getInvoiceById 31 ''o1'' ''v1'' d' = (Inr w, d') \<and> iv_status (vw_invoice w) = ''PARTIALLY_PAID'' \<and> vw_balanceDue w = 0"
proof -
  let ?run = "receivePayment demo_audit (acc_fresh 30 ''p3'') ''o1'' ''v1'' (demo_payment ''ref-3'' (102499/1000)) demo_user acc2"
  have "\<not> isl (fst ?run)" by code_simp
  from succeeded[OF this] obtain d' where run: "?run = (Inr (), d')" by auto
  have c: "case find (owned iv_id iv_org ''o1'' ''v1'') (ac_invoices acc2) of None \<Rightarrow> False
      | Some v \<Rightarrow> 102499/1000 < invoiceReceivable v - invoice_paid (ac_payments acc2) ''v1'' \<and>
          cents (102499/1000) = invoiceReceivable v - invoice_paid (ac_payments acc2) ''v1''" by code_simp
  then obtain v where v: "find (owned iv_id iv_org ''o1'' ''v1'') (ac_invoices acc2) = Some v" by (auto split: option.splits)
  with c have "py_amount (demo_payment ''ref-3'' (102499/1000)) < invoiceReceivable v - invoice_paid (ac_payments acc2) ''v1''"
    "cents (py_amount (demo_payment ''ref-3'' (102499/1000))) = invoiceReceivable v - invoice_paid (ac_payments acc2) ''v1''"
    by (simp_all add: demo_payment_def)
  with rounded_payment_never_closes[OF run v, of 31] run show ?thesis by blast
qed

end
