(* ===== verification/RequestProperties.thy ===== *)
theory RequestProperties
  imports AccountingProperties
begin

text \<open>
  Properties of payment requests: a decision is taken once, and a manual disbursement pays exactly
  the approved amount, once.
\<close>

section \<open>Decisions\<close>

lemma run_owned_request [run_simps]:
  "paymentRequestOwned org i f = (Inr q, f') \<longleftrightarrow> find (owned q_id q_org org i) (db_requests f) = Some q \<and> f' = f"
  by (auto simp: paymentRequestOwned_def run_simps)

lemma run_in_fin [run_simps]: "in_fin m d = (r, d') \<longleftrightarrow> (\<exists>f. m (ac_fin d) = (r, f) \<and> d' = d\<lparr>ac_fin := f\<rparr>)"
  by (simp add: in_fin_def run_zoom)

lemma audit_acc_requests:
  "audit_acc Y n org user action resource i summary metadata d = (r, d') \<Longrightarrow>
   db_requests (ac_fin d') = db_requests (ac_fin d) \<and> db_wallets (ac_fin d') = db_wallets (ac_fin d)"
  by (auto simp: audit_acc_def in_fin_def run_simps)

text \<open>With unique ids, the conditional update hits the row that was read.\<close>

lemma decided_row:
  assumes ids: "distinct (map q_id qs)" and old: "find (owned q_id q_org org i) qs = Some old" "q_status old = st"
    and f: "\<And>q. q_id (f q) = q_id q" "\<And>q. q_org (f q) = q_org q"
  shows "updateMany (\<lambda>q. q_id q = i \<and> q_org q = org \<and> q_status q = st) f qs = map (\<lambda>q. if q_id q = i then f old else q) qs"
    and "find (owned q_id q_org org i) (map (\<lambda>q. if q_id q = i then f old else q) qs) = Some (f old)"
proof -
  have o: "old \<in> set qs" "q_id old = i" "q_org old = org" using find_SomeD[OF old(1)] by (auto simp: owned_def)
  have only: "q = old" if "q \<in> set qs" "q_id q = i" for q using ids o that by (auto simp: distinct_map dest: inj_onD)
  show "updateMany (\<lambda>q. q_id q = i \<and> q_org q = org \<and> q_status q = st) f qs = map (\<lambda>q. if q_id q = i then f old else q) qs"
    unfolding updateMany_def
  proof (rule map_cong[OF refl])
    fix q assume "q \<in> set qs"
    from only[OF this] o old(2)
    show "(if q_id q = i \<and> q_org q = org \<and> q_status q = st then f q else q) = (if q_id q = i then f old else q)"
      by (cases "q_id q = i") simp_all
  qed
  have "find (owned q_id q_org org i) (map (\<lambda>q. if q_id q = i then f old else q) rs) = Some (f old)"
    if "find (owned q_id q_org org i) rs = Some old" "set rs \<subseteq> set qs" for rs
    using that by (induction rs) (use o f in \<open>auto simp: owned_def split: if_splits\<close>)
  then show "find (owned q_id q_org org i) (map (\<lambda>q. if q_id q = i then f old else q) qs) = Some (f old)" using old(1) by blast
qed

lemma not_pending_again:
  assumes "find (owned q_id q_org org i) (db_requests (ac_fin d)) = Some q" and "q_status q \<noteq> ''PENDING''"
  shows "approvePaymentRequest Y n org i user d = (Inl (conflict ''Only pending payment requests can be approved''), d)"
    and "declinePaymentRequest Y n org i reason user d = (Inl (conflict ''Only pending payment requests can be declined''), d)"
  using assms
  by (simp_all add: approvePaymentRequest_def declinePaymentRequest_def in_fin_def zoom_def paymentRequestOwned_def
      find_row_def bnd_def reads_def required_def ret_def guard_def raise_def)

text \<open>C16: An approval takes a pending request to APPROVED and records who approved it and when; no other
  request and no wallet changes. From then on every approval and every decline of that request is
  refused and changes nothing.\<close>

theorem approved_once:
  assumes "approvePaymentRequest Y n org i user d = (Inr q, d')" and "distinct (map q_id (db_requests (ac_fin d)))"
  shows "(\<exists>old \<in> set (db_requests (ac_fin d)). q_id old = i \<and> q_org old = org \<and> q_status old = ''PENDING'' \<and>
      q = old\<lparr>q_status := ''APPROVED'', q_approvedBy := Some (u_id user), q_approvedAt := Some (fr_now n)\<rparr>) \<and>
    db_requests (ac_fin d') = map (\<lambda>r. if q_id r = i then q else r) (db_requests (ac_fin d)) \<and>
    db_wallets (ac_fin d') = db_wallets (ac_fin d) \<and>
    approvePaymentRequest Y' n' org i user' d' = (Inl (conflict ''Only pending payment requests can be approved''), d') \<and>
    declinePaymentRequest Y' n' org i reason user' d' = (Inl (conflict ''Only pending payment requests can be declined''), d')"
proof -
  let ?f = "\<lambda>q. q\<lparr>q_status := ''APPROVED'', q_approvedBy := Some (u_id user), q_approvedAt := Some (fr_now n)\<rparr>"
  let ?qs = "db_requests (ac_fin d)"
  obtain old where old: "find (owned q_id q_org org i) ?qs = Some old" "q_status old = ''PENDING''"
    and q: "find (owned q_id q_org org i) (updateMany (\<lambda>q. q_id q = i \<and> q_org q = org \<and> q_status q = ''PENDING'') ?f ?qs) = Some q"
    and d': "db_requests (ac_fin d') = updateMany (\<lambda>q. q_id q = i \<and> q_org q = org \<and> q_status q = ''PENDING'') ?f ?qs"
      "db_wallets (ac_fin d') = db_wallets (ac_fin d)"
    using assms(1) unfolding approvePaymentRequest_def decide_def
    by (auto simp: run_simps dest!: audit_acc_requests)
  have rows: "updateMany (\<lambda>q. q_id q = i \<and> q_org q = org \<and> q_status q = ''PENDING'') ?f ?qs = map (\<lambda>q. if q_id q = i then ?f old else q) ?qs"
    and found: "find (owned q_id q_org org i) (map (\<lambda>q. if q_id q = i then ?f old else q) ?qs) = Some (?f old)"
    using decided_row[OF assms(2) old, of ?f] by simp_all
  from q rows found have q: "q = ?f old" by simp
  have o: "old \<in> set ?qs" "q_id old = i" "q_org old = org" using find_SomeD[OF old(1)] by (auto simp: owned_def)
  have "find (owned q_id q_org org i) (db_requests (ac_fin d')) = Some q" using d' rows found q by simp
  moreover have "q_status q \<noteq> ''PENDING''" by (simp add: q)
  ultimately show ?thesis using not_pending_again o old(2) d' rows q by auto
qed

definition req0 :: acc_db where
  "req0 = acc0\<lparr>ac_fin := demo1\<lparr>db_requests := [demo_request\<lparr>q_status := ''PENDING''\<rparr>]\<rparr>\<rparr>"

lemma approved_once_witness:
  "\<exists>d'. approvePaymentRequest demo_audit (acc_fresh 80 ''a8'') ''o1'' ''r1'' demo_user d' =
     (Inl (conflict ''Only pending payment requests can be approved''), d') \<and> map q_status (db_requests (ac_fin d')) = [''APPROVED'']"
proof -
  have "\<not> isl (fst (approvePaymentRequest demo_audit (acc_fresh 80 ''a8'') ''o1'' ''r1'' demo_user req0))" by code_simp
  from succeeded[OF this] obtain q d' where run: "approvePaymentRequest demo_audit (acc_fresh 80 ''a8'') ''o1'' ''r1'' demo_user req0 = (Inr q, d')"
    by blast
  have ids: "distinct (map q_id (db_requests (ac_fin req0)))" by (simp add: req0_def)
  have "q_id (demo_request\<lparr>q_status := ''PENDING''\<rparr>) = ''r1''" by (simp add: demo_request_def)
  with approved_once[OF run ids] have "map q_status (db_requests (ac_fin d')) = [''APPROVED'']" by (auto simp: req0_def)
  moreover have "approvePaymentRequest demo_audit (acc_fresh 80 ''a8'') ''o1'' ''r1'' demo_user d' =
      (Inl (conflict ''Only pending payment requests can be approved''), d')"
    by (rule approved_once[OF run ids, THEN conjunct2, THEN conjunct2, THEN conjunct2, THEN conjunct1])
  ultimately show ?thesis by (intro exI[of _ d'] conjI)
qed

section \<open>Manual disbursement\<close>

lemma manual_run:
  assumes "completeManualSettlement E n src inp fin f = (Inr (s, res, False), f')"
  obtains existing where "manual_settle n src inp fin existing f = (Inr (s, res, False), f')"
  using assms unfolding completeManualSettlement_def on_P2002_def find_source_def
  by (auto simp: run_simps run_catching_ok split: option.splits if_splits)

lemma mark_paid_run:
  assumes "mark_paid org i s l f = (Inr q, f')"
  shows "f' = f\<lparr>db_requests := updateMany (\<lambda>q. q_id q = i \<and> q_org q = org \<and> q_status q = ''APPROVED'')
      (\<lambda>q. q\<lparr>q_status := ''PAID'', q_disbursementReference := Some (s_internalReference s), q_disbursedAt := s_settledAt s\<rparr>) (db_requests f)\<rparr> \<and>
    countWhere (\<lambda>q. q_id q = i \<and> q_org q = org \<and> q_status q = ''APPROVED'') (db_requests f) = 1 \<and>
    find (\<lambda>q. q_id q = i) (db_requests f') = Some q"
  using assms unfolding mark_paid_def by (auto simp: run_simps)

lemma settled_by_hand:
  assumes "settleByHand E Y n org i key ref settledAt note old src user f = (Inr (Settled q s False), f')"
  obtains res f1 where "completeManualSettlement E n src
      \<lparr> mi_idempotencyKey = key, mi_externalReference = ref, mi_settledAt = settledAt, mi_note = note \<rparr> (mark_paid org i) f = (Inr (s, res, False), f1)"
    "case res of None \<Rightarrow> True | Some x \<Rightarrow> q = x"
    "db_wallets f' = db_wallets f1" "db_ledger f' = db_ledger f1" "db_requests f' = db_requests f1"
proof -
  from assms obtain st res rp f1 f2 where m: "completeManualSettlement E n src
      \<lparr> mi_idempotencyKey = key, mi_externalReference = ref, mi_settledAt = settledAt, mi_note = note \<rparr> (mark_paid org i) f = (Inr (st, res, rp), f1)"
    and "\<exists>u inp. audited Y (n_now n) inp f1 = (Inr u, f2)"
    and r: "bnd (case res of Some q \<Rightarrow> ret q | None \<Rightarrow> paymentRequestOwned org i) (\<lambda>request. ret (Settled request st rp)) f2 = (Inr (Settled q s False), f')"
    unfolding settleByHand_def by (auto simp: run_bnd_ok split: prod.splits) blast
  then obtain a where f2: "f2 = f1\<lparr>db_audit := a\<rparr>" by (auto simp: run_simps)
  from r have "st = s" "rp = False" "f' = f2" "case res of None \<Rightarrow> True | Some x \<Rightarrow> q = x"
    by (cases res; auto simp: run_simps)+
  with m f2 show ?thesis by (intro that[of res f1]) simp_all
qed

lemma by_hand_run:
  assumes "disbursePaymentRequest E Y n n' P org i walletId key (ByHand ref settledAt note) user f = (Inr (Settled q s False), f')"
  obtains old w res f1 where "find (owned q_id q_org org i) (db_requests f) = Some old" "q_status old = ''APPROVED''"
    "\<not> falsy (q_accountNumber old)" "\<not> falsy (q_accountName old)"
    "find (wallet_key org walletId) (db_wallets f) = Some w"
    "completeManualSettlement E n (request_source org w old user)
      \<lparr> mi_idempotencyKey = key, mi_externalReference = ref, mi_settledAt = settledAt, mi_note = note \<rparr> (mark_paid org i) f = (Inr (s, res, False), f1)"
    "case res of None \<Rightarrow> True | Some x \<Rightarrow> q = x"
    "db_wallets f' = db_wallets f1" "db_ledger f' = db_ledger f1" "db_requests f' = db_requests f1"
proof -
  have "replayDisbursement org i key x f \<noteq> (Inr (Settled q s False), f')" for x
    unfolding replayDisbursement_def by (auto simp: run_simps split: option.splits)
  with assms obtain old w where *: "find (owned q_id q_org org i) (db_requests f) = Some old" "q_status old = ''APPROVED''"
    "\<not> falsy (q_accountNumber old)" "\<not> falsy (q_accountName old)"
    "find (wallet_key org walletId) (db_wallets f) = Some w"
    and h: "settleByHand E Y n org i key ref settledAt note old (request_source org w old user) user f = (Inr (Settled q s False), f')"
    unfolding disbursePaymentRequest_def by (simp add: run_simps split: if_splits) blast
  from h show ?thesis by (rule settled_by_hand) (rule that[OF *])
qed

text \<open>C17: A manual disbursement that is not a replay happens to an APPROVED request with a bank destination
  only, takes exactly the requested amount from the spendable balance of the chosen wallet, writes
  one debit row of that amount for the request, and marks the request PAID under a settlement that
  is SUCCEEDED; no other request and no other wallet changes.\<close>

theorem manual_disbursement_pays_once:
  assumes run: "disbursePaymentRequest E Y n n' P org i walletId key (ByHand ref settledAt note) user f = (Inr (Settled q s False), f')"
    and ok: "wallets_ok f" and ids: "distinct (map q_id (db_requests f))"
  shows "\<exists>old w l. old \<in> set (db_requests f) \<and> q_id old = i \<and> q_org old = org \<and> q_status old = ''APPROVED'' \<and>
    q_accountNumber old \<noteq> None \<and> q_accountName old \<noteq> None \<and>
    find (wallet_key org walletId) (db_wallets f) = Some w \<and> q_amount old \<le> w_balance w - w_reserved w \<and>
    db_wallets f' = db_wallets (post_wallet org walletId (- q_amount old) 0 f) \<and>
    db_ledger f' = db_ledger f @ [l] \<and> t_amount l = q_amount old \<and> t_direction l = ''DEBIT'' \<and> t_sourceId l = Some i \<and>
    s_status s = SUCCEEDED \<and>
    q = old\<lparr>q_status := ''PAID'', q_disbursementReference := Some (s_internalReference s), q_disbursedAt := s_settledAt s\<rparr> \<and>
    db_requests f' = map (\<lambda>r. if q_id r = i then q else r) (db_requests f)"
proof -
  let ?inp = "\<lparr> mi_idempotencyKey = key, mi_externalReference = ref, mi_settledAt = settledAt, mi_note = note \<rparr>"
  obtain old w res f1 where old: "find (owned q_id q_org org i) (db_requests f) = Some old" "q_status old = ''APPROVED''"
    and bank: "\<not> falsy (q_accountNumber old)" "\<not> falsy (q_accountName old)"
    and w: "find (wallet_key org walletId) (db_wallets f) = Some w"
    and m: "completeManualSettlement E n (request_source org w old user) ?inp (mark_paid org i) f = (Inr (s, res, False), f1)"
    and res: "case res of None \<Rightarrow> True | Some x \<Rightarrow> q = x"
    and same: "db_wallets f' = db_wallets f1" "db_ledger f' = db_ledger f1" "db_requests f' = db_requests f1"
    by (rule by_hand_run[OF run])
  have "w_id w = walletId" using find_SomeD[OF w] by (simp add: wallet_key_def)
  let ?src = "request_source org w old user"
  obtain existing where ms: "manual_settle n ?src ?inp (mark_paid org i) existing f = (Inr (s, res, False), f1)"
    using manual_run[OF m] .
  have src: "src_org ?src = org" "src_wallet ?src = walletId" "src_amount ?src = q_amount old" "src_id ?src = q_id old"
    using \<open>w_id w = walletId\<close> by (simp_all add: request_source_def)
  from manual_settle_run[OF ok ms, unfolded src] obtain w' st l x ss
    where w': "find (wallet_key org walletId) (db_wallets f) = Some w'" "q_amount old \<le> w_balance w' - w_reserved w'"
      and l: "l = manual_ledger n ?src ?inp st (w_balance w') (w_balance w' - q_amount old)"
      and s: "s_status s = SUCCEEDED"
      and paid: "mark_paid org i s (n_ledgerId n)
        ((post_wallet org walletId (- q_amount old) 0 f)\<lparr>db_ledger := db_ledger f @ [l], db_settlements := ss\<rparr>) = (Inr x, f1)"
      and x: "res = Some x"
    by auto
  have o: "old \<in> set (db_requests f)" "q_id old = i" "q_org old = org" using find_SomeD[OF old(1)] by (auto simp: owned_def)
  let ?f = "\<lambda>q. q\<lparr>q_status := ''PAID'', q_disbursementReference := Some (s_internalReference s), q_disbursedAt := s_settledAt s\<rparr>"
  have rows: "updateMany (\<lambda>q. q_id q = i \<and> q_org q = org \<and> q_status q = ''APPROVED'') ?f (db_requests f) =
      map (\<lambda>q. if q_id q = i then ?f old else q) (db_requests f)"
    "find (owned q_id q_org org i) (map (\<lambda>q. if q_id q = i then ?f old else q) (db_requests f)) = Some (?f old)"
    using decided_row[OF ids old, of ?f] by simp_all
  have f1: "db_requests f1 = map (\<lambda>q. if q_id q = i then ?f old else q) (db_requests f)"
    "db_wallets f1 = db_wallets (post_wallet org walletId (- q_amount old) 0 f)" "db_ledger f1 = db_ledger f @ [l]"
    and found: "find (\<lambda>q. q_id q = i) (db_requests f1) = Some x"
    using mark_paid_run[OF paid] rows(1) by (auto simp: post_wallet_def)
  have "q = ?f old"
  proof -
    have "x \<in> set (db_requests f1)" "q_id x = i" using find_SomeD[OF found] by auto
    then have "x = ?f old" using o by (auto simp: f1 split: if_splits)
    with res x show ?thesis by simp
  qed
  moreover have "t_amount l = q_amount old" "t_direction l = ''DEBIT''" "t_sourceId l = Some i"
    using l src o by (simp_all add: manual_ledger_def)
  ultimately show ?thesis using old o bank w' s f1 same
    by (intro exI[of _ old] exI[of _ w'] exI[of _ l]) (auto simp: falsy_def)
qed

lemma settled_result:
  "case fst p of Inr (Settled _ _ replay) \<Rightarrow> \<not> replay | _ \<Rightarrow> False \<Longrightarrow> \<exists>q s f'. p = (Inr (Settled q s False), f')"
  by (cases p) (auto split: sum.splits disbursement.splits)

definition demo_funds :: wallet where
  "demo_funds = demo_wallet\<lparr>w_balance := 1000\<rparr>"

lemma demo1_rows: "db_requests demo1 = [demo_request]" "find (wallet_key ''o1'' ''w1'') (db_wallets demo1) = Some demo_funds"
  by code_simp+

lemma demo_settled_by_hand:
  "\<exists>q s f'. settleByHand demo_env demo_audit (demo_stamps 20 ''2'') ''o1'' ''r1'' ''key-1'' ''bank-1'' 15 ''cash'' demo_request
     (request_source ''o1'' demo_funds demo_request demo_user) demo_user demo1 = (Inr (Settled q s False), f')"
  by (rule settled_result) code_simp

lemma manual_disbursement_pays_once_witness:
  "\<exists>q s f'. disbursePaymentRequest demo_env demo_audit (demo_stamps 20 ''2'') (demo_stamps 21 ''2b'') demo_paid ''o1'' ''r1'' ''w1'' ''key-1''
     (ByHand ''bank-1'' 15 ''cash'') demo_user demo1 = (Inr (Settled q s False), f') \<and> q_status q = ''PAID'' \<and> s_status s = SUCCEEDED"
proof -
  obtain q s f' where h: "settleByHand demo_env demo_audit (demo_stamps 20 ''2'') ''o1'' ''r1'' ''key-1'' ''bank-1'' 15 ''cash'' demo_request
     (request_source ''o1'' demo_funds demo_request demo_user) demo_user demo1 = (Inr (Settled q s False), f')"
    using demo_settled_by_hand by blast
  have r: "owned q_id q_org ''o1'' ''r1'' demo_request" "q_status demo_request = ''APPROVED''" "\<not> falsy (q_bankName demo_request)"
    "\<not> falsy (q_accountNumber demo_request)" "\<not> falsy (q_accountName demo_request)" "q_id demo_request = ''r1''"
    by (simp_all add: demo_request_def owned_def falsy_def)
  have run: "disbursePaymentRequest demo_env demo_audit (demo_stamps 20 ''2'') (demo_stamps 21 ''2b'') demo_paid ''o1'' ''r1'' ''w1'' ''key-1''
     (ByHand ''bank-1'' 15 ''cash'') demo_user demo1 = (Inr (Settled q s False), f')"
    using h r demo1_rows
    by (simp add: disbursePaymentRequest_def paymentRequestOwned_def find_row_def bnd_def reads_def required_def guard_def ret_def)
  note wallets = fin_inv_wallets[OF reached_inv[OF demo_initial demo_reach1], THEN conjunct1]
  have ids: "distinct (map q_id (db_requests demo1))" by (simp add: demo1_rows)
  from manual_disbursement_pays_once[OF run wallets ids] obtain old where s: "s_status s = SUCCEEDED"
    and q: "q = old\<lparr>q_status := ''PAID'', q_disbursementReference := Some (s_internalReference s), q_disbursedAt := s_settledAt s\<rparr>"
    by (elim exE conjE)
  have "q_status q = ''PAID''" unfolding q by simp
  with run s show ?thesis by (intro exI conjI)
qed

end
