(* ===== verification/Addresses.thy ===== *)
theory Addresses
  imports Provider
begin

text \<open>
  Where a request comes from: Node's \<open>net.isIP\<close> and \<open>net.BlockList\<close> as the code uses them,
  src/core/request-metadata.ts (client address, public addresses, geolocation) and
  \<open>isIpAllowed\<close> of src/modules/auth/auth.service.ts. The country names of \<open>Intl.DisplayNames\<close>
  and the HTTP client are parameters.
\<close>

section \<open>Number(string)\<close>

definition all_digits :: "string \<Rightarrow> bool" where
  "all_digits s \<longleftrightarrow> list_all is_digit_char s"

definition decimal_value :: "string \<Rightarrow> int" where
  "decimal_value s = foldl (\<lambda>n c. 10 * n + (of_char c - 48)) 0 s"

definition hex_value :: "char \<Rightarrow> int option" where
  "hex_value c =
     (if is_digit_char c then Some (of_char c - 48)
      else if 97 \<le> (of_char (lower_char c) :: int) \<and> (of_char (lower_char c) :: int) \<le> 102
      then Some (of_char (lower_char c) - 87) else None)"

fun radix_value :: "int \<Rightarrow> int \<Rightarrow> string \<Rightarrow> int option" where
  "radix_value b n [] = Some n"
| "radix_value b n (c # s) =
     (case hex_value c of None \<Rightarrow> None | Some d \<Rightarrow> if d < b then radix_value b (b * n + d) s else None)"

text \<open>A sign and the rest.\<close>

definition signed :: "string \<Rightarrow> rat \<times> string" where
  "signed s =
     (if starts_with ''-'' s then (- 1, drop 1 s) else if starts_with ''+'' s then (1, drop 1 s) else (1, s))"

text \<open>\<open>digits [. digits] [e [sign] digits]\<close>, at least one digit around the point.\<close>

definition js_exponent :: "string \<Rightarrow> int option" where
  "js_exponent e =
     (let (sg, ds) = signed e
      in if ds \<noteq> [] \<and> all_digits ds then Some (\<lfloor>sg\<rfloor> * decimal_value ds) else None)"

definition js_decimal :: "string \<Rightarrow> rat option" where
  "js_decimal s =
     (let w = takeWhile is_digit_char s;
          r1 = dropWhile is_digit_char s;
          f = (if starts_with ''.'' r1 then takeWhile is_digit_char (drop 1 r1) else []);
          r2 = (if starts_with ''.'' r1 then dropWhile is_digit_char (drop 1 r1) else r1);
          m = of_int (decimal_value (w @ f)) / 10 ^ length f
      in if w = [] \<and> f = [] then None
         else if r2 = [] then Some m
         else if lower_char (hd r2) = CHR ''e''
         then (case js_exponent (drop 1 r2) of None \<Rightarrow> None
               | Some e \<Rightarrow> Some (if 0 \<le> e then m * 10 ^ nat e else m / 10 ^ nat (- e)))
         else None)"

text \<open>\<open>Number(s)\<close> for a string, as an exact value: None for NaN and the infinities.\<close>

definition js_number :: "string \<Rightarrow> rat option" where
  "js_number s0 =
     (let s = trim s0; p = toLower (take 2 s); d = drop 2 s
      in if s = [] then Some 0
         else if p = ''0x'' then (if d = [] then None else map_option of_int (radix_value 16 0 d))
         else if p = ''0o'' then (if d = [] then None else map_option of_int (radix_value 8 0 d))
         else if p = ''0b'' then (if d = [] then None else map_option of_int (radix_value 2 0 d))
         else (case signed s of (sg, u) \<Rightarrow> map_option (\<lambda>v. sg * v) (js_decimal u)))"

section \<open>node:net\<close>

text \<open>An IPv4 address is four decimal octets without leading zeros; its value is 32 bits.\<close>

definition octet :: "string \<Rightarrow> int option" where
  "octet s =
     (if s \<noteq> [] \<and> all_digits s \<and> length s \<le> 3 \<and> (length s = 1 \<or> hd s \<noteq> CHR ''0'') \<and> decimal_value s \<le> 255
      then Some (decimal_value s) else None)"

definition parse_ipv4 :: "string \<Rightarrow> int option" where
  "parse_ipv4 s =
     (case map octet (split_on CHR ''.'' s) of
        [Some a, Some b, Some c, Some d] \<Rightarrow> Some (((a * 256 + b) * 256 + c) * 256 + d)
      | _ \<Rightarrow> None)"

definition hextet :: "string \<Rightarrow> int option" where
  "hextet s = (if s \<noteq> [] \<and> length s \<le> 4 then radix_value 16 0 s else None)"

text \<open>The groups of one side of an IPv6 address; only the last may be an IPv4 address, two groups.\<close>

fun ipv6_groups :: "bool \<Rightarrow> string list \<Rightarrow> int list option" where
  "ipv6_groups v4 [] = Some []"
| "ipv6_groups v4 [s] =
     (case hextet s of Some h \<Rightarrow> Some [h]
      | None \<Rightarrow> (if v4 then map_option (\<lambda>n. [n div 65536, n mod 65536]) (parse_ipv4 s) else None))"
| "ipv6_groups v4 (s # t # ss) =
     (case (hextet s, ipv6_groups v4 (t # ss)) of (Some h, Some hs) \<Rightarrow> Some (h # hs) | _ \<Rightarrow> None)"

definition side_groups :: "bool \<Rightarrow> string \<Rightarrow> int list option" where
  "side_groups v4 s = (if s = [] then Some [] else ipv6_groups v4 (split_on CHR '':'' s))"

text \<open>The text before and after the first \<open>::\<close>.\<close>

fun split_gap :: "string \<Rightarrow> (string \<times> string) option" where
  "split_gap (c # d # s) =
     (if c = CHR '':'' \<and> d = CHR '':'' then Some ([], s)
      else map_option (\<lambda>(a, b). (c # a, b)) (split_gap (d # s)))"
| "split_gap _ = None"

definition zone_char :: "char \<Rightarrow> bool" where
  "zone_char c \<longleftrightarrow> is_alnum_char c \<or> c \<in> {CHR ''-'', CHR ''.'', CHR '':''}"

definition ipv6_value :: "int list \<Rightarrow> int" where
  "ipv6_value gs = foldl (\<lambda>n g. n * 65536 + g) 0 gs"

definition parse_ipv6 :: "string \<Rightarrow> int option" where
  "parse_ipv6 s0 =
     (case split_on CHR ''%'' s0 of
        s # zone \<Rightarrow>
          if \<not> (zone = [] \<or> (length zone = 1 \<and> hd zone \<noteq> [] \<and> list_all zone_char (hd zone))) then None
          else (case split_gap s of
             None \<Rightarrow> (case side_groups True s of
                Some gs \<Rightarrow> if length gs = 8 then Some (ipv6_value gs) else None
              | None \<Rightarrow> None)
           | Some (a, b) \<Rightarrow> (case (side_groups False a, side_groups True b) of
                (Some ga, Some gb) \<Rightarrow>
                   if length ga + length gb \<le> 7
                   then Some (ipv6_value (ga @ replicate (8 - length ga - length gb) 0 @ gb)) else None
              | _ \<Rightarrow> None))
      | [] \<Rightarrow> None)"

definition isIP :: "string \<Rightarrow> nat" where
  "isIP s = (if parse_ipv4 s \<noteq> None then 4 else if parse_ipv6 s \<noteq> None then 6 else 0)"

definition ip_width :: "nat \<Rightarrow> nat" where
  "ip_width family = (if family = 4 then 32 else 128)"

definition ip_value :: "string \<Rightarrow> int" where
  "ip_value s = (case parse_ipv4 s of Some n \<Rightarrow> n | None \<Rightarrow> (case parse_ipv6 s of Some n \<Rightarrow> n | None \<Rightarrow> 0))"

text \<open>\<open>blockList.addSubnet(net, prefix, family); blockList.check(ip, family)\<close>: the first \<open>prefix\<close> bits
  agree; None when addSubnet throws on the prefix.\<close>

definition subnet_check :: "nat \<Rightarrow> string \<Rightarrow> rat option \<Rightarrow> string \<Rightarrow> bool option" where
  "subnet_check family net prefix ip =
     (case prefix of None \<Rightarrow> None
      | Some p \<Rightarrow>
          if p = of_int \<lfloor>p\<rfloor> \<and> 0 \<le> p \<and> \<lfloor>p\<rfloor> \<le> int (ip_width family)
          then Some (ip_value net div 2 ^ (ip_width family - nat \<lfloor>p\<rfloor>)
                     = ip_value ip div 2 ^ (ip_width family - nat \<lfloor>p\<rfloor>))
          else None)"

section \<open>isIpAllowed\<close>

definition entry_allows :: "string \<Rightarrow> nat \<Rightarrow> string \<Rightarrow> bool" where
  "entry_allows ip family entry =
     (case split_on CHR ''/'' (trim entry) of
        [] \<Rightarrow> False
      | address # rest \<Rightarrow>
          if isIP address = 0 \<or> isIP address \<noteq> family then False
          else (case rest of
                  [] \<Rightarrow> address = ip
                | prefix # _ \<Rightarrow>
                    (case subnet_check family address (js_number prefix) ip of Some b \<Rightarrow> b | None \<Rightarrow> False)))"

definition isIpAllowed :: "string \<Rightarrow> string list \<Rightarrow> bool" where
  "isIpAllowed ip allowlist =
     (if ip = [] \<or> allowlist = [] then False
      else if isIP ip = 0 then False
      else list_ex (entry_allows ip (isIP ip)) allowlist)"

section \<open>src/core/request-metadata.ts\<close>

text \<open>\<open>replace(/^"|"$/g, "")\<close>\<close>

definition unquote :: "string \<Rightarrow> string" where
  "unquote s0 =
     (let s = (if starts_with [CHR 0x22] s0 then drop 1 s0 else s0)
      in if s \<noteq> [] \<and> last s = CHR 0x22 then butlast s else s)"

definition strip_prefix :: "string \<Rightarrow> string \<Rightarrow> string" where
  "strip_prefix p s = (if starts_with p s then drop (length p) s else s)"

text \<open>\<open>/^\[[^\]]+\]:\d+$/\<close>: the text in the brackets.\<close>

definition bracketed :: "string \<Rightarrow> string option" where
  "bracketed s =
     (if starts_with ''['' s
      then (let inner = takeWhile (\<lambda>c. c \<noteq> CHR '']'') (drop 1 s);
                rest = drop (length inner + 1) s
            in if inner \<noteq> [] \<and> starts_with '']:'' rest \<and> drop 2 rest \<noteq> [] \<and> all_digits (drop 2 rest)
               then Some inner else None)
      else None)"

text \<open>\<open>/^\d{1,3}(?:\.\d{1,3}){3}:\d+$/\<close>: the text before the colon.\<close>

definition v4_port :: "string \<Rightarrow> string option" where
  "v4_port s =
     (case split_on CHR '':'' s of
        [a, p] \<Rightarrow>
          if p \<noteq> [] \<and> all_digits p \<and> length (split_on CHR ''.'' a) = 4 \<and>
             list_all (\<lambda>w. w \<noteq> [] \<and> length w \<le> 3 \<and> all_digits w) (split_on CHR ''.'' a)
          then Some a else None
      | _ \<Rightarrow> None)"

definition normalizeIp :: "string option \<Rightarrow> string option" where
  "normalizeIp value =
     (if falsy value then None
      else (let c0 = strip_prefix ''::ffff:'' (unquote (trim (the value)));
                candidate = (case bracketed c0 of
                     Some inner \<Rightarrow> inner
                   | None \<Rightarrow> (case v4_port c0 of Some a \<Rightarrow> a | None \<Rightarrow> c0))
            in if isIP candidate \<noteq> 0 then Some candidate else None))"

record request_meta =
  mt_ip :: "string option"
  mt_userAgent :: "string option"

record location_info =
  lo_city :: "string option"
  lo_state :: "string option"
  lo_country :: "string option"
  lo_timezone :: "string option"
  lo_provider :: "string option"

text \<open>The process environment these functions read, the clock-free HTTP client (a JSON body with
  its \<open>response.ok\<close>, or None for a failed or aborted call) and \<open>Intl.DisplayNames\<close>.\<close>

record geo_env =
  ge_production :: bool
  ge_override :: "string option"
  ge_providerName :: "string option"
  ge_token :: "string option"
  ge_fetch :: "string \<Rightarrow> (bool \<times> json) option"
  ge_countryName :: "string \<Rightarrow> string option"

definition extractClientIp :: "geo_env \<Rightarrow> request_meta \<Rightarrow> string option" where
  "extractClientIp G meta =
     (let developmentOverride = (if ge_production G then None else normalizeIp (ge_override G))
      in case developmentOverride of Some ip \<Rightarrow> Some ip | None \<Rightarrow> normalizeIp (mt_ip meta))"

definition isPublicIp :: "string option \<Rightarrow> bool" where
  "isPublicIp ip0 =
     (case ip0 of None \<Rightarrow> False
      | Some ip \<Rightarrow>
          if ip = [] \<or> isIP ip = 0 then False
          else if isIP ip = 4
          then (let n = map decimal_value (split_on CHR ''.'' ip); a = n ! 0; b = n ! 1; c = n ! 2
                in \<not> (a = 0 \<or> a = 10 \<or> a = 127 \<or> (a = 100 \<and> b \<ge> 64 \<and> b \<le> 127)
                      \<or> (a = 169 \<and> b = 254) \<or> (a = 172 \<and> b \<ge> 16 \<and> b \<le> 31)
                      \<or> (a = 192 \<and> (b = 0 \<or> b = 168 \<or> (b = 0 \<and> c = 2)))
                      \<or> (a = 198 \<and> (b = 18 \<or> b = 19 \<or> (b = 51 \<and> c = 100)))
                      \<or> (a = 203 \<and> b = 0 \<and> c = 113) \<or> a \<ge> 224))
          else (let normalized = toLower ip
                in \<not> (normalized = ''::'' \<or> normalized = ''::1'' \<or> starts_with ''fc'' normalized
                      \<or> starts_with ''fd'' normalized
                      \<or> (starts_with ''fe'' normalized \<and> length normalized > 2 \<and>
                          normalized ! 2 \<in> {CHR ''8'', CHR ''9'', CHR ''a'', CHR ''b''})
                      \<or> starts_with ''ff'' normalized \<or> starts_with ''2001:db8'' normalized)))"

definition countryName :: "geo_env \<Rightarrow> string option \<Rightarrow> string option" where
  "countryName G code =
     (if falsy code then None
      else (case ge_countryName G (toUpper (the code)) of Some n \<Rightarrow> Some n | None \<Rightarrow> code))"

text \<open>\<open>IpInfoGeolocationProvider.lookup\<close>; \<open>configuredIpGeolocationProvider\<close> reads the environment.\<close>

definition ipinfo_lookup :: "geo_env \<Rightarrow> string \<Rightarrow> string \<Rightarrow> location_info option" where
  "ipinfo_lookup G token ip =
     (case ge_fetch G (''https://api.ipinfo.io/lookup/'' @ encodeURIComponent ip @ ''/geo?token=''
             @ encodeURIComponent token) of
        None \<Rightarrow> None
      | Some (ok, geo) \<Rightarrow>
          if \<not> ok then None
          else Some \<lparr> lo_city = jstring (jfield ''city'' geo), lo_state = jstring (jfield ''region'' geo),
                 lo_country = (case jstring (jfield ''country'' geo) of Some c \<Rightarrow> Some c
                   | None \<Rightarrow> countryName G (jstring (jfield ''country_code'' geo))),
                 lo_timezone = jstring (jfield ''timezone'' geo), lo_provider = None \<rparr>)"

definition configuredProvider :: "geo_env \<Rightarrow> string option" where
  "configuredProvider G =
     (if toUpper (case ge_providerName G of None \<Rightarrow> ''NONE'' | Some n \<Rightarrow> n) = ''IPINFO'' \<and> \<not> falsy (ge_token G)
      then ge_token G else None)"

definition no_location :: "location_info" where
  "no_location = \<lparr> lo_city = None, lo_state = None, lo_country = None, lo_timezone = None, lo_provider = None \<rparr>"

definition resolveRequestLocation :: "geo_env \<Rightarrow> request_meta \<Rightarrow> location_info" where
  "resolveRequestLocation G meta =
     (case extractClientIp G meta of
        None \<Rightarrow> no_location
      | Some ip \<Rightarrow>
          if \<not> isPublicIp (Some ip)
          then no_location\<lparr> lo_country := Some ''Local / Private Network'', lo_provider := Some ''LOCAL'' \<rparr>
          else (case configuredProvider G of None \<Rightarrow> no_location
            | Some token \<Rightarrow> (case ipinfo_lookup G token ip of None \<Rightarrow> no_location
                | Some l \<Rightarrow> l\<lparr> lo_provider := Some ''IPINFO'' \<rparr>)))"

definition formatLocation :: "location_info \<Rightarrow> string" where
  "formatLocation l =
     (let parts = map the (filter (\<lambda>x. \<not> falsy x) [lo_city l, lo_country l])
      in if parts \<noteq> [] then join '', '' (remdups parts)
         else if \<not> falsy (lo_state l) then the (lo_state l)
         else if \<not> falsy (lo_country l) then the (lo_country l) else ''Unknown'')"

section \<open>What the allowlist means\<close>

lemma digit_char_ge: "is_digit_char c \<Longrightarrow> (48::int) \<le> of_char c"
proof -
  assume "is_digit_char c"
  then have "(48::nat) \<le> of_char c" by (simp add: is_digit_char_def)
  then have "int 48 \<le> int (of_char c)" by (simp only: zle_int)
  then show ?thesis by (simp only: of_nat_of_char of_nat_numeral)
qed

lemma decimal_value_nonneg: "all_digits s \<Longrightarrow> 0 \<le> decimal_value s"
proof -
  have "all_digits s \<Longrightarrow> 0 \<le> n \<Longrightarrow> 0 \<le> foldl (\<lambda>n c. 10 * n + (of_char c - 48)) n s" for n :: int
  proof (induction s arbitrary: n)
    case (Cons c s)
    have "0 \<le> 10 * n + (of_char c - 48)"
      using Cons.prems digit_char_ge[of c] by (simp add: all_digits_def)
    with Cons show ?case by (simp add: all_digits_def)
  qed simp
  from this[of 0] show "all_digits s \<Longrightarrow> 0 \<le> decimal_value s" by (simp add: decimal_value_def)
qed

lemma parse_ipv4_bound: "parse_ipv4 s = Some n \<Longrightarrow> 0 \<le> n \<and> n < 2 ^ 32"
proof -
  assume "parse_ipv4 s = Some n"
  then obtain a b c d where "map octet (split_on CHR ''.'' s) = [Some a, Some b, Some c, Some d]"
    and n: "n = ((a * 256 + b) * 256 + c) * 256 + d"
    by (auto simp: parse_ipv4_def split: list.splits option.splits)
  then have "\<forall>x \<in> {a, b, c, d}. \<exists>w. octet w = Some x" by auto
  then have "\<forall>x \<in> {a, b, c, d}. 0 \<le> x \<and> x \<le> 255"
    by (auto simp: octet_def decimal_value_nonneg split: if_splits)
  with n show ?thesis by simp
qed

lemma hex_value_nonneg: "hex_value c = Some d \<Longrightarrow> 0 \<le> d"
proof -
  assume d: "hex_value c = Some d"
  show ?thesis
  proof (cases "is_digit_char c")
    case True
    with d digit_char_ge[of c] show ?thesis by (simp add: hex_value_def)
  next
    case False
    with d show ?thesis by (auto simp: hex_value_def split: if_splits)
  qed
qed

lemma radix_value_bound:
  "radix_value b n s = Some m \<Longrightarrow> 0 < b \<Longrightarrow> 0 \<le> n \<Longrightarrow> 0 \<le> m \<and> m < (n + 1) * b ^ length s"
proof (induction s arbitrary: n)
  case Nil
  then show ?case by simp
next
  case (Cons c s)
  then obtain d where d: "hex_value c = Some d" "d < b" "radix_value b (b * n + d) s = Some m"
    by (auto split: option.splits if_splits)
  have 0: "0 \<le> b * n + d" using hex_value_nonneg[OF d(1)] Cons.prems by simp
  from Cons.IH[OF d(3) Cons.prems(2) 0] have m: "0 \<le> m" "m < (b * n + d + 1) * b ^ length s" by auto
  note m(2)
  also have "(b * n + d + 1) * b ^ length s \<le> (b * (n + 1)) * b ^ length s"
    using d(2) Cons.prems(2) by (intro mult_right_mono) (auto simp: algebra_simps)
  finally show ?case using m(1) by (simp add: algebra_simps)
qed

definition group_ok :: "int \<Rightarrow> bool" where
  "group_ok g \<longleftrightarrow> 0 \<le> g \<and> g < 65536"

lemma hextet_bound: "hextet s = Some h \<Longrightarrow> group_ok h"
proof -
  assume "hextet s = Some h"
  then have h: "radix_value 16 0 s = Some h" "length s \<le> 4" by (auto simp: hextet_def split: if_splits)
  from radix_value_bound[OF h(1)] have b: "0 \<le> h" "h < 16 ^ length s" by auto
  note b(2)
  also have "(16::int) ^ length s \<le> 16 ^ 4" using h(2) by (intro power_increasing) auto
  finally show ?thesis using b(1) by (simp add: group_ok_def)
qed

lemma halves_bound:
  assumes "0 \<le> z" and "z < 4294967296"
  shows "group_ok (z div 65536)" and "group_ok (z mod 65536)"
proof -
  have "z div 65536 \<le> 4294967295 div 65536" using assms(2) by (intro zdiv_mono1) simp_all
  moreover have "0 \<le> z div 65536" using assms(1) by (simp add: pos_imp_zdiv_nonneg_iff)
  ultimately show "group_ok (z div 65536)" by (simp add: group_ok_def)
  show "group_ok (z mod 65536)" by (simp add: group_ok_def)
qed

lemma ipv6_groups_bound: "ipv6_groups v4 ss = Some gs \<Longrightarrow> \<forall>g \<in> set gs. group_ok g"
proof (induction v4 ss arbitrary: gs rule: ipv6_groups.induct)
  case (2 v4 s)
  then show ?case
    by (auto split: option.splits if_splits dest!: hextet_bound parse_ipv4_bound intro: halves_bound)
next
  case (3 v4 s t ss)
  then show ?case by (auto split: option.splits dest: hextet_bound)
qed simp

lemma ipv6_value_bound:
  "\<forall>g \<in> set gs. group_ok g \<Longrightarrow> 0 \<le> ipv6_value gs \<and> ipv6_value gs < 65536 ^ length gs"
proof -
  have "\<forall>g \<in> set gs. group_ok g \<Longrightarrow> 0 \<le> n \<Longrightarrow> 0 \<le> foldl (\<lambda>n g. n * 65536 + g) n gs \<and>
      foldl (\<lambda>n g. n * 65536 + g) n gs < (n + 1) * 65536 ^ length gs" for n :: int
  proof (induction gs arbitrary: n)
    case (Cons g gs)
    let ?v = "foldl (\<lambda>n g. n * 65536 + g) (n * 65536 + g) gs"
    from Cons have "0 \<le> ?v" and v: "?v < (n * 65536 + g + 1) * 65536 ^ length gs" by (auto simp: group_ok_def)
    note v
    also have "(n * 65536 + g + 1) * 65536 ^ length gs \<le> ((n + 1) * 65536) * 65536 ^ length gs"
      using Cons.prems by (intro mult_right_mono) (auto simp: group_ok_def)
    finally show ?case using \<open>0 \<le> ?v\<close> by (simp add: algebra_simps)
  qed simp
  from this[of 0] show "\<forall>g \<in> set gs. group_ok g \<Longrightarrow> 0 \<le> ipv6_value gs \<and> ipv6_value gs < 65536 ^ length gs"
    unfolding ipv6_value_def by simp
qed

lemma side_groups_bound: "side_groups v4 s = Some gs \<Longrightarrow> \<forall>g \<in> set gs. group_ok g"
  by (auto simp: side_groups_def dest: ipv6_groups_bound split: if_splits)

lemma eight_groups_bound:
  "length gs = 8 \<Longrightarrow> \<forall>g \<in> set gs. group_ok g \<Longrightarrow> 0 \<le> ipv6_value gs \<and> ipv6_value gs < 2 ^ 128"
  using ipv6_value_bound[of gs] by simp

lemma group_ok_0: "group_ok 0"
  by (simp add: group_ok_def)

lemma gap_bound:
  "length a + length b \<le> 7 \<Longrightarrow> \<forall>g \<in> set a. group_ok g \<Longrightarrow> \<forall>g \<in> set b. group_ok g \<Longrightarrow>
   0 \<le> ipv6_value (a @ replicate (8 - length a - length b) 0 @ b) \<and>
   ipv6_value (a @ replicate (8 - length a - length b) 0 @ b) < 2 ^ 128"
  by (rule eight_groups_bound) (auto simp: group_ok_0)

lemma parse_ipv6_bound:
  assumes "parse_ipv6 s = Some n"
  shows "0 \<le> n \<and> n < 2 ^ 128"
proof -
  from assms consider gs where "n = ipv6_value gs" "length gs = 8" "\<forall>g \<in> set gs. group_ok g"
    | a b where "n = ipv6_value (a @ replicate (8 - length a - length b) 0 @ b)" "length a + length b \<le> 7"
        "\<forall>g \<in> set a. group_ok g" "\<forall>g \<in> set b. group_ok g"
    by (auto simp: parse_ipv6_def simp del: diff_diff_left split: list.splits option.splits if_splits
      dest!: side_groups_bound)
  then show ?thesis by cases (simp_all only: eight_groups_bound gap_bound)
qed

lemma ip_value_bound: "isIP ip = family \<Longrightarrow> family \<noteq> 0 \<Longrightarrow> 0 \<le> ip_value ip \<and> ip_value ip < 2 ^ ip_width family"
  by (auto simp: isIP_def ip_value_def ip_width_def split: option.splits if_splits
    dest: parse_ipv4_bound parse_ipv6_bound)

text \<open>A prefix of length zero matches every address of its family.\<close>

lemma empty_prefix_allows:
  assumes "isIP net = family" and "isIP ip = family" and "family \<noteq> 0"
  shows "subnet_check family net (js_number []) ip = Some True"
  using ip_value_bound[OF assms(1,3)] ip_value_bound[OF assms(2,3)]
  by (simp add: subnet_check_def js_number_def trim_def)

end
