(* ===== verification/AuthModel.thy ===== *)
theory AuthModel
  imports Addresses Table
begin

text \<open>
  src/modules/auth/auth.service.ts: the rows the service reads and writes, the configuration and
  library functions it is given (JSON web tokens, bcrypt, SHA-256, AES-GCM, time-based codes, the
  mail transport and the SMS gateway are parameters), the random values of one call, and the pure
  helpers: device names, password rules, slugs, second factors, tokens.
\<close>

section \<open>Rows\<close>

datatype two_factor_method = AUTHENTICATOR_APP | SMS_OTP | EMAIL_OTP

record security_policy =
  sp_minPasswordLength :: int
  sp_passwordExpiryDays :: "int option"
  sp_lockoutMaxAttempts :: int
  sp_requireUppercase :: bool
  sp_requireLowercase :: bool
  sp_requireNumber :: bool
  sp_requireSpecialCharacter :: bool
  sp_ipAllowlistEnabled :: bool
  sp_twoFactorEnabled :: bool
  sp_enforceTwoFactorForAllUsers :: bool
  sp_allowAuthenticatorApp :: bool
  sp_allowSmsOtp :: bool
  sp_allowEmailOtp :: bool

record organization =
  og_id :: string
  og_name :: string
  og_slug :: string
  og_status :: string
  og_classification :: string
  og_currency :: string
  og_profileImageUrl :: "string option"
  og_email :: "string option"
  og_phone :: "string option"
  og_industry :: "string option"
  og_address :: "string option"
  og_taxId :: "string option"
  og_cacNumber :: "string option"
  og_country :: "string option"
  og_deletionPending :: bool

record role_row =
  ro_id :: string
  ro_org :: string
  ro_name :: string
  ro_isSystem :: bool
  ro_permissions :: "string list"

record permission_row =
  pe_id :: string
  pe_key :: string
  pe_description :: "string option"

record user_row =
  us_id :: string
  us_org :: string
  us_roleId :: string
  us_employeeId :: "string option"
  us_email :: string
  us_passwordHash :: string
  us_firstName :: string
  us_lastName :: string
  us_isActive :: bool
  us_lastLoginAt :: "time option"
  us_profileImageUrl :: "string option"
  us_failedLoginAttempts :: nat
  us_lockedUntil :: "time option"
  us_passwordChangedAt :: time
  us_isPlatformAdmin :: bool
  us_moduleAccess :: "json option"

record two_factor_row =
  tf_userId :: string
  tf_secretEnc :: "string option"
  tf_enabled :: bool
  tf_phoneNumber :: "string option"
  tf_preferred :: "two_factor_method option"

record employee_contact =
  em_id :: string
  em_phone :: "string option"

record policy_row =
  pw_org :: string
  pw_policy :: security_policy
  pw_updatedBy :: "string option"

record allow_row =
  al_id :: string
  al_org :: string
  al_value :: string
  al_label :: "string option"
  al_createdBy :: "string option"
  al_createdAt :: time

record session_row =
  se_id :: string
  se_org :: string
  se_userId :: string
  se_hash :: string
  se_deviceName :: "string option"
  se_userAgent :: "string option"
  se_ip :: "string option"
  se_location :: location_info
  se_isCurrent :: bool
  se_revokedAt :: "time option"
  se_revokeReason :: "string option"
  se_lastSeenAt :: time
  se_expiresAt :: time
  se_createdAt :: time

record otp_row =
  ot_id :: string
  ot_userId :: string
  ot_codeHash :: string
  ot_expiresAt :: time
  ot_verifiedAt :: "time option"
  ot_consumedAt :: "time option"
  ot_attempts :: nat
  ot_createdAt :: time

record challenge_row =
  ch_id :: string
  ch_org :: string
  ch_userId :: string
  ch_purpose :: string
  ch_method :: two_factor_method
  ch_codeHash :: string
  ch_attempts :: nat
  ch_maxAttempts :: nat
  ch_expiresAt :: time
  ch_consumedAt :: "time option"

record invitation_row =
  vt_id :: string
  vt_org :: string
  vt_email :: string
  vt_token :: string
  vt_status :: string
  vt_expiresAt :: time
  vt_acceptedAt :: "time option"
  vt_roleId :: "string option"

record agent_profile =
  ap_org :: string
  ap_userId :: string
  ap_status :: string
  ap_deactivatedAt :: "time option"

record config_row =
  cf_org :: string
  cf_key :: string
  cf_value :: json

record auth_event =
  ae_id :: string
  ae_org :: string
  ae_userId :: "string option"
  ae_email :: "string option"
  ae_type :: string
  ae_status :: string
  ae_reason :: "string option"
  ae_ip :: "string option"
  ae_userAgent :: "string option"
  ae_deviceName :: "string option"
  ae_location :: location_info
  ae_occurredAt :: time

text \<open>\<open>PLATFORM_PASSWORD_POLICY\<close>: its only writer stores every field, so a row overrides all defaults.\<close>

record global_policy =
  gp_minimumLength :: int
  gp_passwordExpiryDays :: "int option"
  gp_accountLockoutAttempts :: int
  gp_requireUppercase :: bool
  gp_requireLowercase :: bool
  gp_requireNumber :: bool
  gp_requireSpecialCharacter :: bool

record impersonation_row =
  im_id :: string
  im_adminUserId :: string
  im_tenantUserId :: string
  im_org :: string
  im_status :: string
  im_endedAt :: "time option"
  im_expiresAt :: time

record entitlement_row =
  te_org :: string
  te_module :: string
  te_active :: bool
  te_expiresAt :: "time option"

datatype message =
    EmailMessage string string string
  | SmsMessage string json

record auth_db =
  ab_orgs :: "organization list"
  ab_permissions :: "permission_row list"
  ab_roles :: "role_row list"
  ab_users :: "user_row list"
  ab_twoFactor :: "two_factor_row list"
  ab_employees :: "employee_contact list"
  ab_policies :: "policy_row list"
  ab_global :: "global_policy option"
  ab_allow :: "allow_row list"
  ab_sessions :: "session_row list"
  ab_otps :: "otp_row list"
  ab_challenges :: "challenge_row list"
  ab_invitations :: "invitation_row list"
  ab_profiles :: "agent_profile list"
  ab_config :: "config_row list"
  ab_events :: "auth_event list"
  ab_impersonations :: "impersonation_row list"
  ab_entitlements :: "entitlement_row list"
  ab_outbox :: "message list"
  ab_audit :: audit_db

text \<open>Every table keeps the contract of \<open>table\<close>.\<close>

interpretation auth_users: table ab_users ab_users_update by unfold_locales simp
interpretation auth_sessions: table ab_sessions ab_sessions_update by unfold_locales simp
interpretation auth_challenges: table ab_challenges ab_challenges_update by unfold_locales simp
interpretation auth_otps: table ab_otps ab_otps_update by unfold_locales simp
interpretation auth_two_factor: table ab_twoFactor ab_twoFactor_update by unfold_locales simp
interpretation allowlist: table ab_allow ab_allow_update by unfold_locales simp

section \<open>Configuration, libraries and random values\<close>

type_synonym claims = "(string \<times> json) list"

record auth_env =
  v_accessSecret :: string
  v_refreshSecret :: string
  v_accessTtl :: string
  v_refreshTtl :: string
  v_uniqueEmail :: bool
  v_production :: bool
  v_appName :: string
  v_smtp :: bool
  v_smtpHost :: bool
  v_smsUrl :: "string option"
  v_smsFrom :: "string option"
  v_geo :: geo_env
  v_sha256 :: "string \<Rightarrow> string"
  v_bcrypt :: "string \<Rightarrow> nat \<Rightarrow> string \<Rightarrow> string"
  v_compare :: "string \<Rightarrow> string \<Rightarrow> bool"
  v_sign :: "string \<Rightarrow> time \<Rightarrow> string \<Rightarrow> claims \<Rightarrow> string"
  v_verify :: "string \<Rightarrow> time \<Rightarrow> string \<Rightarrow> claims option"
  v_decode :: "string \<Rightarrow> claims option"
  v_totp :: "time \<Rightarrow> string \<Rightarrow> string \<Rightarrow> bool"
  v_seal :: "string \<Rightarrow> string \<Rightarrow> string \<Rightarrow> string \<times> string"
  v_open :: "string \<Rightarrow> string \<Rightarrow> string \<Rightarrow> string \<Rightarrow> string option"
  v_otpUri :: "string \<Rightarrow> string \<Rightarrow> string \<Rightarrow> string"
  v_mail :: "message \<Rightarrow> app_error option"
  v_post :: "string \<Rightarrow> json \<Rightarrow> app_error + nat"

text \<open>\<open>new Date()\<close> is read once per call; \<open>randomUUID\<close>, \<open>Math.random\<close>, salts and row ids are given.\<close>

record auth_fresh =
  z_now :: time
  z_sessionId :: string
  z_jti :: string
  z_random :: rat
  z_salt :: string
  z_iv :: string
  z_secret :: string
  z_id :: string
  z_roleId :: string
  z_userId :: string
  z_eventId :: string
  z_permissionId :: "string \<Rightarrow> string"

definition minutes :: "int \<Rightarrow> int" where
  "minutes n = n * 60 * 1000"

definition RESET_OTP_TTL_MINUTES :: int where "RESET_OTP_TTL_MINUTES = 10"
definition RESET_OTP_MAX_ATTEMPTS :: nat where "RESET_OTP_MAX_ATTEMPTS = 5"
definition LOGIN_2FA_OTP_TTL_MINUTES :: int where "LOGIN_2FA_OTP_TTL_MINUTES = 10"
definition LOGIN_2FA_MAX_ATTEMPTS :: nat where "LOGIN_2FA_MAX_ATTEMPTS = 5"

section \<open>Secrets\<close>

definition hashRefreshToken :: "auth_env \<Rightarrow> string \<Rightarrow> string" where
  "hashRefreshToken V token = v_sha256 V token"

definition buildEncryptionKey :: "auth_env \<Rightarrow> string" where
  "buildEncryptionKey V = v_sha256 V (v_refreshSecret V)"

definition encryptSecret :: "auth_env \<Rightarrow> string \<Rightarrow> string \<Rightarrow> string" where
  "encryptSecret V iv plainText =
     (case v_seal V (buildEncryptionKey V) iv plainText of (authTag, encrypted) \<Rightarrow>
        iv @ ''.'' @ authTag @ ''.'' @ encrypted)"

definition decryptSecret :: "auth_env \<Rightarrow> string \<Rightarrow> app_error + string" where
  "decryptSecret V cipherText =
     (case split_on CHR ''.'' cipherText of
        ivB64 # tagB64 # encryptedB64 # _ \<Rightarrow>
          if ivB64 = [] \<or> tagB64 = [] \<or> encryptedB64 = []
          then Inl (badRequest ''Stored authenticator secret is invalid'')
          else (case v_open V (buildEncryptionKey V) ivB64 tagB64 encryptedB64 of
                  Some t \<Rightarrow> Inr t
                | None \<Rightarrow> Inl (PlainError ''Unsupported state or unable to authenticate data''))
      | _ \<Rightarrow> Inl (badRequest ''Stored authenticator secret is invalid''))"

section \<open>Device names\<close>

definition resolveDeviceName :: "string option \<Rightarrow> string" where
  "resolveDeviceName userAgent =
     (if falsy userAgent then ''Unknown device''
      else (let normalized = toLower (the userAgent);
                has = (\<lambda>s. includes_str s normalized);
                browser =
                  (if has ''edg/'' \<or> has ''edge/'' then ''Edge''
                   else if has ''opr/'' \<or> has ''opera'' then ''Opera''
                   else if has ''firefox/'' \<or> has ''fxios/'' then ''Firefox''
                   else if has ''chrome/'' \<or> has ''crios/'' then ''Chrome''
                   else if has ''safari/'' \<and> \<not> has ''chrome/'' \<and> \<not> has ''crios/'' then ''Safari''
                   else if has ''postmanruntime'' then ''Postman''
                   else if has ''insomnia'' then ''Insomnia''
                   else ''Browser'');
                os =
                  (if has ''windows'' then ''Windows''
                   else if has ''mac os x'' \<or> has ''macintosh'' then ''MacOS''
                   else if has ''android'' then ''Android''
                   else if has ''iphone'' \<or> has ''ipad'' \<or> has ''ios'' then ''iOS''
                   else if has ''linux'' then ''Linux''
                   else ''OS'')
            in browser @ '' / '' @ os))"

section \<open>Password rules\<close>

definition defaultSecurityPolicy :: security_policy where
  "defaultSecurityPolicy = \<lparr> sp_minPasswordLength = 8, sp_passwordExpiryDays = Some 90,
     sp_lockoutMaxAttempts = 5, sp_requireUppercase = True, sp_requireLowercase = True,
     sp_requireNumber = True, sp_requireSpecialCharacter = True, sp_ipAllowlistEnabled = False,
     sp_twoFactorEnabled = False, sp_enforceTwoFactorForAllUsers = False,
     sp_allowAuthenticatorApp = True, sp_allowSmsOtp = False, sp_allowEmailOtp = True \<rparr>"

definition defaultPlatformPasswordPolicy :: global_policy where
  "defaultPlatformPasswordPolicy = \<lparr> gp_minimumLength = 8, gp_passwordExpiryDays = Some 90,
     gp_accountLockoutAttempts = 5, gp_requireUppercase = True, gp_requireLowercase = True,
     gp_requireNumber = True, gp_requireSpecialCharacter = False \<rparr>"

definition getGlobalPasswordPolicy :: "auth_db \<Rightarrow> global_policy" where
  "getGlobalPasswordPolicy d = (case ab_global d of Some g \<Rightarrow> g | None \<Rightarrow> defaultPlatformPasswordPolicy)"

definition global_rules :: "global_policy \<Rightarrow> security_policy \<Rightarrow> security_policy" where
  "global_rules g p = p\<lparr> sp_minPasswordLength := gp_minimumLength g,
     sp_passwordExpiryDays := gp_passwordExpiryDays g, sp_lockoutMaxAttempts := gp_accountLockoutAttempts g,
     sp_requireUppercase := gp_requireUppercase g, sp_requireLowercase := gp_requireLowercase g,
     sp_requireNumber := gp_requireNumber g, sp_requireSpecialCharacter := gp_requireSpecialCharacter g \<rparr>"

definition getSecurityPolicyForOrganization :: "string \<Rightarrow> auth_db \<Rightarrow> security_policy" where
  "getSecurityPolicyForOrganization org d =
     (case find (\<lambda>p. pw_org p = org) (ab_policies d) of
        None \<Rightarrow> global_rules (getGlobalPasswordPolicy d) defaultSecurityPolicy
      | Some p \<Rightarrow> global_rules (getGlobalPasswordPolicy d) (pw_policy p))"

definition validatePasswordAgainstPolicy :: "string \<Rightarrow> security_policy \<Rightarrow> app_error + unit" where
  "validatePasswordAgainstPolicy password policy =
     (if int (length password) < sp_minPasswordLength policy
      then Inl (badRequest (''Password must be at least '' @ show_int (sp_minPasswordLength policy)
             @ '' characters long''))
      else if sp_requireUppercase policy \<and> \<not> list_ex is_upper_char password
      then Inl (badRequest ''Password must include at least one uppercase letter'')
      else if sp_requireLowercase policy \<and> \<not> list_ex is_lower_char password
      then Inl (badRequest ''Password must include at least one lowercase letter'')
      else if sp_requireNumber policy \<and> \<not> list_ex is_digit_char password
      then Inl (badRequest ''Password must include at least one number'')
      else if sp_requireSpecialCharacter policy \<and> \<not> list_ex (\<lambda>c. \<not> is_alnum_char c) password
      then Inl (badRequest ''Password must include at least one special character'')
      else Inr ())"

section \<open>Names and slugs\<close>

definition normalizeEmail :: "string \<Rightarrow> string" where
  "normalizeEmail email = toLower (trim email)"

text \<open>\<open>String(Math.floor(100000 + Math.random() * 900000))\<close>\<close>

definition generateSixDigitOtp :: "rat \<Rightarrow> string" where
  "generateSixDigitOtp random = show_nat (nat \<lfloor>100000 + random * 900000\<rfloor>)"

definition slug_char :: "char \<Rightarrow> bool" where
  "slug_char c \<longleftrightarrow> is_lower_char c \<or> is_digit_char c"

text \<open>\<open>replace(/[^a-z0-9]+/g, "-")\<close>: every run of other characters becomes one dash.\<close>

fun dash_runs :: "bool \<Rightarrow> string \<Rightarrow> string" where
  "dash_runs inside [] = []"
| "dash_runs inside (c # s) =
     (if slug_char c then c # dash_runs False s
      else if inside then dash_runs True s else CHR ''-'' # dash_runs True s)"

definition strip_dashes :: "string \<Rightarrow> string" where
  "strip_dashes s = rev (dropWhile (\<lambda>c. c = CHR ''-'') (rev (dropWhile (\<lambda>c. c = CHR ''-'') s)))"

definition slugify :: "string \<Rightarrow> string" where
  "slugify value = take 60 (strip_dashes (dash_runs False (toLower (trim value))))"

definition numbered_slug :: "string \<Rightarrow> nat \<Rightarrow> string" where
  "numbered_slug base sequence = base @ ''-'' @ show_nat sequence"

lemma foldl_digits:
  "foldl (\<lambda>n c. 10 * n + (of_char c - 48)) m t
   = m * 10 ^ length t + foldl (\<lambda>n c. 10 * n + (of_char c - 48)) (0::int) t"
proof (induction t arbitrary: m)
  case Nil
  then show ?case by simp
next
  case (Cons c t)
  let ?d = "of_char c - (48::int)"
  show ?case
    unfolding foldl.simps using Cons.IH[of "10 * m + ?d"] Cons.IH[of "10 * 0 + ?d"]
    by (simp add: algebra_simps)
qed

lemma decimal_value_append: "decimal_value (s @ t) = decimal_value s * 10 ^ length t + decimal_value t"
  unfolding decimal_value_def foldl_append by (rule foldl_digits)

lemma digit_char_value: "n < 10 \<Longrightarrow> (of_char (digit_char n) :: int) = 48 + int n"
proof -
  assume "n < 10"
  then have "(of_char (digit_char n) :: nat) = 48 + n" by (simp add: digit_char_def)
  then have "int (of_char (digit_char n)) = int (48 + n)" by simp
  then show ?thesis by (simp only: of_nat_of_char of_nat_add of_nat_numeral)
qed

lemma decimal_value_show_nat: "decimal_value (show_nat n) = int n"
proof (induction n rule: show_nat.induct)
  case (1 n)
  show ?case
  proof (cases "n < 10")
    case True
    then show ?thesis by (simp add: show_nat.simps[of n] decimal_value_def digit_char_value)
  next
    case False
    have "decimal_value [digit_char (n mod 10)] = int (n mod 10)"
      by (simp add: decimal_value_def digit_char_value)
    with False 1 show ?thesis
      by (simp add: show_nat.simps[of n] decimal_value_append) presburger
  qed
qed

lemma show_nat_inject: "show_nat m = show_nat n \<longleftrightarrow> m = n"
  using decimal_value_show_nat by (metis of_nat_eq_iff)

text \<open>The loop of \<open>buildUniqueOrganizationSlug\<close> from a taken candidate on: it ends because the
  numbered candidates are pairwise different and the table is finite.\<close>

function next_free_slug :: "string list \<Rightarrow> string \<Rightarrow> nat \<Rightarrow> string" where
  "next_free_slug taken base sequence =
     (if numbered_slug base sequence \<in> set taken then next_free_slug taken base (sequence + 1)
      else numbered_slug base sequence)"
  by pat_completeness auto
termination
proof (relation "measure (\<lambda>(taken, base, n). card {k. n \<le> k \<and> numbered_slug base k \<in> set taken})", goal_cases)
  case 1
  then show ?case by simp
next
  case (2 taken base n)
  have inj: "inj_on (numbered_slug base) {k. n \<le> k \<and> numbered_slug base k \<in> set taken}"
    by (rule inj_onI) (simp add: numbered_slug_def show_nat_inject)
  have "finite (numbered_slug base ` {k. n \<le> k \<and> numbered_slug base k \<in> set taken})"
    by (rule finite_subset[of _ "set taken"]) auto
  then have "finite {k. n \<le> k \<and> numbered_slug base k \<in> set taken}"
    using inj by (rule finite_imageD)
  moreover have "{k. n + 1 \<le> k \<and> numbered_slug base k \<in> set taken} \<subset> {k. n \<le> k \<and> numbered_slug base k \<in> set taken}"
  proof (rule psubsetI)
    have "n \<in> {k. n \<le> k \<and> numbered_slug base k \<in> set taken}" using 2 by simp
    moreover have "n \<notin> {k. n + 1 \<le> k \<and> numbered_slug base k \<in> set taken}" by simp
    ultimately show "{k. n + 1 \<le> k \<and> numbered_slug base k \<in> set taken} \<noteq> {k. n \<le> k \<and> numbered_slug base k \<in> set taken}"
      by metis
  qed auto
  ultimately show ?case by (simp add: psubset_card_mono)
qed

declare next_free_slug.simps [simp del]

definition buildUniqueOrganizationSlug :: "string list \<Rightarrow> string \<Rightarrow> string option \<Rightarrow> string" where
  "buildUniqueOrganizationSlug taken organizationName providedSlug =
     (let s = slugify (if falsy providedSlug then organizationName else the providedSlug);
          base = (if s = [] then ''org'' else s)
      in if base \<in> set taken then next_free_slug taken base 2 else base)"

lemma next_free_slug_new: "next_free_slug taken base n \<notin> set taken"
  by (induction taken base n rule: next_free_slug.induct) (subst next_free_slug.simps, simp)

lemma unique_slug_new: "buildUniqueOrganizationSlug taken name slug \<notin> set taken"
  by (simp add: buildUniqueOrganizationSlug_def Let_def next_free_slug_new)

section \<open>Users with their relations\<close>

text \<open>What \<open>resolveUserByEmailAndOrganization\<close> selects with a user.\<close>

record full_user =
  fu_user :: user_row
  fu_role :: role_row
  fu_org :: organization
  fu_phone :: "string option"
  fu_twoFactor :: "two_factor_row option"

definition find_org :: "string \<Rightarrow> auth_db \<Rightarrow> organization option" where
  "find_org i d = find (\<lambda>g. og_id g = i) (ab_orgs d)"

definition find_user :: "string \<Rightarrow> auth_db \<Rightarrow> user_row option" where
  "find_user i d = find (\<lambda>u. us_id u = i) (ab_users d)"

definition find_role :: "string \<Rightarrow> auth_db \<Rightarrow> role_row option" where
  "find_role i d = find (\<lambda>r. ro_id r = i) (ab_roles d)"

definition find_two_factor :: "string \<Rightarrow> auth_db \<Rightarrow> two_factor_row option" where
  "find_two_factor i d = find (\<lambda>f. tf_userId f = i) (ab_twoFactor d)"

definition employee_phone :: "user_row \<Rightarrow> auth_db \<Rightarrow> string option" where
  "employee_phone u d =
     (case us_employeeId u of None \<Rightarrow> None
      | Some e \<Rightarrow> (case find (\<lambda>c. em_id c = e) (ab_employees d) of None \<Rightarrow> None | Some c \<Rightarrow> em_phone c))"

text \<open>The role and the organization of a user exist: both columns are foreign keys.\<close>

definition with_relations :: "auth_db \<Rightarrow> user_row \<Rightarrow> full_user option" where
  "with_relations d u =
     (case (find_role (us_roleId u) d, find_org (us_org u) d) of
        (Some r, Some g) \<Rightarrow> Some \<lparr> fu_user = u, fu_role = r, fu_org = g, fu_phone = employee_phone u d,
                               fu_twoFactor = find_two_factor (us_id u) d \<rparr>
      | _ \<Rightarrow> None)"

definition resolveUserByEmailAndOrganization :: "string \<Rightarrow> string option \<Rightarrow> (auth_db, full_user option) op" where
  "resolveUserByEmailAndOrganization email organizationSlug =
     (let normalizedEmail = normalizeEmail email in
      if \<not> falsy organizationSlug
      then bnd (reads (\<lambda>d. find (\<lambda>g. og_slug g = the organizationSlug) (ab_orgs d))) (\<lambda>found.
           bnd (required found (unauthorized ''Invalid credentials'')) (\<lambda>org.
           reads (\<lambda>d. Option.bind
             (find (\<lambda>u. us_org u = og_id org \<and> us_email u = normalizedEmail) (ab_users d)) (with_relations d))))
      else bnd (reads (\<lambda>d. take 2 (filter (\<lambda>u. us_email u = normalizedEmail) (ab_users d)))) (\<lambda>users.
           bnd (guard (length users \<le> 1)
             (badRequest ''Multiple organizations found for this email. Provide organizationSlug.'')) (\<lambda>_.
           reads (\<lambda>d. case users of [] \<Rightarrow> None | u # _ \<Rightarrow> with_relations d u))))"

section \<open>Second factors\<close>

definition resolveUserTwoFactorContact :: "two_factor_row option \<Rightarrow> string option \<Rightarrow> string option" where
  "resolveUserTwoFactorContact twoFactor phone =
     (let own = (case twoFactor of None \<Rightarrow> None | Some f \<Rightarrow> tf_phoneNumber f)
      in if \<not> falsy own then own else if \<not> falsy phone then phone else None)"

definition resolveEnabledMethods ::
    "security_policy \<Rightarrow> string \<Rightarrow> two_factor_row option \<Rightarrow> string option \<Rightarrow> two_factor_method list" where
  "resolveEnabledMethods policy email twoFactor phone =
     (if sp_allowAuthenticatorApp policy \<and>
         (case twoFactor of None \<Rightarrow> False | Some f \<Rightarrow> tf_enabled f \<and> \<not> falsy (tf_secretEnc f))
      then [AUTHENTICATOR_APP] else []) @
     (if sp_allowSmsOtp policy \<and> resolveUserTwoFactorContact twoFactor phone \<noteq> None then [SMS_OTP] else []) @
     (if sp_allowEmailOtp policy \<and> email \<noteq> [] then [EMAIL_OTP] else [])"

section \<open>Tokens\<close>

definition signTokens :: "auth_env \<Rightarrow> auth_fresh \<Rightarrow> string \<Rightarrow> string \<Rightarrow> string option \<Rightarrow> string \<times> string" where
  "signTokens V z userId organizationId sessionId =
     (let claims = (''organizationId'', JStr organizationId) #
            (if falsy sessionId then [] else [(''sessionId'', JStr (the sessionId))])
      in (v_sign V (v_accessSecret V) (z_now z) (v_accessTtl V) (claims @ [(''sub'', JStr userId)]),
          v_sign V (v_refreshSecret V) (z_now z) (v_refreshTtl V)
            (claims @ [(''sub'', JStr userId), (''jti'', JStr (z_jti z))])))"

definition tokenExpiresAt :: "auth_env \<Rightarrow> string \<Rightarrow> app_error + time" where
  "tokenExpiresAt V token =
     (case v_decode V token of
        None \<Rightarrow> Inl (unauthorized ''Invalid refresh token'')
      | Some c \<Rightarrow> (case jnumber (map_of c ''exp'') of
            None \<Rightarrow> Inl (unauthorized ''Invalid refresh token'')
          | Some e \<Rightarrow> Inr \<lfloor>e * 1000\<rfloor>))"

definition signPasswordResetToken :: "auth_env \<Rightarrow> auth_fresh \<Rightarrow> string \<Rightarrow> string \<Rightarrow> string" where
  "signPasswordResetToken V z userId otpId =
     v_sign V (v_refreshSecret V) (z_now z) ''15m''
       [(''purpose'', JStr ''password-reset''), (''otpId'', JStr otpId), (''sub'', JStr userId)]"

definition signLoginChallengeToken :: "auth_env \<Rightarrow> auth_fresh \<Rightarrow> string \<Rightarrow> string \<Rightarrow> string" where
  "signLoginChallengeToken V z userId challengeId =
     v_sign V (v_refreshSecret V) (z_now z) ''15m''
       [(''purpose'', JStr ''login-2fa''), (''challengeId'', JStr challengeId), (''sub'', JStr userId)]"

definition signAuthenticatorSetupToken :: "auth_env \<Rightarrow> auth_fresh \<Rightarrow> string \<Rightarrow> string \<Rightarrow> string" where
  "signAuthenticatorSetupToken V z userId secret =
     v_sign V (v_refreshSecret V) (z_now z) ''10m''
       [(''purpose'', JStr ''2fa-authenticator-setup''), (''secret'', JStr secret), (''sub'', JStr userId)]"

section \<open>Mail and text messages\<close>

text \<open>Without a configured transport production fails and development only logs to the console.\<close>

definition deliver_mail :: "auth_env \<Rightarrow> string \<Rightarrow> string \<Rightarrow> string \<Rightarrow> (auth_db, unit) op" where
  "deliver_mail V recipient subject txt =
     (if \<not> v_smtp V
      then (if v_production V then raise (PlainError ''SMTP credentials are not configured'') else ret ())
      else (case v_mail V (EmailMessage recipient subject txt) of
              Some e \<Rightarrow> raise e
            | None \<Rightarrow> writes (\<lambda>d. d\<lparr>ab_outbox := ab_outbox d @ [EmailMessage recipient subject txt]\<rparr>)))"

definition lines_text :: "string list \<Rightarrow> string" where
  "lines_text ls = join [CHR 0x0A] ls"

definition sendPasswordResetOtpEmail :: "auth_env \<Rightarrow> string \<Rightarrow> string \<Rightarrow> int \<Rightarrow> (auth_db, unit) op" where
  "sendPasswordResetOtpEmail V recipient otp expiresInMinutes =
     deliver_mail V recipient (v_appName V @ '' password reset code'')
       (lines_text [''Hello,'', [], ''Use this OTP to reset your password: '' @ otp,
          ''This code expires in '' @ show_int expiresInMinutes @ '' minutes.'', [],
          ''If you did not request this, ignore this email.''])"

definition sendLoginOtpEmail :: "auth_env \<Rightarrow> string \<Rightarrow> string \<Rightarrow> int \<Rightarrow> (auth_db, unit) op" where
  "sendLoginOtpEmail V recipient otp expiresInMinutes =
     deliver_mail V recipient (v_appName V @ '' login verification code'')
       (lines_text [''Hello,'', [], ''Use this OTP to continue your login: '' @ otp,
          ''This code expires in '' @ show_int expiresInMinutes @ '' minutes.'', [],
          ''If this was not you, secure your account immediately.''])"

definition sendLoginSmsOtp :: "auth_env \<Rightarrow> string \<Rightarrow> string \<Rightarrow> int \<Rightarrow> (auth_db, unit) op" where
  "sendLoginSmsOtp V recipient otp expiresInMinutes =
     (let message = v_appName V @ '' login code: '' @ otp @ ''. Expires in '' @ show_int expiresInMinutes @ '' minutes.'';
          body = JObj ([(''to'', JStr recipient)] @
            (case v_smsFrom V of None \<Rightarrow> [] | Some f \<Rightarrow> [(''from'', JStr f)]) @ [(''message'', JStr message)]) in
      if falsy (v_smsUrl V)
      then (if v_production V then raise (PlainError ''SMS webhook is not configured'') else ret ())
      else (case v_post V (the (v_smsUrl V)) body of
              Inl e \<Rightarrow> raise e
            | Inr status \<Rightarrow>
                bnd (guard (200 \<le> status \<and> status < 300)
                  (PlainError (''SMS delivery failed with status '' @ show_nat status))) (\<lambda>_.
                writes (\<lambda>d. d\<lparr>ab_outbox := ab_outbox d @ [SmsMessage (the (v_smsUrl V)) body]\<rparr>))))"

section \<open>The sign-in journal\<close>

definition logAuthEvent ::
    "auth_fresh \<Rightarrow> string \<Rightarrow> string option \<Rightarrow> string option \<Rightarrow> string \<Rightarrow> string \<Rightarrow> string option \<Rightarrow> string option \<Rightarrow>
     string option \<Rightarrow> location_info \<Rightarrow> (auth_db, unit) op" where
  "logAuthEvent z org userId emailAttempted eventType status reasonCode ip userAgent loc =
     writes (\<lambda>d. d\<lparr>ab_events := ab_events d @
       [\<lparr> ae_id = z_eventId z, ae_org = org, ae_userId = userId, ae_email = emailAttempted, ae_type = eventType,
          ae_status = status, ae_reason = reasonCode, ae_ip = ip, ae_userAgent = userAgent,
          ae_deviceName = Some (resolveDeviceName userAgent), ae_location = loc, ae_occurredAt = z_now z \<rparr>]\<rparr>)"

end
