(* ===== verification/Entitlements.thy ===== *)
theory Entitlements
  imports AuthModel
begin

text \<open>
  What a user may reach: the permission catalog (src/modules/auth/permissions.ts), the plans of
  src/modules/billing/billing.catalog.ts, the module entitlement of an organization and the
  effective module access of a user (src/modules/billing/module-access.service.ts).
\<close>

section \<open>Catalogs\<close>

definition permissions :: "string list" where
  "permissions =
    [''platform:dashboard:view'', ''platform:financial-operations:view'',
     ''platform:financial-operations:manage'', ''platform:tenants:view'',
     ''platform:tenants:suspend'', ''platform:tenants:create'',
     ''platform:tenants:users:manage'', ''platform:tenants:modules:manage'',
     ''platform:tenants:billing:manage'', ''platform:tenants:impersonate'',
     ''platform:pricing:view'', ''platform:pricing:manage'',
     ''platform:users:read'', ''platform:users:deactivate'',
     ''platform:users:reset-password'', ''platform:users:impersonate'',
     ''platform:modules:read'', ''platform:modules:manage'',
     ''platform:analytics:read'', ''platform:analytics:check-in'',
     ''platform:support:read'', ''platform:support:manage'',
     ''platform:settings:read'', ''platform:settings:manage'',
     ''admin:organization:view'', ''admin:organization:create'',
     ''admin:organization:update'', ''admin:organization:delete'',
     ''admin:departments:view'', ''admin:departments:create'',
     ''admin:departments:update'', ''admin:departments:delete'',
     ''admin:teams:view'', ''admin:teams:create'',
     ''admin:teams:update'', ''admin:teams:delete'',
     ''admin:roles:view'', ''admin:roles:create'',
     ''admin:roles:update'', ''admin:roles:delete'',
     ''admin:roles:clone'', ''admin:security:view'',
     ''admin:security:update'', ''admin:security:sessions:revoke'',
     ''admin:security:ip-allowlist:update'', ''admin:security:activity:view'',
     ''admin:staff:view'', ''admin:staff:create'',
     ''admin:staff:update'', ''admin:staff:delete'',
     ''admin:system-config:view'', ''admin:system-config:create'',
     ''admin:system-config:update'', ''admin:system-config:delete'',
     ''admin:notifications:view'', ''admin:notifications:update'',
     ''admin:announcements:view'', ''admin:settings:view'',
     ''admin:settings:update'', ''admin:settings:export'',
     ''admin:settings:delete-request'', ''hris:employees:view'',
     ''hris:employees:create'', ''hris:employees:update'',
     ''hris:employees:delete'', ''hris:attendance:view'',
     ''hris:attendance:create'', ''hris:attendance:update'',
     ''hris:attendance:delete'', ''hris:leave:view'',
     ''hris:leave:create'', ''hris:leave:update'',
     ''hris:leave:approve'', ''hris:appraisals:view'',
     ''hris:appraisals:create'', ''hris:appraisals:update'',
     ''hris:appraisals:delete'', ''hris:conduct:view'',
     ''hris:conduct:create'', ''hris:conduct:update'',
     ''hris:conduct:delete'', ''accounting:clients:view'',
     ''accounting:clients:create'', ''accounting:clients:update'',
     ''accounting:clients:delete'', ''accounting:items:view'',
     ''accounting:items:create'', ''accounting:items:update'',
     ''accounting:items:delete'', ''accounting:projects:view'',
     ''accounting:projects:create'', ''accounting:projects:update'',
     ''accounting:projects:delete'', ''accounting:expenses:view'',
     ''accounting:expenses:create'', ''accounting:expenses:update'',
     ''accounting:expenses:delete'', ''accounting:reminders:view'',
     ''accounting:reminders:update'', ''accounting:exports:view'',
     ''accounting:invoices:view'', ''accounting:invoices:create'',
     ''accounting:invoices:update'', ''accounting:invoices:delete'',
     ''accounting:payments:view'', ''accounting:payments:create'',
     ''accounting:payments:update'', ''accounting:payments:approve'',
     ''accounting:tax:view'', ''accounting:tax:create'',
     ''accounting:tax:update'', ''accounting:tax:delete'',
     ''accounting:wallets:view'', ''accounting:wallets:create'',
     ''accounting:wallets:update'', ''accounting:wallets:delete'',
     ''accounting:agents:view'', ''accounting:agents:create'',
     ''accounting:agents:update'', ''accounting:agents:delete'',
     ''payroll:runs:view'', ''payroll:runs:create'',
     ''payroll:runs:update'', ''payroll:runs:approve'',
     ''payroll:salary:view'', ''payroll:salary:create'',
     ''payroll:salary:update'', ''payroll:salary:delete'',
     ''payroll:statutory:view'', ''payroll:statutory:create'',
     ''payroll:statutory:update'', ''payroll:statutory:delete'',
     ''payroll:payslips:view'', ''payroll:payslips:create'',
     ''payroll:payslips:update'', ''payroll:payslips:delete'',
     ''payroll:loans:view'', ''payroll:loans:create'',
     ''payroll:loans:update'', ''payroll:loans:approve'']"

datatype billing_cycle = MONTHLY | YEARLY

record billing_plan =
  bp_key :: string
  bp_name :: string
  bp_monthlyCost :: money
  bp_pricingModel :: string
  bp_yearlyCost :: money
  bp_includedModules :: "string list"

definition billingModuleKeys :: "string list" where
  "billingModuleKeys = [''hris'', ''accounting'', ''payroll'']"

text \<open>The marketing texts of a plan are left out.\<close>

definition billingPlans :: "billing_plan list" where
  "billingPlans =
    [\<lparr> bp_key = ''hris'', bp_name = ''HRIS'', bp_monthlyCost = 80000, bp_pricingModel = ''FIXED'',
        bp_yearlyCost = 960000, bp_includedModules = [''hris''] \<rparr>,
     \<lparr> bp_key = ''payroll'', bp_name = ''Payroll'', bp_monthlyCost = 10000, bp_pricingModel = ''FIXED'',
        bp_yearlyCost = 120000, bp_includedModules = [''payroll''] \<rparr>,
     \<lparr> bp_key = ''accounting'', bp_name = ''Accounting'', bp_monthlyCost = 80000, bp_pricingModel = ''FIXED'',
        bp_yearlyCost = 960000, bp_includedModules = [''accounting''] \<rparr>,
     \<lparr> bp_key = ''all-in-one'', bp_name = ''All-in-One Suite'', bp_monthlyCost = 150000,
        bp_pricingModel = ''FIXED_BUNDLE'', bp_yearlyCost = 1800000,
        bp_includedModules = [''hris'', ''payroll'', ''accounting''] \<rparr>]"

definition moduleLabels :: "string \<Rightarrow> string option" where
  "moduleLabels = map_of [(''hris'', ''HRIS''), (''accounting'', ''Accounting''), (''payroll'', ''Payroll'')]"

definition getBillingPlanDefinition :: "string \<Rightarrow> billing_plan option" where
  "getBillingPlanDefinition key = find (\<lambda>p. bp_key p = key) billingPlans"

definition calculateBillingAmount :: "money \<Rightarrow> billing_cycle \<Rightarrow> money" where
  "calculateBillingAmount monthlyAmount cycle = (if cycle = YEARLY then monthlyAmount * 12 else monthlyAmount)"

section \<open>Module access\<close>

definition objectValue :: "json option \<Rightarrow> json" where
  "objectValue value = (case value of Some (JObj kvs) \<Rightarrow> JObj kvs | _ \<Rightarrow> JObj [])"

text \<open>\<open>String(value ?? "")\<close>\<close>

definition string_or_empty :: "json option \<Rightarrow> string" where
  "string_or_empty v = (case v of None \<Rightarrow> [] | Some JNull \<Rightarrow> [] | Some (JStr s) \<Rightarrow> s | Some j \<Rightarrow> JSON_stringify j)"

definition activeValue :: "json option \<Rightarrow> bool" where
  "activeValue value =
     (case value of
        Some (JStr s) \<Rightarrow> toUpper s = ''ACTIVE''
      | _ \<Rightarrow> toUpper (string_or_empty (jfield ''status'' (objectValue value))) = ''ACTIVE'')"

definition config_value :: "string \<Rightarrow> string \<Rightarrow> auth_db \<Rightarrow> json option" where
  "config_value org key d = map_option cf_value (find (\<lambda>c. cf_org c = org \<and> cf_key c = key) (ab_config d))"

definition hasActiveTestEntitlement :: "time \<Rightarrow> string \<Rightarrow> string \<Rightarrow> auth_db \<Rightarrow> bool" where
  "hasActiveTestEntitlement now org mkey d =
     list_ex (\<lambda>e. te_org e = org \<and> te_module e = mkey \<and> te_active e \<and>
        (case te_expiresAt e of None \<Rightarrow> True | Some x \<Rightarrow> x > now) \<and>
        (case find_org org d of None \<Rightarrow> False
         | Some g \<Rightarrow> og_classification g = ''TEST_E2E'' \<and> og_status g = ''ACTIVE'')) (ab_entitlements d)"

text \<open>Tenant-level entitlement: an active organization with a test entitlement, or with an active
  subscription whose module status, or else whose plan, includes the module.\<close>

definition isOrganizationModuleEnabled :: "time \<Rightarrow> string \<Rightarrow> string \<Rightarrow> auth_db \<Rightarrow> bool" where
  "isOrganizationModuleEnabled now org mkey d =
     (if find (\<lambda>g. og_id g = org \<and> og_status g = ''ACTIVE'' \<and> \<not> og_deletionPending g) (ab_orgs d) = None then False
      else if hasActiveTestEntitlement now org mkey d then True
      else (let subscription = objectValue (config_value org ''billing.subscription'' d) in
        if toUpper (string_or_empty (jfield ''status'' subscription)) \<noteq> ''ACTIVE'' then False
        else (case config_value org (''module.'' @ mkey @ ''.status'') d of
                Some explicit \<Rightarrow> activeValue (Some explicit)
              | None \<Rightarrow> (case getBillingPlanDefinition (string_or_empty (jfield ''planKey'' subscription)) of
                    None \<Rightarrow> False | Some plan \<Rightarrow> mkey \<in> set (bp_includedModules plan)))))"

definition evaluateEffectiveModuleAccess ::
    "time \<Rightarrow> string \<Rightarrow> bool \<Rightarrow> string list \<Rightarrow> string list option \<Rightarrow> string \<Rightarrow> auth_db \<Rightarrow> bool" where
  "evaluateEffectiveModuleAccess now org userIsActive granted moduleAccess mkey d =
     (if \<not> userIsActive \<or> \<not> list_ex (starts_with (mkey @ '':'')) granted then False
      else if (case moduleAccess of None \<Rightarrow> False | Some ms \<Rightarrow> \<not> list_ex (\<lambda>m. toLower m = mkey) ms) then False
      else if find (\<lambda>g. og_id g = org \<and> og_status g = ''ACTIVE'' \<and> \<not> og_deletionPending g) (ab_orgs d) = None then False
      else if hasActiveTestEntitlement now org mkey d then True
      else (let subscription = objectValue (config_value org ''billing.subscription'' d) in
        if toUpper (string_or_empty (jfield ''status'' subscription)) \<noteq> ''ACTIVE'' then False
        else (case config_value org (''module.'' @ mkey @ ''.status'') d of
                Some explicit \<Rightarrow> activeValue (Some explicit)
              | None \<Rightarrow> (case getBillingPlanDefinition (string_or_empty (jfield ''planKey'' subscription)) of
                    None \<Rightarrow> False | Some plan \<Rightarrow> mkey \<in> set (bp_includedModules plan)))))"

text \<open>The two checks agree: a user's access is the organization's entitlement restricted by the
  user's own permissions and module list.\<close>

lemma effective_access_iff:
  "evaluateEffectiveModuleAccess now org act granted moduleAccess mkey d \<longleftrightarrow>
     act \<and> list_ex (starts_with (mkey @ '':'')) granted \<and>
     (case moduleAccess of None \<Rightarrow> True | Some ms \<Rightarrow> list_ex (\<lambda>m. toLower m = mkey) ms) \<and>
     isOrganizationModuleEnabled now org mkey d"
  unfolding evaluateEffectiveModuleAccess_def isOrganizationModuleEnabled_def
  by (cases act; cases "list_ex (starts_with (mkey @ '':'')) granted";
      cases "case moduleAccess of None \<Rightarrow> True | Some ms \<Rightarrow> list_ex (\<lambda>m. toLower m = mkey) ms")
    (cases moduleAccess; simp_all only: option.case simp_thms if_True if_False)+

lemma plans_distinct: "distinct (map bp_key billingPlans)"
  by (simp add: billingPlans_def)

lemma yearly_is_twelve_months:
  "p \<in> set billingPlans \<Longrightarrow> bp_yearlyCost p = calculateBillingAmount (bp_monthlyCost p) YEARLY"
  by (auto simp: billingPlans_def calculateBillingAmount_def)

end
