(* ===== verification/Sessions.thy ===== *)
theory Sessions
  imports Entitlements
begin

text \<open>
  Sessions of src/modules/auth/auth.service.ts: rotation of refresh tokens, logout, the end of a
  successful login, the signed-in user and the registration of an organization.
\<close>

definition live :: "time \<Rightarrow> session_row \<Rightarrow> bool" where
  "live now s \<longleftrightarrow> se_isCurrent s \<and> se_revokedAt s = None \<and> se_expiresAt s > now"

definition revoke_session :: "time \<Rightarrow> string \<Rightarrow> session_row \<Rightarrow> session_row" where
  "revoke_session now reason s = s\<lparr>se_isCurrent := False, se_revokedAt := Some now, se_revokeReason := Some reason\<rparr>"

definition open_session_of :: "string \<Rightarrow> string \<Rightarrow> session_row \<Rightarrow> bool" where
  "open_session_of org userId s \<longleftrightarrow> se_org s = org \<and> se_userId s = userId \<and> se_revokedAt s = None"

definition revoke_sessions :: "string \<Rightarrow> string \<Rightarrow> time \<Rightarrow> string \<Rightarrow> (auth_db, nat) op" where
  "revoke_sessions org userId now reason =
     update_rows ab_sessions ab_sessions_update (open_session_of org userId) (revoke_session now reason)"

definition same_session_id :: "session_row \<Rightarrow> session_row \<Rightarrow> bool" where
  "same_session_id a b \<longleftrightarrow> se_id a = se_id b"

text \<open>jsonwebtoken signs and verifies string subjects only.\<close>

definition subject_of :: "claims \<Rightarrow> string" where
  "subject_of c = (case jstring (map_of c ''sub'') of Some s \<Rightarrow> s | None \<Rightarrow> [])"

definition string_claim :: "string \<Rightarrow> claims \<Rightarrow> string option" where
  "string_claim k c = jstring (map_of c k)"

section \<open>Refresh and logout\<close>

definition refreshable :: "claims \<Rightarrow> string \<Rightarrow> time \<Rightarrow> session_row \<Rightarrow> bool" where
  "refreshable payload hash now s \<longleftrightarrow>
     se_userId s = subject_of payload \<and> Some (se_org s) = string_claim ''organizationId'' payload \<and>
     se_hash s = hash \<and> live now s"

definition refreshAuthenticationTokens ::
    "auth_env \<Rightarrow> auth_fresh \<Rightarrow> string \<Rightarrow> (auth_db, string \<times> string) op" where
  "refreshAuthenticationTokens V z refreshToken =
     bnd (required (v_verify V (v_refreshSecret V) (z_now z) refreshToken)
       (unauthorized ''Invalid or expired refresh token'')) (\<lambda>payload.
     bnd (guard (subject_of payload \<noteq> [] \<and> string_claim ''organizationId'' payload \<noteq> None \<and>
                 \<not> truthy (map_of payload ''purpose''))
       (unauthorized ''Invalid refresh token'')) (\<lambda>_.
     let refreshTokenHash = hashRefreshToken V refreshToken; now = z_now z in
     bnd (find_row ab_sessions (refreshable payload refreshTokenHash now)) (\<lambda>found.
     bnd (required found (unauthorized ''Refresh session is no longer valid'')) (\<lambda>session.
     bnd (reads (\<lambda>d. Option.bind (find_user (se_userId session) d) (with_relations d))) (\<lambda>owner.
     bnd (required owner (unauthorized ''Refresh session is no longer valid'')) (\<lambda>full.
     let user = fu_user full in
     bnd (guard (us_isActive user \<and> (us_isPlatformAdmin user \<or> og_status (fu_org full) = ''ACTIVE''))
       (unauthorized ''Refresh session is no longer valid'')) (\<lambda>_.
     let tokens = signTokens V z (us_id user) (us_org user) (Some (se_id session)) in
     bnd (from_sum (tokenExpiresAt V (snd tokens))) (\<lambda>expiresAt.
     bnd (update_rows ab_sessions ab_sessions_update
            (\<lambda>s. se_id s = se_id session \<and> se_hash s = refreshTokenHash \<and> live now s)
            (\<lambda>s. s\<lparr>se_hash := hashRefreshToken V (snd tokens), se_lastSeenAt := now, se_expiresAt := expiresAt\<rparr>)) (\<lambda>rotated.
     bnd (guard (rotated = 1) (unauthorized ''Refresh token has already been used'')) (\<lambda>_.
     ret tokens))))))))))"

definition logout :: "auth_fresh \<Rightarrow> string \<Rightarrow> string \<Rightarrow> string option \<Rightarrow> (auth_db, string \<times> time) op" where
  "logout z userId organizationId sessionId =
     bnd (guard (\<not> falsy sessionId) (unauthorized ''This access token is not bound to a revocable session'')) (\<lambda>_.
     bnd (update_rows ab_sessions ab_sessions_update
            (\<lambda>s. se_id s = the sessionId \<and> open_session_of organizationId userId s)
            (revoke_session (z_now z) ''User logged out'')) (\<lambda>_.
     ret (the sessionId, z_now z)))"

section \<open>The signed-in user\<close>

definition loginAccountType :: "bool \<Rightarrow> string" where
  "loginAccountType isPlatformAdmin = (if isPlatformAdmin then ''PLATFORM_ADMIN'' else ''TENANT_USER'')"

record user_view =
  uv_id :: string
  uv_org :: string
  uv_isPlatformAdmin :: bool
  uv_accountType :: string
  uv_email :: string
  uv_firstName :: string
  uv_lastName :: string
  uv_role :: string
  uv_lastLoginAt :: "time option"

definition view_of :: "user_row \<Rightarrow> string \<Rightarrow> time option \<Rightarrow> user_view" where
  "view_of u role lastLoginAt =
     \<lparr> uv_id = us_id u, uv_org = us_org u, uv_isPlatformAdmin = us_isPlatformAdmin u,
       uv_accountType = loginAccountType (us_isPlatformAdmin u), uv_email = us_email u,
       uv_firstName = us_firstName u, uv_lastName = us_lastName u, uv_role = role, uv_lastLoginAt = lastLoginAt \<rparr>"

definition getCurrentAuthenticatedUser ::
    "string option \<Rightarrow> string option \<Rightarrow> (auth_db, user_view \<times> string \<times> string \<times> string) op" where
  "getCurrentAuthenticatedUser userId organizationId =
     bnd (guard (\<not> falsy userId \<and> \<not> falsy organizationId) (unauthorized ''Unauthorized'')) (\<lambda>_.
     bnd (reads (\<lambda>d. Option.bind
            (find (\<lambda>u. Some (us_id u) = userId \<and> Some (us_org u) = organizationId \<and> us_isActive u) (ab_users d))
            (with_relations d))) (\<lambda>found.
     bnd (required found (unauthorized ''Unauthorized'')) (\<lambda>full.
     let g = fu_org full in
     ret (view_of (fu_user full) (ro_name (fu_role full)) (us_lastLoginAt (fu_user full)), og_name g, og_slug g, og_status g))))"

section \<open>A successful login\<close>

datatype login_response =
    LoggedIn user_view "string \<times> string"
  | ChallengeIssued two_factor_method "two_factor_method list" string int "string option"

definition ninety_days :: int where "ninety_days = 90 * 24 * 60 * 60 * 1000"

definition stale :: "string \<Rightarrow> string \<Rightarrow> time \<Rightarrow> session_row \<Rightarrow> bool" where
  "stale org userId now s \<longleftrightarrow>
     se_org s = org \<and> se_userId s = userId \<and> \<not> se_isCurrent s \<and>
     (se_expiresAt s < now - ninety_days \<or>
      (case se_revokedAt s of None \<Rightarrow> False | Some t \<Rightarrow> t < now - ninety_days))"

definition open_session ::
    "auth_env \<Rightarrow> auth_fresh \<Rightarrow> string \<Rightarrow> string \<Rightarrow> string \<Rightarrow> session_row \<Rightarrow> (auth_db, session_row) op" where
  "open_session V z org userId refreshToken template =
     bnd (from_sum (tokenExpiresAt V refreshToken)) (\<lambda>expiresAt.
     create_row ab_sessions ab_sessions_update same_session_id
       (template\<lparr> se_id := z_sessionId z, se_org := org, se_userId := userId,
          se_hash := hashRefreshToken V refreshToken, se_isCurrent := True, se_revokedAt := None,
          se_revokeReason := None, se_lastSeenAt := z_now z,
          se_expiresAt := expiresAt, se_createdAt := z_now z \<rparr>))"

definition blank_session :: session_row where
  "blank_session = \<lparr> se_id = [], se_org = [], se_userId = [], se_hash = [], se_deviceName = None,
     se_userAgent = None, se_ip = None, se_location = no_location, se_isCurrent = False,
     se_revokedAt = None, se_revokeReason = None, se_lastSeenAt = 0, se_expiresAt = 0, se_createdAt = 0 \<rparr>"

definition completeLoginSuccess ::
    "auth_env \<Rightarrow> auth_fresh \<Rightarrow> user_row \<Rightarrow> string \<Rightarrow> request_meta \<Rightarrow> (auth_db, login_response) op" where
  "completeLoginSuccess V z user roleName meta =
     (let clientIp = extractClientIp (v_geo V) meta;
          clientLocation = resolveRequestLocation (v_geo V) meta;
          clientUserAgent = mt_userAgent meta;
          tokens = signTokens V z (us_id user) (us_org user) (Some (z_sessionId z));
          now = z_now z in
      bnd (update_row ab_users ab_users_update (\<lambda>u. us_id u = us_id user)
             (\<lambda>u. u\<lparr>us_lastLoginAt := Some now, us_failedLoginAttempts := 0, us_lockedUntil := None\<rparr>)) (\<lambda>updatedUser.
      bnd (tx (bnd (revoke_sessions (us_org user) (us_id user) now ''Superseded by a new login'') (\<lambda>_.
               bnd (writes (ab_sessions_update (filter (\<lambda>s. \<not> stale (us_org user) (us_id user) now s)))) (\<lambda>_.
               open_session V z (us_org user) (us_id user) (snd tokens)
                 (blank_session\<lparr> se_userAgent := clientUserAgent,
                    se_deviceName := Some (resolveDeviceName clientUserAgent), se_ip := clientIp,
                    se_location := clientLocation \<rparr>))))) (\<lambda>_.
      bnd (logAuthEvent z (us_org user) (Some (us_id user)) (Some (us_email user)) ''LOGIN_SUCCESS'' ''SUCCESS'' None
             clientIp clientUserAgent clientLocation) (\<lambda>_.
      ret (LoggedIn (view_of user roleName (us_lastLoginAt updatedUser)) tokens)))))"

section \<open>Registration\<close>

record org_input =
  oi_name :: string
  oi_slug :: "string option"
  oi_profileImageUrl :: "string option"
  oi_email :: "string option"
  oi_phone :: "string option"
  oi_industry :: "string option"
  oi_address :: "string option"
  oi_taxId :: "string option"
  oi_cacNumber :: "string option"
  oi_country :: "string option"
  oi_currency :: string

record admin_input =
  di_firstName :: "string option"
  di_lastName :: "string option"
  di_email :: string
  di_password :: string

record registration =
  rg_org :: organization
  rg_user :: user_row
  rg_plan :: string
  rg_tokens :: "string \<times> string"

definition same_org :: "organization \<Rightarrow> organization \<Rightarrow> bool" where
  "same_org a b \<longleftrightarrow> og_id a = og_id b \<or> og_slug a = og_slug b"

definition same_role :: "role_row \<Rightarrow> role_row \<Rightarrow> bool" where
  "same_role a b \<longleftrightarrow> ro_id a = ro_id b \<or> (ro_org a = ro_org b \<and> ro_name a = ro_name b)"

definition same_user :: "user_row \<Rightarrow> user_row \<Rightarrow> bool" where
  "same_user a b \<longleftrightarrow> us_id a = us_id b \<or> (us_org a = us_org b \<and> us_email a = us_email b) \<or>
     same_key (us_employeeId a) (us_employeeId b)"

definition same_config :: "config_row \<Rightarrow> config_row \<Rightarrow> bool" where
  "same_config a b \<longleftrightarrow> cf_org a = cf_org b \<and> cf_key a = cf_key b"

text \<open>\<open>firstName?.trim() || "Owner"\<close>\<close>

definition trimmed_or :: "string \<Rightarrow> string option \<Rightarrow> string" where
  "trimmed_or fallback s = (case s of None \<Rightarrow> fallback | Some v \<Rightarrow> if trim v = [] then fallback else trim v)"

definition spaces_for_colons :: "string \<Rightarrow> string" where
  "spaces_for_colons s = map (\<lambda>c. if c = CHR '':'' then CHR '' '' else c) s"

text \<open>\<open>permission.createMany({ skipDuplicates: true })\<close>\<close>

definition add_permissions :: "auth_fresh \<Rightarrow> permission_row list \<Rightarrow> permission_row list" where
  "add_permissions z rows = rows @ map (\<lambda>key. \<lparr> pe_id = z_permissionId z key, pe_key = key,
       pe_description = Some (spaces_for_colons key) \<rparr>)
     (filter (\<lambda>key. key \<notin> pe_key ` set rows) permissions)"

definition registerOrganization ::
    "auth_env \<Rightarrow> auth_fresh \<Rightarrow> org_input \<Rightarrow> admin_input \<Rightarrow> (auth_db, registration) op" where
  "registerOrganization V z org admin =
     bnd (reads (\<lambda>d. global_rules (getGlobalPasswordPolicy d) defaultSecurityPolicy)) (\<lambda>rules.
     bnd (from_sum (validatePasswordAgainstPolicy (di_password admin) rules)) (\<lambda>_.
     let passwordHash = v_bcrypt V (di_password admin) 12 (z_salt z);
         adminFirstName = trimmed_or ''Owner'' (di_firstName admin);
         adminLastName = trimmed_or ''Admin'' (di_lastName admin);
         adminEmail = normalizeEmail (di_email admin);
         now = z_now z in
     tx (bnd (find_row ab_users (\<lambda>u. v_uniqueEmail V \<and> us_email u = adminEmail)) (\<lambda>existing.
         bnd (guard (existing = None) (badRequest ''Email already exists. Use login or a different email.'')) (\<lambda>_.
         bnd (reads (\<lambda>d. buildUniqueOrganizationSlug (map og_slug (ab_orgs d)) (oi_name org) (oi_slug org))) (\<lambda>slug.
         bnd (create_row ab_orgs ab_orgs_update same_org
                \<lparr> og_id = z_id z, og_name = oi_name org, og_slug = slug, og_status = ''ACTIVE'',
                  og_classification = ''CUSTOMER'', og_currency = oi_currency org,
                  og_profileImageUrl = oi_profileImageUrl org, og_email = oi_email org, og_phone = oi_phone org,
                  og_industry = oi_industry org, og_address = oi_address org, og_taxId = oi_taxId org,
                  og_cacNumber = oi_cacNumber org, og_country = oi_country org, og_deletionPending = False \<rparr>) (\<lambda>organization.
         bnd (writes (ab_permissions_update (add_permissions z))) (\<lambda>_.
         bnd (reads (\<lambda>d. filter (\<lambda>p. pe_key p \<in> set permissions) (ab_permissions d))) (\<lambda>allPermissions.
         bnd (create_row ab_roles ab_roles_update same_role
                \<lparr> ro_id = z_roleId z, ro_org = og_id organization, ro_name = ''Owner'', ro_isSystem = True,
                  ro_permissions = map pe_key allPermissions \<rparr>) (\<lambda>role.
         bnd (create_row ab_users ab_users_update same_user
                \<lparr> us_id = z_userId z, us_org = og_id organization, us_roleId = ro_id role, us_employeeId = None,
                  us_email = adminEmail, us_passwordHash = passwordHash, us_firstName = adminFirstName,
                  us_lastName = adminLastName, us_isActive = True, us_lastLoginAt = None,
                  us_profileImageUrl = oi_profileImageUrl org, us_failedLoginAttempts = 0, us_lockedUntil = None,
                  us_passwordChangedAt = now, us_isPlatformAdmin = False, us_moduleAccess = None \<rparr>) (\<lambda>user.
         let trialPlan = hd billingPlans in
         bnd (create_row ab_config ab_config_update same_config
                \<lparr> cf_org = og_id organization, cf_key = ''billing.subscription'',
                  cf_value = JObj [(''planKey'', JStr (bp_key trialPlan)), (''status'', JStr ''TRIAL''),
                    (''billingCycle'', JStr ''MONTHLY''), (''currency'', JStr (og_currency organization)),
                    (''trialStartedAt'', JStr (toISOString now))] \<rparr>) (\<lambda>_.
         bnd (each (\<lambda>moduleKey. create_row ab_config ab_config_update same_config
                \<lparr> cf_org = og_id organization, cf_key = ''module.'' @ moduleKey @ ''.status'', cf_value = JStr ''INACTIVE'' \<rparr>)
                billingModuleKeys) (\<lambda>_.
         let tokens = signTokens V z (us_id user) (us_org user) (Some (z_sessionId z)) in
         bnd (open_session V z (og_id organization) (us_id user) (snd tokens)
                (blank_session\<lparr> se_deviceName := Some ''Registration'' \<rparr>)) (\<lambda>_.
         ret \<lparr> rg_org = organization, rg_user = user, rg_plan = bp_key trialPlan, rg_tokens = tokens \<rparr>)))))))))))))) "

end
