(* ===== verification/SignIn.thy ===== *)
theory SignIn
  imports Sessions
begin

text \<open>
  Signing in (src/modules/auth/auth.service.ts): the password step with allowlist, lockout and
  expiry, the one-time challenge of the second factor and its verification, and the settings of a
  user's second factor.
\<close>

section \<open>The password step\<close>

definition lockout_ms :: int where "lockout_ms = 15 * 60 * 1000"

definition msPerDay_floor :: "int \<Rightarrow> int" where
  "msPerDay_floor ms = ms div (24 * 60 * 60 * 1000)"

definition locked :: "time \<Rightarrow> user_row \<Rightarrow> bool" where
  "locked now u \<longleftrightarrow> (case us_lockedUntil u of None \<Rightarrow> False | Some t \<Rightarrow> t > now)"

text \<open>A wrong password: count it unless the account is locked, then lock at the limit.\<close>

definition record_failure :: "time \<Rightarrow> int \<Rightarrow> string \<Rightarrow> (auth_db, bool) op" where
  "record_failure now lockoutMaxAttempts userId =
     bnd (update_rows ab_users ab_users_update (\<lambda>u. us_id u = userId \<and> \<not> locked now u)
            (\<lambda>u. u\<lparr>us_failedLoginAttempts := us_failedLoginAttempts u + 1, us_lockedUntil := None\<rparr>)) (\<lambda>_.
     bnd (reads (find_user userId)) (\<lambda>failedState.
     let shouldLock = (int (case failedState of None \<Rightarrow> 0 | Some u \<Rightarrow> us_failedLoginAttempts u) \<ge> lockoutMaxAttempts) in
     bnd (if shouldLock
          then update_rows ab_users ab_users_update (\<lambda>u. us_id u = userId \<and> us_lockedUntil u = None)
                 (\<lambda>u. u\<lparr>us_failedLoginAttempts := 0, us_lockedUntil := Some (now + lockout_ms)\<rparr>)
          else ret 0) (\<lambda>_.
     ret shouldLock)))"

definition same_challenge_id :: "challenge_row \<Rightarrow> challenge_row \<Rightarrow> bool" where
  "same_challenge_id a b \<longleftrightarrow> ch_id a = ch_id b"

text \<open>The requested method if the user can use it, else the preferred, else the first enabled one.\<close>

definition select_method ::
    "two_factor_method list \<Rightarrow> two_factor_method option \<Rightarrow> two_factor_method option \<Rightarrow> two_factor_method option" where
  "select_method enabled requested preferred =
     (case requested of
        Some m \<Rightarrow> if m \<in> set enabled then Some m else None
      | None \<Rightarrow> (case preferred of
            Some m \<Rightarrow> if m \<in> set enabled then Some m else Some (hd enabled)
          | None \<Rightarrow> Some (hd enabled)))"

definition begin_challenge ::
    "auth_env \<Rightarrow> auth_fresh \<Rightarrow> user_row \<Rightarrow> two_factor_method \<Rightarrow> string \<Rightarrow> (auth_db, challenge_row) op" where
  "begin_challenge V z user method otp =
     bnd (update_rows ab_challenges ab_challenges_update
            (\<lambda>c. ch_org c = us_org user \<and> ch_userId c = us_id user \<and> ch_purpose c = ''LOGIN_2FA'' \<and> ch_consumedAt c = None)
            (\<lambda>c. c\<lparr>ch_consumedAt := Some (z_now z)\<rparr>)) (\<lambda>_.
     create_row ab_challenges ab_challenges_update same_challenge_id
       \<lparr> ch_id = z_id z, ch_org = us_org user, ch_userId = us_id user, ch_purpose = ''LOGIN_2FA'', ch_method = method,
         ch_codeHash = v_bcrypt V otp 10 (z_salt z), ch_attempts = 0, ch_maxAttempts = LOGIN_2FA_MAX_ATTEMPTS,
         ch_expiresAt = z_now z + minutes LOGIN_2FA_OTP_TTL_MINUTES, ch_consumedAt = None \<rparr>)"

text \<open>The second half of \<open>login\<close>, once the password is accepted.\<close>

definition second_factor ::
    "auth_env \<Rightarrow> auth_fresh \<Rightarrow> full_user \<Rightarrow> security_policy \<Rightarrow> string \<Rightarrow> two_factor_method option \<Rightarrow> request_meta \<Rightarrow>
     (auth_db, login_response) op" where
  "second_factor V z full policy emailAttempted requested meta =
     (let user = fu_user full;
          enabledMethods = resolveEnabledMethods policy (us_email user) (fu_twoFactor full) (fu_phone full);
          shouldRequire = (sp_enforceTwoFactorForAllUsers policy \<or> enabledMethods \<noteq> []) in
      bnd (guard (\<not> (shouldRequire \<and> enabledMethods = []))
        (badRequest ''Two-factor authentication is required but no usable method is configured for this account'')) (\<lambda>_.
      if \<not> shouldRequire then completeLoginSuccess V z user (ro_name (fu_role full)) meta
      else
        bnd (required (select_method enabledMethods requested (case fu_twoFactor full of None \<Rightarrow> None | Some f \<Rightarrow> tf_preferred f))
          (badRequest ''Requested 2FA method is not available for this account'')) (\<lambda>selected.
        let otp = generateSixDigitOtp (z_random z) in
        bnd (begin_challenge V z user selected otp) (\<lambda>challenge.
        bnd (if selected = EMAIL_OTP then sendLoginOtpEmail V (us_email user) otp LOGIN_2FA_OTP_TTL_MINUTES else ret ()) (\<lambda>_.
        bnd (if selected = SMS_OTP
             then bnd (required (resolveUserTwoFactorContact (fu_twoFactor full) (fu_phone full))
                         (badRequest ''No mobile number configured for SMS 2FA'')) (\<lambda>phone.
                  sendLoginSmsOtp V phone otp LOGIN_2FA_OTP_TTL_MINUTES)
             else ret ()) (\<lambda>_.
        bnd (logAuthEvent z (us_org user) (Some (us_id user)) (Some emailAttempted) ''LOGIN_2FA_CHALLENGE'' ''SUCCESS'' None
               (extractClientIp (v_geo V) meta) (mt_userAgent meta) (resolveRequestLocation (v_geo V) meta)) (\<lambda>_.
        ret (ChallengeIssued selected enabledMethods (signLoginChallengeToken V z (us_id user) (ch_id challenge))
               (LOGIN_2FA_OTP_TTL_MINUTES * 60)
               (if \<not> v_production V \<and> ((selected = EMAIL_OTP \<and> \<not> v_smtpHost V) \<or> (selected = SMS_OTP \<and> falsy (v_smsUrl V)))
                then Some otp else None)))))))))"

definition login ::
    "auth_env \<Rightarrow> auth_fresh \<Rightarrow> string \<Rightarrow> string option \<Rightarrow> string \<Rightarrow> two_factor_method option \<Rightarrow> request_meta \<Rightarrow>
     (auth_db, login_response) op" where
  "login V z email organizationSlug password requested meta =
     bnd (resolveUserByEmailAndOrganization email organizationSlug) (\<lambda>found.
     bnd (required found (unauthorized ''Invalid credentials'')) (\<lambda>full.
     let user = fu_user full; now = z_now z;
         clientIp = extractClientIp (v_geo V) meta;
         clientLocation = resolveRequestLocation (v_geo V) meta;
         failed = (\<lambda>status reason. logAuthEvent z (us_org user) (Some (us_id user)) (Some email) ''LOGIN_FAILED'' status
                     (Some reason) clientIp (mt_userAgent meta) clientLocation) in
     bnd (guard (us_isActive user) (unauthorized ''Invalid credentials'')) (\<lambda>_.
     bnd (reads (getSecurityPolicyForOrganization (us_org user))) (\<lambda>policy.
     bnd (reads (\<lambda>d. map al_value (filter (\<lambda>a. al_org a = us_org user) (ab_allow d)))) (\<lambda>allowedIps.
     let allowed = (case clientIp of None \<Rightarrow> False | Some ip \<Rightarrow> isIpAllowed ip allowedIps) in
     if sp_ipAllowlistEnabled policy \<and> \<not> allowed
     then bnd (failed ''BLOCKED'' ''IP_NOT_ALLOWED'') (\<lambda>_. raise (unauthorized ''Login blocked by organization IP allowlist policy''))
     else if locked now user
     then bnd (failed ''BLOCKED'' ''ACCOUNT_LOCKED'') (\<lambda>_.
          raise (unauthorized ''Account is temporarily locked due to too many failed login attempts''))
     else if \<not> v_compare V password (us_passwordHash user)
     then bnd (record_failure now (sp_lockoutMaxAttempts policy) (us_id user)) (\<lambda>shouldLock.
          bnd (failed (if shouldLock then ''BLOCKED'' else ''FAILED'') (if shouldLock then ''ACCOUNT_LOCKED'' else ''INVALID_PASSWORD'')) (\<lambda>_.
          raise (unauthorized ''Invalid credentials'')))
     else bnd (guard (og_status (fu_org full) = ''ACTIVE'') (badRequest ''Organization is not active'')) (\<lambda>_.
     let passwordAgeDays = msPerDay_floor (now - us_passwordChangedAt user) in
     if (case sp_passwordExpiryDays policy of None \<Rightarrow> False | Some n \<Rightarrow> passwordAgeDays \<ge> n)
     then bnd (failed ''BLOCKED'' ''PASSWORD_EXPIRED'') (\<lambda>_.
          raise (unauthorized ''Password has expired. Reset your password to continue.''))
     else if sp_twoFactorEnabled policy then second_factor V z full policy email requested meta
     else completeLoginSuccess V z user (ro_name (fu_role full)) meta))))))"

section \<open>The second step\<close>

definition open_challenge :: "string \<Rightarrow> string \<Rightarrow> challenge_row \<Rightarrow> bool" where
  "open_challenge i userId c \<longleftrightarrow> ch_id c = i \<and> ch_userId c = userId \<and> ch_purpose c = ''LOGIN_2FA'' \<and> ch_consumedAt c = None"

text \<open>The code of a challenge: a time-based code for the authenticator, else the mailed code.\<close>

definition check_code :: "auth_env \<Rightarrow> auth_fresh \<Rightarrow> challenge_row \<Rightarrow> string \<Rightarrow> string \<Rightarrow> (auth_db, bool) op" where
  "check_code V z challenge userId otp =
     (if ch_method challenge = AUTHENTICATOR_APP
      then bnd (reads (find_two_factor userId)) (\<lambda>twoFactor.
           bnd (required (case twoFactor of None \<Rightarrow> None
                  | Some f \<Rightarrow> if tf_enabled f \<and> \<not> falsy (tf_secretEnc f) then tf_secretEnc f else None)
             (badRequest ''Authenticator app is not configured for this account'')) (\<lambda>enc.
           bnd (from_sum (decryptSecret V enc)) (\<lambda>secret.
           ret (v_totp V (z_now z) otp secret))))
      else ret (v_compare V otp (ch_codeHash challenge)))"

definition verifyLoginTwoFactor ::
    "auth_env \<Rightarrow> auth_fresh \<Rightarrow> string \<Rightarrow> string \<Rightarrow> request_meta \<Rightarrow> (auth_db, login_response) op" where
  "verifyLoginTwoFactor V z challengeToken otp meta =
     bnd (required (v_verify V (v_refreshSecret V) (z_now z) challengeToken)
       (badRequest ''2FA challenge token is invalid or expired'')) (\<lambda>decoded.
     let userId = subject_of decoded; challengeId = string_claim ''challengeId'' decoded; now = z_now z in
     bnd (guard (userId \<noteq> [] \<and> string_claim ''purpose'' decoded = Some ''login-2fa'' \<and> \<not> falsy challengeId)
       (badRequest ''2FA challenge token is invalid or expired'')) (\<lambda>_.
     bnd (find_row ab_challenges (open_challenge (the challengeId) userId)) (\<lambda>found.
     bnd (required found (badRequest ''2FA challenge has expired'')) (\<lambda>challenge.
     bnd (guard (\<not> ch_expiresAt challenge < now) (badRequest ''2FA challenge has expired'')) (\<lambda>_.
     bnd (guard (ch_attempts challenge < ch_maxAttempts challenge)
       (badRequest ''Maximum 2FA attempts exceeded. Please login again.'')) (\<lambda>_.
     bnd (check_code V z challenge userId otp) (\<lambda>valid.
     if \<not> valid
     then bnd (update_rows ab_challenges ab_challenges_update
                 (\<lambda>c. ch_id c = ch_id challenge \<and> ch_consumedAt c = None \<and> ch_attempts c < ch_maxAttempts challenge)
                 (\<lambda>c. c\<lparr>ch_attempts := ch_attempts c + 1\<rparr>)) (\<lambda>_.
          raise (badRequest ''Invalid verification code''))
     else
     bnd (update_rows ab_challenges ab_challenges_update
            (\<lambda>c. ch_id c = ch_id challenge \<and> ch_consumedAt c = None \<and> ch_attempts c < ch_maxAttempts challenge \<and> ch_expiresAt c > now)
            (\<lambda>c. c\<lparr>ch_consumedAt := Some now\<rparr>)) (\<lambda>consumed.
     bnd (guard (consumed = 1) (badRequest ''2FA challenge has already been used or expired'')) (\<lambda>_.
     bnd (reads (\<lambda>d. Option.bind
            (find (\<lambda>u. us_id u = userId \<and> us_org u = ch_org challenge \<and> us_isActive u) (ab_users d)) (with_relations d))) (\<lambda>found2.
     bnd (required found2 (unauthorized ''Invalid credentials'')) (\<lambda>full.
     bnd (guard (us_isPlatformAdmin (fu_user full) \<or> og_status (fu_org full) = ''ACTIVE'')
       (unauthorized ''Organization access is suspended'')) (\<lambda>_.
     completeLoginSuccess V z (fu_user full) (ro_name (fu_role full)) meta))))))))))))"

section \<open>Second-factor settings\<close>

record two_factor_status =
  ts_authenticatorEnabled :: bool
  ts_preferredMethod :: "two_factor_method option"
  ts_phoneNumber :: "string option"
  ts_hasEmail :: bool

definition getTwoFactorStatus :: "string option \<Rightarrow> (auth_db, two_factor_status) op" where
  "getTwoFactorStatus userId =
     bnd (guard (\<not> falsy userId) (unauthorized ''Unauthorized'')) (\<lambda>_.
     bnd (reads (find_user (the userId))) (\<lambda>found.
     bnd (required found (unauthorized ''Unauthorized'')) (\<lambda>user.
     bnd (reads (find_two_factor (us_id user))) (\<lambda>twoFactor.
     bnd (reads (employee_phone user)) (\<lambda>phone.
     ret \<lparr> ts_authenticatorEnabled = (case twoFactor of None \<Rightarrow> False | Some f \<Rightarrow> tf_enabled f),
           ts_preferredMethod = (case twoFactor of None \<Rightarrow> None | Some f \<Rightarrow> tf_preferred f),
           ts_phoneNumber = resolveUserTwoFactorContact twoFactor phone,
           ts_hasEmail = (us_email user \<noteq> []) \<rparr>)))))"

definition beginAuthenticatorSetup ::
    "auth_env \<Rightarrow> auth_fresh \<Rightarrow> string option \<Rightarrow> string option \<Rightarrow> (auth_db, string \<times> string \<times> string) op" where
  "beginAuthenticatorSetup V z userId accountName =
     bnd (guard (\<not> falsy userId) (unauthorized ''Unauthorized'')) (\<lambda>_.
     bnd (reads (\<lambda>d. Option.bind (find_user (the userId) d) (with_relations d))) (\<lambda>found.
     bnd (required found (unauthorized ''Unauthorized'')) (\<lambda>full.
     let secret = z_secret z;
         label = (case accountName of Some n \<Rightarrow> n | None \<Rightarrow> us_email (fu_user full));
         issuer = v_appName V @ '' ('' @ og_slug (fu_org full) @ '')'' in
     ret (signAuthenticatorSetupToken V z (the userId) secret, secret, v_otpUri V issuer label secret))))"

text \<open>\<open>userTwoFactor.upsert({ where: { userId } })\<close>\<close>

definition upsert_two_factor ::
    "string \<Rightarrow> two_factor_row \<Rightarrow> (two_factor_row \<Rightarrow> two_factor_row) \<Rightarrow> two_factor_row list \<Rightarrow> two_factor_row list" where
  "upsert_two_factor userId new f rows =
     (if find (\<lambda>r. tf_userId r = userId) rows = None then rows @ [new]
      else updateMany (\<lambda>r. tf_userId r = userId) f rows)"

definition enableAuthenticator ::
    "auth_env \<Rightarrow> auth_fresh \<Rightarrow> string option \<Rightarrow> string \<Rightarrow> string \<Rightarrow> (auth_db, two_factor_row option) op" where
  "enableAuthenticator V z userId setupToken otp =
     bnd (guard (\<not> falsy userId) (unauthorized ''Unauthorized'')) (\<lambda>_.
     bnd (required (v_verify V (v_refreshSecret V) (z_now z) setupToken)
       (badRequest ''Setup token is invalid or expired'')) (\<lambda>decoded.
     let secret = string_claim ''secret'' decoded in
     bnd (guard (string_claim ''purpose'' decoded = Some ''2fa-authenticator-setup'' \<and> subject_of decoded \<noteq> [] \<and>
                 \<not> falsy secret \<and> subject_of decoded = the userId)
       (badRequest ''Setup token is invalid or expired'')) (\<lambda>_.
     bnd (guard (v_totp V (z_now z) otp (the secret)) (badRequest ''Invalid authenticator code'')) (\<lambda>_.
     let enc = encryptSecret V (z_iv z) (the secret) in
     bnd (writes (ab_twoFactor_update (upsert_two_factor (the userId)
            \<lparr> tf_userId = the userId, tf_secretEnc = Some enc, tf_enabled = True, tf_phoneNumber = None,
              tf_preferred = Some AUTHENTICATOR_APP \<rparr>
            (\<lambda>f. f\<lparr>tf_enabled := True, tf_secretEnc := Some enc, tf_preferred := Some AUTHENTICATOR_APP\<rparr>)))) (\<lambda>_.
     reads (find_two_factor (the userId)))))))"

definition disableAuthenticator ::
    "auth_env \<Rightarrow> auth_fresh \<Rightarrow> string option \<Rightarrow> string \<Rightarrow> (auth_db, two_factor_row) op" where
  "disableAuthenticator V z userId otp =
     bnd (guard (\<not> falsy userId) (unauthorized ''Unauthorized'')) (\<lambda>_.
     bnd (reads (find_two_factor (the userId))) (\<lambda>found.
     bnd (required (case found of None \<Rightarrow> None | Some f \<Rightarrow> if tf_enabled f \<and> \<not> falsy (tf_secretEnc f) then Some f else None)
       (badRequest ''Authenticator app is not enabled for this account'')) (\<lambda>rec.
     bnd (from_sum (decryptSecret V (the (tf_secretEnc rec)))) (\<lambda>secret.
     bnd (guard (v_totp V (z_now z) otp secret) (badRequest ''Invalid authenticator code'')) (\<lambda>_.
     update_row ab_twoFactor ab_twoFactor_update (\<lambda>f. tf_userId f = the userId)
       (\<lambda>f. f\<lparr>tf_enabled := False, tf_secretEnc := None,
              tf_preferred := (if tf_preferred rec = Some AUTHENTICATOR_APP then None else tf_preferred rec)\<rparr>))))))"

definition updatePreferredTwoFactorMethod ::
    "string option \<Rightarrow> two_factor_method \<Rightarrow> string option \<Rightarrow> (auth_db, two_factor_row option) op" where
  "updatePreferredTwoFactorMethod userId method phoneNumber =
     bnd (guard (\<not> falsy userId) (unauthorized ''Unauthorized'')) (\<lambda>_.
     bnd (reads (find_user (the userId))) (\<lambda>found.
     bnd (required found (unauthorized ''Unauthorized'')) (\<lambda>user.
     bnd (reads (getSecurityPolicyForOrganization (us_org user))) (\<lambda>policy.
     bnd (reads (find_two_factor (us_id user))) (\<lambda>twoFactor.
     bnd (reads (employee_phone user)) (\<lambda>phone.
     let stored = (case twoFactor of
                     Some f \<Rightarrow> f
                   | None \<Rightarrow> \<lparr> tf_userId = us_id user, tf_secretEnc = None, tf_enabled = False, tf_phoneNumber = None, tf_preferred = None \<rparr>);
         virtual = stored\<lparr>tf_phoneNumber := (case phoneNumber of Some p \<Rightarrow> Some p | None \<Rightarrow> tf_phoneNumber stored)\<rparr>;
         enabledMethods = resolveEnabledMethods policy (us_email user) (Some virtual) phone in
     bnd (guard (method \<in> set enabledMethods) (badRequest ''Requested preferred method is not available for this account'')) (\<lambda>_.
     bnd (writes (ab_twoFactor_update (upsert_two_factor (the userId)
            \<lparr> tf_userId = the userId, tf_secretEnc = None, tf_enabled = False, tf_phoneNumber = phoneNumber, tf_preferred = Some method \<rparr>
            (\<lambda>f. f\<lparr>tf_phoneNumber := (if falsy phoneNumber then tf_phoneNumber f else phoneNumber), tf_preferred := Some method\<rparr>)))) (\<lambda>_.
     reads (find_two_factor (the userId))))))))))"

end
