(* ===== verification/Recovery.thy ===== *)
theory Recovery
  imports Sessions
begin

text \<open>
  Password recovery and invitations (src/modules/auth/auth.service.ts): the mailed reset code, its
  verification, the reset itself and the acceptance of a workspace invitation.
\<close>

definition same_otp_id :: "otp_row \<Rightarrow> otp_row \<Rightarrow> bool" where
  "same_otp_id a b \<longleftrightarrow> ot_id a = ot_id b"

definition unused_otp :: "string \<Rightarrow> otp_row \<Rightarrow> bool" where
  "unused_otp userId o' \<longleftrightarrow> ot_userId o' = userId \<and> ot_consumedAt o' = None"

definition consume_otps :: "string \<Rightarrow> time \<Rightarrow> (auth_db, nat) op" where
  "consume_otps userId now = update_rows ab_otps ab_otps_update (unused_otp userId) (\<lambda>o'. o'\<lparr>ot_consumedAt := Some now\<rparr>)"

text \<open>An active user of an active organization; anyone else is treated as unknown.\<close>

definition eligible :: "full_user option \<Rightarrow> full_user option" where
  "eligible found =
     (case found of None \<Rightarrow> None
      | Some f \<Rightarrow> if us_isActive (fu_user f) \<and> og_status (fu_org f) = ''ACTIVE'' then Some f else None)"

section \<open>The reset code\<close>

text \<open>Every outcome but a mail failure gives the same answer, so the return value is unit.\<close>

definition forgotPassword ::
    "auth_env \<Rightarrow> auth_fresh \<Rightarrow> string \<Rightarrow> string option \<Rightarrow> (auth_db, unit) op" where
  "forgotPassword V z email organizationSlug =
     bnd (resolveUserByEmailAndOrganization email organizationSlug) (\<lambda>found.
     case eligible found of
       None \<Rightarrow> ret ()
     | Some full \<Rightarrow>
         (let user = fu_user full; now = z_now z in
          bnd (find_row ab_otps (\<lambda>o'. unused_otp (us_id user) o' \<and> ot_createdAt o' > now - 60000)) (\<lambda>recent.
          case recent of
            Some _ \<Rightarrow> ret ()
          | None \<Rightarrow>
              (let otp = generateSixDigitOtp (z_random z) in
               bnd (tx (bnd (consume_otps (us_id user) now) (\<lambda>_.
                        create_row ab_otps ab_otps_update same_otp_id
                          \<lparr> ot_id = z_id z, ot_userId = us_id user, ot_codeHash = v_bcrypt V otp 10 (z_salt z),
                            ot_expiresAt = now + minutes RESET_OTP_TTL_MINUTES, ot_verifiedAt = None, ot_consumedAt = None,
                            ot_attempts = 0, ot_createdAt = now \<rparr>))) (\<lambda>_.
               catching (sendPasswordResetOtpEmail V (us_email user) otp RESET_OTP_TTL_MINUTES)
                 (\<lambda>e. bnd (consume_otps (us_id user) now) (\<lambda>_. raise e)))))))"

definition resendPasswordOtp ::
    "auth_env \<Rightarrow> auth_fresh \<Rightarrow> string \<Rightarrow> string option \<Rightarrow> (auth_db, unit) op" where
  "resendPasswordOtp V z email organizationSlug = forgotPassword V z email organizationSlug"

text \<open>\<open>findFirst({ orderBy: { createdAt: "desc" } })\<close>: the newest row that matches.\<close>

fun newest :: "otp_row list \<Rightarrow> otp_row option" where
  "newest [] = None"
| "newest (x # xs) = (case newest xs of None \<Rightarrow> Some x | Some y \<Rightarrow> if ot_createdAt y > ot_createdAt x then Some y else Some x)"

definition usable_otp :: "string \<Rightarrow> time \<Rightarrow> otp_row \<Rightarrow> bool" where
  "usable_otp i now o' \<longleftrightarrow> ot_id o' = i \<and> ot_consumedAt o' = None \<and> ot_verifiedAt o' = None \<and>
     ot_attempts o' < RESET_OTP_MAX_ATTEMPTS \<and> ot_expiresAt o' > now"

definition verifyResetOtp ::
    "auth_env \<Rightarrow> auth_fresh \<Rightarrow> string \<Rightarrow> string option \<Rightarrow> string \<Rightarrow> (auth_db, string) op" where
  "verifyResetOtp V z email organizationSlug otp =
     bnd (resolveUserByEmailAndOrganization email organizationSlug) (\<lambda>found.
     bnd (required (eligible found) (badRequest ''No active account found for the supplied email'')) (\<lambda>full.
     let userId = us_id (fu_user full); now = z_now z in
     bnd (reads (\<lambda>d. newest (filter (unused_otp userId) (ab_otps d)))) (\<lambda>latest.
     bnd (required (case latest of None \<Rightarrow> None | Some r \<Rightarrow> if ot_expiresAt r < now then None else Some r)
       (badRequest ''OTP is invalid or has expired'')) (\<lambda>otpRecord.
     bnd (guard (ot_attempts otpRecord < RESET_OTP_MAX_ATTEMPTS)
       (badRequest ''Maximum OTP attempts exceeded. Request a new OTP.'')) (\<lambda>_.
     if \<not> v_compare V otp (ot_codeHash otpRecord)
     then bnd (update_rows ab_otps ab_otps_update
                 (\<lambda>o'. ot_id o' = ot_id otpRecord \<and> ot_consumedAt o' = None \<and> ot_attempts o' < RESET_OTP_MAX_ATTEMPTS)
                 (\<lambda>o'. o'\<lparr>ot_attempts := ot_attempts o' + 1\<rparr>)) (\<lambda>_.
          raise (badRequest ''OTP is invalid or has expired''))
     else
     bnd (update_rows ab_otps ab_otps_update (usable_otp (ot_id otpRecord) now)
            (\<lambda>o'. o'\<lparr>ot_verifiedAt := Some now\<rparr>)) (\<lambda>verified.
     bnd (guard (verified = 1) (badRequest ''OTP is invalid or has expired'')) (\<lambda>_.
     ret (signPasswordResetToken V z userId (ot_id otpRecord)))))))))"

section \<open>The reset\<close>

definition claimable_otp :: "string \<Rightarrow> string \<Rightarrow> time \<Rightarrow> otp_row \<Rightarrow> bool" where
  "claimable_otp otpId userId now o' \<longleftrightarrow> ot_id o' = otpId \<and> unused_otp userId o' \<and> ot_verifiedAt o' \<noteq> None \<and>
     ot_expiresAt o' > now"

definition resetPassword :: "auth_env \<Rightarrow> auth_fresh \<Rightarrow> string \<Rightarrow> string \<Rightarrow> (auth_db, unit) op" where
  "resetPassword V z resetToken password =
     (let refused = badRequest ''Reset token is invalid or expired''; now = z_now z in
      bnd (required (v_verify V (v_refreshSecret V) now resetToken) refused) (\<lambda>decoded.
      let userId = subject_of decoded; otpId = string_claim ''otpId'' decoded in
      bnd (guard (userId \<noteq> [] \<and> string_claim ''purpose'' decoded = Some ''password-reset'' \<and> \<not> falsy otpId) refused) (\<lambda>_.
      bnd (find_row ab_otps (\<lambda>o'. ot_id o' = the otpId \<and> unused_otp userId o')) (\<lambda>found.
      bnd (required (case found of None \<Rightarrow> None
             | Some r \<Rightarrow> if ot_verifiedAt r = None \<or> ot_expiresAt r < now then None else Some r) refused) (\<lambda>_.
      bnd (reads (find_user userId)) (\<lambda>foundUser.
      bnd (required foundUser refused) (\<lambda>resetUser.
      bnd (reads (getSecurityPolicyForOrganization (us_org resetUser))) (\<lambda>policy.
      bnd (from_sum (validatePasswordAgainstPolicy password policy)) (\<lambda>_.
      let passwordHash = v_bcrypt V password 12 (z_salt z) in
      tx (bnd (update_rows ab_otps ab_otps_update (claimable_otp (the otpId) userId now)
                 (\<lambda>o'. o'\<lparr>ot_consumedAt := Some now\<rparr>)) (\<lambda>claimed.
          bnd (guard (claimed = 1) refused) (\<lambda>_.
          bnd (update_row ab_users ab_users_update (\<lambda>u. us_id u = userId)
                 (\<lambda>u. u\<lparr>us_passwordHash := passwordHash, us_passwordChangedAt := now\<rparr>)) (\<lambda>_.
          bnd (revoke_sessions (us_org resetUser) userId now ''Password reset'') (\<lambda>_.
          bnd (consume_otps userId now) (\<lambda>_. ret ())))))))))))))))"

section \<open>Accepting an invitation\<close>

definition pending_invitation :: "time \<Rightarrow> invitation_row \<Rightarrow> bool" where
  "pending_invitation now i \<longleftrightarrow> vt_status i = ''PENDING'' \<and> vt_expiresAt i > now"

definition acceptTenantAdminInvitation ::
    "auth_env \<Rightarrow> audit_env \<Rightarrow> auth_fresh \<Rightarrow> string \<Rightarrow> string \<Rightarrow> (auth_db, string \<times> string \<times> string \<times> string option) op" where
  "acceptTenantAdminInvitation V Y z token password =
     (let refused = badRequest ''Invitation is invalid or expired''; now = z_now z in
      bnd (find_row ab_invitations (\<lambda>i. vt_token i = token \<and> pending_invitation now i)) (\<lambda>found.
      bnd (required found refused) (\<lambda>invitation.
      bnd (reads (find_org (vt_org invitation))) (\<lambda>foundOrg.
      bnd (required (case foundOrg of None \<Rightarrow> None | Some g \<Rightarrow> if og_status g = ''ACTIVE'' then Some g else None) refused) (\<lambda>org.
      bnd (find_row ab_users (\<lambda>u. us_org u = vt_org invitation \<and> us_email u = vt_email invitation \<and>
             (case vt_roleId invitation of None \<Rightarrow> True | Some r \<Rightarrow> us_roleId u = r))) (\<lambda>foundUser.
      bnd (required foundUser refused) (\<lambda>user.
      bnd (reads (getSecurityPolicyForOrganization (vt_org invitation))) (\<lambda>policy.
      bnd (from_sum (validatePasswordAgainstPolicy password policy)) (\<lambda>_.
      let passwordHash = v_bcrypt V password 12 (z_salt z) in
      bnd (tx (bnd (update_rows ab_invitations ab_invitations_update
                      (\<lambda>i. vt_id i = vt_id invitation \<and> pending_invitation now i)
                      (\<lambda>i. i\<lparr>vt_status := ''ACCEPTED'', vt_acceptedAt := Some now\<rparr>)) (\<lambda>consumed.
               bnd (guard (consumed = 1) refused) (\<lambda>_.
               bnd (update_row ab_users ab_users_update (\<lambda>u. us_id u = us_id user)
                      (\<lambda>u. u\<lparr>us_passwordHash := passwordHash, us_passwordChangedAt := now, us_isActive := True\<rparr>)) (\<lambda>_.
               bnd (update_rows ab_profiles ab_profiles_update
                      (\<lambda>a. ap_org a = vt_org invitation \<and> ap_userId a = us_id user)
                      (\<lambda>a. a\<lparr>ap_status := ''ACTIVE'', ap_deactivatedAt := None\<rparr>)) (\<lambda>_.
               revoke_sessions (vt_org invitation) (us_id user) now ''Tenant invitation password established''))))))  (\<lambda>_.
      bnd (zoom ab_audit (\<lambda>a d. d\<lparr>ab_audit := a\<rparr>) (createAuditLog Y now
             (audit_of (vt_org invitation) (Some (us_id user)) ''TENANT_ADMIN_INVITATION_ACCEPTED'' ''INVITATION''
               (vt_id invitation) ''Tenant Admin accepted workspace invitation''
               (Some (JObj [(''userId'', JStr (us_id user))]))))) (\<lambda>_.
      bnd (reads (\<lambda>d. map_option ro_name (Option.bind (vt_roleId invitation) (\<lambda>r. find_role r d)))) (\<lambda>roleName.
      ret (og_name org, og_slug org, vt_email invitation, roleName)))))))))))))"

end
