(* ===== verification/AuthGate.thy ===== *)
theory AuthGate
  imports SignIn
begin

text \<open>
  The request pipeline: src/middleware/auth.middleware.ts (who is calling), rbac, tenant,
  platform-admin, module-access, impersonation and maintenance middleware (may they), and
  src/middleware/error.middleware.ts (how an error is answered). Each middleware is a function
  that passes the request on or answers with an error.
\<close>

section \<open>Who is calling\<close>

record impersonation =
  ip_sessionId :: string
  ip_adminUserId :: string
  ip_adminSessionId :: string

record request_user =
  ru_id :: string
  ru_org :: string
  ru_email :: string
  ru_roleId :: string
  ru_isPlatformAdmin :: bool
  ru_moduleAccess :: "string list option"
  ru_sessionId :: "string option"
  ru_impersonation :: "impersonation option"
  ru_permissions :: "string list"

definition canAccessOrganization :: "full_user \<Rightarrow> bool" where
  "canAccessOrganization full \<longleftrightarrow> us_isPlatformAdmin (fu_user full) \<or> og_status (fu_org full) = ''ACTIVE''"

definition bearer_token :: "string option \<Rightarrow> string option" where
  "bearer_token header =
     (case header of None \<Rightarrow> None
      | Some h \<Rightarrow> if starts_with ''Bearer '' h \<and> drop 7 h \<noteq> [] then Some (drop 7 h) else None)"

text \<open>An \<open>undefined\<close> value in a Prisma filter leaves the column unrestricted.\<close>

definition matches_claim :: "string option \<Rightarrow> string \<Rightarrow> bool" where
  "matches_claim c v \<longleftrightarrow> (case c of None \<Rightarrow> True | Some s \<Rightarrow> v = s)"

definition active_session :: "auth_db \<Rightarrow> time \<Rightarrow> string \<Rightarrow> (session_row \<Rightarrow> bool) \<Rightarrow> bool" where
  "active_session d now i P \<longleftrightarrow> list_ex (\<lambda>s. se_id s = i \<and> P s \<and> live now s) (ab_sessions d)"

definition active_impersonation :: "auth_db \<Rightarrow> time \<Rightarrow> string \<Rightarrow> string \<Rightarrow> user_row \<Rightarrow> bool" where
  "active_impersonation d now i adminUserId user \<longleftrightarrow>
     list_ex (\<lambda>m. im_id m = i \<and> im_adminUserId m = adminUserId \<and> im_tenantUserId m = us_id user \<and>
        im_org m = us_org user \<and> im_status m = ''ACTIVE'' \<and> im_endedAt m = None \<and> im_expiresAt m > now) (ab_impersonations d)"

definition granted_permissions :: "role_row \<Rightarrow> string list" where
  "granted_permissions role =
     remdups (ro_permissions role @ (if ro_isSystem role \<and> ro_name role = ''Owner'' then permissions else []))"

definition module_access_of :: "json option \<Rightarrow> string list option" where
  "module_access_of v =
     (case v of Some (JArr xs) \<Rightarrow> Some (map the (filter (\<lambda>x. x \<noteq> None) (map (\<lambda>j. jstring (Some j)) xs)))
      | _ \<Rightarrow> None)"

definition authenticate :: "auth_env \<Rightarrow> time \<Rightarrow> string option \<Rightarrow> auth_db \<Rightarrow> app_error + request_user" where
  "authenticate V now header d =
     (case bearer_token header of
        None \<Rightarrow> Inl (unauthorized ''Bearer token is required'')
      | Some token \<Rightarrow>
     (case v_verify V (v_accessSecret V) now token of
        None \<Rightarrow> Inl (unauthorized ''Invalid or expired token'')
      | Some payload \<Rightarrow>
     (case Option.bind (find (\<lambda>u. matches_claim (string_claim ''sub'' payload) (us_id u) \<and>
                 matches_claim (string_claim ''organizationId'' payload) (us_org u) \<and> us_isActive u) (ab_users d))
             (with_relations d) of
        None \<Rightarrow> Inl (unauthorized ''Unauthorized'')
      | Some full \<Rightarrow>
          (let user = fu_user full;
               sessionId = string_claim ''sessionId'' payload;
               impersonating = (string_claim ''purpose'' payload = Some ''platform-impersonation'');
               impId = string_claim ''impersonationSessionId'' payload;
               adminId = string_claim ''platformAdminUserId'' payload;
               adminSession = string_claim ''platformAdminSessionId'' payload in
           if \<not> canAccessOrganization full then Inl (unauthorized ''Organization access is suspended'')
           else if \<not> falsy sessionId \<and>
             \<not> active_session d now (the sessionId) (\<lambda>s. se_userId s = us_id user \<and> se_org s = us_org user)
           then Inl (unauthorized ''Session is no longer active'')
           else if impersonating \<and> (falsy impId \<or> falsy adminId \<or> falsy adminSession)
           then Inl (unauthorized ''Invalid impersonation token'')
           else if impersonating \<and> \<not> active_session d now (the adminSession) (\<lambda>s. se_userId s = the adminId)
           then Inl (unauthorized ''Platform Admin session is no longer active'')
           else if impersonating \<and> \<not> active_impersonation d now (the impId) (the adminId) user
           then Inl (unauthorized ''Impersonation session is no longer active'')
           else if \<not> impersonating \<and> falsy sessionId
           then Inl (unauthorized ''Access token is not bound to an active session'')
           else Inr \<lparr> ru_id = us_id user, ru_org = us_org user, ru_email = us_email user, ru_roleId = us_roleId user,
             ru_isPlatformAdmin = us_isPlatformAdmin user, ru_moduleAccess = module_access_of (us_moduleAccess user),
             ru_sessionId = sessionId,
             ru_impersonation = (if impersonating
               then Some \<lparr> ip_sessionId = the impId, ip_adminUserId = the adminId, ip_adminSessionId = the adminSession \<rparr>
               else None),
             ru_permissions = granted_permissions (fu_role full) \<rparr>))))"

section \<open>May they\<close>

definition authorize :: "string list \<Rightarrow> request_user option \<Rightarrow> app_error + unit" where
  "authorize req user =
     (let granted = (case user of None \<Rightarrow> [] | Some u \<Rightarrow> ru_permissions u)
      in if list_all (\<lambda>p. p \<in> set granted) req then Inr ()
         else Inl (forbidden ''You do not have permission to perform this action''))"

definition requireTenant :: "request_user option \<Rightarrow> app_error + string" where
  "requireTenant user =
     (case user of
        Some u \<Rightarrow> if ru_org u = [] then Inl (forbidden ''Tenant context is required'') else Inr (ru_org u)
      | None \<Rightarrow> Inl (forbidden ''Tenant context is required''))"

definition requirePlatformAdmin :: "request_user option \<Rightarrow> app_error + unit" where
  "requirePlatformAdmin user =
     (case user of
        Some u \<Rightarrow> if ru_isPlatformAdmin u then Inr () else Inl (forbidden ''Platform Admin access is required'')
      | None \<Rightarrow> Inl (forbidden ''Platform Admin access is required''))"

definition requireEffectiveModuleAccess ::
    "time \<Rightarrow> string \<Rightarrow> request_user option \<Rightarrow> auth_db \<Rightarrow> app_error + unit" where
  "requireEffectiveModuleAccess now mkey user d =
     (case user of
        None \<Rightarrow> Inl (forbidden ''Direct tenant module access is required'')
      | Some u \<Rightarrow>
          if ru_isPlatformAdmin u then Inl (forbidden ''Direct tenant module access is required'')
          else if evaluateEffectiveModuleAccess now (ru_org u) True (ru_permissions u) (ru_moduleAccess u) mkey d
          then Inr () else Inl (forbidden (toUpper mkey @ '' module access is disabled or not permitted'')))"

definition requireModuleEntitlement ::
    "time \<Rightarrow> string \<Rightarrow> request_user option \<Rightarrow> auth_db \<Rightarrow> app_error + unit" where
  "requireModuleEntitlement now mkey user d =
     (case user of
        None \<Rightarrow> Inl (forbidden ''Direct tenant module access is required'')
      | Some u \<Rightarrow>
          if ru_isPlatformAdmin u then Inl (forbidden ''Direct tenant module access is required'')
          else if isOrganizationModuleEnabled now (ru_org u) mkey d
          then Inr () else Inl (forbidden (toUpper mkey @ '' module access is disabled'')))"

text \<open>\<open>/\/(security|...)(\/|$)/i\<close>: a whole path segment is one of the words.\<close>

definition sensitiveMutation :: "string \<Rightarrow> bool" where
  "sensitiveMutation path =
     list_ex (\<lambda>seg. toLower seg \<in> {''security'', ''password'', ''billing'', ''payment'', ''wallet'', ''bank'',
        ''subscription'', ''payroll'', ''settings'', ''delete'', ''export''}) (tl (split_on CHR ''/'' path))"

definition restrictImpersonatedSensitiveActions ::
    "string \<Rightarrow> string \<Rightarrow> request_user option \<Rightarrow> app_error + unit" where
  "restrictImpersonatedSensitiveActions method path user =
     (if (case user of None \<Rightarrow> False | Some u \<Rightarrow> ru_impersonation u \<noteq> None) \<and> method \<noteq> ''GET'' \<and> sensitiveMutation path
      then Inl (forbidden ''This sensitive action is unavailable during impersonation'') else Inr ())"

section \<open>How an error is answered\<close>

datatype thrown = MalformedJson | UploadError string | Thrown app_error

definition answer :: "string \<Rightarrow> string \<Rightarrow> (string \<times> json) list" where
  "answer message errorCode =
     [(''success'', JBool False), (''message'', JStr message), (''data'', JNull), (''errorCode'', JStr errorCode)]"

definition detail :: "string \<Rightarrow> json option \<Rightarrow> json option" where
  "detail k details = (case details of None \<Rightarrow> None | Some v \<Rightarrow> jfield k v)"

text \<open>\<open>a ?? b\<close> on JSON values\<close>

definition nullish_or :: "json option \<Rightarrow> json \<Rightarrow> json" where
  "nullish_or v other = (case v of None \<Rightarrow> other | Some JNull \<Rightarrow> other | Some j \<Rightarrow> j)"

fun errorMiddleware :: "thrown \<Rightarrow> nat \<times> (string \<times> json) list" where
  "errorMiddleware MalformedJson = (400, answer ''Request body contains malformed JSON'' ''INVALID_JSON'')"
| "errorMiddleware (UploadError code) =
     (if code \<in> {''LIMIT_FILE_SIZE'', ''LIMIT_FILE_COUNT'', ''LIMIT_PART_COUNT''}
      then (413, answer ''Upload exceeds the permitted size or file count'' ''UPLOAD_TOO_LARGE'')
      else (400, answer ''Invalid multipart upload payload'' ''INVALID_MULTIPART''))"
| "errorMiddleware (Thrown (HttpError status message details)) =
     (status, answer message (case jstring (detail ''errorCode'' details) of Some c \<Rightarrow> c | None \<Rightarrow> ''HTTP_'' @ show_nat status) @
       [(''validationErrors'', nullish_or (detail ''validationErrors'' details)
           (if status = 400 then nullish_or details JNull else JNull))] @
       (case details of None \<Rightarrow> [] | Some v \<Rightarrow> [(''details'', v)]))"
| "errorMiddleware (Thrown (PrismaError code)) =
     (if code = ''P2002'' then (409, answer ''A record with those values already exists'' ''CONFLICT'')
      else if code = ''P2025'' then (404, answer ''Resource not found'' ''NOT_FOUND'')
      else if code = ''P2003'' then (409, answer ''The operation conflicts with related records'' ''RELATED_RECORD_CONFLICT'')
      else if code \<in> {''P2000'', ''P2005'', ''P2006'', ''P2007''}
      then (400, answer ''The supplied value is invalid'' ''INVALID_DATABASE_VALUE'')
      else if code \<in> {''P2034'', ''P2028''}
      then (409, answer ''The operation conflicted with another update; please retry'' ''CONCURRENT_UPDATE'')
      else (500, answer ''Internal server error'' ''INTERNAL_ERROR''))"
| "errorMiddleware (Thrown _) = (500, answer ''Internal server error'' ''INTERNAL_ERROR'')"

end
