(* ===== verification/AuthLedger.thy ===== *)
theory AuthLedger
  imports SignIn Recovery AuthGate Triples
begin

text \<open>
  The invariants every operation of the authentication service keeps: a user has at most one open session, one open second-factor challenge and one unused
  reset code, no code is tried more often than allowed, and sessions belong to users that exist.
\<close>

section \<open>At most one row\<close>

definition at_most_one :: "('r \<Rightarrow> bool) \<Rightarrow> 'r list \<Rightarrow> bool" where
  "at_most_one P rows \<longleftrightarrow> length (filter P rows) \<le> 1"

lemma length_filter_updateMany:
  assumes "\<And>x. P (f x) \<Longrightarrow> P x"
  shows "length (filter P (updateMany Q f rows)) \<le> length (filter P rows)"
proof (induction rows)
  case (Cons x rows)
  from assms[of x] Cons show ?case by (cases "P x"; cases "P (f x)"; cases "Q x") simp_all
qed simp

lemma at_most_one_updateMany:
  "(\<And>x. P (f x) \<Longrightarrow> P x) \<Longrightarrow> at_most_one P rows \<Longrightarrow> at_most_one P (updateMany Q f rows)"
  unfolding at_most_one_def using length_filter_updateMany[of P f Q rows] by simp

lemma at_most_one_filter: "at_most_one P rows \<Longrightarrow> at_most_one P (filter Q rows)"
proof -
  have "length (filter P (filter Q rows)) \<le> length (filter P rows)" by (induction rows) auto
  then show "at_most_one P rows \<Longrightarrow> at_most_one P (filter Q rows)" by (simp add: at_most_one_def)
qed

text \<open>Closing every matching row makes room for one new row.\<close>

lemma at_most_one_closed:
  assumes "\<And>x. P x \<Longrightarrow> Q x" and "\<And>x. \<not> P (f x)"
  shows "at_most_one P (updateMany Q f rows @ [r])"
proof -
  have "filter P (updateMany Q f rows) = []" using assms by (induction rows) auto
  then show ?thesis by (simp add: at_most_one_def)
qed

lemma at_most_one_closed_filter:
  assumes "\<And>x. P x \<Longrightarrow> Q x" and "\<And>x. \<not> P (f x)"
  shows "at_most_one P (filter R (updateMany Q f rows) @ [r])"
proof -
  have "filter P (filter R (updateMany Q f rows)) = []" using assms by (induction rows) auto
  then show ?thesis by (simp add: at_most_one_def)
qed

lemma at_most_one_other: "\<not> P r \<Longrightarrow> at_most_one P rows \<Longrightarrow> at_most_one P (rows @ [r])"
  by (simp add: at_most_one_def)

lemma at_most_one_same:
  "at_most_one P rows \<Longrightarrow> x \<in> set rows \<Longrightarrow> y \<in> set rows \<Longrightarrow> P x \<Longrightarrow> P y \<Longrightarrow> x = y"
proof -
  assume one: "at_most_one P rows" and "x \<in> set rows" "y \<in> set rows" "P x" "P y"
  then have "x \<in> set (filter P rows)" "y \<in> set (filter P rows)" by auto
  with one show "x = y" unfolding at_most_one_def by (cases "filter P rows") auto
qed

section \<open>The invariants\<close>

definition sessions_ok :: "auth_db \<Rightarrow> bool" where
  "sessions_ok d \<longleftrightarrow>
     distinct (map se_id (ab_sessions d)) \<and> distinct (map us_id (ab_users d)) \<and>
     (\<forall>org userId. at_most_one (open_session_of org userId) (ab_sessions d)) \<and>
     se_userId ` set (ab_sessions d) \<subseteq> us_id ` set (ab_users d)"

definition open_2fa :: "string \<Rightarrow> string \<Rightarrow> challenge_row \<Rightarrow> bool" where
  "open_2fa org userId c \<longleftrightarrow>
     ch_org c = org \<and> ch_userId c = userId \<and> ch_purpose c = ''LOGIN_2FA'' \<and> ch_consumedAt c = None"

definition challenges_ok :: "auth_db \<Rightarrow> bool" where
  "challenges_ok d \<longleftrightarrow>
     distinct (map ch_id (ab_challenges d)) \<and>
     (\<forall>org userId. at_most_one (open_2fa org userId) (ab_challenges d)) \<and>
     (\<forall>c \<in> set (ab_challenges d). ch_maxAttempts c = LOGIN_2FA_MAX_ATTEMPTS \<and> ch_attempts c \<le> LOGIN_2FA_MAX_ATTEMPTS)"

definition otps_ok :: "auth_db \<Rightarrow> bool" where
  "otps_ok d \<longleftrightarrow>
     distinct (map ot_id (ab_otps d)) \<and>
     (\<forall>userId. at_most_one (unused_otp userId) (ab_otps d)) \<and>
     (\<forall>o' \<in> set (ab_otps d). ot_attempts o' \<le> RESET_OTP_MAX_ATTEMPTS)"

definition two_factor_ok :: "auth_db \<Rightarrow> bool" where
  "two_factor_ok d \<longleftrightarrow> distinct (map tf_userId (ab_twoFactor d))"

definition auth_ok :: "auth_db \<Rightarrow> bool" where
  "auth_ok d \<longleftrightarrow> sessions_ok d \<and> challenges_ok d \<and> otps_ok d \<and> two_factor_ok d"

lemmas auth_ok_parts = auth_ok_def sessions_ok_def challenges_ok_def otps_ok_def two_factor_ok_def

section \<open>What the table updates keep\<close>

text \<open>Tables outside the invariant.\<close>

lemma auth_ok_frame [simp]:
  "auth_ok (ab_events_update f d) = auth_ok d" "auth_ok (ab_outbox_update f1 d) = auth_ok d"
  "auth_ok (ab_orgs_update f2 d) = auth_ok d" "auth_ok (ab_permissions_update f3 d) = auth_ok d"
  "auth_ok (ab_roles_update f4 d) = auth_ok d" "auth_ok (ab_config_update f5 d) = auth_ok d"
  "auth_ok (ab_invitations_update f6 d) = auth_ok d" "auth_ok (ab_profiles_update f7 d) = auth_ok d"
  "auth_ok (ab_audit_update f8 d) = auth_ok d"
  by (simp_all add: auth_ok_parts)

lemma ids_updateMany: "(\<And>x. k (f x) = k x) \<Longrightarrow> map k (updateMany P f rows) = map k rows"
  by (rule map_updateMany_same) simp

lemma image_updateMany: "(\<And>x. k (f x) = k x) \<Longrightarrow> k ` set (updateMany P f rows) = k ` set rows"
  using ids_updateMany[of k f P rows] by (metis set_map)

lemma auth_ok_users: "(\<And>u. us_id (f u) = us_id u) \<Longrightarrow> auth_ok d \<Longrightarrow> auth_ok (ab_users_update (updateMany P f) d)"
  by (auto simp: auth_ok_parts ids_updateMany image_updateMany)

lemma auth_ok_sessions:
  assumes "\<And>s. se_id (f s) = se_id s" and "\<And>s. se_userId (f s) = se_userId s" and "\<And>s. se_org (f s) = se_org s"
    and "\<And>s. se_revokedAt (f s) = None \<Longrightarrow> se_revokedAt s = None" and "auth_ok d"
  shows "auth_ok (ab_sessions_update (updateMany P f) d)"
proof -
  have "at_most_one (open_session_of org u) (updateMany P f (ab_sessions d))" for org u
    using assms(5) by (intro at_most_one_updateMany) (auto simp: open_session_of_def assms(2-4) auth_ok_parts)
  moreover have "se_userId ` set (updateMany P f (ab_sessions d)) = se_userId ` set (ab_sessions d)"
    by (rule image_updateMany) (rule assms(2))
  moreover have "map se_id (updateMany P f (ab_sessions d)) = map se_id (ab_sessions d)"
    by (rule ids_updateMany) (rule assms(1))
  ultimately show ?thesis using assms(5) by (simp add: auth_ok_parts)
qed

lemma auth_ok_challenges:
  assumes "\<And>c. ch_id (f c) = ch_id c" and "\<And>c org u. open_2fa org u (f c) \<Longrightarrow> open_2fa org u c"
    and "\<And>c. ch_maxAttempts (f c) = ch_maxAttempts c"
    and "\<And>c. P c \<Longrightarrow> ch_attempts c \<le> LOGIN_2FA_MAX_ATTEMPTS \<Longrightarrow> ch_attempts (f c) \<le> LOGIN_2FA_MAX_ATTEMPTS"
    and "auth_ok d"
  shows "auth_ok (ab_challenges_update (updateMany P f) d)"
proof -
  have "at_most_one (open_2fa org u) (updateMany P f (ab_challenges d))" for org u
    by (rule at_most_one_updateMany[OF assms(2)]) (use assms(5) in \<open>simp_all add: auth_ok_parts\<close>)
  moreover have "map ch_id (updateMany P f (ab_challenges d)) = map ch_id (ab_challenges d)"
    by (rule ids_updateMany) (rule assms(1))
  moreover have "\<forall>c \<in> set (updateMany P f (ab_challenges d)).
      ch_maxAttempts c = LOGIN_2FA_MAX_ATTEMPTS \<and> ch_attempts c \<le> LOGIN_2FA_MAX_ATTEMPTS"
  proof
    fix c assume "c \<in> set (updateMany P f (ab_challenges d))"
    then obtain x where x: "x \<in> set (ab_challenges d)" "c = (if P x then f x else x)" by (rule updateManyE)
    with assms(5) have "ch_maxAttempts x = LOGIN_2FA_MAX_ATTEMPTS \<and> ch_attempts x \<le> LOGIN_2FA_MAX_ATTEMPTS"
      by (simp add: auth_ok_parts)
    with x(2) assms(3)[of x] assms(4)[of x]
    show "ch_maxAttempts c = LOGIN_2FA_MAX_ATTEMPTS \<and> ch_attempts c \<le> LOGIN_2FA_MAX_ATTEMPTS"
      by (cases "P x") simp_all
  qed
  ultimately show ?thesis using assms(5) by (simp add: auth_ok_parts)
qed

lemma auth_ok_otps:
  assumes "\<And>x. ot_id (f x) = ot_id x" and "\<And>x u. unused_otp u (f x) \<Longrightarrow> unused_otp u x"
    and "\<And>x. P x \<Longrightarrow> ot_attempts x \<le> RESET_OTP_MAX_ATTEMPTS \<Longrightarrow> ot_attempts (f x) \<le> RESET_OTP_MAX_ATTEMPTS"
    and "auth_ok d"
  shows "auth_ok (ab_otps_update (updateMany P f) d)"
proof -
  have "at_most_one (unused_otp u) (updateMany P f (ab_otps d))" for u
    by (rule at_most_one_updateMany[OF assms(2)]) (use assms(4) in \<open>simp_all add: auth_ok_parts\<close>)
  moreover have "map ot_id (updateMany P f (ab_otps d)) = map ot_id (ab_otps d)"
    by (rule ids_updateMany) (rule assms(1))
  moreover have "\<forall>c \<in> set (updateMany P f (ab_otps d)). ot_attempts c \<le> RESET_OTP_MAX_ATTEMPTS"
  proof
    fix c assume "c \<in> set (updateMany P f (ab_otps d))"
    then obtain x where x: "x \<in> set (ab_otps d)" "c = (if P x then f x else x)" by (rule updateManyE)
    with assms(4) have "ot_attempts x \<le> RESET_OTP_MAX_ATTEMPTS" by (simp add: auth_ok_parts)
    with x(2) assms(3)[of x] show "ot_attempts c \<le> RESET_OTP_MAX_ATTEMPTS" by (cases "P x") simp_all
  qed
  ultimately show ?thesis using assms(4) by (simp add: auth_ok_parts)
qed

lemma auth_ok_upsert:
  assumes "\<And>f'. tf_userId (f f') = tf_userId f'" and "tf_userId new = u" and "auth_ok d"
  shows "auth_ok (ab_twoFactor_update (upsert_two_factor u new f) d)"
proof -
  have "distinct (map tf_userId (upsert_two_factor u new f (ab_twoFactor d)))"
    using assms by (auto simp: upsert_two_factor_def auth_ok_parts ids_updateMany find_None_iff)
  then show ?thesis using assms(3) by (simp add: auth_ok_parts)
qed

section \<open>What the operations keep\<close>

lemma keeps_find [keeps_rules]: "keeps I (resolveUserByEmailAndOrganization e s)"
  unfolding resolveUserByEmailAndOrganization_def Let_def by (intro keeps_rules)

lemma keeps_event [keeps_rules]: "keeps auth_ok (logAuthEvent z org u e t st r ip ua loc)"
  unfolding logAuthEvent_def by (intro keeps_writes) simp

lemma keeps_mail [keeps_rules]:
  "keeps auth_ok (deliver_mail V a b c)" "keeps auth_ok (sendPasswordResetOtpEmail V a b n)"
  "keeps auth_ok (sendLoginOtpEmail V a b n)" "keeps auth_ok (sendLoginSmsOtp V a b n)"
  unfolding sendPasswordResetOtpEmail_def sendLoginOtpEmail_def sendLoginSmsOtp_def deliver_mail_def Let_def
  by (intro keeps_rules keeps_writes; simp)+

lemma keeps_revoke [keeps_rules]: "keeps auth_ok (revoke_sessions org u now reason)"
  unfolding revoke_sessions_def
  by (intro keeps_update_rows auth_ok_sessions) (simp_all add: revoke_session_def)

lemma keeps_consume [keeps_rules]: "keeps auth_ok (consume_otps u now)"
  unfolding consume_otps_def by (intro keeps_update_rows auth_ok_otps) (simp_all add: unused_otp_def)

lemma keeps_refresh: "keeps auth_ok (refreshAuthenticationTokens V z token)"
  unfolding refreshAuthenticationTokens_def Let_def
  by (intro keeps_rules keeps_find_row keeps_update_rows auth_ok_sessions; simp)

lemma keeps_logout: "keeps auth_ok (logout z u org sid)"
  unfolding logout_def
  by (intro keeps_rules keeps_update_rows auth_ok_sessions; simp add: revoke_session_def)

text \<open>A new session after every open one of the user was revoked and the stale ones deleted.\<close>

lemma auth_ok_new_session:
  fixes r :: session_row
  assumes "auth_ok d" and "se_org r = org" and "se_userId r = u" and "u \<in> us_id ` set (ab_users d)"
    and "\<not> clashes same_session_id r (filter R (updateMany (open_session_of org u) (revoke_session now m) (ab_sessions d)))"
  shows "auth_ok (ab_sessions_update (\<lambda>rows. filter R (updateMany (open_session_of org u) (revoke_session now m) rows) @ [r]) d)"
proof -
  let ?old = "updateMany (open_session_of org u) (revoke_session now m) (ab_sessions d)"
  have one: "at_most_one (open_session_of org' u') (filter R ?old @ [r])" for org' u'
  proof (cases "org' = org \<and> u' = u")
    case True
    then show ?thesis by (auto intro!: at_most_one_closed_filter simp: open_session_of_def revoke_session_def)
  next
    case False
    have "at_most_one (open_session_of org' u') ?old"
      using assms(1) by (intro at_most_one_updateMany) (auto simp: open_session_of_def revoke_session_def auth_ok_parts)
    with False assms(2,3) show ?thesis
      by (intro at_most_one_other at_most_one_filter) (auto simp: open_session_of_def)
  qed
  have ids: "map se_id ?old = map se_id (ab_sessions d)" "se_userId ` set ?old = se_userId ` set (ab_sessions d)"
    by (auto intro!: ids_updateMany image_updateMany simp: revoke_session_def)
  have new: "se_id r \<notin> se_id ` set (filter R ?old)"
    using assms(5) by (auto simp: clashes_def same_session_id_def)
  have "distinct (map se_id (filter R ?old))"
    by (rule distinct_map_filter) (use ids(1) assms(1) in \<open>simp add: auth_ok_parts\<close>)
  moreover have "se_userId ` set (filter R ?old) \<subseteq> us_id ` set (ab_users d)"
  proof -
    have "se_userId ` set (filter R ?old) \<subseteq> se_userId ` set ?old" by auto
    also have "\<dots> \<subseteq> us_id ` set (ab_users d)" using assms(1) unfolding ids(2) by (simp add: auth_ok_parts)
    finally show ?thesis .
  qed
  ultimately show ?thesis using one new assms(1,3,4) by (simp add: auth_ok_parts)
qed

definition replace_session ::
    "auth_env \<Rightarrow> auth_fresh \<Rightarrow> string \<Rightarrow> string \<Rightarrow> time \<Rightarrow> string \<Rightarrow> (session_row \<Rightarrow> bool) \<Rightarrow> string \<Rightarrow> session_row \<Rightarrow>
     (auth_db, session_row) op" where
  "replace_session V z org u now m R token tmpl =
     tx (bnd (revoke_sessions org u now m) (\<lambda>_.
         bnd (writes (ab_sessions_update (filter R))) (\<lambda>_.
         open_session V z org u token tmpl)))"

lemma run_replace_session:
  assumes "replace_session V z org u now m R token tmpl d = (Inr x, t)"
  shows "t = ab_sessions_update (\<lambda>rows. filter R (updateMany (open_session_of org u) (revoke_session now m) rows) @ [x]) d"
    and "\<not> clashes same_session_id x (filter R (updateMany (open_session_of org u) (revoke_session now m) (ab_sessions d)))"
    and "se_org x = org" and "se_userId x = u" and "se_id x = z_sessionId z" and "se_hash x = hashRefreshToken V token"
    and "se_revokedAt x = None" and "se_isCurrent x"
  using assms by (auto simp: replace_session_def revoke_sessions_def open_session_def run_simps o_def)

lemma holds_replace_session:
  "holds (\<lambda>d. auth_ok d \<and> u \<in> us_id ` set (ab_users d)) (replace_session V z org u now m R token tmpl) (\<lambda>_. auth_ok) auth_ok"
proof (rule holdsI)
  fix d x t assume d: "auth_ok d \<and> u \<in> us_id ` set (ab_users d)" and "replace_session V z org u now m R token tmpl d = (Inr x, t)"
  note r = run_replace_session[OF this(2)]
  show "auth_ok t" unfolding r(1) using d r(2-4) by (intro auth_ok_new_session) auto
next
  fix d e t assume "auth_ok d \<and> u \<in> us_id ` set (ab_users d)" and "replace_session V z org u now m R token tmpl d = (Inl e, t)"
  then show "auth_ok t" by (auto simp: replace_session_def run_simps)
qed

text \<open>The session a login returns can be found under its id.\<close>

lemma opened_session_found:
  assumes "open_session V z org u token tmpl d = (Inr x, t)"
  shows "find (\<lambda>s. se_id s = z_sessionId z) (ab_sessions t) = Some x"
proof -
  from assms obtain r d0 where "create_row ab_sessions ab_sessions_update same_session_id r d0 = (Inr x, t)"
    and "se_id r = z_sessionId z"
    by (auto simp: open_session_def run_bnd_ok)
  note r = this
  then have "x = r" by (simp add: run_create_row)
  moreover have "find (\<lambda>s. se_id s = z_sessionId z) (ab_sessions t) = Some r"
    by (rule auth_sessions.created_row_found[OF r(1)]) (use r(2) in \<open>auto simp: same_session_id_def\<close>)
  ultimately show ?thesis by simp
qed

lemma keeps_completeLoginSuccess [keeps_rules]: "keeps auth_ok (completeLoginSuccess V z user role meta)"
proof -
  let ?P = "\<lambda>d. auth_ok d \<and> us_id user \<in> us_id ` set (ab_users d)"
  have user: "holds auth_ok (update_row ab_users ab_users_update (\<lambda>u. us_id u = us_id user) f) (\<lambda>_. ?P) auth_ok"
    if "\<And>u. us_id (f u) = us_id u" for f
    by (rule holdsI) (auto simp: run_simps run_update_row_err auth_ok_users[OF that] image_updateMany[where k = us_id, OF that]
      dest!: find_SomeD intro: rev_image_eqI)
  show ?thesis
    unfolding completeLoginSuccess_def Let_def replace_session_def[symmetric]
    by (rule keeps_by_holds, rule holds_bnd, rule user, simp, rule holds_bnd, rule holds_replace_session,
        rule holds_keeps, intro keeps_rules)
qed

text \<open>A new challenge after every open one of the user was consumed.\<close>

lemma keeps_begin_challenge [keeps_rules]: "keeps auth_ok (begin_challenge V z user method otp)"
proof (rule keepsI)
  fix d r t assume d: "auth_ok d" and run: "begin_challenge V z user method otp d = (r, t)"
  let ?Q = "\<lambda>c. ch_org c = us_org user \<and> ch_userId c = us_id user \<and> ch_purpose c = ''LOGIN_2FA'' \<and> ch_consumedAt c = None"
  let ?f = "\<lambda>c. c\<lparr>ch_consumedAt := Some (z_now z)\<rparr>"
  define rows where "rows = updateMany ?Q ?f (ab_challenges d)"
  have old: "auth_ok (ab_challenges_update (updateMany ?Q ?f) d)"
    using d by (intro auth_ok_challenges) (simp_all add: open_2fa_def)
  show "auth_ok t"
  proof (cases r)
    case (Inl e)
    with run old show ?thesis by (auto simp: begin_challenge_def run_simps run_bnd_err run_create_row_err)
  next
    case (Inr c)
    with run have c: "ch_org c = us_org user" "ch_userId c = us_id user" "ch_purpose c = ''LOGIN_2FA''" "ch_attempts c = 0"
        "ch_maxAttempts c = LOGIN_2FA_MAX_ATTEMPTS"
      and new: "ch_id c \<notin> ch_id ` set rows" and t: "t = ab_challenges_update (\<lambda>xs. updateMany ?Q ?f xs @ [c]) d"
      by (auto simp: begin_challenge_def run_simps clashes_def same_challenge_id_def rows_def o_def)
    have "at_most_one (open_2fa org u) (rows @ [c])" for org u
    proof (cases "org = us_org user \<and> u = us_id user")
      case True
      then show ?thesis unfolding rows_def by (intro at_most_one_closed) (auto simp: open_2fa_def)
    next
      case False
      moreover have "at_most_one (open_2fa org u) rows" using old by (simp add: auth_ok_parts rows_def)
      ultimately show ?thesis using c by (intro at_most_one_other) (auto simp: open_2fa_def)
    qed
    with old new c show ?thesis by (simp add: t auth_ok_parts rows_def[symmetric])
  qed
qed

lemma keeps_new_otp:
  "keeps auth_ok (tx (bnd (consume_otps u now) (\<lambda>_. create_row ab_otps ab_otps_update same_otp_id
     \<lparr> ot_id = i, ot_userId = u, ot_codeHash = h, ot_expiresAt = x, ot_verifiedAt = None, ot_consumedAt = None,
       ot_attempts = 0, ot_createdAt = now \<rparr>)))"
proof (rule keeps_tx_ok)
  fix d c t assume d: "auth_ok d" and run: "bnd (consume_otps u now) (\<lambda>_. create_row ab_otps ab_otps_update same_otp_id
     \<lparr> ot_id = i, ot_userId = u, ot_codeHash = h, ot_expiresAt = x, ot_verifiedAt = None, ot_consumedAt = None,
       ot_attempts = 0, ot_createdAt = now \<rparr>) d = (Inr c, t)"
  let ?f = "\<lambda>o'. o'\<lparr>ot_consumedAt := Some now\<rparr>"
  define rows where "rows = updateMany (unused_otp u) ?f (ab_otps d)"
  have old: "auth_ok (ab_otps_update (updateMany (unused_otp u) ?f) d)"
    using d by (intro auth_ok_otps) (simp_all add: unused_otp_def)
  from run have c: "ot_userId c = u" "ot_attempts c = 0" and new: "ot_id c \<notin> ot_id ` set rows"
    and t: "t = ab_otps_update (\<lambda>xs. updateMany (unused_otp u) ?f xs @ [c]) d"
    by (auto simp: consume_otps_def run_simps clashes_def same_otp_id_def rows_def o_def)
  have "at_most_one (unused_otp u') (rows @ [c])" for u'
  proof (cases "u' = u")
    case True
    then show ?thesis unfolding rows_def by (intro at_most_one_closed) (auto simp: unused_otp_def)
  next
    case False
    moreover have "at_most_one (unused_otp u') rows" using old by (simp add: auth_ok_parts rows_def)
    ultimately show ?thesis using c by (intro at_most_one_other) (auto simp: unused_otp_def)
  qed
  with old new c show "auth_ok t" by (simp add: t auth_ok_parts rows_def[symmetric])
qed

lemma keeps_forgotPassword: "keeps auth_ok (forgotPassword V z e s)"
  unfolding forgotPassword_def Let_def
  by (intro keeps_rules keeps_new_otp keeps_find_row)

lemma keeps_verifyResetOtp: "keeps auth_ok (verifyResetOtp V z e s otp)"
  unfolding verifyResetOtp_def Let_def
  by (intro keeps_rules keeps_update_rows auth_ok_otps; simp add: unused_otp_def usable_otp_def)

lemma keeps_resetPassword: "keeps auth_ok (resetPassword V z token pw)"
  unfolding resetPassword_def Let_def
  by (intro keeps_rules keeps_tx keeps_find_row keeps_update_rows keeps_update_row auth_ok_otps auth_ok_users;
      simp add: unused_otp_def)

lemma keeps_accept: "keeps auth_ok (acceptTenantAdminInvitation V Y z token pw)"
  unfolding acceptTenantAdminInvitation_def Let_def
  by (intro keeps_rules keeps_tx keeps_find_row keeps_update_rows keeps_update_row auth_ok_users
        keeps_zoom[of "\<lambda>_. True"]; simp add: keeps_def)

lemma keeps_record_failure [keeps_rules]: "keeps auth_ok (record_failure now n u)"
  unfolding record_failure_def Let_def
  by (intro keeps_rules keeps_update_rows auth_ok_users; simp)

lemma keeps_second_factor [keeps_rules]: "keeps auth_ok (second_factor V z full policy e m meta)"
  unfolding second_factor_def Let_def by (intro keeps_rules)

lemma keeps_login: "keeps auth_ok (login V z e s pw m meta)"
  unfolding login_def Let_def by (intro keeps_rules)

lemma keeps_check_code [keeps_rules]: "keeps I (check_code V z c u otp)"
  unfolding check_code_def by (intro keeps_rules)

text \<open>The next step may use what the invariant says of a row that was read.\<close>

lemma keeps_bnd_learns:
  assumes "keeps I m" and "\<And>s x t. I s \<Longrightarrow> m s = (Inr x, t) \<Longrightarrow> R x" and "\<And>x. R x \<Longrightarrow> keeps I (f x)"
  shows "keeps I (bnd m f)"
proof (rule keepsI)
  fix s r t assume "I s" and run: "bnd m f s = (r, t)"
  obtain r1 s1 where m: "m s = (r1, s1)" by (cases "m s")
  with assms(1) \<open>I s\<close> have "I s1" by (rule keepsD)
  show "I t"
  proof (cases r1)
    case (Inl e)
    with run m \<open>I s1\<close> show ?thesis by (simp add: bnd_def)
  next
    case (Inr x)
    with run m have f: "f x s1 = (r, t)" by (simp add: bnd_def)
    have "R x" using assms(2) m Inr \<open>I s\<close> by blast
    from keepsD[OF assms(3)[OF this] \<open>I s1\<close> f] show ?thesis .
  qed
qed

lemma found_challenge_limit:
  "auth_ok d \<Longrightarrow> find_row ab_challenges P d = (Inr found, t) \<Longrightarrow>
   \<forall>c. found = Some c \<longrightarrow> ch_maxAttempts c = LOGIN_2FA_MAX_ATTEMPTS"
  by (auto simp: run_simps auth_ok_parts dest!: find_SomeD)

lemma keeps_verifyLoginTwoFactor: "keeps auth_ok (verifyLoginTwoFactor V z token otp meta)"
  unfolding verifyLoginTwoFactor_def Let_def
  by (rule keeps_bnd, rule keeps_required, rule keeps_bnd, rule keeps_guard,
      rule keeps_bnd_learns[OF keeps_find_row found_challenge_limit], assumption, assumption,
      rule keeps_bnd_returns[where R = "\<lambda>c. ch_maxAttempts c = LOGIN_2FA_MAX_ATTEMPTS", OF keeps_required],
      simp add: run_simps, intro keeps_rules keeps_update_rows auth_ok_challenges; simp add: open_2fa_def)

lemma keeps_two_factor_settings:
  "keeps auth_ok (enableAuthenticator V z u' token otp)" "keeps auth_ok (disableAuthenticator V z u' otp)"
  "keeps auth_ok (updatePreferredTwoFactorMethod u' m ph)"
proof -
  show "keeps auth_ok (enableAuthenticator V z u' token otp)" "keeps auth_ok (updatePreferredTwoFactorMethod u' m ph)"
    unfolding enableAuthenticator_def updatePreferredTwoFactorMethod_def Let_def
    by (intro keeps_rules keeps_writes auth_ok_upsert; simp)+
  have "auth_ok (ab_twoFactor_update (updateMany P f) d)"
    if "auth_ok d" and "\<And>x. tf_userId (f x) = tf_userId x" for P f d
    using that by (simp add: auth_ok_parts ids_updateMany)
  then show "keeps auth_ok (disableAuthenticator V z u' otp)"
    unfolding disableAuthenticator_def
    by (intro keeps_rules keeps_update_row; simp)
qed

text \<open>Inside a transaction only the successful runs count.\<close>

lemma holds_step:
  assumes "keeps I m" and "\<And>x. holds I (f x) Q (\<lambda>_. True)"
  shows "holds I (bnd m f) Q (\<lambda>_. True)"
proof (rule holds_bnd[where Q = "\<lambda>_. I"])
  show "holds I m (\<lambda>_. I) (\<lambda>_. True)" by (rule holdsI) (use assms(1) in \<open>auto dest: keepsD\<close>)
qed (rule assms(2))

definition new_user :: "string \<Rightarrow> auth_db \<Rightarrow> bool" where
  "new_user u d \<longleftrightarrow> auth_ok d \<and> u \<in> us_id ` set (ab_users d) \<and> u \<notin> se_userId ` set (ab_sessions d)"

lemma holds_create_user:
  "holds auth_ok (create_row ab_users ab_users_update same_user r) (\<lambda>u. new_user (us_id u)) (\<lambda>_. True)"
proof (rule holdsI)
  fix d u t assume d: "auth_ok d" and "create_row ab_users ab_users_update same_user r d = (Inr u, t)"
  then have u: "u = r" "t = ab_users_update (\<lambda>rows. rows @ [r]) d" and new: "us_id r \<notin> us_id ` set (ab_users d)"
    by (auto simp: run_simps clashes_def same_user_def)
  then show "new_user (us_id u) t" using d by (auto simp: new_user_def auth_ok_parts)
qed simp

lemma holds_first_session: "holds (new_user u) (open_session V z org u token tmpl) (\<lambda>_. auth_ok) (\<lambda>_. True)"
proof (rule holdsI)
  fix d x t assume d: "new_user u d" and "open_session V z org u token tmpl d = (Inr x, t)"
  then have t: "t = ab_sessions_update (\<lambda>rows. rows @ [x]) d" and x: "se_userId x = u"
    and new: "se_id x \<notin> se_id ` set (ab_sessions d)"
    by (auto simp: open_session_def run_simps clashes_def same_session_id_def)
  have "at_most_one (open_session_of org' u') (ab_sessions d @ [x])" for org' u'
  proof (cases "u' = u")
    case True
    from d have "u \<notin> se_userId ` set (ab_sessions d)" by (simp add: new_user_def)
    then have "filter (open_session_of org' u') (ab_sessions d) = []"
      unfolding True filter_empty_conv open_session_of_def by (metis imageI)
    then show ?thesis by (simp add: at_most_one_def)
  next
    case False
    with x d show ?thesis by (intro at_most_one_other) (auto simp: open_session_of_def new_user_def auth_ok_parts)
  qed
  with d x new show "auth_ok t" by (auto simp: t new_user_def auth_ok_parts)
qed simp

lemma keeps_new_user_config: "keeps (new_user u) (create_row ab_config ab_config_update same_config r)"
  by (rule keeps_create_row) (simp add: new_user_def)

lemma keeps_registerOrganization: "keeps auth_ok (registerOrganization V z org admin)"
proof -
  have row: "keeps auth_ok (create_row ab_orgs ab_orgs_update same_org r)" "keeps auth_ok (create_row ab_roles ab_roles_update same_role r')"
      "keeps auth_ok (writes (ab_permissions_update f))" for r r' f
    by (intro keeps_create_row keeps_writes; simp)+
  show ?thesis
    unfolding registerOrganization_def Let_def
    by (rule keeps_bnd, rule keeps_reads, rule keeps_bnd, rule keeps_from_sum, rule keeps_by_holds, rule holds_tx,
        rule holds_step, rule keeps_find_row, rule holds_step, rule keeps_guard, rule holds_step, rule keeps_reads,
        rule holds_step, rule row, rule holds_step, rule row, rule holds_step, rule keeps_reads, rule holds_step, rule row,
        rule holds_bnd, rule holds_create_user, rule holds_step, rule keeps_new_user_config,
        rule holds_step, rule keeps_each, rule keeps_new_user_config, rule holds_bnd, rule holds_first_session,
        rule holds_weaken[OF holds_ret], assumption, simp, simp, assumption)
qed

end
