(* ===== verification/SecurityAdmin.thy ===== *)
theory SecurityAdmin
  imports AuthLedger Listing
begin

text \<open>
  The security settings of a tenant administrator (src/modules/admin/admin.service.ts and the
  schemas of admin.validation.ts): password and second-factor policy, active sessions and their
  revocation, the IP allowlist and the sign-in journal; then every operation on the authentication
  tables as one step relation.
\<close>

record admin_request =
  rq_org :: string
  rq_user :: "request_user option"
  rq_ip :: "string option"

definition actor_id :: "admin_request \<Rightarrow> string option" where
  "actor_id req = map_option ru_id (rq_user req)"

definition actor_session :: "admin_request \<Rightarrow> string option" where
  "actor_session req = Option.bind (rq_user req) ru_sessionId"

definition logAdminActivity ::
    "audit_env \<Rightarrow> time \<Rightarrow> admin_request \<Rightarrow> string \<Rightarrow> string \<Rightarrow> string option \<Rightarrow> string \<Rightarrow> json option \<Rightarrow> (auth_db, unit) op" where
  "logAdminActivity Y now req action resource resourceId summary metadata =
     (if rq_org req = [] then ret ()
      else zoom ab_audit (\<lambda>a d. d\<lparr>ab_audit := a\<rparr>) (createAuditLog Y now
        \<lparr> i_org = rq_org req, i_actor = actor_id req, i_action = action, i_resource = resource,
          i_resourceId = resourceId, i_summary = summary, i_metadata = metadata \<rparr>))"

section \<open>Policies\<close>

definition method_availability :: "auth_env \<Rightarrow> bool \<times> bool \<times> bool" where
  "method_availability V = (True, \<not> falsy (v_smsUrl V), v_smtp V)"

definition getSecurityPolicy :: "auth_env \<Rightarrow> string \<Rightarrow> (auth_db, security_policy \<times> bool \<times> bool \<times> bool) op" where
  "getSecurityPolicy V org =
     bnd (reads (\<lambda>d. find (\<lambda>p. pw_org p = org) (ab_policies d))) (\<lambda>policy.
     ret (case policy of None \<Rightarrow> defaultSecurityPolicy | Some p \<Rightarrow> pw_policy p, method_availability V))"

text \<open>\<open>securityPolicy.upsert({ where: { organizationId } })\<close>: a missing row starts from the defaults.\<close>

definition upsert_policy ::
    "admin_request \<Rightarrow> (security_policy \<Rightarrow> security_policy) \<Rightarrow> policy_row list \<Rightarrow> policy_row list" where
  "upsert_policy req change rows =
     (if find (\<lambda>p. pw_org p = rq_org req) rows = None
      then rows @ [\<lparr> pw_org = rq_org req, pw_policy = change defaultSecurityPolicy, pw_updatedBy = actor_id req \<rparr>]
      else updateMany (\<lambda>p. pw_org p = rq_org req)
             (\<lambda>p. p\<lparr>pw_policy := change (pw_policy p),
                    pw_updatedBy := (case actor_id req of None \<Rightarrow> pw_updatedBy p | Some u \<Rightarrow> Some u)\<rparr>) rows)"

record password_policy_input =
  wi_minPasswordLength :: int
  wi_passwordExpiryDays :: int
  wi_lockoutMaxAttempts :: int
  wi_requireUppercase :: bool
  wi_requireLowercase :: bool
  wi_requireNumber :: bool
  wi_requireSpecialCharacter :: bool

definition securityPasswordPolicySchema :: "password_policy_input \<Rightarrow> bool" where
  "securityPasswordPolicySchema w \<longleftrightarrow>
     8 \<le> wi_minPasswordLength w \<and> wi_minPasswordLength w \<le> 32 \<and>
     1 \<le> wi_passwordExpiryDays w \<and> wi_passwordExpiryDays w \<le> 365 \<and>
     3 \<le> wi_lockoutMaxAttempts w \<and> wi_lockoutMaxAttempts w \<le> 20"

definition set_password_rules :: "password_policy_input \<Rightarrow> security_policy \<Rightarrow> security_policy" where
  "set_password_rules w p = p\<lparr> sp_minPasswordLength := wi_minPasswordLength w,
     sp_passwordExpiryDays := Some (wi_passwordExpiryDays w), sp_lockoutMaxAttempts := wi_lockoutMaxAttempts w,
     sp_requireUppercase := wi_requireUppercase w, sp_requireLowercase := wi_requireLowercase w,
     sp_requireNumber := wi_requireNumber w, sp_requireSpecialCharacter := wi_requireSpecialCharacter w \<rparr>"

definition password_policy_json :: "password_policy_input \<Rightarrow> json" where
  "password_policy_json w = JObj
     [(''minPasswordLength'', JNum (of_int (wi_minPasswordLength w))),
      (''passwordExpiryDays'', JNum (of_int (wi_passwordExpiryDays w))),
      (''lockoutMaxAttempts'', JNum (of_int (wi_lockoutMaxAttempts w))),
      (''requireUppercase'', JBool (wi_requireUppercase w)), (''requireLowercase'', JBool (wi_requireLowercase w)),
      (''requireNumber'', JBool (wi_requireNumber w)),
      (''requireSpecialCharacter'', JBool (wi_requireSpecialCharacter w))]"

text \<open>The row id is the organization's: one policy row per organization.\<close>

definition updateSecurityPasswordPolicy ::
    "audit_env \<Rightarrow> time \<Rightarrow> admin_request \<Rightarrow> password_policy_input \<Rightarrow> (auth_db, password_policy_input) op" where
  "updateSecurityPasswordPolicy Y now req payload =
     bnd (guard (securityPasswordPolicySchema payload) (badRequest ''Validation failed'')) (\<lambda>_.
     bnd (writes (ab_policies_update (upsert_policy req (set_password_rules payload)))) (\<lambda>_.
     bnd (logAdminActivity Y now req ''SECURITY_PASSWORD_POLICY_UPDATED'' ''SECURITY_POLICY'' (Some (rq_org req))
            ''Updated tenant password policy'' (Some (password_policy_json payload))) (\<lambda>_.
     ret payload)))"

record two_factor_input =
  fi_twoFactorEnabled :: bool
  fi_enforceAll :: bool
  fi_allowAuthenticatorApp :: bool
  fi_allowSmsOtp :: bool
  fi_allowEmailOtp :: bool

definition securityTwoFactorSchema :: "two_factor_input \<Rightarrow> bool" where
  "securityTwoFactorSchema f \<longleftrightarrow>
     \<not> (fi_enforceAll f \<and> \<not> fi_twoFactorEnabled f) \<and>
     \<not> (fi_twoFactorEnabled f \<and> \<not> fi_allowAuthenticatorApp f \<and> \<not> fi_allowSmsOtp f \<and> \<not> fi_allowEmailOtp f)"

definition set_two_factor_rules :: "two_factor_input \<Rightarrow> security_policy \<Rightarrow> security_policy" where
  "set_two_factor_rules f p = p\<lparr> sp_twoFactorEnabled := fi_twoFactorEnabled f,
     sp_enforceTwoFactorForAllUsers := fi_enforceAll f, sp_allowAuthenticatorApp := fi_allowAuthenticatorApp f,
     sp_allowSmsOtp := fi_allowSmsOtp f, sp_allowEmailOtp := fi_allowEmailOtp f \<rparr>"

definition updateSecurityTwoFactorPolicy ::
    "auth_env \<Rightarrow> audit_env \<Rightarrow> time \<Rightarrow> admin_request \<Rightarrow> two_factor_input \<Rightarrow> (auth_db, two_factor_input) op" where
  "updateSecurityTwoFactorPolicy V Y now req f =
     bnd (guard (securityTwoFactorSchema f) (badRequest ''Validation failed'')) (\<lambda>_.
     bnd (guard (\<not> (fi_twoFactorEnabled f \<and> \<not> fi_allowAuthenticatorApp f \<and> \<not> fi_allowSmsOtp f \<and> \<not> fi_allowEmailOtp f))
       (badRequest ''At least one two-factor method must be enabled'')) (\<lambda>_.
     bnd (guard (\<not> (fi_allowSmsOtp f \<and> falsy (v_smsUrl V)))
       (badRequest ''SMS two-factor authentication is unavailable because no SMS provider is configured'')) (\<lambda>_.
     bnd (guard (\<not> (fi_allowEmailOtp f \<and> \<not> v_smtp V))
       (badRequest ''Email two-factor authentication is unavailable because no email provider is configured'')) (\<lambda>_.
     bnd (writes (ab_policies_update (upsert_policy req (set_two_factor_rules f)))) (\<lambda>_.
     bnd (logAdminActivity Y now req ''SECURITY_2FA_POLICY_UPDATED'' ''SECURITY_POLICY'' (Some (rq_org req))
            ''Updated tenant two-factor policy''
            (Some (JObj [(''twoFactorEnabled'', JBool (fi_twoFactorEnabled f)),
               (''enforceTwoFactorForAllUsers'', JBool (fi_enforceAll f)),
               (''allowAuthenticatorApp'', JBool (fi_allowAuthenticatorApp f)),
               (''allowSmsOtp'', JBool (fi_allowSmsOtp f)), (''allowEmailOtp'', JBool (fi_allowEmailOtp f))]))) (\<lambda>_.
     ret f))))))"

section \<open>Sessions\<close>

datatype session_filter = ActiveSessions | RevokedSessions | AllSessions

definition session_selected :: "string \<Rightarrow> string option \<Rightarrow> session_filter \<Rightarrow> time \<Rightarrow> session_row \<Rightarrow> bool" where
  "session_selected org userId status now s \<longleftrightarrow>
     se_org s = org \<and> (falsy userId \<or> Some (se_userId s) = userId) \<and>
     (case status of ActiveSessions \<Rightarrow> se_revokedAt s = None \<and> se_expiresAt s > now
      | RevokedSessions \<Rightarrow> se_revokedAt s \<noteq> None | AllSessions \<Rightarrow> True)"

record session_view =
  sv_id :: string
  sv_userId :: string
  sv_userName :: string
  sv_email :: string
  sv_status :: string
  sv_device :: string
  sv_ip :: "string option"
  sv_location :: string
  sv_expiresAt :: time
  sv_revokedAt :: "time option"

definition user_full_name :: "user_row \<Rightarrow> string" where
  "user_full_name u = trim (us_firstName u @ '' '' @ us_lastName u)"

definition session_view_of :: "admin_request \<Rightarrow> auth_db \<Rightarrow> session_row \<Rightarrow> session_view" where
  "session_view_of req d s =
     (let u = find_user (se_userId s) d in
      \<lparr> sv_id = se_id s, sv_userId = se_userId s,
        sv_userName = (case u of None \<Rightarrow> [] | Some v \<Rightarrow> user_full_name v),
        sv_email = (case u of None \<Rightarrow> [] | Some v \<Rightarrow> us_email v),
        sv_status = (if se_revokedAt s \<noteq> None then ''REVOKED''
                     else if Some (se_id s) = actor_session req then ''CURRENT'' else ''ACTIVE''),
        sv_device = (case se_deviceName s of Some n \<Rightarrow> n | None \<Rightarrow> resolveDeviceName (se_userAgent s)),
        sv_ip = se_ip s, sv_location = formatLocation (se_location s), sv_expiresAt = se_expiresAt s,
        sv_revokedAt = se_revokedAt s \<rparr>)"

definition listActiveSessions ::
    "time \<Rightarrow> admin_request \<Rightarrow> nat \<Rightarrow> nat \<Rightarrow> string option \<Rightarrow> session_filter \<Rightarrow> (auth_db, nat \<times> session_view list) op" where
  "listActiveSessions now req page limit userId status =
     bnd (reads (\<lambda>d. sort_key (\<lambda>s. - se_lastSeenAt s) (filter (session_selected (rq_org req) userId status now) (ab_sessions d)))) (\<lambda>rows.
     reads (\<lambda>d. (length rows, map (session_view_of req d) (page_rows rows page limit))))"

definition revokeSession ::
    "audit_env \<Rightarrow> auth_fresh \<Rightarrow> admin_request \<Rightarrow> string \<Rightarrow> string option \<Rightarrow> (auth_db, session_row) op" where
  "revokeSession Y z req sessionId reason =
     bnd (guard (Some sessionId \<noteq> actor_session req) (conflict ''Use logout to end the current session'')) (\<lambda>_.
     bnd (find_row ab_sessions (\<lambda>s. se_id s = sessionId \<and> se_org s = rq_org req)) (\<lambda>found.
     bnd (required found (notFound ''Resource not found'')) (\<lambda>existing.
     bnd (update_row ab_sessions ab_sessions_update (\<lambda>s. se_id s = sessionId)
            (revoke_session (z_now z) (case reason of None \<Rightarrow> ''Revoked by tenant admin'' | Some r \<Rightarrow> r))) (\<lambda>updated.
     bnd (writes (ab_events_update (\<lambda>es. es @
            [\<lparr> ae_id = z_eventId z, ae_org = rq_org req, ae_userId = Some (se_userId existing), ae_email = None,
               ae_type = ''SESSION_REVOKED'', ae_status = ''SUCCESS'', ae_reason = Some ''ADMIN_ACTION'',
               ae_ip = se_ip existing, ae_userAgent = se_userAgent existing, ae_deviceName = se_deviceName existing,
               ae_location = no_location\<lparr>lo_state := lo_state (se_location existing), lo_country := lo_country (se_location existing)\<rparr>,
               ae_occurredAt = z_now z \<rparr>]))) (\<lambda>_.
     bnd (logAdminActivity Y (z_now z) req ''SECURITY_SESSION_REVOKED'' ''USER_SESSION'' (Some (se_id updated))
            ''Revoked an active user session'' (Some (JObj [(''reason'', jopt (se_revokeReason updated))]))) (\<lambda>_.
     ret updated))))))"

definition revokeSessionsBulk ::
    "audit_env \<Rightarrow> time \<Rightarrow> admin_request \<Rightarrow> string list \<Rightarrow> string option \<Rightarrow> (auth_db, nat) op" where
  "revokeSessionsBulk Y now req sessionIds reason =
     bnd (update_rows ab_sessions ab_sessions_update (\<lambda>s. se_org s = rq_org req \<and> se_id s \<in> set sessionIds)
            (revoke_session now (case reason of None \<Rightarrow> ''Revoked in bulk by tenant admin'' | Some r \<Rightarrow> r))) (\<lambda>count.
     bnd (logAdminActivity Y now req ''SECURITY_SESSIONS_BULK_REVOKED'' ''USER_SESSION'' None
            (''Revoked '' @ show_nat count @ '' session(s)'')
            (Some (JObj ([(''count'', JNum (of_nat count)), (''sessionIds'', JArr (map JStr sessionIds))] @
               (case reason of None \<Rightarrow> [] | Some r \<Rightarrow> [(''reason'', JStr r)]))))) (\<lambda>_.
     ret count))"

definition revokeAllOtherSessions :: "audit_env \<Rightarrow> time \<Rightarrow> admin_request \<Rightarrow> (auth_db, nat) op" where
  "revokeAllOtherSessions Y now req =
     bnd (guard (\<not> falsy (actor_session req))
       (badRequest ''Current session cannot be identified; sign in again before revoking other sessions'')) (\<lambda>_.
     bnd (update_rows ab_sessions ab_sessions_update
            (\<lambda>s. se_org s = rq_org req \<and> Some (se_userId s) = actor_id req \<and> Some (se_id s) \<noteq> actor_session req \<and>
                 se_revokedAt s = None \<and> se_expiresAt s > now)
            (revoke_session now ''Revoked all other sessions'')) (\<lambda>count.
     bnd (logAdminActivity Y now req ''SECURITY_OTHER_SESSIONS_REVOKED'' ''USER_SESSION'' None
            (''Revoked '' @ show_nat count @ '' other session(s)'') (Some (JObj [(''count'', JNum (of_nat count))]))) (\<lambda>_.
     ret count)))"

section \<open>The IP allowlist\<close>

definition allowlist_of :: "string \<Rightarrow> auth_db \<Rightarrow> allow_row list" where
  "allowlist_of org d = filter (\<lambda>a. al_org a = org) (ab_allow d)"

definition getIpAllowlist :: "string \<Rightarrow> (auth_db, bool \<times> allow_row list) op" where
  "getIpAllowlist org =
     reads (\<lambda>d. (case find (\<lambda>p. pw_org p = org) (ab_policies d) of None \<Rightarrow> False | Some p \<Rightarrow> sp_ipAllowlistEnabled (pw_policy p),
                 sort_key (\<lambda>a. - al_createdAt a) (allowlist_of org d)))"

definition toggleIpAllowlist :: "audit_env \<Rightarrow> time \<Rightarrow> admin_request \<Rightarrow> bool \<Rightarrow> (auth_db, bool) op" where
  "toggleIpAllowlist Y now req enabled =
     bnd (reads (\<lambda>d. map al_value (allowlist_of (rq_org req) d))) (\<lambda>entries.
     bnd (guard (enabled \<longrightarrow> entries \<noteq> []) (conflict ''Add at least one IP address before enabling the allowlist'')) (\<lambda>_.
     let currentIp = map_option (strip_prefix ''::ffff:'') (rq_ip req) in
     bnd (guard (enabled \<and> \<not> falsy currentIp \<longrightarrow> isIpAllowed (the currentIp) entries)
       (conflict ''The current IP address must be allowed before enabling the allowlist'')) (\<lambda>_.
     bnd (writes (ab_policies_update (upsert_policy req (\<lambda>p. p\<lparr>sp_ipAllowlistEnabled := enabled\<rparr>)))) (\<lambda>_.
     bnd (logAdminActivity Y now req ''SECURITY_IP_ALLOWLIST_TOGGLED'' ''SECURITY_POLICY'' (Some (rq_org req))
            (if enabled then ''Enabled IP allowlist'' else ''Disabled IP allowlist'')
            (Some (JObj [(''enabled'', JBool enabled)]))) (\<lambda>_.
     ret enabled)))))"

text \<open>\<open>ipAllowlistEntryCreateSchema\<close>: an address, or an address and a prefix of digits in range.\<close>

definition valid_allow_value :: "string \<Rightarrow> bool" where
  "valid_allow_value value \<longleftrightarrow>
     3 \<le> length value \<and> length value \<le> 120 \<and>
     (case split_on CHR ''/'' value of
        [address] \<Rightarrow> address \<noteq> [] \<and> isIP address \<noteq> 0
      | [address, prefix] \<Rightarrow> address \<noteq> [] \<and> isIP address \<noteq> 0 \<and> prefix \<noteq> [] \<and> all_digits prefix \<and>
          decimal_value prefix \<le> int (ip_width (isIP address))
      | _ \<Rightarrow> False)"

definition same_allow :: "allow_row \<Rightarrow> allow_row \<Rightarrow> bool" where
  "same_allow a b \<longleftrightarrow> al_id a = al_id b \<or> (al_org a = al_org b \<and> al_value a = al_value b)"

definition addIpAllowlistEntry ::
    "audit_env \<Rightarrow> auth_fresh \<Rightarrow> admin_request \<Rightarrow> string \<Rightarrow> string option \<Rightarrow> (auth_db, allow_row) op" where
  "addIpAllowlistEntry Y z req value0 label =
     (let value = trim value0 in
      bnd (guard (valid_allow_value value) (badRequest ''Validation failed'')) (\<lambda>_.
      bnd (create_row ab_allow ab_allow_update same_allow
             \<lparr> al_id = z_id z, al_org = rq_org req, al_value = value, al_label = label, al_createdBy = actor_id req,
               al_createdAt = z_now z \<rparr>) (\<lambda>entry.
      bnd (logAdminActivity Y (z_now z) req ''SECURITY_IP_ALLOWLIST_ENTRY_ADDED'' ''IP_ALLOWLIST_ENTRY'' (Some (al_id entry))
             ''Added IP allowlist entry''
             (Some (JObj ((''value'', JStr value) # (case label of None \<Rightarrow> [] | Some l \<Rightarrow> [(''label'', JStr l)]))))) (\<lambda>_.
      ret entry))))"

definition removeIpAllowlistEntry :: "audit_env \<Rightarrow> time \<Rightarrow> admin_request \<Rightarrow> string \<Rightarrow> (auth_db, unit) op" where
  "removeIpAllowlistEntry Y now req i =
     bnd (find_row ab_allow (\<lambda>a. al_id a = i \<and> al_org a = rq_org req)) (\<lambda>found.
     bnd (required found (notFound ''Resource not found'')) (\<lambda>existing.
     bnd (delete_row ab_allow ab_allow_update (\<lambda>a. al_id a = i)) (\<lambda>_.
     logAdminActivity Y now req ''SECURITY_IP_ALLOWLIST_ENTRY_REMOVED'' ''IP_ALLOWLIST_ENTRY'' (Some i)
       ''Removed IP allowlist entry'' (Some (JObj [(''value'', JStr (al_value existing))])))))"

section \<open>The sign-in journal\<close>

definition activity_selected ::
    "string \<Rightarrow> string option \<Rightarrow> string option \<Rightarrow> time option \<Rightarrow> time option \<Rightarrow> auth_event \<Rightarrow> bool" where
  "activity_selected org status userId from_date to_date e \<longleftrightarrow>
     ae_org e = org \<and> (falsy status \<or> Some (ae_status e) = status) \<and> (falsy userId \<or> ae_userId e = userId) \<and>
     (case from_date of None \<Rightarrow> True | Some t \<Rightarrow> ae_occurredAt e \<ge> t) \<and>
     (case to_date of None \<Rightarrow> True | Some t \<Rightarrow> ae_occurredAt e \<le> t)"

record activity_view =
  av_id :: string
  av_eventType :: string
  av_status :: string
  av_reason :: "string option"
  av_user :: "(string \<times> string \<times> string) option"
  av_email :: "string option"
  av_ip :: "string option"
  av_device :: string
  av_location :: string
  av_occurredAt :: time

definition activity_view_of :: "auth_db \<Rightarrow> auth_event \<Rightarrow> activity_view" where
  "activity_view_of d e =
     \<lparr> av_id = ae_id e, av_eventType = ae_type e, av_status = ae_status e, av_reason = ae_reason e,
       av_user = map_option (\<lambda>u. (us_id u, user_full_name u, us_email u)) (Option.bind (ae_userId e) (\<lambda>i. find_user i d)),
       av_email = ae_email e, av_ip = ae_ip e,
       av_device = (case ae_deviceName e of Some n \<Rightarrow> n | None \<Rightarrow> resolveDeviceName (ae_userAgent e)),
       av_location = formatLocation (ae_location e), av_occurredAt = ae_occurredAt e \<rparr>"

definition listLoginActivity ::
    "admin_request \<Rightarrow> nat \<Rightarrow> nat \<Rightarrow> string option \<Rightarrow> string option \<Rightarrow> time option \<Rightarrow> time option \<Rightarrow>
     (auth_db, nat \<times> activity_view list) op" where
  "listLoginActivity req page limit status userId from_date to_date =
     bnd (reads (\<lambda>d. sort_key (\<lambda>e. - ae_occurredAt e)
            (filter (activity_selected (rq_org req) status userId from_date to_date) (ab_events d)))) (\<lambda>rows.
     reads (\<lambda>d. (length rows, map (activity_view_of d) (page_rows rows page limit))))"

section \<open>Invariants\<close>

lemma auth_ok_settings_frame [simp]:
  "auth_ok (ab_policies_update f d) = auth_ok d" "auth_ok (ab_allow_update g d) = auth_ok d"
  by (simp_all add: auth_ok_parts)

lemma keeps_admin_log [keeps_rules]: "keeps auth_ok (logAdminActivity Y now req a r i s m)"
  unfolding logAdminActivity_def by (intro keeps_rules keeps_zoom[of "\<lambda>_. True"]; simp add: keeps_def)

lemma keeps_security_settings:
  "keeps auth_ok (updateSecurityPasswordPolicy Y now req w)" "keeps auth_ok (updateSecurityTwoFactorPolicy V Y now req f)"
  "keeps auth_ok (revokeSession Y z req i reason)" "keeps auth_ok (revokeSessionsBulk Y now req ids reason)"
  "keeps auth_ok (revokeAllOtherSessions Y now req)" "keeps auth_ok (toggleIpAllowlist Y now req b)"
  "keeps auth_ok (addIpAllowlistEntry Y z req v l)" "keeps auth_ok (removeIpAllowlistEntry Y now req i)"
  unfolding updateSecurityPasswordPolicy_def updateSecurityTwoFactorPolicy_def revokeSession_def revokeSessionsBulk_def
    revokeAllOtherSessions_def toggleIpAllowlist_def addIpAllowlistEntry_def removeIpAllowlistEntry_def Let_def
  by (intro keeps_rules keeps_writes keeps_update_row keeps_update_rows keeps_create_row keeps_delete_row auth_ok_sessions;
      simp add: revoke_session_def)+

section \<open>Every operation as a step\<close>

inductive auth_step :: "auth_env \<Rightarrow> auth_db \<Rightarrow> auth_db \<Rightarrow> bool" for V where
  refresh: "refreshAuthenticationTokens V z token d = (r1, d') \<Longrightarrow> auth_step V d d'"
| logout: "logout z u org sid d = (r2, d') \<Longrightarrow> auth_step V d d'"
| login: "login V z e s pw m meta d = (r3, d') \<Longrightarrow> auth_step V d d'"
| two_factor: "verifyLoginTwoFactor V z token otp meta d = (r4, d') \<Longrightarrow> auth_step V d d'"
| register: "registerOrganization V z oi ai d = (r5, d') \<Longrightarrow> auth_step V d d'"
| forgot: "forgotPassword V z e s d = (r6, d') \<Longrightarrow> auth_step V d d'"
| verify_otp: "verifyResetOtp V z e s otp d = (r7, d') \<Longrightarrow> auth_step V d d'"
| reset: "resetPassword V z token pw d = (r8, d') \<Longrightarrow> auth_step V d d'"
| accept: "acceptTenantAdminInvitation V Y z token pw d = (r9, d') \<Longrightarrow> auth_step V d d'"
| enable_app: "enableAuthenticator V z u' token otp d = (r10, d') \<Longrightarrow> auth_step V d d'"
| disable_app: "disableAuthenticator V z u' otp d = (r11, d') \<Longrightarrow> auth_step V d d'"
| prefer_method: "updatePreferredTwoFactorMethod u' m' ph d = (r12, d') \<Longrightarrow> auth_step V d d'"
| password_policy: "updateSecurityPasswordPolicy Y now req w d = (r13, d') \<Longrightarrow> auth_step V d d'"
| two_factor_policy: "updateSecurityTwoFactorPolicy V Y now req f d = (r14, d') \<Longrightarrow> auth_step V d d'"
| revoke_one: "revokeSession Y z req i reason d = (r15, d') \<Longrightarrow> auth_step V d d'"
| revoke_bulk: "revokeSessionsBulk Y now req ids reason d = (r16, d') \<Longrightarrow> auth_step V d d'"
| revoke_others: "revokeAllOtherSessions Y now req d = (r17, d') \<Longrightarrow> auth_step V d d'"
| allowlist_toggle: "toggleIpAllowlist Y now req b d = (r18, d') \<Longrightarrow> auth_step V d d'"
| allowlist_add: "addIpAllowlistEntry Y z req v l d = (r19, d') \<Longrightarrow> auth_step V d d'"
| allowlist_remove: "removeIpAllowlistEntry Y now req i d = (r20, d') \<Longrightarrow> auth_step V d d'"

inductive_simps auth_step_iff: "auth_step V d d'"

lemmas auth_operations = keeps_refresh keeps_logout keeps_login keeps_verifyLoginTwoFactor keeps_registerOrganization
  keeps_forgotPassword keeps_verifyResetOtp keeps_resetPassword keeps_accept keeps_two_factor_settings
  keeps_security_settings

lemma auth_ok_step: "auth_step V d d' \<Longrightarrow> auth_ok d \<Longrightarrow> auth_ok d'"
  by (induction rule: auth_step.induct) (erule keepsD[rotated 2], rule auth_operations, assumption)+

inductive auth_reachable :: "auth_env \<Rightarrow> auth_db \<Rightarrow> auth_db \<Rightarrow> bool" for V d where
  start: "auth_reachable V d d"
| step: "auth_reachable V d d1 \<Longrightarrow> auth_step V d1 d2 \<Longrightarrow> auth_reachable V d d2"

lemma auth_ok_reachable: "auth_reachable V d d' \<Longrightarrow> auth_ok d \<Longrightarrow> auth_ok d'"
  by (induction rule: auth_reachable.induct) (auto dest: auth_ok_step)

end
