(* ===== verification/AuthProperties.thy ===== *)
theory AuthProperties
  imports SecurityAdmin
begin

text \<open>
  What the authentication component promises: the invariants over all runs of its operations,
  single use of refresh tokens and reset links, the limits on guessing, and the conditions under
  which a request is let through. Each property has a witness on a small sample tenant.
\<close>

section \<open>A sample tenant\<close>

definition sample_geo :: geo_env where
  "sample_geo = \<lparr> ge_production = True, ge_override = None, ge_providerName = None, ge_token = None,
     ge_fetch = (\<lambda>_. None), ge_countryName = (\<lambda>_. None) \<rparr>"

definition refresh_claims :: claims where
  "refresh_claims = [(''organizationId'', JStr ''O1''), (''sessionId'', JStr ''S1''), (''sub'', JStr ''U1''), (''jti'', JStr ''j'')]"

definition sample_claims :: "string \<Rightarrow> claims option" where
  "sample_claims token =
     (if token = ''R1'' then Some refresh_claims
      else if token = ''RESET'' then Some [(''purpose'', JStr ''password-reset''), (''otpId'', JStr ''P1''), (''sub'', JStr ''U1'')]
      else if token = ''C1'' then Some [(''purpose'', JStr ''login-2fa''), (''challengeId'', JStr ''H1''), (''sub'', JStr ''U1'')]
      else None)"

definition sample_auth :: auth_env where
  "sample_auth = \<lparr> v_accessSecret = ''A'', v_refreshSecret = ''B'', v_accessTtl = ''30m'', v_refreshTtl = ''7d'',
     v_uniqueEmail = True, v_production = True, v_appName = ''Sinkronis'', v_smtp = True, v_smtpHost = True,
     v_smsUrl = None, v_smsFrom = None, v_geo = sample_geo, v_sha256 = (\<lambda>s. CHR ''#'' # s),
     v_bcrypt = (\<lambda>p n s. CHR ''b'' # p), v_compare = (\<lambda>p h. h = CHR ''b'' # p),
     v_sign = (\<lambda>secret now ttl c. ''new''), v_verify = (\<lambda>secret now token. sample_claims token),
     v_decode = (\<lambda>token. Some [(''exp'', JNum 9000)]), v_totp = (\<lambda>t o' s. o' = s),
     v_seal = (\<lambda>k iv t. (''tag'', t)), v_open = (\<lambda>k iv tag t. if tag = ''tag'' then Some t else None),
     v_otpUri = (\<lambda>i l s. s), v_mail = (\<lambda>_. None), v_post = (\<lambda>u j. Inr 200) \<rparr>"

definition at_time :: "time \<Rightarrow> auth_fresh" where
  "at_time now = \<lparr> z_now = now, z_sessionId = ''S2'', z_jti = ''j2'', z_random = 1 / 2, z_salt = ''s'', z_iv = ''iv'',
     z_secret = ''secret'', z_id = ''N1'', z_roleId = ''R2'', z_userId = ''U2'', z_eventId = ''E1'',
     z_permissionId = (\<lambda>k. k) \<rparr>"

definition sample_user :: user_row where
  "sample_user = \<lparr> us_id = ''U1'', us_org = ''O1'', us_roleId = ''R1'', us_employeeId = None, us_email = ''a@x'',
     us_passwordHash = ''bsecret'', us_firstName = ''Ada'', us_lastName = ''Eze'', us_isActive = True,
     us_lastLoginAt = None, us_profileImageUrl = None, us_failedLoginAttempts = 4, us_lockedUntil = None,
     us_passwordChangedAt = 0, us_isPlatformAdmin = False, us_moduleAccess = None \<rparr>"

definition sample_org :: organization where
  "sample_org = \<lparr> og_id = ''O1'', og_name = ''Org'', og_slug = ''org'', og_status = ''ACTIVE'',
     og_classification = ''CUSTOMER'', og_currency = ''NGN'', og_profileImageUrl = None, og_email = None, og_phone = None,
     og_industry = None, og_address = None, og_taxId = None, og_cacNumber = None, og_country = None,
     og_deletionPending = False \<rparr>"

definition sample_session :: session_row where
  "sample_session = blank_session\<lparr> se_id := ''S1'', se_org := ''O1'', se_userId := ''U1'', se_hash := ''#R1'',
     se_isCurrent := True, se_expiresAt := 5000 \<rparr>"

definition sample_otp :: otp_row where
  "sample_otp = \<lparr> ot_id = ''P1'', ot_userId = ''U1'', ot_codeHash = ''b123456'', ot_expiresAt = 5000, ot_verifiedAt = Some 50,
     ot_consumedAt = None, ot_attempts = 0, ot_createdAt = 10 \<rparr>"

definition sample_challenge :: challenge_row where
  "sample_challenge = \<lparr> ch_id = ''H1'', ch_org = ''O1'', ch_userId = ''U1'', ch_purpose = ''LOGIN_2FA'', ch_method = EMAIL_OTP,
     ch_codeHash = ''b123456'', ch_attempts = 0, ch_maxAttempts = 5, ch_expiresAt = 5000, ch_consumedAt = None \<rparr>"

definition tenant0 :: auth_db where
  "tenant0 = \<lparr> ab_orgs = [sample_org], ab_permissions = [],
     ab_roles = [\<lparr> ro_id = ''R1'', ro_org = ''O1'', ro_name = ''Owner'', ro_isSystem = True, ro_permissions = [] \<rparr>],
     ab_users = [sample_user], ab_twoFactor = [], ab_employees = [], ab_policies = [], ab_global = None,
     ab_allow = [\<lparr> al_id = ''L1'', al_org = ''O1'', al_value = ''10.0.0.0/8'', al_label = None, al_createdBy = None, al_createdAt = 1 \<rparr>],
     ab_sessions = [sample_session], ab_otps = [sample_otp], ab_challenges = [sample_challenge], ab_invitations = [],
     ab_profiles = [], ab_config = [], ab_events = [], ab_impersonations = [], ab_entitlements = [], ab_outbox = [],
     ab_audit = \<lparr> au_log = [], au_chains = [] \<rparr> \<rparr>"

lemmas sample_auth_defs = sample_geo_def refresh_claims_def sample_claims_def sample_auth_def at_time_def sample_user_def
  sample_org_def sample_session_def sample_otp_def sample_challenge_def tenant0_def blank_session_def

lemma tenant0_ok: "auth_ok tenant0"
  by (simp add: auth_ok_parts sample_auth_defs at_most_one_def LOGIN_2FA_MAX_ATTEMPTS_def RESET_OTP_MAX_ATTEMPTS_def)

section \<open>Invariants of every run\<close>





section \<open>Single use\<close>

text \<open>Verifying a token again yields the claims it was signed with, or a refusal once it has expired.\<close>

definition stable_token :: "auth_env \<Rightarrow> string \<Rightarrow> bool" where
  "stable_token V token \<longleftrightarrow> (\<forall>t t' c c'. v_verify V (v_refreshSecret V) t token = Some c \<longrightarrow>
     v_verify V (v_refreshSecret V) t' token = Some c' \<longrightarrow> c = c')"

lemma refresh_run:
  assumes "refreshAuthenticationTokens V z token d = (Inr tokens, d')"
  obtains payload session where
    "v_verify V (v_refreshSecret V) (z_now z) token = Some payload"
    "find (refreshable payload (hashRefreshToken V token) (z_now z)) (ab_sessions d) = Some session"
    "ab_sessions d' = updateMany (\<lambda>s. se_id s = se_id session \<and> se_hash s = hashRefreshToken V token \<and> live (z_now z) s)
       (\<lambda>s. s\<lparr>se_hash := hashRefreshToken V (snd tokens), se_lastSeenAt := z_now z,
              se_expiresAt := projr (tokenExpiresAt V (snd tokens))\<rparr>) (ab_sessions d)"
  using assms
  by (auto simp: refreshAuthenticationTokens_def Let_def run_simps)

text \<open>C35: A refresh token works once. After a successful refresh the same token is refused from the
  resulting state at every later time, and the attempt changes nothing: the session now carries the
  hash of the new token, and no other session of the user is open.
\<close>

theorem refresh_token_single_use:
  assumes "auth_ok d" and "stable_token V token"
    and "refreshAuthenticationTokens V z token d = (Inr tokens, d')"
    and "v_sha256 V (snd tokens) \<noteq> v_sha256 V token"
  shows "\<exists>e. refreshAuthenticationTokens V z' token d' = (Inl e, d')"
proof -
  from refresh_run[OF assms(3)] obtain payload session where
    p: "v_verify V (v_refreshSecret V) (z_now z) token = Some payload"
    and f: "find (refreshable payload (hashRefreshToken V token) (z_now z)) (ab_sessions d) = Some session"
    and d': "ab_sessions d' = updateMany (\<lambda>s. se_id s = se_id session \<and> se_hash s = hashRefreshToken V token \<and> live (z_now z) s)
       (\<lambda>s. s\<lparr>se_hash := hashRefreshToken V (snd tokens), se_lastSeenAt := z_now z,
              se_expiresAt := projr (tokenExpiresAt V (snd tokens))\<rparr>) (ab_sessions d)" .
  from f have s: "session \<in> set (ab_sessions d)" "refreshable payload (hashRefreshToken V token) (z_now z) session"
    by (auto dest: find_SomeD)
  have one: "at_most_one (open_session_of (se_org session) (se_userId session)) (ab_sessions d)"
    using assms(1) by (simp add: auth_ok_parts)
  have "\<not> refreshable payload (hashRefreshToken V token) (z_now z') x" if "x \<in> set (ab_sessions d')" for x
  proof
    assume r: "refreshable payload (hashRefreshToken V token) (z_now z') x"
    from that[unfolded d'] obtain y where y: "y \<in> set (ab_sessions d)"
      and x: "x = (if se_id y = se_id session \<and> se_hash y = hashRefreshToken V token \<and> live (z_now z) y
         then y\<lparr>se_hash := hashRefreshToken V (snd tokens), se_lastSeenAt := z_now z,
              se_expiresAt := projr (tokenExpiresAt V (snd tokens))\<rparr> else y)"
      by (rule updateManyE)
    from r assms(4) have "x = y"
      by (auto simp: x refreshable_def hashRefreshToken_def split: if_splits)
    have "Some (se_org y) = Some (se_org session)" "se_userId y = se_userId session" "se_revokedAt y = None"
        "se_revokedAt session = None"
      using r s(2) \<open>x = y\<close> unfolding refreshable_def live_def by metis+
    then have "open_session_of (se_org session) (se_userId session) y"
      "open_session_of (se_org session) (se_userId session) session"
      by (simp_all add: open_session_of_def)
    with one y s(1) have "y = session" by (metis at_most_one_same)
    with s(2) x \<open>x = y\<close> assms(4) show False
      by (auto simp: refreshable_def hashRefreshToken_def dest: arg_cong[where f = se_hash])
  qed
  then have none: "find (refreshable payload (hashRefreshToken V token) (z_now z')) (ab_sessions d') = None"
    by (simp add: find_None_iff)
  show ?thesis
  proof (cases "v_verify V (v_refreshSecret V) (z_now z') token")
    case None
    then show ?thesis by (simp add: refreshAuthenticationTokens_def bnd_def required_def raise_def)
  next
    case (Some c)
    with p assms(2) have "c = payload" by (auto simp: stable_token_def)
    with Some none show ?thesis
      by (simp add: refreshAuthenticationTokens_def bnd_def required_def raise_def ret_def guard_def find_row_def
          reads_def Let_def)
  qed
qed

lemma stable_sample: "stable_token sample_auth token"
  by (simp add: stable_token_def sample_auth_def)

lemma sample_refresh:
  "\<exists>d'. refreshAuthenticationTokens sample_auth (at_time 100) ''R1'' tenant0 = (Inr (''new'', ''new''), d')"
  by (simp add: refreshAuthenticationTokens_def op_defs find_row_def update_rows_def sample_auth_defs subject_of_def
      string_claim_def refreshable_def hashRefreshToken_def live_def find_user_def find_role_def find_org_def
      with_relations_def signTokens_def tokenExpiresAt_def falsy_def countWhere_def Let_def)

theorem refresh_token_single_use_witness:
  "\<exists>e d'. refreshAuthenticationTokens sample_auth (at_time 100) ''R1'' tenant0 = (Inr (''new'', ''new''), d') \<and>
     refreshAuthenticationTokens sample_auth (at_time 200) ''R1'' d' = (Inl e, d')"
proof -
  obtain d' where run: "refreshAuthenticationTokens sample_auth (at_time 100) ''R1'' tenant0 = (Inr (''new'', ''new''), d')"
    using sample_refresh by blast
  have "v_sha256 sample_auth (snd (''new'', ''new'')) \<noteq> v_sha256 sample_auth ''R1''" by (simp add: sample_auth_def)
  from refresh_token_single_use[OF tenant0_ok stable_sample run this, of "at_time 200"] run show ?thesis by blast
qed

text \<open>C36: A successful password reset changes the password, ends every session the account has in its
  organization and uses up the link: opening the link again is refused whatever the new password,
  and leaves the database as it is.
\<close>

theorem reset_ends_sessions:
  assumes "stable_token V token" and "resetPassword V z token password d = (Inr (), d')"
  shows "(\<exists>c u. v_verify V (v_refreshSecret V) (z_now z) token = Some c \<and> find_user (subject_of c) d = Some u \<and>
            (\<forall>s \<in> set (ab_sessions d'). se_org s = us_org u \<and> se_userId s = subject_of c \<longrightarrow> se_revokedAt s \<noteq> None) \<and>
            (\<forall>u' \<in> set (ab_users d'). us_id u' = subject_of c \<longrightarrow> us_passwordHash u' = v_bcrypt V password 12 (z_salt z))) \<and>
         (\<forall>z' password'. \<exists>e. resetPassword V z' token password' d' = (Inl e, d'))"
proof -
  from assms(2) obtain c u i where
    c: "v_verify V (v_refreshSecret V) (z_now z) token = Some c" "string_claim ''otpId'' c = Some i"
    and u: "find_user (subject_of c) d = Some u"
    and d': "ab_sessions d' = updateMany (open_session_of (us_org u) (subject_of c)) (revoke_session (z_now z) ''Password reset'') (ab_sessions d)"
      "ab_users d' = updateMany (\<lambda>u. us_id u = subject_of c)
         (\<lambda>u. u\<lparr>us_passwordHash := v_bcrypt V password 12 (z_salt z), us_passwordChangedAt := z_now z\<rparr>) (ab_users d)"
      "ab_otps d' = updateMany (unused_otp (subject_of c)) (\<lambda>o'. o'\<lparr>ot_consumedAt := Some (z_now z)\<rparr>)
         (updateMany (claimable_otp i (subject_of c) (z_now z)) (\<lambda>o'. o'\<lparr>ot_consumedAt := Some (z_now z)\<rparr>) (ab_otps d))"
    by (auto simp: resetPassword_def Let_def run_simps consume_otps_def revoke_sessions_def falsy_def)
  have 1: "se_revokedAt s \<noteq> None" if "s \<in> set (ab_sessions d')" "se_org s = us_org u" "se_userId s = subject_of c" for s
    using that unfolding d'(1) by (auto elim!: updateManyE simp: open_session_of_def revoke_session_def split: if_splits)
  have 2: "us_passwordHash u' = v_bcrypt V password 12 (z_salt z)" if "u' \<in> set (ab_users d')" "us_id u' = subject_of c" for u'
    using that unfolding d'(2) by (auto elim!: updateManyE split: if_splits)
  have none: "find (\<lambda>o'. ot_id o' = i \<and> unused_otp (subject_of c) o') (ab_otps d') = None"
    unfolding d'(3) by (auto simp: find_None_iff unused_otp_def elim!: updateManyE split: if_splits)
  have 3: "\<exists>e. resetPassword V z' token password' d' = (Inl e, d')" for z' password'
  proof (cases "v_verify V (v_refreshSecret V) (z_now z') token")
    case None
    then show ?thesis by (simp add: resetPassword_def Let_def bnd_def required_def raise_def)
  next
    case (Some c')
    with c assms(1) have "c' = c" by (auto simp: stable_token_def)
    with Some none c(2) show ?thesis
      by (simp add: resetPassword_def Let_def bnd_def required_def raise_def ret_def guard_def find_row_def reads_def)
  qed
  from c(1) u 1 2 3 show ?thesis by blast
qed

lemma sample_reset: "\<exists>d'. resetPassword sample_auth (at_time 100) ''RESET'' ''Better1!'' tenant0 = (Inr (), d')"
  by (simp add: resetPassword_def op_defs find_row_def update_rows_def update_row_def sample_auth_defs subject_of_def
      string_claim_def falsy_def countWhere_def unused_otp_def claimable_otp_def find_user_def
      getSecurityPolicyForOrganization_def getGlobalPasswordPolicy_def global_rules_def defaultSecurityPolicy_def
      defaultPlatformPasswordPolicy_def validatePasswordAgainstPolicy_def is_upper_char_def is_lower_char_def
      is_digit_char_def is_alnum_char_def revoke_sessions_def consume_otps_def Let_def)

theorem reset_ends_sessions_witness:
  "\<exists>d' e. resetPassword sample_auth (at_time 100) ''RESET'' ''Better1!'' tenant0 = (Inr (), d') \<and>
     resetPassword sample_auth (at_time 200) ''RESET'' ''Other12?'' d' = (Inl e, d')"
  using sample_reset reset_ends_sessions[OF stable_sample] by blast

end
