(* ===== verification/AuthLimits.thy ===== *)
theory AuthLimits
  imports AuthProperties
begin

text \<open>
  The limits of the authentication component: guesses at a second-factor code, wrong passwords,
  what a request needs to be let through, and what the allowlist, the entitlements, the slugs and
  the sealed secrets guarantee.
\<close>

section \<open>Guessing\<close>









definition no_meta :: request_meta where
  "no_meta = \<lparr> mt_ip = None, mt_userAgent = None \<rparr>"


section \<open>Lockout\<close>




definition sample_full :: full_user where
  "sample_full = \<lparr> fu_user = sample_user,
     fu_role = \<lparr> ro_id = ''R1'', ro_org = ''O1'', ro_name = ''Owner'', ro_isSystem = True, ro_permissions = [] \<rparr>,
     fu_org = sample_org, fu_phone = None, fu_twoFactor = None \<rparr>"

lemmas lookup_defs = resolveUserByEmailAndOrganization_def find_user_def find_role_def find_org_def find_two_factor_def
  with_relations_def employee_phone_def


lemma sample_policy: "getSecurityPolicyForOrganization org tenant0 =
    \<lparr> sp_minPasswordLength = 8, sp_passwordExpiryDays = Some 90,
     sp_lockoutMaxAttempts = 5, sp_requireUppercase = True, sp_requireLowercase = True,
     sp_requireNumber = True, sp_requireSpecialCharacter = False, sp_ipAllowlistEnabled = False,
     sp_twoFactorEnabled = False, sp_enforceTwoFactorForAllUsers = False,
     sp_allowAuthenticatorApp = True, sp_allowSmsOtp = False, sp_allowEmailOtp = True \<rparr>"
  by (simp add: getSecurityPolicyForOrganization_def getGlobalPasswordPolicy_def global_rules_def defaultSecurityPolicy_def
      defaultPlatformPasswordPolicy_def sample_auth_defs)


section \<open>What a request needs\<close>

text \<open>C39: A request is let through only for an active user, whose organization is active unless the user
  is a platform administrator, and only while something revocable stands behind the token: a live
  session of that user, or an active impersonation by a platform administrator whose own session is
  live. A token that names a session never outlives it.
\<close>

theorem access_needs_live_session:
  assumes "authenticate V now header d = Inr u"
  shows "\<exists>user \<in> set (ab_users d). us_id user = ru_id u \<and> us_org user = ru_org u \<and> us_isActive user \<and>
     (us_isPlatformAdmin user \<or> (\<exists>g \<in> set (ab_orgs d). og_id g = ru_org u \<and> og_status g = ''ACTIVE'')) \<and>
     (\<forall>i. ru_sessionId u = Some i \<and> i \<noteq> [] \<longrightarrow>
        (\<exists>s \<in> set (ab_sessions d). se_id s = i \<and> se_userId s = ru_id u \<and> se_org s = ru_org u \<and> live now s)) \<and>
     (case ru_impersonation u of
        None \<Rightarrow> ru_sessionId u \<noteq> None \<and> ru_sessionId u \<noteq> Some []
      | Some m \<Rightarrow> (\<exists>s \<in> set (ab_sessions d). se_id s = ip_adminSessionId m \<and> se_userId s = ip_adminUserId m \<and> live now s) \<and>
          (\<exists>i \<in> set (ab_impersonations d). im_id i = ip_sessionId m \<and> im_adminUserId i = ip_adminUserId m \<and>
             im_tenantUserId i = ru_id u \<and> im_status i = ''ACTIVE'' \<and> im_endedAt i = None \<and> im_expiresAt i > now))"
proof -
  from assms obtain payload where p: "bearer_token header \<noteq> None"
    "v_verify V (v_accessSecret V) now (the (bearer_token header)) = Some payload"
    by (auto simp: authenticate_def split: option.splits)
  define user0 where "user0 = find (\<lambda>u. matches_claim (string_claim ''sub'' payload) (us_id u) \<and>
    matches_claim (string_claim ''organizationId'' payload) (us_org u) \<and> us_isActive u) (ab_users d)"
  from assms p obtain full where full: "Option.bind user0 (with_relations d) = Some full"
    by (auto simp: authenticate_def user0_def split: option.splits)
  then obtain user where user: "user \<in> set (ab_users d)" "us_isActive user" "with_relations d user = Some full"
    unfolding user0_def by (auto simp: Option.bind_eq_Some_conv dest: find_SomeD)
  from user(3) have rel: "fu_user full = user" "fu_org full \<in> set (ab_orgs d)" "og_id (fu_org full) = us_org user"
    by (auto simp: with_relations_def find_org_def find_role_def split: option.splits dest: find_SomeD)
  from assms p full rel have run: "canAccessOrganization full"
      "\<not> falsy (string_claim ''sessionId'' payload) \<Longrightarrow>
         active_session d now (the (string_claim ''sessionId'' payload)) (\<lambda>s. se_userId s = us_id user \<and> se_org s = us_org user)"
      "string_claim ''purpose'' payload = Some ''platform-impersonation'' \<Longrightarrow>
         active_session d now (the (string_claim ''platformAdminSessionId'' payload)) (\<lambda>s. se_userId s = the (string_claim ''platformAdminUserId'' payload)) \<and>
         active_impersonation d now (the (string_claim ''impersonationSessionId'' payload)) (the (string_claim ''platformAdminUserId'' payload)) user"
      "string_claim ''purpose'' payload \<noteq> Some ''platform-impersonation'' \<Longrightarrow> \<not> falsy (string_claim ''sessionId'' payload)"
    by (auto simp: authenticate_def user0_def[symmetric] Let_def split: if_splits)
  from assms p full rel have u: "ru_id u = us_id user" "ru_org u = us_org user" "ru_sessionId u = string_claim ''sessionId'' payload"
      "ru_impersonation u = (if string_claim ''purpose'' payload = Some ''platform-impersonation''
         then Some \<lparr> ip_sessionId = the (string_claim ''impersonationSessionId'' payload),
                ip_adminUserId = the (string_claim ''platformAdminUserId'' payload),
                ip_adminSessionId = the (string_claim ''platformAdminSessionId'' payload) \<rparr> else None)"
    by (auto simp: authenticate_def user0_def[symmetric] Let_def split: if_splits)
  show ?thesis
  proof (intro bexI[OF _ user(1)] conjI allI impI)
    show "us_isPlatformAdmin user \<or> (\<exists>g \<in> set (ab_orgs d). og_id g = ru_org u \<and> og_status g = ''ACTIVE'')"
      using run(1) rel u(2) by (auto simp: canAccessOrganization_def)
    fix i assume "ru_sessionId u = Some i \<and> i \<noteq> []"
    then show "\<exists>s \<in> set (ab_sessions d). se_id s = i \<and> se_userId s = ru_id u \<and> se_org s = ru_org u \<and> live now s"
      using run(2) u by (auto simp: falsy_def active_session_def list_ex_iff)
  next
    show "case ru_impersonation u of
        None \<Rightarrow> ru_sessionId u \<noteq> None \<and> ru_sessionId u \<noteq> Some []
      | Some m \<Rightarrow> (\<exists>s \<in> set (ab_sessions d). se_id s = ip_adminSessionId m \<and> se_userId s = ip_adminUserId m \<and> live now s) \<and>
          (\<exists>i \<in> set (ab_impersonations d). im_id i = ip_sessionId m \<and> im_adminUserId i = ip_adminUserId m \<and>
             im_tenantUserId i = ru_id u \<and> im_status i = ''ACTIVE'' \<and> im_endedAt i = None \<and> im_expiresAt i > now)"
      using run(3,4) u by (auto simp: falsy_def active_session_def active_impersonation_def list_ex_iff)
  qed (use u user in simp_all)
qed

lemma sample_access: "\<exists>u. authenticate sample_auth 100 (Some ''Bearer R1'') tenant0 = Inr u \<and> ru_id u = ''U1''"
  by (simp add: authenticate_def bearer_token_def starts_with_def Let_def lookup_defs sample_auth_defs matches_claim_def
      string_claim_def subject_of_def canAccessOrganization_def falsy_def active_session_def live_def)

theorem access_needs_live_session_witness:
  "\<exists>user \<in> set (ab_users tenant0). us_id user = ''U1'' \<and> us_isActive user"
proof -
  obtain u where u: "authenticate sample_auth 100 (Some ''Bearer R1'') tenant0 = Inr u" "ru_id u = ''U1''"
    using sample_access by blast
  from access_needs_live_session[OF u(1)] u(2) show ?thesis by metis
qed

section \<open>Module access\<close>

text \<open>The effective access of a user to a module is the organization's entitlement cut down by the
  user: an active user with a permission of the module, whose own module list (when there is one)
  names the module, in an organization entitled to it. The two copies of the entitlement check in
  the code agree.
\<close>

theorem module_access_is_entitlement:
  "requireEffectiveModuleAccess now mkey (Some u) d = Inr () \<longleftrightarrow>
     requireModuleEntitlement now mkey (Some u) d = Inr () \<and>
     list_ex (starts_with (mkey @ '':'')) (ru_permissions u) \<and>
     (case ru_moduleAccess u of None \<Rightarrow> True | Some ms \<Rightarrow> list_ex (\<lambda>m. toLower m = mkey) ms)"
  by (auto simp: requireEffectiveModuleAccess_def requireModuleEntitlement_def effective_access_iff split: if_splits)

section \<open>The allowlist\<close>

lemma run_logAdminActivity:
  assumes "logAdminActivity Y now req a r i s m d = (x, t)"
  shows "\<exists>u. t = d\<lparr>ab_audit := u\<rparr>"
proof (cases "rq_org req = []")
  case True
  with assms have "t = d\<lparr>ab_audit := ab_audit d\<rparr>" by (simp add: logAdminActivity_def run_simps)
  then show ?thesis by blast
next
  case False
  with assms show ?thesis by (auto simp: logAdminActivity_def run_zoom)
qed

lemma run_removeIpAllowlistEntry:
  assumes "removeIpAllowlistEntry Y now req i d = (Inr (), d')"
  shows "ab_allow d' = filter (\<lambda>a. al_id a \<noteq> i) (ab_allow d)" "ab_policies d' = ab_policies d" "ab_global d' = ab_global d"
proof -
  from assms have "\<exists>m. logAdminActivity Y now req ''SECURITY_IP_ALLOWLIST_ENTRY_REMOVED'' ''IP_ALLOWLIST_ENTRY'' (Some i)
       ''Removed IP allowlist entry'' m (ab_allow_update (filter (\<lambda>a. \<not> al_id a = i)) d) = (Inr (), d')"
    unfolding removeIpAllowlistEntry_def run_bnd_ok run_find_row run_required_ok run_delete_row
    by (elim exE conjE) (intro exI, simp)
  then obtain m where log: "logAdminActivity Y now req ''SECURITY_IP_ALLOWLIST_ENTRY_REMOVED'' ''IP_ALLOWLIST_ENTRY'' (Some i)
       ''Removed IP allowlist entry'' m (ab_allow_update (filter (\<lambda>a. \<not> al_id a = i)) d) = (Inr (), d')" ..
  from run_logAdminActivity[OF log]
  show "ab_allow d' = filter (\<lambda>a. al_id a \<noteq> i) (ab_allow d)" "ab_policies d' = ab_policies d" "ab_global d' = ab_global d"
    by auto
qed

text \<open>Removing the last allowlist entry of an organization whose allowlist is enabled shuts everyone
  out: every later login that resolves to one of its active users is blocked, whatever the address,
  the password or the second factor. Enabling the list demands a non-empty list that admits the
  administrator; removing entries demands nothing.
\<close>

theorem removing_last_entry_locks_out:
  assumes "allowlist_of (rq_org req) d = [entry]" and "distinct (map al_id (ab_allow d))"
    and "sp_ipAllowlistEnabled (getSecurityPolicyForOrganization (rq_org req) d)"
    and "removeIpAllowlistEntry Y now req (al_id entry) d = (Inr (), d')"
    and "resolveUserByEmailAndOrganization e s d' = (Inr (Some full), d')"
    and "us_org (fu_user full) = rq_org req" and "us_isActive (fu_user full)"
  shows "fst (login V z e s pw m meta d') = Inl (unauthorized ''Login blocked by organization IP allowlist policy'')"
proof -
  note d' = run_removeIpAllowlistEntry[OF assms(4)]
  have "filter (\<lambda>a. al_org a = rq_org req) (ab_allow d') = filter (\<lambda>a. al_id a \<noteq> al_id entry) (allowlist_of (rq_org req) d)"
    unfolding d' allowlist_of_def by (simp add: conj_commute)
  with assms(1) have none: "filter (\<lambda>a. al_org a = rq_org req) (ab_allow d') = []" by simp
  have pol: "getSecurityPolicyForOrganization (rq_org req) d' = getSecurityPolicyForOrganization (rq_org req) d"
    using d'(3) by (simp add: getSecurityPolicyForOrganization_def d'(2) getGlobalPasswordPolicy_def cong: option.case_cong)
  have "\<not> isIpAllowed ip []" for ip by (simp add: isIpAllowed_def)
  with assms(3,5-7) none pol show ?thesis
    by (simp add: login_def op_defs Let_def logAuthEvent_def split: option.splits)
qed

definition locked_tenant :: auth_db where
  "locked_tenant = tenant0\<lparr> ab_policies := [\<lparr> pw_org = ''O1'',
     pw_policy = defaultSecurityPolicy\<lparr>sp_ipAllowlistEnabled := True\<rparr>, pw_updatedBy = None \<rparr>] \<rparr>"

definition admin_call :: admin_request where
  "admin_call = \<lparr> rq_org = ''O1'', rq_user = None, rq_ip = Some ''10.1.2.3'' \<rparr>"

definition plain_audit :: audit_env where
  "plain_audit = \<lparr> y_sha256 = (\<lambda>s. s), y_localeLe = (\<lambda>a b. True), y_context = None \<rparr>"

lemma sample_removal:
  "\<exists>d'. removeIpAllowlistEntry plain_audit 100 admin_call ''L1'' locked_tenant = (Inr (), d') \<and>
     resolveUserByEmailAndOrganization ''a@x'' None d' = (Inr (Some sample_full), d')"
proof -
  let ?log = "logAdminActivity plain_audit 100 admin_call ''SECURITY_IP_ALLOWLIST_ENTRY_REMOVED'' ''IP_ALLOWLIST_ENTRY'' (Some ''L1'')
       ''Removed IP allowlist entry'' (Some (JObj [(''value'', JStr ''10.0.0.0/8'')]))"
  let ?inp = "\<lparr> i_org = ''O1'', i_actor = None, i_action = ''SECURITY_IP_ALLOWLIST_ENTRY_REMOVED'',
       i_resource = ''IP_ALLOWLIST_ENTRY'', i_resourceId = Some ''L1'', i_summary = ''Removed IP allowlist entry'',
       i_metadata = Some (JObj [(''value'', JStr ''10.0.0.0/8'')]) \<rparr>"
  have "\<exists>a. createAuditLog plain_audit 100 ?inp (ab_audit locked_tenant) = (Inr (), a)"
    by (simp add: createAuditLog_def persistAuditLog_def tx_def op_defs Let_def)
  then obtain a where aud: "createAuditLog plain_audit 100 ?inp (ab_audit locked_tenant) = (Inr (), a)" ..
  then have a: "?log (ab_allow_update (\<lambda>_. []) locked_tenant) = (Inr (), (ab_allow_update (\<lambda>_. []) locked_tenant)\<lparr>ab_audit := a\<rparr>)"
    by (simp add: logAdminActivity_def zoom_def admin_call_def actor_id_def)
  let ?d = "(ab_allow_update (\<lambda>_. []) locked_tenant)\<lparr>ab_audit := a\<rparr>"
  have "removeIpAllowlistEntry plain_audit 100 admin_call ''L1'' locked_tenant = (Inr (), ?d)"
    using a by (simp add: removeIpAllowlistEntry_def op_defs find_row_def delete_row_def admin_call_def locked_tenant_def tenant0_def)
  moreover have "resolveUserByEmailAndOrganization ''a@x'' None ?d = (Inr (Some sample_full), ?d)"
    by (simp add: lookup_defs op_defs falsy_def sample_auth_defs sample_full_def normalizeEmail_def toLower_def trim_def
        lower_char_def is_upper_char_def is_space_char_def locked_tenant_def)
  ultimately show ?thesis by blast
qed

theorem removing_last_entry_locks_out_witness:
  "\<exists>d'. fst (login sample_auth (at_time 200) ''a@x'' None ''secret'' None no_meta d')
     = Inl (unauthorized ''Login blocked by organization IP allowlist policy'')"
proof -
  let ?entry = "\<lparr> al_id = ''L1'', al_org = ''O1'', al_value = ''10.0.0.0/8'', al_label = None, al_createdBy = None, al_createdAt = 1 \<rparr>"
  obtain d' where run: "removeIpAllowlistEntry plain_audit 100 admin_call ''L1'' locked_tenant = (Inr (), d')"
      "resolveUserByEmailAndOrganization ''a@x'' None d' = (Inr (Some sample_full), d')"
    using sample_removal by blast
  have pre: "allowlist_of (rq_org admin_call) locked_tenant = [?entry]" "distinct (map al_id (ab_allow locked_tenant))"
    "sp_ipAllowlistEnabled (getSecurityPolicyForOrganization (rq_org admin_call) locked_tenant)"
    "us_org (fu_user sample_full) = rq_org admin_call" "us_isActive (fu_user sample_full)"
    by (simp_all add: allowlist_of_def locked_tenant_def tenant0_def admin_call_def getSecurityPolicyForOrganization_def
        global_rules_def sample_full_def sample_user_def)
  have "removeIpAllowlistEntry plain_audit 100 admin_call (al_id ?entry) locked_tenant = (Inr (), d')" using run(1) by simp
  from removing_last_entry_locks_out[OF pre(1-3) this run(2) pre(4,5)] show ?thesis by blast
qed

section \<open>Password policies\<close>

lemma global_rules_override: "global_rules g (set_password_rules w p) = global_rules g p"
  by (simp add: global_rules_def set_password_rules_def)

lemma run_updateSecurityPasswordPolicy:
  assumes "updateSecurityPasswordPolicy Y now req w d = (Inr x, d')"
  shows "ab_policies d' = upsert_policy req (set_password_rules w) (ab_policies d)" "ab_global d' = ab_global d"
proof -
  from assms obtain r where log: "logAdminActivity Y now req ''SECURITY_PASSWORD_POLICY_UPDATED'' ''SECURITY_POLICY'' (Some (rq_org req))
        ''Updated tenant password policy'' (Some (password_policy_json w))
        (ab_policies_update (upsert_policy req (set_password_rules w)) d) = (r, d')"
    unfolding updateSecurityPasswordPolicy_def run_bnd_ok run_guard_ok run_writes run_ret by (elim exE conjE) simp
  from run_logAdminActivity[OF log]
  show "ab_policies d' = upsert_policy req (set_password_rules w) (ab_policies d)" "ab_global d' = ab_global d" by auto
qed

text \<open>The password policy a tenant administrator saves has no effect: after a successful update the
  policy that login, registration, reset and invitation apply to the organization is the one before,
  because the platform-wide rules override every field the administrator can set.
\<close>

theorem tenant_password_policy_ignored:
  assumes "updateSecurityPasswordPolicy Y now req w d = (Inr x, d')"
  shows "getSecurityPolicyForOrganization org d' = getSecurityPolicyForOrganization org d"
proof -
  note d' = run_updateSecurityPasswordPolicy[OF assms]
  have g: "getGlobalPasswordPolicy d' = getGlobalPasswordPolicy d" by (simp add: getGlobalPasswordPolicy_def d')
  let ?rows = "ab_policies d"
  show ?thesis
  proof (cases "find (\<lambda>p. pw_org p = rq_org req) ?rows")
    case None
    then show ?thesis
      by (auto simp: find_append getSecurityPolicyForOrganization_def g d'(1) upsert_policy_def global_rules_override split: option.splits)
  next
    case (Some p)
    then show ?thesis
      by (auto simp: getSecurityPolicyForOrganization_def g d'(1) upsert_policy_def find_updateMany global_rules_override
          split: option.splits)
  qed
qed

definition strict_rules :: password_policy_input where
  "strict_rules = \<lparr> wi_minPasswordLength = 16, wi_passwordExpiryDays = 30, wi_lockoutMaxAttempts = 3,
     wi_requireUppercase = True, wi_requireLowercase = True, wi_requireNumber = True, wi_requireSpecialCharacter = True \<rparr>"

theorem tenant_password_policy_ignored_witness:
  "\<exists>d'. updateSecurityPasswordPolicy plain_audit 100 admin_call strict_rules tenant0 = (Inr strict_rules, d') \<and>
     sp_minPasswordLength (getSecurityPolicyForOrganization ''O1'' d') = 8"
proof -
  have "\<exists>d'. updateSecurityPasswordPolicy plain_audit 100 admin_call strict_rules tenant0 = (Inr strict_rules, d')"
    by (simp add: updateSecurityPasswordPolicy_def op_defs securityPasswordPolicySchema_def strict_rules_def
        logAdminActivity_def admin_call_def createAuditLog_def persistAuditLog_def tx_def Let_def)
  then obtain d' where run: "updateSecurityPasswordPolicy plain_audit 100 admin_call strict_rules tenant0 = (Inr strict_rules, d')" ..
  from tenant_password_policy_ignored[OF run, of "''O1''"] run show ?thesis by (simp add: sample_policy)
qed

section \<open>Slugs, codes and secrets\<close>

text \<open>The search for a free organization slug ends, with a slug no organization has; when the
  requested name gives a free slug that slug is taken, else the first free number from 2 on is
  appended.
\<close>

theorem slug_search_ends:
  "buildUniqueOrganizationSlug taken name slug \<notin> set taken \<and>
   (let base = buildUniqueOrganizationSlug [] name slug in
      if base \<notin> set taken then buildUniqueOrganizationSlug taken name slug = base
      else \<exists>n \<ge> 2. buildUniqueOrganizationSlug taken name slug = numbered_slug base n \<and>
             list_all (\<lambda>k. numbered_slug base k \<in> set taken) [2..<n])"
proof -
  have least: "\<exists>k \<ge> n. next_free_slug taken base n = numbered_slug base k \<and> (\<forall>j. n \<le> j \<and> j < k \<longrightarrow> numbered_slug base j \<in> set taken)"
    for base n
  proof (induction taken base n rule: next_free_slug.induct)
    case (1 taken base n)
    show ?case
    proof (cases "numbered_slug base n \<in> set taken")
      case True
      from 1[OF True] obtain k where k: "k \<ge> n + 1" "next_free_slug taken base (n + 1) = numbered_slug base k"
        "\<forall>j. n + 1 \<le> j \<and> j < k \<longrightarrow> numbered_slug base j \<in> set taken" by blast
      have "numbered_slug base j \<in> set taken" if "n \<le> j \<and> j < k" for j
        using that k(3) True by (cases "j = n") auto
      moreover have "next_free_slug taken base n = numbered_slug base k"
        using True k(2) by (subst next_free_slug.simps) simp
      ultimately show ?thesis using k(1) by (intro exI[of _ k]) simp
    next
      case False
      then show ?thesis by (intro exI[of _ n]) (auto simp: next_free_slug.simps)
    qed
  qed
  have numbered: "\<exists>n \<ge> 2. next_free_slug taken base 2 = numbered_slug base n \<and> list_all (\<lambda>k. numbered_slug base k \<in> set taken) [2..<n]"
    for base
  proof -
    from least[of 2 base] obtain k where "2 \<le> k" "next_free_slug taken base 2 = numbered_slug base k"
      "\<forall>j. 2 \<le> j \<and> j < k \<longrightarrow> numbered_slug base j \<in> set taken" by (elim exE conjE)
    then show ?thesis by (intro exI[of _ k]) (simp add: list_all_iff)
  qed
  define base where "base = (let s = slugify (if falsy slug then name else the slug) in if s = [] then ''org'' else s)"
  have "buildUniqueOrganizationSlug t name slug = (if base \<in> set t then next_free_slug t base 2 else base)" for t
    unfolding buildUniqueOrganizationSlug_def base_def Let_def ..
  with unique_slug_new[of taken name slug] numbered[of base] show ?thesis by simp
qed

text \<open>A sealed authenticator secret opens to what was sealed, as long as sealing and opening with
  the same key and initialization vector agree and the parts are written without dots; an empty
  secret is the exception, since its ciphertext is empty and the code then refuses the stored value.
\<close>

theorem sealed_secret_roundtrip:
  assumes "v_seal V (buildEncryptionKey V) iv secret = (tag, text)"
    and "v_open V (buildEncryptionKey V) iv tag text = Some secret"
    and "CHR ''.'' \<notin> set iv" and "CHR ''.'' \<notin> set tag" and "CHR ''.'' \<notin> set text"
    and "iv \<noteq> []" and "tag \<noteq> []"
  shows "decryptSecret V (encryptSecret V iv secret) =
    (if text = [] then Inl (badRequest ''Stored authenticator secret is invalid'') else Inr secret)"
proof -
  have one: "split_on c s = [s]" if "c \<notin> set s" for c s
    using that by (induction s) auto
  have more: "split_on c (s @ c # t) = s # split_on c t" if "c \<notin> set s" for c s t
    using that by (induction s) auto
  have "split_on CHR ''.'' (iv @ CHR ''.'' # tag @ CHR ''.'' # text) = [iv, tag, text]"
    by (simp add: more one assms)
  then show ?thesis using assms by (simp add: decryptSecret_def encryptSecret_def)
qed

theorem sealed_secret_roundtrip_witness:
  "decryptSecret sample_auth (encryptSecret sample_auth ''iv'' ''secret'') = Inr ''secret''"
  using sealed_secret_roundtrip[of sample_auth "''iv''" "''secret''" "''tag''" "''secret''"]
  by (simp add: sample_auth_def)

end
