(* ===== verification/PayrollCalc.thy ===== *)
theory PayrollCalc
  imports Listing
begin

text \<open>
  The payroll arithmetic of src/modules/payroll/payroll.service.ts: the progressive income tax,
  proration of a salary, the preview of a payslip, loan schedules, months and totals.

  Decimal sums, differences and products are exact, as in the rest of the development. Two steps
  are not and come as parameters in a \<open>decimal_env\<close>: \<open>Decimal.div\<close>, which keeps twenty significant
  digits, and the detour \<open>new Decimal(String(Number(x)))\<close> through a double, which gives back every
  decimal of up to fifteen significant digits.
\<close>

record decimal_env =
  dv_div :: "rat \<Rightarrow> rat \<Rightarrow> rat"
  dv_num :: "rat \<Rightarrow> rat"

definition sum_amounts :: "('x \<Rightarrow> money) \<Rightarrow> 'x list \<Rightarrow> money" where
  "sum_amounts f xs = foldl (\<lambda>s x. s + f x) 0 xs"

section \<open>Months\<close>

text \<open>Months are strings \<open>YYYY-MM\<close>; \<open>period.split("-").map(Number)\<close> reads the two numbers.\<close>

definition month_parts :: "string \<Rightarrow> int \<times> int" where
  "month_parts m = (number_of (take 4 m), number_of (drop 5 m))"

definition month_string :: "time \<Rightarrow> string" where
  "month_string t = (case utc_fields t of (y, m, d) \<Rightarrow> show_int y @ ''-'' @ pad_digits 2 (nat (m + 1)))"

definition shiftPayrollMonth :: "string \<Rightarrow> int \<Rightarrow> string" where
  "shiftPayrollMonth month offset =
     (case month_parts month of (year, v) \<Rightarrow> month_string (date_UTC year (v - 1 + offset) 1))"

definition payrollDashboardMonths :: "string \<Rightarrow> string list" where
  "payrollDashboardMonths currentMonth = map (\<lambda>i. shiftPayrollMonth currentMonth (int i - 5)) [0..<6]"

definition monthDays :: "string \<Rightarrow> int" where
  "monthDays period = (case month_parts period of (y, m) \<Rightarrow> snd (snd (utc_fields (date_UTC y m 0))))"

definition effectiveMonthlyPayDate :: "string \<Rightarrow> int \<Rightarrow> time" where
  "effectiveMonthlyPayDate period day =
     (case month_parts period of (year, month) \<Rightarrow>
        let lastDay = snd (snd (utc_fields (date_UTC year month 0)))
        in date_UTC year (month - 1) (min day lastDay))"

section \<open>Income tax\<close>

text \<open>\<open>threshold\<close> is the width of the band, \<open>null\<close> for the last one.\<close>

record paye_band =
  bd_threshold :: "rat option"
  bd_rate :: rat

record statutory_rule =
  ru_version :: string
  ru_effectiveFrom :: string
  ru_bands :: "paye_band list"
  ru_employeePension :: rat
  ru_employerPension :: rat
  ru_nhf :: rat
  ru_nsitf :: rat

definition NG_STATUTORY_RULE_2026 :: statutory_rule where
  "NG_STATUTORY_RULE_2026 =
     \<lparr> ru_version = ''NG-2026-NTA'', ru_effectiveFrom = ''2026-01-01'',
       ru_bands =
         [\<lparr> bd_threshold = Some 800000, bd_rate = 0 \<rparr>, \<lparr> bd_threshold = Some 2200000, bd_rate = 15/100 \<rparr>,
          \<lparr> bd_threshold = Some 9000000, bd_rate = 18/100 \<rparr>, \<lparr> bd_threshold = Some 13000000, bd_rate = 21/100 \<rparr>,
          \<lparr> bd_threshold = Some 25000000, bd_rate = 23/100 \<rparr>, \<lparr> bd_threshold = None, bd_rate = 25/100 \<rparr>],
       ru_employeePension = 8/100, ru_employerPension = 10/100, ru_nhf = 25/1000, ru_nsitf = 1/100 \<rparr>"

fun tax_bands :: "rat \<Rightarrow> rat \<Rightarrow> paye_band list \<Rightarrow> rat" where
  "tax_bands remaining tax [] = tax"
| "tax_bands remaining tax (band # bands) =
     (if remaining \<le> 0 then tax
      else
        let slice = (case bd_threshold band of None \<Rightarrow> remaining | Some t \<Rightarrow> min remaining t)
        in tax_bands (remaining - slice) (tax + slice * bd_rate band) bands)"

definition progressiveAnnualTax :: "rat \<Rightarrow> paye_band list \<Rightarrow> rat" where
  "progressiveAnnualTax annualTaxable bands = tax_bands (max 0 annualTaxable) 0 bands"

section \<open>Proration\<close>

text \<open>\<open>a < b\<close> on strings: the first differing character decides.\<close>

fun str_less :: "string \<Rightarrow> string \<Rightarrow> bool" where
  "str_less _ [] = False"
| "str_less [] (_ # _) = True"
| "str_less (a # x) (b # y) = (if a = b then str_less x y else (of_char a :: nat) < of_char b)"

text \<open>\<open>new Date(`${date}T00:00:00.000Z`).getUTCDay()\<close>; the first of January 1970 was a Thursday.\<close>

definition weekday :: "time \<Rightarrow> int" where
  "weekday t = (t div msPerDay + 4) mod 7"

definition day_string :: "string \<Rightarrow> nat \<Rightarrow> string" where
  "day_string period day = period @ ''-'' @ pad_digits 2 day"

definition fallback_workdays :: "string \<Rightarrow> string list" where
  "fallback_workdays period =
     (case month_parts period of (y, m) \<Rightarrow>
        map (day_string period)
          (filter (\<lambda>d. weekday (date_UTC y (m - 1) (int d)) \<in> {1..5}) [1..<nat (monthDays period) + 1]))"

text \<open>The workdays given are a set of dates, here a list without repetition.\<close>

definition payrollProrationFactor ::
    "decimal_env \<Rightarrow> string \<Rightarrow> time option \<Rightarrow> string option \<Rightarrow> string list option \<Rightarrow> rat" where
  "payrollProrationFactor D period resumeDate meth workdays =
     (case resumeDate of
        None \<Rightarrow> 1
      | Some t \<Rightarrow>
          if falsy meth then 1
          else
            let resume = take 10 (toISOString t) in
            if \<not> starts_with period resume then (if str_less resume (period @ ''-01'') then 1 else 0)
            else if meth = Some ''CALENDAR_DAYS''
              then dv_div D (of_int (monthDays period - number_of (drop 8 resume) + 1)) (of_int (monthDays period))
            else
              let scheduled = (case workdays of None \<Rightarrow> fallback_workdays period | Some ds \<Rightarrow> ds) in
              if scheduled = [] then 1
              else dv_div D (of_nat (length (filter (\<lambda>d. \<not> str_less d resume) scheduled))) (of_nat (length scheduled)))"

section \<open>The preview of a payslip\<close>

record allowance =
  al_name :: string
  al_amount :: money
  al_taxable :: "bool option"

record salary =
  sa_basic :: money
  sa_housing :: money
  sa_transport :: money
  sa_other :: money
  sa_additional :: "allowance list"  \<comment> \<open>what \<open>jsonAllowances\<close> keeps of the column\<close>
  sa_resumeDate :: "time option"
  sa_method :: "string option"

record loan =
  ln_id :: string
  ln_org :: string
  ln_employee :: string
  ln_amount :: money
  ln_outstanding :: money
  ln_monthlyRepayment :: "money option"
  ln_type :: string
  ln_status :: string
  ln_issuedAt :: time
  ln_adjustedAt :: "time option"
  ln_pausedAt :: "time option"
  ln_closedAt :: "time option"
  ln_closedBy :: "string option"
  ln_closeReason :: "string option"
  ln_reason :: "string option"

record pay_preview =
  pp_basic :: money
  pp_housing :: money
  pp_transport :: money
  pp_other :: money
  pp_additional :: "allowance list"
  pp_gross :: money
  pp_paye :: money
  pp_employeePension :: money
  pp_employerPension :: money
  pp_nhf :: money
  pp_nsitf :: money
  pp_customDeductions :: money
  pp_loanDeductions :: money
  pp_netPay :: money
  pp_employerCost :: money
  pp_ruleVersion :: "string option"
  pp_availability :: string

definition no_salary :: pay_preview where
  "no_salary =
     \<lparr> pp_basic = 0, pp_housing = 0, pp_transport = 0, pp_other = 0, pp_additional = [], pp_gross = 0, pp_paye = 0,
       pp_employeePension = 0, pp_employerPension = 0, pp_nhf = 0, pp_nsitf = 0, pp_customDeductions = 0,
       pp_loanDeductions = 0, pp_netPay = 0, pp_employerCost = 0, pp_ruleVersion = None,
       pp_availability = ''SALARY_NOT_CONFIGURED'' \<rparr>"

text \<open>The repayment of a month: everything for a \<open>ONE_OFF\<close> advance, never more than is outstanding.\<close>

definition loan_deduction :: "loan \<Rightarrow> money" where
  "loan_deduction l =
     min (if ln_type l = ''ONE_OFF'' then ln_outstanding l
          else case ln_monthlyRepayment l of Some m \<Rightarrow> m | None \<Rightarrow> 0)
       (ln_outstanding l)"

definition calculatePayrollPreview ::
    "decimal_env \<Rightarrow> statutory_rule option \<Rightarrow> salary option \<Rightarrow> money list \<Rightarrow> loan list \<Rightarrow> string \<Rightarrow>
     string list option \<Rightarrow> pay_preview" where
  "calculatePayrollPreview D statutoryRule sal deductions loans period workdays =
     (case sal of
        None \<Rightarrow> no_salary
      | Some s \<Rightarrow>
          let factor = payrollProrationFactor D period (sa_resumeDate s) (sa_method s) workdays;
              basic = sa_basic s * factor;
              housing = sa_housing s * factor;
              transport = sa_transport s * factor;
              other = sa_other s * factor;
              additionalTotal = sum_amounts (\<lambda>a. al_amount a * factor) (sa_additional s);
              gross = basic + housing + transport + other + additionalTotal;
              rule = (case statutoryRule of Some r \<Rightarrow> r | None \<Rightarrow> NG_STATUTORY_RULE_2026);
              taxableAdditional = sum_amounts (\<lambda>a. al_amount a * factor)
                (filter (\<lambda>a. al_taxable a \<noteq> Some False) (sa_additional s));
              taxableGross = basic + housing + transport + other + taxableAdditional;
              pensionable = basic + housing + transport;
              employeePension = pensionable * ru_employeePension rule;
              employerPension = pensionable * ru_employerPension rule;
              nhf = basic * ru_nhf rule;
              nsitf = gross * ru_nsitf rule;
              annualDeductions = (employeePension + nhf) * 12;
              paye = toDecimalPlaces 2 (dv_div D (progressiveAnnualTax (taxableGross * 12 - annualDeductions) (ru_bands rule)) 12);
              custom = sum_amounts id deductions;
              repayments = sum_amounts loan_deduction (filter (\<lambda>l. ln_status l = ''ACTIVE'') loans);
              net = max 0 (gross - paye - employeePension - nhf - custom - repayments)
          in \<lparr> pp_basic = basic, pp_housing = housing, pp_transport = transport, pp_other = other,
               pp_additional = map (\<lambda>a. a\<lparr>al_taxable := Some (al_taxable a \<noteq> Some False)\<rparr>) (sa_additional s),
               pp_gross = gross, pp_paye = paye, pp_employeePension = employeePension,
               pp_employerPension = employerPension, pp_nhf = nhf, pp_nsitf = nsitf, pp_customDeductions = custom,
               pp_loanDeductions = repayments, pp_netPay = net, pp_employerCost = gross + employerPension + nsitf,
               pp_ruleVersion = Some (ru_version rule), pp_availability = ''CALCULATED'' \<rparr>)"

text \<open>\<open>calculatePayeePayroll\<close>: payees outside the employee payroll are taxed at a flat tenth.\<close>

definition calculatePayeePayroll :: "money \<Rightarrow> bool \<Rightarrow> money \<times> money \<times> money" where
  "calculatePayeePayroll monthlyAmount isTaxable =
     (let payeTax = (if isTaxable then monthlyAmount * (10/100) else 0)
      in (monthlyAmount, payeTax, monthlyAmount - payeTax))"

section \<open>Loan schedules\<close>

record installment =
  is_number :: nat
  is_month :: string
  is_date :: time
  is_opening :: money
  is_repayment :: money
  is_closing :: money
  is_status :: string
  is_current :: bool

definition installment_row :: "time \<Rightarrow> string \<Rightarrow> time \<Rightarrow> nat \<Rightarrow> money \<Rightarrow> money \<Rightarrow> installment" where
  "installment_row now status startDate i balance amount =
     (case utc_fields startDate of (y, m, d) \<Rightarrow>
        let date = date_UTC y (m + int i) d in
        \<lparr> is_number = i + 1, is_month = take 7 (toISOString date), is_date = date, is_opening = balance,
          is_repayment = amount, is_closing = balance - amount,
          is_status = (if status = ''PAUSED'' then ''PAUSED'' else if date \<le> now then ''CURRENT_OR_DUE'' else ''SCHEDULED''),
          is_current = (take 7 (toISOString date) = take 7 (toISOString now)) \<rparr>)"

text \<open>The loop \<open>while (balance.gt(0) && index < 1200)\<close>, \<open>left = 1200 - index\<close>.\<close>

fun loan_rows :: "time \<Rightarrow> string \<Rightarrow> time \<Rightarrow> money \<Rightarrow> nat \<Rightarrow> nat \<Rightarrow> money \<Rightarrow> installment list" where
  "loan_rows now status startDate repayment 0 i balance = []"
| "loan_rows now status startDate repayment (Suc left) i balance =
     (if balance \<le> 0 then []
      else
        let amount = min repayment balance
        in installment_row now status startDate i balance amount #
           loan_rows now status startDate repayment left (Suc i) (balance - amount))"

definition buildLoanSchedule :: "time \<Rightarrow> money \<Rightarrow> money \<Rightarrow> time \<Rightarrow> string \<Rightarrow> installment list" where
  "buildLoanSchedule now owed repayment startDate status = loan_rows now status startDate repayment 1200 0 owed"

section \<open>Totals and comparisons\<close>

definition payrollWalletShortfall :: "money \<Rightarrow> money \<Rightarrow> money" where
  "payrollWalletShortfall available needed = max 0 (needed - available)"

definition walletBalanceAfter :: "money \<Rightarrow> money \<Rightarrow> string \<Rightarrow> money" where
  "walletBalanceAfter before amount direction = (if direction = ''CREDIT'' then before + amount else before - amount)"

record pay_variance =
  va_previousNet :: money
  va_currentNet :: money
  va_variance :: money
  va_percentage :: "rat option"
  va_changeType :: string

definition payrollVariance :: "decimal_env \<Rightarrow> money option \<Rightarrow> money option \<Rightarrow> pay_variance" where
  "payrollVariance D previous current =
     (let before = (case previous of None \<Rightarrow> 0 | Some v \<Rightarrow> v);
          after = (case current of None \<Rightarrow> 0 | Some v \<Rightarrow> v);
          variance = after - before
      in \<lparr> va_previousNet = before, va_currentNet = after, va_variance = variance,
           va_percentage = (if before = 0 then None else Some (toDecimalPlaces 2 (dv_div D variance before * 100))),
           va_changeType =
             (if previous = None then ''NEW_EMPLOYEE'' else if current = None then ''REMOVED_EMPLOYEE''
              else if variance > 0 then ''INCREASE'' else if variance < 0 then ''DECREASE'' else ''NO_CHANGE'') \<rparr>)"

definition statutoryObligationStatus :: "time option \<Rightarrow> time option \<Rightarrow> time \<Rightarrow> string" where
  "statutoryObligationStatus submittedAt dueDate now =
     (if submittedAt \<noteq> None then ''REMITTED''
      else case dueDate of Some d \<Rightarrow> if d < now then ''OVERDUE'' else ''DUE'' | None \<Rightarrow> ''DUE'')"

definition payRunAvailableActions :: "string \<Rightarrow> bool \<Rightarrow> string list" where
  "payRunAvailableActions status canApprove =
     (if status = ''PENDING_APPROVAL'' then ''REVIEW'' # (if canApprove then [''APPROVE''] else []) else [''VIEW''])"

definition isMutablePayrollRunStatus :: "string \<Rightarrow> bool" where
  "isMutablePayrollRunStatus status \<longleftrightarrow> status = ''DRAFT'' \<or> status = ''PROCESSING''"

section \<open>The tax by bands\<close>

text \<open>The reference: each rate applies to the part of the income between the limits of its band.\<close>

fun marginal_tax :: "rat \<Rightarrow> paye_band list \<Rightarrow> rat \<Rightarrow> rat" where
  "marginal_tax lo [] x = 0"
| "marginal_tax lo (b # bs) x =
     (case bd_threshold b of
        None \<Rightarrow> max 0 (x - lo) * bd_rate b
      | Some t \<Rightarrow> max 0 (min x (lo + t) - lo) * bd_rate b + marginal_tax (lo + t) bs x)"

definition bands_ok :: "paye_band list \<Rightarrow> bool" where
  "bands_ok bs \<longleftrightarrow> list_all (\<lambda>b. 0 \<le> bd_rate b \<and> bd_rate b \<le> 1 \<and> (case bd_threshold b of None \<Rightarrow> True | Some t \<Rightarrow> 0 \<le> t)) bs"

lemma bands_ok_simps [simp]:
  "bands_ok []"
  "bands_ok (b # bs) \<longleftrightarrow> 0 \<le> bd_rate b \<and> bd_rate b \<le> 1 \<and> (case bd_threshold b of None \<Rightarrow> True | Some t \<Rightarrow> 0 \<le> t) \<and> bands_ok bs"
  by (simp_all add: bands_ok_def)

lemma built_in_bands_ok [simp]: "bands_ok (ru_bands NG_STATUTORY_RULE_2026)"
  by (simp add: NG_STATUTORY_RULE_2026_def)

lemma marginal_below: "bands_ok bs \<Longrightarrow> x \<le> lo \<Longrightarrow> marginal_tax lo bs x = 0"
  by (induction bs arbitrary: lo) (auto split: option.splits)

lemma tax_bands_marginal:
  "bands_ok bs \<Longrightarrow> 0 \<le> r \<Longrightarrow> tax_bands r tax bs = tax + marginal_tax lo bs (lo + r)"
proof (induction bs arbitrary: r tax lo)
  case (Cons b bs)
  show ?case
  proof (cases "r = 0")
    case True
    then show ?thesis using marginal_below[OF Cons.prems(1), of "lo + r" lo] by simp
  next
    case False
    with Cons.prems have pos: "0 < r" by simp
    show ?thesis
    proof (cases "bd_threshold b")
      case None
      have "tax_bands 0 t bs = t" for t by (cases bs) auto
      with None pos show ?thesis by simp
    next
      case (Some t)
      have "tax_bands (r - min r t) (tax + min r t * bd_rate b) bs =
          tax + min r t * bd_rate b + marginal_tax (lo + t) bs (lo + t + (r - min r t))"
        using Cons.prems Some by (intro Cons.IH) auto
      moreover have "marginal_tax (lo + t) bs (lo + t + (r - min r t)) = marginal_tax (lo + t) bs (lo + r)"
        using Cons.prems Some by (cases "r \<le> t") (auto simp: marginal_below)
      moreover have "max 0 (min (lo + r) (lo + t) - lo) = min r t" using pos Cons.prems Some by auto
      ultimately show ?thesis using Some pos by (simp add: Let_def)
    qed
  qed
qed simp

lemma progressive_is_marginal: "bands_ok bs \<Longrightarrow> progressiveAnnualTax x bs = marginal_tax 0 bs x"
  using tax_bands_marginal[of bs "max 0 x" 0 0] marginal_below[of bs x 0]
  by (cases "0 \<le> x") (auto simp: progressiveAnnualTax_def marginal_below)

lemma rated_part: "0 \<le> r \<Longrightarrow> r \<le> 1 \<Longrightarrow> (a::rat) \<le> b \<Longrightarrow> 0 \<le> b * r - a * r \<and> b * r - a * r \<le> b - a"
proof -
  assume r: "0 \<le> r" "r \<le> 1" and ab: "a \<le> b"
  have "0 \<le> (b - a) * r" using r ab by simp
  moreover have "(b - a) * r \<le> (b - a) * 1" using r ab by (intro mult_left_mono) auto
  ultimately show ?thesis by (simp add: algebra_simps)
qed

lemma marginal_between:
  "bands_ok bs \<Longrightarrow> x \<le> y \<Longrightarrow>
   0 \<le> marginal_tax lo bs y - marginal_tax lo bs x \<and> marginal_tax lo bs y - marginal_tax lo bs x \<le> max lo y - max lo x"
proof (induction bs arbitrary: lo)
  case (Cons b bs)
  show ?case
  proof (cases "bd_threshold b")
    case None
    have "max 0 (x - lo) \<le> max 0 (y - lo)" using Cons.prems by auto
    moreover have "max 0 (y - lo) - max 0 (x - lo) = max lo y - max lo x" by (auto simp: max_def)
    ultimately show ?thesis using rated_part[of "bd_rate b" "max 0 (x - lo)" "max 0 (y - lo)"] Cons.prems None by simp
  next
    case (Some t)
    have "max 0 (min x (lo + t) - lo) \<le> max 0 (min y (lo + t) - lo)" using Cons.prems by auto
    from rated_part[OF _ _ this, of "bd_rate b"] Cons.prems Some
    have here: "0 \<le> max 0 (min y (lo + t) - lo) * bd_rate b - max 0 (min x (lo + t) - lo) * bd_rate b"
      "max 0 (min y (lo + t) - lo) * bd_rate b - max 0 (min x (lo + t) - lo) * bd_rate b
         \<le> max 0 (min y (lo + t) - lo) - max 0 (min x (lo + t) - lo)" by auto
    have rest: "0 \<le> marginal_tax (lo + t) bs y - marginal_tax (lo + t) bs x"
      "marginal_tax (lo + t) bs y - marginal_tax (lo + t) bs x \<le> max (lo + t) y - max (lo + t) x"
      using Cons.IH[of "lo + t"] Cons.prems Some by auto
    have split: "max 0 (min y (lo + t) - lo) - max 0 (min x (lo + t) - lo) + (max (lo + t) y - max (lo + t) x) =
        max lo y - max lo x"
      using Cons.prems Some by (auto simp: max_def min_def)
    have "marginal_tax lo (b # bs) v = max 0 (min v (lo + t) - lo) * bd_rate b + marginal_tax (lo + t) bs v" for v
      using Some by simp
    note unfolded = this[of x] this[of y]
    show ?thesis by (intro conjI) (use here rest split unfolded in linarith)+
  qed
qed auto

section \<open>The loop of a loan schedule\<close>

lemma loan_rows_length: "length (loan_rows now st d rep left i b) \<le> left"
  by (induction now st d rep left i b rule: loan_rows.induct) (auto simp: Let_def)

lemma loan_rows_nil [simp]: "b \<le> 0 \<Longrightarrow> loan_rows now st d rep left i b = []"
  by (cases left) auto

lemma row_simps [simp]:
  "is_number (installment_row now st d i b a) = i + 1"
  "is_opening (installment_row now st d i b a) = b"
  "is_repayment (installment_row now st d i b a) = a"
  "is_closing (installment_row now st d i b a) = b - a"
  by (simp_all add: installment_row_def Let_def split: prod.splits)

lemma loan_rows_sum:
  "0 < rep \<Longrightarrow> 0 \<le> b \<Longrightarrow> b \<le> of_nat left * rep \<Longrightarrow>
   sum_list (map is_repayment (loan_rows now st d rep left i b)) = b"
proof (induction now st d rep left i b rule: loan_rows.induct)
  case (2 now st d rep left i b)
  then show ?case by (cases "b \<le> 0") (auto simp: Let_def min_def algebra_simps)
qed auto

lemma loan_rows_last:
  "0 < rep \<Longrightarrow> 0 < b \<Longrightarrow> b \<le> of_nat left * rep \<Longrightarrow>
   loan_rows now st d rep left i b \<noteq> [] \<and> is_closing (last (loan_rows now st d rep left i b)) = 0"
proof (induction now st d rep left i b rule: loan_rows.induct)
  case (2 now st d rep left i b)
  show ?case
  proof (cases "rep < b")
    case True
    with 2(2-4) have "loan_rows now st d rep left (Suc i) (b - rep) \<noteq> [] \<and>
        is_closing (last (loan_rows now st d rep left (Suc i) (b - rep))) = 0"
      using 2(1)[of "min rep b"] by (auto simp: min_def algebra_simps)
    with True 2(2-4) show ?thesis by (simp add: Let_def min_def)
  next
    case False
    with 2(2-4) show ?thesis by (simp add: Let_def min_def)
  qed
qed auto

lemma loan_rows_count:
  "0 < rep \<Longrightarrow> 0 \<le> b \<Longrightarrow> b \<le> of_nat left * rep \<Longrightarrow>
   int (length (loan_rows now st d rep left i b)) = \<lceil>b / rep\<rceil>"
proof (induction now st d rep left i b rule: loan_rows.induct)
  case (2 now st d rep left i b)
  show ?case
  proof (cases "b \<le> 0")
    case True
    with 2(3) show ?thesis by simp
  next
    case pos: False
    show ?thesis
    proof (cases "rep < b")
      case True
      with 2(2-4) have "int (length (loan_rows now st d rep left (Suc i) (b - rep))) = \<lceil>(b - rep) / rep\<rceil>"
        using 2(1)[of "min rep b"] pos by (auto simp: min_def algebra_simps)
      moreover have "(b - rep) / rep = b / rep - 1" using 2(2) by (simp add: diff_divide_distrib)
      ultimately show ?thesis using True pos by (simp add: Let_def min_def)
    next
      case False
      with pos 2(2) have "\<lceil>b / rep\<rceil> = 1" by (simp add: ceiling_eq_iff divide_le_eq)
      with False pos show ?thesis by (simp add: Let_def min_def)
    qed
  qed
qed auto

lemma loan_rows_nth:
  assumes "k < length (loan_rows now st d rep left i b)"
  shows "\<exists>a b'. loan_rows now st d rep left i b ! k = installment_row now st d (i + k) b' a \<and> 0 < b' \<and> a = min rep b'"
  using assms
proof (induction now st d rep left i b arbitrary: k rule: loan_rows.induct)
  case (2 now st d rep left i b)
  then have pos: "\<not> b \<le> 0" by (cases "b \<le> 0") auto
  show ?case
  proof (cases k)
    case 0
    with pos show ?thesis by (auto simp: Let_def)
  next
    case (Suc j)
    with 2(2) pos have "j < length (loan_rows now st d rep left (Suc i) (b - min rep b))" by (simp add: Let_def)
    from 2(1)[OF pos refl this] Suc pos show ?thesis by (auto simp: Let_def)
  qed
qed simp

text \<open>Each balance carries over to the next installment.\<close>

lemma loan_rows_chain:
  "Suc k < length (loan_rows now st d rep left i b) \<Longrightarrow>
   is_opening (loan_rows now st d rep left i b ! Suc k) = is_closing (loan_rows now st d rep left i b ! k)"
proof (induction now st d rep left i b arbitrary: k rule: loan_rows.induct)
  case (2 now st d rep left i b)
  then have pos: "\<not> b \<le> 0" by (cases "b \<le> 0") auto
  show ?case
  proof (cases k)
    case 0
    with 2(2) pos show ?thesis by (cases left) (auto simp: Let_def split: if_splits)
  next
    case (Suc j)
    with 2(2) pos have "Suc j < length (loan_rows now st d rep left (Suc i) (b - min rep b))" by (simp add: Let_def)
    from 2(1)[OF pos refl this] Suc pos show ?thesis by (auto simp: Let_def)
  qed
qed simp

end
