(* ===== verification/Payslips.thy ===== *)
theory Payslips
  imports PayrollCalc
begin

text \<open>
  The payslips of a payroll run (src/modules/payroll/payroll.service.ts): which employees a period
  covers, which statutory rule applies, what a payslip holds, and the transaction part that writes
  the payslips of a list of employees. The tables here carry the calculation columns; FinDb has the
  columns payment needs.
\<close>

section \<open>State\<close>

record enrollment =
  en_active :: bool
  en_enrolledAt :: time
  en_removedAt :: "time option"

record dated_salary =
  ds_salary :: salary
  ds_from :: time
  ds_to :: "time option"

record employee_deduction =
  dd_id :: string
  dd_name :: string
  dd_amount :: money
  dd_active :: bool
  dd_from :: time
  dd_to :: "time option"

record voluntary_pension =
  av_amount :: money
  av_status :: string
  av_start :: time
  av_end :: "time option"

record tax_profile =
  tf_taxState :: "string option"
  tf_tin :: "string option"
  tf_pfaName :: "string option"
  tf_pensionPin :: "string option"

record pay_employee =
  em_id :: string
  em_org :: string
  em_employeeNo :: string
  em_firstName :: string
  em_lastName :: string
  em_jobTitle :: "string option"
  em_department :: "(string \<times> string) option"
  em_status :: string
  em_hireDate :: time
  em_state :: "string option"
  em_taxId :: "string option"
  em_pensionPin :: "string option"
  em_bankName :: "string option"
  em_bankCode :: "string option"
  em_bankAccountNumber :: "string option"
  em_bankAccountName :: "string option"
  em_enrollment :: "enrollment option"
  em_salaries :: "dated_salary list"
  em_deductions :: "employee_deduction list"
  em_loans :: "loan list"
  em_avcs :: "voluntary_pension list"
  em_profile :: "tax_profile option"

type_synonym pay_item = "string \<times> string \<times> money"

record calc_slip =
  sl_run :: string
  sl_employee :: string
  sl_org :: string
  sl_gross :: money
  sl_paye :: money
  sl_pension :: money
  sl_employerPension :: money
  sl_nhf :: money
  sl_deductions :: money
  sl_net :: money
  sl_currency :: string
  sl_earnings :: "pay_item list"
  sl_deductionItems :: "pay_item list"
  sl_department :: "(string \<times> string) option"
  sl_employeeNo :: string
  sl_employeeName :: string
  sl_role :: "string option"
  sl_bank :: json
  sl_loans :: money
  sl_custom :: money
  sl_taxState :: string
  sl_authority :: json
  sl_tin :: "string option"
  sl_pfaName :: "string option"
  sl_pensionPin :: "string option"
  sl_avc :: money
  sl_rule :: statutory_rule
  sl_ruleSource :: string
  sl_ruleRowVersion :: int
  sl_paymentStatus :: string

record pay_totals =
  pt_gross :: money
  pt_paye :: money
  pt_pension :: money
  pt_employerPension :: money
  pt_nhf :: money
  pt_loans :: money
  pt_other :: money
  pt_net :: money

record calc_batch =
  ba_id :: string
  ba_org :: string
  ba_run :: string
  ba_index :: nat
  ba_employeeIds :: "string list"
  ba_status :: string
  ba_expected :: int
  ba_processed :: int
  ba_failed :: int
  ba_totals :: "pay_totals option"
  ba_attempts :: int
  ba_error :: "string option"
  ba_startedAt :: "time option"
  ba_completedAt :: "time option"
  ba_updatedAt :: time

record pay_run =
  cr_id :: string
  cr_org :: string
  cr_name :: string
  cr_start :: time
  cr_end :: time
  cr_payDate :: "time option"
  cr_status :: string
  cr_employeeCount :: int
  cr_expected :: int
  cr_processed :: int
  cr_failed :: int
  cr_currency :: string  \<comment> \<open>\<open>calculationInput.currency\<close>\<close>
  cr_failureReason :: "string option"
  cr_totals :: pay_totals
  cr_computedAt :: "time option"
  cr_approvedAt :: "time option"
  cr_approvedBy :: "string option"

text \<open>The row \<open>payroll.statutory.rules\<close>: the entries that are rules, and its version.\<close>

record rules_config =
  rg_rules :: "statutory_rule list"
  rg_rowVersion :: int

record pay_db =
  pd_employees :: "pay_employee list"
  pd_runs :: "pay_run list"
  pd_batches :: "calc_batch list"
  pd_slips :: "calc_slip list"
  pd_rules :: "(string \<times> rules_config) list"
  pd_authorities :: "(string \<times> json) list"
  pd_settingsCurrency :: "(string \<times> string) list"
  pd_orgCurrency :: "(string \<times> string) list"
  pd_audit :: audit_db

interpretation pay_runs: table pd_runs pd_runs_update by unfold_locales simp
interpretation pay_batches: table pd_batches pd_batches_update by unfold_locales simp

definition zero_totals :: pay_totals where
  "zero_totals = \<lparr> pt_gross = 0, pt_paye = 0, pt_pension = 0, pt_employerPension = 0, pt_nhf = 0, pt_loans = 0,
     pt_other = 0, pt_net = 0 \<rparr>"

section \<open>The statutory rule of a period\<close>

text \<open>\<open>sort((a, b) => b.effectiveFrom.localeCompare(a.effectiveFrom))[0]\<close>: the first of the latest.\<close>

fun latest_rule :: "statutory_rule list \<Rightarrow> statutory_rule option" where
  "latest_rule [] = None"
| "latest_rule (r # rs) =
     (case latest_rule rs of
        None \<Rightarrow> Some r
      | Some b \<Rightarrow> if str_less (ru_effectiveFrom r) (ru_effectiveFrom b) then Some b else Some r)"

definition resolvePayrollStatutoryRule ::
    "rules_config option \<Rightarrow> string \<Rightarrow> app_error + statutory_rule \<times> string \<times> int" where
  "resolvePayrollStatutoryRule row period =
     (let configured = (case row of None \<Rightarrow> [] | Some c \<Rightarrow> rg_rules c);
          version = (case row of None \<Rightarrow> 0 | Some c \<Rightarrow> rg_rowVersion c)
      in case latest_rule (filter (\<lambda>r. \<not> str_less period (take 7 (ru_effectiveFrom r))) configured) of
           Some r \<Rightarrow> Inr (r, ''SYSTEM_CONFIG'', version)
         | None \<Rightarrow>
             if \<not> str_less period ''2026-01'' then Inr (NG_STATUTORY_RULE_2026, ''BUILT_IN'', version)
             else Inl (conflict (''No statutory rule is configured for payroll period '' @ period)))"

text \<open>\<open>String(value)\<close> of a configured code or name.\<close>

definition json_label :: "json \<Rightarrow> string" where
  "json_label v = (case v of JStr s \<Rightarrow> s | _ \<Rightarrow> JSON_stringify v)"

text \<open>\<open>record[key] ?? other\<close>\<close>

definition json_or :: "json option \<Rightarrow> json option \<Rightarrow> json option" where
  "json_or a b = (if a = None \<or> a = Some JNull then b else a)"

definition authorityForState :: "string option \<Rightarrow> json option \<Rightarrow> string \<times> json" where
  "authorityForState st config =
     (let normalized = (case st of None \<Rightarrow> ''UNCONFIGURED'' | Some s \<Rightarrow> if trim s = [] then ''UNCONFIGURED'' else trim s);
          table = (case config of Some j \<Rightarrow> j | None \<Rightarrow> JObj []);
          configured = json_or (jfield normalized table) (jfield (toUpper normalized) table);
          code = json_or (case configured of None \<Rightarrow> None | Some c \<Rightarrow> jfield ''code'' c) None;
          name = (case configured of None \<Rightarrow> None | Some c \<Rightarrow> jfield ''name'' c)
      in (normalized, JObj
           [(''state'', JStr normalized),
            (''code'', JStr (case code of Some c \<Rightarrow> json_label c | None \<Rightarrow> ''UNCONFIGURED:'' @ normalized)),
            (''name'', if truthy name then JStr (json_label (the name)) else JNull),
            (''configured'', JBool (truthy configured))]))"

section \<open>The employees of a period\<close>

definition overlaps_period :: "time \<Rightarrow> time \<Rightarrow> time \<Rightarrow> time option \<Rightarrow> bool" where
  "overlaps_period start finish from until \<longleftrightarrow> from \<le> finish \<and> (case until of None \<Rightarrow> True | Some t \<Rightarrow> start \<le> t)"

definition payRunEmployeeWhere :: "string \<Rightarrow> time \<Rightarrow> time \<Rightarrow> pay_employee \<Rightarrow> bool" where
  "payRunEmployeeWhere org start finish e \<longleftrightarrow>
     em_org e = org \<and> em_status e = ''ACTIVE'' \<and> em_hireDate e \<le> finish \<and>
     (case em_enrollment e of
        None \<Rightarrow> False
      | Some n \<Rightarrow> en_active n \<and> en_enrolledAt n \<le> finish \<and>
          (case en_removedAt n of None \<Rightarrow> True | Some t \<Rightarrow> start < t)) \<and>
     list_ex (\<lambda>s. overlaps_period start finish (ds_from s) (ds_to s)) (em_salaries e)"

text \<open>\<open>orderBy: { effectiveFrom: "desc" }, take: 1\<close>\<close>

fun latest_salary :: "dated_salary list \<Rightarrow> dated_salary option" where
  "latest_salary [] = None"
| "latest_salary (s # ss) =
     (case latest_salary ss of None \<Rightarrow> Some s | Some b \<Rightarrow> if ds_from s < ds_from b then Some b else Some s)"

definition salary_of :: "pay_run \<Rightarrow> pay_employee \<Rightarrow> salary option" where
  "salary_of run e = map_option ds_salary
     (latest_salary (filter (\<lambda>s. overlaps_period (cr_start run) (cr_end run) (ds_from s) (ds_to s)) (em_salaries e)))"

definition run_period :: "pay_run \<Rightarrow> string" where
  "run_period run = take 7 (toISOString (cr_start run))"

section \<open>One payslip\<close>

definition preview_of :: "decimal_env \<Rightarrow> pay_run \<Rightarrow> pay_employee \<Rightarrow> pay_preview" where
  "preview_of D run e =
     calculatePayrollPreview D None (salary_of run e)
       (map dd_amount (filter (\<lambda>d. dd_active d \<and> overlaps_period (cr_start run) (cr_end run) (dd_from d) (dd_to d)) (em_deductions e)))
       (filter (\<lambda>l. ln_status l = ''ACTIVE'' \<and> ln_issuedAt l \<le> cr_end run) (em_loans e))
       (run_period run) None"

definition avc_of :: "pay_run \<Rightarrow> pay_employee \<Rightarrow> money" where
  "avc_of run e = sum_amounts av_amount
     (filter (\<lambda>a. av_status a = ''ACTIVE'' \<and> overlaps_period (cr_start run) (cr_end run) (av_start a) (av_end a)) (em_avcs e))"

text \<open>The amounts of a payslip before the database rounds them to its columns.\<close>

record pay_amounts =
  pa_gross :: money
  pa_paye :: money
  pa_pension :: money
  pa_employerPension :: money
  pa_nhf :: money
  pa_loans :: money
  pa_custom :: money
  pa_avc :: money
  pa_net :: money
  pa_deductions :: money

definition slip_amounts :: "decimal_env \<Rightarrow> pay_run \<Rightarrow> pay_employee \<Rightarrow> pay_amounts" where
  "slip_amounts D run e =
     (let calculated = preview_of D run e; money = dv_num D;
          gross = money (pp_gross calculated);
          paye = money (pp_paye calculated);
          pension = money (pp_employeePension calculated);
          employerPension = money (pp_employerPension calculated);
          nhf = money (pp_nhf calculated);
          loans = money (pp_loanDeductions calculated);
          custom = money (pp_customDeductions calculated);
          avc = avc_of run e
      in \<lparr> pa_gross = gross, pa_paye = paye, pa_pension = pension, pa_employerPension = employerPension,
           pa_nhf = nhf, pa_loans = loans, pa_custom = custom, pa_avc = avc,
           pa_net = max 0 (money (pp_netPay calculated) - avc),
           pa_deductions = paye + pension + avc + nhf + loans + custom \<rparr>)"

text \<open>The items keep code, name and amount; the flag \<open>taxable\<close> of an additional allowance is left out.\<close>

definition earnings_of :: "decimal_env \<Rightarrow> pay_preview \<Rightarrow> pay_item list" where
  "earnings_of D p = filter (\<lambda>(code, name, amount). amount \<noteq> 0)
     ([(''BASIC'', ''Basic'', dv_num D (pp_basic p)), (''HOUSING'', ''Housing'', dv_num D (pp_housing p)),
       (''TRANSPORT'', ''Transport'', dv_num D (pp_transport p)),
       (''OTHER_ALLOWANCE'', ''Other allowance'', dv_num D (pp_other p))] @
      map (\<lambda>a. (''ADDITIONAL'', al_name a, dv_num D (al_amount a))) (pp_additional p))"

definition deduction_items :: "decimal_env \<Rightarrow> pay_preview \<Rightarrow> money \<Rightarrow> pay_item list" where
  "deduction_items D p avc = filter (\<lambda>(code, name, amount). amount \<noteq> 0)
     [(''PAYE'', ''PAYE Tax'', dv_num D (pp_paye p)), (''PENSION'', ''Employee pension'', dv_num D (pp_employeePension p)),
      (''AVC'', ''Voluntary pension contribution'', dv_num D avc), (''NHF'', ''NHF'', dv_num D (pp_nhf p)),
      (''LOANS'', ''Loans'', dv_num D (pp_loanDeductions p)),
      (''CUSTOM'', ''Other deductions'', dv_num D (pp_customDeductions p))]"

definition or_else :: "'a option \<Rightarrow> 'a option \<Rightarrow> 'a option" where
  "or_else a b = (case a of None \<Rightarrow> b | Some x \<Rightarrow> Some x)"

definition new_slip ::
    "decimal_env \<Rightarrow> string \<Rightarrow> statutory_rule \<times> string \<times> int \<Rightarrow> json option \<Rightarrow> pay_run \<Rightarrow> string \<Rightarrow> pay_employee \<Rightarrow>
     calc_slip" where
  "new_slip D org statutory authorityConfig run currency e =
     (let p = preview_of D run e; a = slip_amounts D run e;
          authority = authorityForState (or_else (Option.bind (em_profile e) tf_taxState) (em_state e)) authorityConfig
      in \<lparr> sl_run = cr_id run, sl_employee = em_id e, sl_org = org, sl_gross = cents (pa_gross a),
           sl_paye = cents (pa_paye a), sl_pension = cents (pa_pension a), sl_employerPension = cents (pa_employerPension a),
           sl_nhf = cents (pa_nhf a), sl_deductions = cents (pa_deductions a), sl_net = cents (pa_net a),
           sl_currency = currency, sl_earnings = earnings_of D p, sl_deductionItems = deduction_items D p (pa_avc a),
           sl_department = em_department e, sl_employeeNo = em_employeeNo e,
           sl_employeeName = trim (em_firstName e @ '' '' @ em_lastName e), sl_role = em_jobTitle e,
           sl_bank = JObj [(''bankName'', jopt (em_bankName e)), (''bankCode'', jopt (em_bankCode e)),
             (''accountNumber'', jopt (em_bankAccountNumber e)), (''accountName'', jopt (em_bankAccountName e))],
           sl_loans = cents (pa_loans a), sl_custom = cents (pa_custom a), sl_taxState = fst authority,
           sl_authority = snd authority, sl_tin = or_else (Option.bind (em_profile e) tf_tin) (em_taxId e),
           sl_pfaName = Option.bind (em_profile e) tf_pfaName,
           sl_pensionPin = or_else (Option.bind (em_profile e) tf_pensionPin) (em_pensionPin e),
           sl_avc = cents (pa_avc a), sl_rule = fst statutory, sl_ruleSource = fst (snd statutory),
           sl_ruleRowVersion = snd (snd statutory), sl_paymentStatus = ''PENDING'' \<rparr>)"

section \<open>Writing the payslips of a list of employees\<close>

text \<open>The upsert keeps the payment status of a payslip that is there.\<close>

definition upsert_slip :: "calc_slip \<Rightarrow> calc_slip list \<Rightarrow> calc_slip list" where
  "upsert_slip s rows =
     (let here = (\<lambda>x. sl_run x = sl_run s \<and> sl_employee x = sl_employee s)
      in if list_ex here rows then updateMany here (\<lambda>x. s\<lparr>sl_paymentStatus := sl_paymentStatus x\<rparr>) rows
         else rows @ [s])"

definition add_totals :: "pay_totals \<Rightarrow> pay_amounts \<Rightarrow> pay_totals" where
  "add_totals t a =
     \<lparr> pt_gross = pt_gross t + pa_gross a, pt_paye = pt_paye t + pa_paye a, pt_pension = pt_pension t + pa_pension a,
       pt_employerPension = pt_employerPension t + pa_employerPension a, pt_nhf = pt_nhf t + pa_nhf a,
       pt_loans = pt_loans t + pa_loans a, pt_other = pt_other t + pa_custom a + pa_avc a, pt_net = pt_net t + pa_net a \<rparr>"

text \<open>\<open>where\<close> with the ids of a batch: the status and the enrollment are not looked at again.\<close>

definition computeEmployeePayslips ::
    "decimal_env \<Rightarrow> string \<Rightarrow> pay_run \<Rightarrow> string \<Rightarrow> string list \<Rightarrow> (pay_db, int \<times> pay_totals) op" where
  "computeEmployeePayslips D org run currency ids =
     bnd (reads (\<lambda>d. map_of (pd_rules d) org)) (\<lambda>row.
     bnd (from_sum (resolvePayrollStatutoryRule row (run_period run))) (\<lambda>statutory.
     bnd (reads (\<lambda>d. filter (\<lambda>e. em_org e = org \<and> em_id e \<in> set ids) (pd_employees d))) (\<lambda>employees.
     bnd (reads (\<lambda>d. map_of (pd_authorities d) org)) (\<lambda>authorities.
     bnd (guard (employees \<noteq> []) (badRequest ''No eligible employees are configured for this payroll period'')) (\<lambda>_.
     bnd (each (\<lambda>e. writes (pd_slips_update (upsert_slip (new_slip D org statutory authorities run currency e)))) employees) (\<lambda>_.
     ret (int (length employees), foldl add_totals zero_totals (map (slip_amounts D run) employees))))))))"

end
