(* ===== verification/PayrollRuns.thy ===== *)
theory PayrollRuns
  imports Payslips Triples
begin

text \<open>
  The life of a payroll run up to its approval (src/modules/payroll/payroll.service.ts): creation,
  division into batches of a hundred employees, the workers that compute the batches, their failure
  and recovery, and the approval.

  A worker is several transactions with other work in between: the claim of a batch, the transaction
  that computes it, and the completion of the run. They are operations of their own here, so that
  crashes and other workers can come between them, and \<open>processPayRunBatch\<close> composes them. The
  heartbeat column, which no code here reads, and the entries of \<open>calculationInput\<close> other than the
  currency are left out, as is the detail view the creation answers with.
\<close>

section \<open>Creation\<close>

record run_input =
  pi_periodLabel :: string
  pi_from :: string
  pi_to :: string
  pi_payDate :: "string option"

definition day_start :: "string \<Rightarrow> time" where
  "day_start s = (case date_only_parts s of (y, m, d) \<Rightarrow> date_UTC y (m - 1) d)"

text \<open>\<open>T23:59:59.999Z\<close>\<close>

definition day_end :: "string \<Rightarrow> time" where
  "day_end s = day_start s + msPerDay - 1"

definition run_clash :: "pay_run \<Rightarrow> pay_run \<Rightarrow> bool" where
  "run_clash a b \<longleftrightarrow> cr_id a = cr_id b"

definition new_run :: "string \<Rightarrow> string \<Rightarrow> run_input \<Rightarrow> string \<Rightarrow> pay_run" where
  "new_run i org inp currency =
     \<lparr> cr_id = i, cr_org = org, cr_name = pi_periodLabel inp, cr_start = day_start (pi_from inp),
       cr_end = day_end (pi_to inp), cr_payDate = map_option day_start (pi_payDate inp), cr_status = ''PROCESSING'',
       cr_employeeCount = 0, cr_expected = 0, cr_processed = 0, cr_failed = 0, cr_currency = currency,
       cr_failureReason = None, cr_totals = zero_totals, cr_computedAt = None, cr_approvedAt = None, cr_approvedBy = None \<rparr>"

definition audit_pay ::
    "audit_env \<Rightarrow> time \<Rightarrow> string \<Rightarrow> actor \<Rightarrow> string \<Rightarrow> string \<Rightarrow> string \<Rightarrow> string \<Rightarrow> json option \<Rightarrow> (pay_db, unit) op" where
  "audit_pay Y now org user action resource i summary metadata =
     zoom pd_audit (\<lambda>a d. d\<lparr>pd_audit := a\<rparr>)
       (createAuditLog Y now (audit_of org (Some (u_id user)) action resource i summary metadata))"

text \<open>The queue job the function also adds only calls \<open>initializePayRunCalculation\<close> later; its failure is ignored.\<close>

definition createAndComputePayRun ::
    "audit_env \<Rightarrow> fresh \<Rightarrow> string \<Rightarrow> run_input \<Rightarrow> actor \<Rightarrow> (pay_db, pay_run) op" where
  "createAndComputePayRun Y n org inp user =
     bnd (reads (\<lambda>d. case map_of (pd_settingsCurrency d) org of Some c \<Rightarrow> c
            | None \<Rightarrow> (case map_of (pd_orgCurrency d) org of Some c \<Rightarrow> c | None \<Rightarrow> ''NGN''))) (\<lambda>currency.
     bnd (tx (
       bnd (find_row pd_runs (\<lambda>r. cr_org r = org \<and> cr_status r \<noteq> ''CANCELLED'' \<and>
              cr_start r \<le> day_end (pi_to inp) \<and> day_start (pi_from inp) \<le> cr_end r)) (\<lambda>overlap.
       bnd (guard (overlap = None) (conflict ''A payroll run already exists for an overlapping period'')) (\<lambda>_.
       create_row pd_runs pd_runs_update run_clash (new_run (fr_id n) org inp currency))))) (\<lambda>run.
     bnd (audit_pay Y (fr_now n) org user ''PAYROLL_CALCULATION_QUEUED'' ''PAYROLL_RUN'' (cr_id run)
            (''Queued payroll '' @ cr_name run)
            (Some (JObj [(''periodStart'', JStr (pi_from inp)), (''periodEnd'', JStr (pi_to inp)),
              (''newStatus'', JStr ''PROCESSING'')]))) (\<lambda>_.
     ret run)))"

section \<open>Batches\<close>

definition payrollBatchSize :: nat where "payrollBatchSize = 100"

text \<open>\<open>orderBy: { id: "asc" }\<close>\<close>

fun insert_id :: "string \<Rightarrow> string list \<Rightarrow> string list" where
  "insert_id x [] = [x]"
| "insert_id x (y # ys) = (if str_less y x then y # insert_id x ys else x # y # ys)"

definition sort_ids :: "string list \<Rightarrow> string list" where
  "sort_ids xs = foldr insert_id xs []"

text \<open>The pages of a hundred ids the cursor loop fetches; a short page is the last one.\<close>

function id_pages :: "string list \<Rightarrow> string list list" where
  "id_pages [] = []"
| "id_pages (x # xs) = (x # take (payrollBatchSize - 1) xs) # id_pages (drop (payrollBatchSize - 1) xs)"
  by pat_completeness auto

termination
  by (relation "measure length") auto

definition batch_clash :: "calc_batch \<Rightarrow> calc_batch \<Rightarrow> bool" where
  "batch_clash a b \<longleftrightarrow> ba_id a = ba_id b \<or> ba_run a = ba_run b \<and> ba_index a = ba_index b"

definition new_batch :: "time \<Rightarrow> (nat \<Rightarrow> string) \<Rightarrow> pay_run \<Rightarrow> nat \<Rightarrow> string list \<Rightarrow> calc_batch" where
  "new_batch now ids run i employees =
     \<lparr> ba_id = ids i, ba_org = cr_org run, ba_run = cr_id run, ba_index = i, ba_employeeIds = employees,
       ba_status = ''PENDING'', ba_expected = int (length employees), ba_processed = 0, ba_failed = 0, ba_totals = None,
       ba_attempts = 0, ba_error = None, ba_startedAt = None, ba_completedAt = None, ba_updatedAt = now \<rparr>"

definition eligible_ids :: "pay_run \<Rightarrow> pay_db \<Rightarrow> string list" where
  "eligible_ids run d =
     sort_ids (map em_id (filter (payRunEmployeeWhere (cr_org run) (cr_start run) (cr_end run)) (pd_employees d)))"

text \<open>The upsert of a batch leaves one that is there as it is.\<close>

definition upsert_batch :: "calc_batch \<Rightarrow> (pay_db, unit) op" where
  "upsert_batch b =
     bnd (find_row pd_batches (\<lambda>x. ba_run x = ba_run b \<and> ba_index x = ba_index b)) (\<lambda>found.
     if found = None then bnd (create_row pd_batches pd_batches_update batch_clash b) (\<lambda>_. ret ()) else ret ())"

text \<open>The first \<open>k\<close> batches of the loop; a crash may leave it after any of them.\<close>

definition create_batches :: "time \<Rightarrow> (nat \<Rightarrow> string) \<Rightarrow> nat \<Rightarrow> pay_run \<Rightarrow> (pay_db, int) op" where
  "create_batches now ids k run =
     bnd (reads (\<lambda>d. take k (id_pages (eligible_ids run d)))) (\<lambda>pages.
     bnd (each (\<lambda>(i, employees). upsert_batch (new_batch now ids run i employees))
            (zip [0..<length pages] pages)) (\<lambda>_.
     ret (int (length (concat pages)))))"

definition expect_employees :: "string \<Rightarrow> int \<Rightarrow> (pay_db, bool) op" where
  "expect_employees i expected =
     (if expected = 0 then
        bnd (update_row pd_runs pd_runs_update (\<lambda>r. cr_id r = i)
               (\<lambda>r. r\<lparr>cr_status := ''FAILED'', cr_failureReason := Some ''No eligible employees are configured for this payroll period'',
                      cr_failed := 0\<rparr>)) (\<lambda>_.
        ret False)
      else
        bnd (update_row pd_runs pd_runs_update (\<lambda>r. cr_id r = i)
               (\<lambda>r. r\<lparr>cr_expected := expected, cr_employeeCount := expected\<rparr>)) (\<lambda>_.
        ret True))"

definition processing_run :: "string \<Rightarrow> pay_db \<Rightarrow> pay_run option" where
  "processing_run i d = find (\<lambda>r. cr_id r = i \<and> cr_status r = ''PROCESSING'') (pd_runs d)"

section \<open>A worker\<close>

definition claimBatch :: "time \<Rightarrow> string \<Rightarrow> (pay_db, bool) op" where
  "claimBatch now i =
     bnd (update_rows pd_batches pd_batches_update (\<lambda>b. ba_id b = i \<and> ba_status b = ''PENDING'')
            (\<lambda>b. b\<lparr>ba_status := ''PROCESSING'', ba_attempts := ba_attempts b + 1, ba_startedAt := Some now, ba_error := None,
                   ba_updatedAt := now\<rparr>)) (\<lambda>count.
     ret (count \<noteq> 0))"

text \<open>\<open>{ increment: x }\<close> on a column of two decimals.\<close>

definition increment_totals :: "pay_totals \<Rightarrow> pay_totals \<Rightarrow> pay_totals" where
  "increment_totals t x =
     \<lparr> pt_gross = cents (pt_gross t + pt_gross x), pt_paye = cents (pt_paye t + pt_paye x),
       pt_pension = cents (pt_pension t + pt_pension x),
       pt_employerPension = cents (pt_employerPension t + pt_employerPension x), pt_nhf = cents (pt_nhf t + pt_nhf x),
       pt_loans = cents (pt_loans t + pt_loans x), pt_other = cents (pt_other t + pt_other x),
       pt_net = cents (pt_net t + pt_net x) \<rparr>"

text \<open>The transaction of a worker, with the batch and the run it read after the claim. It counts only
  when the batch is still being processed, but the payslips are written in either case.\<close>

definition computeBatch :: "decimal_env \<Rightarrow> time \<Rightarrow> calc_batch \<Rightarrow> pay_run \<Rightarrow> (pay_db, int) op" where
  "computeBatch D now batch run = tx (
     bnd (computeEmployeePayslips D (ba_org batch) run (cr_currency run) (ba_employeeIds batch)) (\<lambda>(employees, totals).
     bnd (update_rows pd_batches pd_batches_update (\<lambda>b. ba_id b = ba_id batch \<and> ba_status b = ''PROCESSING'')
            (\<lambda>b. b\<lparr>ba_status := ''COMPLETED'', ba_processed := employees, ba_failed := 0, ba_totals := Some totals,
                   ba_completedAt := Some now, ba_updatedAt := now\<rparr>)) (\<lambda>completed.
     if completed = 0 then ret employees
     else
       bnd (update_row pd_runs pd_runs_update (\<lambda>r. cr_id r = ba_run batch)
              (\<lambda>r. r\<lparr>cr_processed := cr_processed r + employees, cr_totals := increment_totals (cr_totals r) totals\<rparr>)) (\<lambda>_.
       ret employees))))"

text \<open>After the transaction: the last batch moves the run on, if as many employees were processed as the
  worker's copy of the run expected.\<close>

definition finishBatch :: "time \<Rightarrow> string \<Rightarrow> int \<Rightarrow> (pay_db, unit) op" where
  "finishBatch now runId expected =
     bnd (count_rows pd_batches (\<lambda>b. ba_run b = runId \<and> ba_status b \<noteq> ''COMPLETED'')) (\<lambda>remaining.
     if remaining \<noteq> 0 then ret ()
     else
       bnd (update_rows pd_runs pd_runs_update
              (\<lambda>r. cr_id r = runId \<and> cr_status r = ''PROCESSING'' \<and> cr_processed r = expected)
              (\<lambda>r. r\<lparr>cr_status := ''PENDING_APPROVAL'', cr_computedAt := Some now, cr_failureReason := None\<rparr>)) (\<lambda>_.
       ret ()))"

definition returnBatch :: "time \<Rightarrow> string \<Rightarrow> string \<Rightarrow> (pay_db, unit) op" where
  "returnBatch now i message =
     bnd (update_rows pd_batches pd_batches_update (\<lambda>b. ba_id b = i \<and> ba_status b = ''PROCESSING'')
            (\<lambda>b. b\<lparr>ba_status := ''PENDING'', ba_error := Some (take 2000 message), ba_updatedAt := now\<rparr>)) (\<lambda>_.
     ret ())"

text \<open>The number of employees processed, or \<open>None\<close> when another worker has the batch.\<close>

definition processPayRunBatch :: "decimal_env \<Rightarrow> time \<Rightarrow> string \<Rightarrow> (pay_db, int option) op" where
  "processPayRunBatch D now i =
     bnd (claimBatch now i) (\<lambda>claimed.
     if \<not> claimed then ret None
     else
       bnd (find_row pd_batches (\<lambda>b. ba_id b = i)) (\<lambda>found.
       bnd (required found P2025) (\<lambda>batch.
       bnd (find_row pd_runs (\<lambda>r. cr_id r = ba_run batch)) (\<lambda>foundRun.
       bnd (required foundRun P2025) (\<lambda>run.
       catching
         (bnd (computeBatch D now batch run) (\<lambda>employees.
          bnd (finishBatch now (ba_run batch) (cr_expected run)) (\<lambda>_.
          ret (Some employees))))
         (\<lambda>e. bnd (returnBatch now i (error_message e)) (\<lambda>_. raise e)))))))"

datatype initialized = Skipped | NoEmployees | ProcessedBatches nat

text \<open>The direct execution processes the batches itself; the queued one adds a job for each of them.\<close>

definition process_pending :: "decimal_env \<Rightarrow> time \<Rightarrow> nat option \<Rightarrow> string \<Rightarrow> (pay_db, nat) op" where
  "process_pending D now batchLimit runId =
     bnd (reads (\<lambda>d. sort_key ba_index (filter (\<lambda>b. ba_run b = runId \<and> ba_status b = ''PENDING'') (pd_batches d)))) (\<lambda>pending.
     bnd (each (\<lambda>b. processPayRunBatch D now (ba_id b)) (case batchLimit of None \<Rightarrow> pending | Some k \<Rightarrow> take k pending)) (\<lambda>results.
     ret (length results)))"

definition initializePayRunCalculation ::
    "decimal_env \<Rightarrow> time \<Rightarrow> (nat \<Rightarrow> string) \<Rightarrow> bool \<Rightarrow> nat option \<Rightarrow> string \<Rightarrow> (pay_db, initialized) op" where
  "initializePayRunCalculation D now ids direct batchLimit i =
     bnd (reads (processing_run i)) (\<lambda>found.
     case found of
       None \<Rightarrow> ret Skipped
     | Some run \<Rightarrow>
         bnd (count_rows pd_batches (\<lambda>b. ba_run b = i)) (\<lambda>existing.
         bnd (if existing \<noteq> 0 then ret True
              else
                bnd (reads (\<lambda>d. length (id_pages (eligible_ids run d)))) (\<lambda>k.
                bnd (create_batches now ids k run) (\<lambda>expected.
                expect_employees i expected))) (\<lambda>proceed.
         if \<not> proceed then ret NoEmployees
         else if direct then bnd (process_pending D now batchLimit i) (\<lambda>k. ret (ProcessedBatches k))
         else ret (ProcessedBatches 0))))"

definition failPayRunBatch :: "time \<Rightarrow> string \<Rightarrow> string \<Rightarrow> (pay_db, unit) op" where
  "failPayRunBatch now i message =
     bnd (find_row pd_batches (\<lambda>b. ba_id b = i)) (\<lambda>found.
     case found of
       None \<Rightarrow> ret ()
     | Some batch \<Rightarrow>
         if ba_status batch = ''COMPLETED'' then ret ()
         else tx (
           bnd (update_row pd_batches pd_batches_update (\<lambda>b. ba_id b = i)
                  (\<lambda>b. b\<lparr>ba_status := ''FAILED'', ba_failed := ba_expected batch, ba_error := Some (take 2000 message),
                         ba_updatedAt := now\<rparr>)) (\<lambda>_.
           bnd (update_row pd_runs pd_runs_update (\<lambda>r. cr_id r = ba_run batch)
                  (\<lambda>r. r\<lparr>cr_status := ''FAILED'', cr_failed := cr_failed r + ba_expected batch,
                         cr_failureReason := Some ''One or more payroll calculation batches failed''\<rparr>)) (\<lambda>_.
           ret ()))))"

section \<open>Recovery\<close>

definition recover_batches :: "time \<Rightarrow> (pay_db, unit) op" where
  "recover_batches now =
     bnd (update_rows pd_batches pd_batches_update
            (\<lambda>b. ba_status b = ''PROCESSING'' \<and> ba_updatedAt b < now - 5 * 60000)
            (\<lambda>b. b\<lparr>ba_status := ''PENDING'', ba_error := Some ''Recovered after an interrupted worker'', ba_updatedAt := now\<rparr>)) (\<lambda>_.
     ret ())"

text \<open>Oldest runs first is the order of the table here; \<open>ids r\<close> generates the batch ids of run \<open>r\<close>.\<close>

definition reconcileProcessingPayRuns ::
    "decimal_env \<Rightarrow> time \<Rightarrow> (string \<Rightarrow> nat \<Rightarrow> string) \<Rightarrow> bool \<Rightarrow> nat option \<Rightarrow> nat option \<Rightarrow> (pay_db, nat) op" where
  "reconcileProcessingPayRuns D now ids direct runLimit batchLimit =
     bnd (recover_batches now) (\<lambda>_.
     bnd (reads (\<lambda>d. take (case runLimit of None \<Rightarrow> 20 | Some k \<Rightarrow> k) (filter (\<lambda>r. cr_status r = ''PROCESSING'') (pd_runs d)))) (\<lambda>runs.
     bnd (if direct
          then bnd (each (\<lambda>r. initializePayRunCalculation D now (ids (cr_id r)) True
                 (Some (case batchLimit of None \<Rightarrow> 5 | Some k \<Rightarrow> k)) (cr_id r)) runs) (\<lambda>_. ret ())
          else ret ()) (\<lambda>_.
     ret (length runs))))"

section \<open>Approval\<close>

definition approvePayRun :: "audit_env \<Rightarrow> time \<Rightarrow> string \<Rightarrow> string \<Rightarrow> actor \<Rightarrow> (pay_db, pay_run) op" where
  "approvePayRun Y now org i user = tx (
     bnd (update_rows pd_runs pd_runs_update (\<lambda>r. cr_id r = i \<and> cr_org r = org \<and> cr_status r = ''PENDING_APPROVAL'')
            (\<lambda>r. r\<lparr>cr_status := ''APPROVED'', cr_approvedAt := Some now, cr_approvedBy := Some (u_id user)\<rparr>)) (\<lambda>updated.
     bnd (find_row pd_runs (\<lambda>r. cr_id r = i \<and> cr_org r = org)) (\<lambda>existing.
     bnd (if updated = 0 then
            (case existing of
               None \<Rightarrow> raise (notFound ''Payroll run not found'')
             | Some r \<Rightarrow> raise (conflict (''Payroll run cannot be approved from '' @ cr_status r)))
          else ret ()) (\<lambda>_.
     bnd (find_row pd_runs (\<lambda>r. cr_id r = i)) (\<lambda>found.
     bnd (required found P2025) (\<lambda>row.
     bnd (audit_pay Y now org user ''PAYROLL_APPROVED'' ''PAYROLL_RUN'' i (''Approved payroll '' @ cr_name row)
            (Some (JObj [(''previousStatus'', JStr ''PENDING_APPROVAL''), (''newStatus'', JStr ''APPROVED'')]))) (\<lambda>_.
     ret row)))))))"

end
