(* ===== verification/PayrollLedger.thy ===== *)
theory PayrollLedger
  imports PayrollRuns InvoiceLedger
begin

text \<open>
  The invariant of payroll runs: the counters of a run are the sums over its completed batches, and a
  run is offered for approval only when every batch is complete and every expected employee counted.
  \<open>calc_step\<close> lets the transactions of the workers, crashes and changes of the employee data come in
  any order.
\<close>

section \<open>The invariant\<close>

definition batch_count :: "string \<Rightarrow> calc_batch \<Rightarrow> int" where
  "batch_count i b = (if ba_run b = i \<and> ba_status b = ''COMPLETED'' then ba_processed b else 0)"

definition batch_total :: "calc_batch \<Rightarrow> money" where
  "batch_total b = (case ba_totals b of None \<Rightarrow> 0 | Some t \<Rightarrow> pt_net t)"

definition batch_net :: "string \<Rightarrow> calc_batch \<Rightarrow> money" where
  "batch_net i b =
     (if ba_run b = i \<and> ba_status b = ''COMPLETED'' then cents (batch_total b) else 0)"

definition done_count :: "string \<Rightarrow> calc_batch list \<Rightarrow> int" where
  "done_count i bs = sum_list (map (batch_count i) bs)"

definition done_net :: "string \<Rightarrow> calc_batch list \<Rightarrow> money" where
  "done_net i bs = sum_list (map (batch_net i) bs)"

definition awaits_approval :: "pay_run \<Rightarrow> bool" where
  "awaits_approval r \<longleftrightarrow> cr_status r = ''PENDING_APPROVAL'' \<or> cr_status r = ''APPROVED''"

definition complete_for :: "calc_batch list \<Rightarrow> pay_run \<Rightarrow> bool" where
  "complete_for bs r \<longleftrightarrow> 0 < cr_expected r \<and> cr_processed r = cr_expected r \<and>
     (\<forall>b \<in> set bs. ba_run b = cr_id r \<longrightarrow> ba_status b = ''COMPLETED'')"

definition run_ok :: "calc_batch list \<Rightarrow> pay_run \<Rightarrow> bool" where
  "run_ok bs r \<longleftrightarrow> cr_processed r = done_count (cr_id r) bs \<and> pt_net (cr_totals r) = done_net (cr_id r) bs \<and>
     (awaits_approval r \<longrightarrow> complete_for bs r)"

definition batch_ok :: "calc_batch \<Rightarrow> bool" where
  "batch_ok b \<longleftrightarrow> (ba_status b = ''COMPLETED'' \<longrightarrow> 0 < ba_processed b \<and> 0 \<le> batch_total b)"

definition calc_ok :: "pay_db \<Rightarrow> bool" where
  "calc_ok d \<longleftrightarrow> distinct (map cr_id (pd_runs d)) \<and> distinct (map ba_id (pd_batches d)) \<and>
     (\<forall>b \<in> set (pd_batches d). batch_ok b \<and> ba_run b \<in> cr_id ` set (pd_runs d)) \<and>
     (\<forall>r \<in> set (pd_runs d). run_ok (pd_batches d) r)"

lemma calc_okD:
  assumes "calc_ok d"
  shows "distinct (map cr_id (pd_runs d))" "distinct (map ba_id (pd_batches d))"
    "b \<in> set (pd_batches d) \<Longrightarrow> batch_ok b" "b \<in> set (pd_batches d) \<Longrightarrow> ba_run b \<in> cr_id ` set (pd_runs d)"
    "r \<in> set (pd_runs d) \<Longrightarrow> run_ok (pd_batches d) r"
  using assms by (simp_all add: calc_ok_def)

lemma calc_ok_frame:
  "calc_ok d \<Longrightarrow> pd_runs d' = pd_runs d \<Longrightarrow> pd_batches d' = pd_batches d \<Longrightarrow> calc_ok d'"
  by (simp add: calc_ok_def)

lemma done_append [simp]:
  "done_count i (bs @ [b]) = done_count i bs + batch_count i b"
  "done_net i (bs @ [b]) = done_net i bs + batch_net i b"
  by (simp_all add: done_count_def done_net_def)

lemma done_none:
  "(\<And>b. b \<in> set bs \<Longrightarrow> ba_run b \<noteq> i) \<Longrightarrow> done_count i bs = 0 \<and> done_net i bs = 0"
  by (induction bs) (simp_all add: done_count_def done_net_def batch_count_def batch_net_def)

lemma cents_shift:
  assumes "whole_kobo a" and "0 \<le> a" and "0 \<le> b"
  shows "cents (a + b) = a + cents b"
proof -
  from assms(1) obtain k :: int where k: "a = of_int k / 100" by (auto simp: whole_kobo_iff)
  have "round_half_up ((a + b) * 100) = k + round_half_up (b * 100)"
    using assms k by (simp add: round_half_up_def algebra_simps)
  then show ?thesis by (simp add: cents_def toDecimalPlaces_def k add_divide_distrib)
qed

lemma done_net_whole:
  "\<forall>b \<in> set bs. batch_ok b \<Longrightarrow> 0 \<le> done_net i bs \<and> whole_kobo (done_net i bs)"
  by (induction bs) (auto simp: done_net_def batch_net_def batch_ok_def cents_def toDecimalPlaces_nonneg)

section \<open>Changes that complete no batch\<close>

text \<open>An update of batches that are not complete and stay so.\<close>

definition open_update :: "(calc_batch \<Rightarrow> bool) \<Rightarrow> (calc_batch \<Rightarrow> calc_batch) \<Rightarrow> bool" where
  "open_update P f \<longleftrightarrow> (\<forall>b. P b \<longrightarrow> ba_status b \<noteq> ''COMPLETED'') \<and>
     (\<forall>b. ba_status (f b) \<noteq> ''COMPLETED'' \<and> ba_id (f b) = ba_id b \<and> ba_run (f b) = ba_run b)"

lemma open_done:
  assumes "open_update P f"
  shows "done_count i (updateMany P f bs) = done_count i bs" "done_net i (updateMany P f bs) = done_net i bs"
  using assms by (induction bs) (auto simp: done_count_def done_net_def batch_count_def batch_net_def open_update_def)

lemma open_complete:
  assumes "open_update P f" and "complete_for bs r"
  shows "complete_for (updateMany P f bs) r"
  using assms by (auto simp: complete_for_def open_update_def set_updateMany)

lemma calc_ok_open:
  assumes ok: "calc_ok d" and u: "open_update P f"
  shows "calc_ok (pd_batches_update (updateMany P f) d)"
proof -
  note D = calc_okD[OF ok]
  have ids: "map ba_id (updateMany P f (pd_batches d)) = map ba_id (pd_batches d)"
    using u by (intro map_updateMany_same) (auto simp: open_update_def)
  have b: "batch_ok b \<and> ba_run b \<in> cr_id ` set (pd_runs d)" if "b \<in> set (updateMany P f (pd_batches d))" for b
    using that
  proof (rule updateManyE)
    fix x assume "x \<in> set (pd_batches d)" "b = (if P x then f x else x)"
    then show ?thesis using D(3)[of x] D(4)[of x] u by (auto simp: open_update_def batch_ok_def)
  qed
  have r: "run_ok (updateMany P f (pd_batches d)) r" if "r \<in> set (pd_runs d)" for r
    using D(5)[OF that] open_done[OF u] open_complete[OF u] by (simp add: run_ok_def)
  show ?thesis using D(1,2) b r ids by (simp add: calc_ok_def)
qed

lemma keeps_open:
  assumes "open_update P f"
  shows "keeps calc_ok (update_rows pd_batches pd_batches_update P f)"
    "keeps calc_ok (update_row pd_batches pd_batches_update P f)"
  by (rule keeps_update_rows keeps_update_row, erule calc_ok_open, rule assms)+

lemma keeps_claim: "keeps calc_ok (claimBatch now i)"
  unfolding claimBatch_def by (intro keeps_rules keeps_open) (auto simp: open_update_def)

lemma keeps_return: "keeps calc_ok (returnBatch now i message)"
  unfolding returnBatch_def by (intro keeps_rules keeps_open) (auto simp: open_update_def)

lemma keeps_recover: "keeps calc_ok (recover_batches now)"
  unfolding recover_batches_def by (intro keeps_rules keeps_open) (auto simp: open_update_def)

text \<open>An update of runs that leaves the counters alone.\<close>

lemma calc_ok_run_update:
  assumes ok: "calc_ok d"
    and f: "\<And>r. r \<in> set (pd_runs d) \<Longrightarrow> P r \<Longrightarrow>
      cr_id (f r) = cr_id r \<and> cr_processed (f r) = cr_processed r \<and> pt_net (cr_totals (f r)) = pt_net (cr_totals r) \<and>
      (awaits_approval (f r) \<longrightarrow> complete_for (pd_batches d) (f r))"
  shows "calc_ok (pd_runs_update (updateMany P f) d)"
proof -
  note D = calc_okD[OF ok]
  have same: "map cr_id (updateMany P f rows) = map cr_id rows" if "set rows \<subseteq> set (pd_runs d)" for rows
    using that f by (induction rows) auto
  then have ids: "map cr_id (updateMany P f (pd_runs d)) = map cr_id (pd_runs d)" by blast
  then have "cr_id ` set (updateMany P f (pd_runs d)) = cr_id ` set (pd_runs d)" by (metis list.set_map)
  moreover have "run_ok (pd_batches d) r" if "r \<in> set (updateMany P f (pd_runs d))" for r
    using that
  proof (rule updateManyE)
    fix x assume x: "x \<in> set (pd_runs d)" "r = (if P x then f x else x)"
    show ?thesis
    proof (cases "P x")
      case True
      with D(5)[OF x(1)] f[OF x(1) True] x(2) show ?thesis by (simp add: run_ok_def)
    next
      case False
      with D(5)[OF x(1)] x(2) show ?thesis by simp
    qed
  qed
  ultimately show ?thesis using D(1-4) ids by (simp add: calc_ok_def)
qed

text \<open>A new run has no batches, and a new batch belongs to a run that is being processed.\<close>

lemma calc_ok_new_run:
  assumes ok: "calc_ok d" and new: "\<not> clashes run_clash r (pd_runs d)"
    and r: "cr_processed r = 0" "pt_net (cr_totals r) = 0" "\<not> awaits_approval r"
  shows "calc_ok (pd_runs_update (\<lambda>rows. rows @ [r]) d)"
proof -
  note D = calc_okD[OF ok]
  from new have fresh: "cr_id r \<notin> cr_id ` set (pd_runs d)" by (auto simp: clashes_def run_clash_def)
  with D(4) have "done_count (cr_id r) (pd_batches d) = 0 \<and> done_net (cr_id r) (pd_batches d) = 0"
    by (intro done_none) metis
  with r have "run_ok (pd_batches d) r" by (simp add: run_ok_def)
  with D fresh show ?thesis by (auto simp: calc_ok_def)
qed

lemma calc_ok_new_batch:
  assumes ok: "calc_ok d" and new: "\<not> clashes batch_clash b (pd_batches d)" and st: "ba_status b = ''PENDING''"
    and r: "r \<in> set (pd_runs d)" "cr_id r = ba_run b" "cr_status r = ''PROCESSING''"
  shows "calc_ok (pd_batches_update (\<lambda>rows. rows @ [b]) d)"
proof -
  note D = calc_okD[OF ok]
  from new have fresh: "ba_id b \<notin> ba_id ` set (pd_batches d)" by (auto simp: clashes_def batch_clash_def)
  have "run_ok (pd_batches d @ [b]) x" if x: "x \<in> set (pd_runs d)" for x
  proof (cases "cr_id x = ba_run b")
    case True
    with D(1) r(1,2) x have "x = r" by (metis distinct_map inj_onD)
    with D(5)[OF x] r st show ?thesis by (simp add: run_ok_def batch_count_def batch_net_def awaits_approval_def)
  next
    case False
    with D(5)[OF x] show ?thesis by (auto simp: run_ok_def batch_count_def batch_net_def complete_for_def)
  qed
  moreover have "batch_ok b" using st by (simp add: batch_ok_def)
  moreover have "ba_run b \<in> cr_id ` set (pd_runs d)" using r(1,2) by (metis imageI)
  ultimately show ?thesis using D fresh by (auto simp: calc_ok_def)
qed

section \<open>The transaction of a worker\<close>

lemma slip_net_nonneg: "0 \<le> pa_net (slip_amounts D run e)"
  by (simp add: slip_amounts_def Let_def)

lemma totals_net: "0 \<le> pt_net t \<Longrightarrow> \<forall>a \<in> set xs. 0 \<le> pa_net a \<Longrightarrow> 0 \<le> pt_net (foldl add_totals t xs)"
  by (induction xs arbitrary: t) (simp_all add: add_totals_def)

lemma keeps_slips: "keeps (\<lambda>d. pd_runs d = rs \<and> pd_batches d = bs) (writes (pd_slips_update f))"
  by (rule keeps_writes) simp

lemma compute_run:
  assumes "computeEmployeePayslips D org run currency ids d = (Inr (n, t), d')"
  shows "0 < n \<and> 0 \<le> pt_net t \<and> pd_runs d' = pd_runs d \<and> pd_batches d' = pd_batches d"
proof -
  have "keeps (\<lambda>x. pd_runs x = pd_runs d \<and> pd_batches x = pd_batches d) (computeEmployeePayslips D org run currency ids)"
    unfolding computeEmployeePayslips_def by (intro keeps_rules keeps_slips)
  from keepsD[OF this _ assms] have "pd_runs d' = pd_runs d \<and> pd_batches d' = pd_batches d" by simp
  moreover have "0 < n \<and> 0 \<le> pt_net t"
    using assms unfolding computeEmployeePayslips_def
    by (auto simp: run_simps zero_totals_def slip_net_nonneg intro!: totals_net)
  ultimately show ?thesis by simp
qed

lemma calc_ok_complete:
  assumes ok: "calc_ok d" and n: "0 < n" "0 \<le> pt_net t"
    and batch: "\<exists>x \<in> set (pd_batches d). ba_id x = i \<and> ba_run x = rid"
    and found: "countWhere (\<lambda>b. ba_id b = i \<and> ba_status b = ''PROCESSING'') (pd_batches d) \<noteq> 0"
    and f: "f = (\<lambda>b. b\<lparr>ba_status := ''COMPLETED'', ba_processed := n, ba_failed := 0, ba_totals := Some t,
                     ba_completedAt := c, ba_updatedAt := u\<rparr>)"
    and g: "g = (\<lambda>r. r\<lparr>cr_processed := cr_processed r + n, cr_totals := increment_totals (cr_totals r) t\<rparr>)"
    and d': "d' = pd_runs_update (updateMany (\<lambda>r. cr_id r = rid) g)
      (pd_batches_update (updateMany (\<lambda>b. ba_id b = i \<and> ba_status b = ''PROCESSING'') f) d)"
  shows "calc_ok d'"
proof -
  note D = calc_okD[OF ok]
  let ?P = "\<lambda>b. ba_id b = i \<and> ba_status b = ''PROCESSING''"
  obtain x where x: "x \<in> set (pd_batches d)" "ba_id x = i" "ba_run x = rid" using batch by blast
  from found obtain y where y: "y \<in> set (pd_batches d)" "?P y"
    by (auto simp: countWhere_def filter_empty_conv)
  have "y = x" using D(2) x y by (metis distinct_map inj_onD)
  then have st: "ba_status x = ''PROCESSING''" using y by simp
  have one: "filter ?P (pd_batches d) = [x]"
    by (rule filter_one_strengthen[OF filter_one_key[OF D(2) x(1)]]) (use x st in auto)
  have nets: "\<And>j. 0 \<le> done_net j (pd_batches d) \<and> whole_kobo (done_net j (pd_batches d))"
    by (rule done_net_whole) (use D(3) in blast)
  have count: "done_count j (updateMany ?P f (pd_batches d)) = done_count j (pd_batches d) + (if j = rid then n else 0)" for j
    using sum_updateMany_one[OF one, of "batch_count j" f] x st by (simp add: done_count_def batch_count_def f)
  have net: "done_net j (updateMany ?P f (pd_batches d)) = done_net j (pd_batches d) + (if j = rid then cents (pt_net t) else 0)" for j
    using sum_updateMany_one[OF one, of "batch_net j" f] x st by (simp add: done_net_def batch_net_def batch_total_def f)
  have ids: "map ba_id (updateMany ?P f (pd_batches d)) = map ba_id (pd_batches d)"
      "map cr_id (updateMany (\<lambda>r. cr_id r = rid) g (pd_runs d)) = map cr_id (pd_runs d)"
    by (rule map_updateMany_same, simp add: f g)+
  then have runs: "cr_id ` set (updateMany (\<lambda>r. cr_id r = rid) g (pd_runs d)) = cr_id ` set (pd_runs d)"
    by (metis list.set_map)
  have b: "batch_ok b \<and> ba_run b \<in> cr_id ` set (pd_runs d)" if "b \<in> set (updateMany ?P f (pd_batches d))" for b
    using that
  proof (rule updateManyE)
    fix z assume "z \<in> set (pd_batches d)" "b = (if ?P z then f z else z)"
    then show ?thesis using D(3)[of z] D(4)[of z] n by (auto simp: batch_ok_def batch_total_def f)
  qed
  have "run_ok (updateMany ?P f (pd_batches d)) r" if r: "r \<in> set (updateMany (\<lambda>r. cr_id r = rid) g (pd_runs d))" for r
    using r
  proof (rule updateManyE)
    fix z assume z: "z \<in> set (pd_runs d)" "r = (if cr_id z = rid then g z else z)"
    note rz = D(5)[OF z(1)]
    have waits: "\<not> awaits_approval z" if "cr_id z = rid"
      using rz that x st by (auto simp: run_ok_def complete_for_def)
    show ?thesis
    proof (cases "cr_id z = rid")
      case True
      with z(2) waits rz nets[of rid] n show ?thesis
        by (simp add: run_ok_def count net g increment_totals_def cents_shift awaits_approval_def)
    next
      case False
      have "complete_for (updateMany ?P f (pd_batches d)) z" if "complete_for (pd_batches d) z"
        using that by (auto simp: complete_for_def set_updateMany f)
      with False z(2) rz show ?thesis by (simp add: run_ok_def count net)
    qed
  qed
  with D(1,2) b ids runs show ?thesis by (simp add: calc_ok_def d')
qed

text \<open>The worker's copies of the batch and of its run agree with the rows on what never changes.\<close>

definition known_batch :: "calc_batch \<Rightarrow> pay_run \<Rightarrow> pay_db \<Rightarrow> bool" where
  "known_batch batch run d \<longleftrightarrow> cr_id run = ba_run batch \<and>
     (\<exists>x \<in> set (pd_batches d). ba_id x = ba_id batch \<and> ba_run x = ba_run batch \<and> ba_employeeIds x = ba_employeeIds batch)"

lemma calc_ok_compute:
  assumes "calc_ok d" and known: "known_batch batch run d" and run: "computeBatch D now batch run d = (r, d')"
  shows "calc_ok d'"
proof -
  from tx_effect[OF run[unfolded computeBatch_def]]
  consider "d' = d" | x where "r = Inr x" "bnd (computeEmployeePayslips D (ba_org batch) run (cr_currency run) (ba_employeeIds batch)) (\<lambda>(employees, totals).
     bnd (update_rows pd_batches pd_batches_update (\<lambda>b. ba_id b = ba_id batch \<and> ba_status b = ''PROCESSING'')
            (\<lambda>b. b\<lparr>ba_status := ''COMPLETED'', ba_processed := employees, ba_failed := 0, ba_totals := Some totals,
                   ba_completedAt := Some now, ba_updatedAt := now\<rparr>)) (\<lambda>completed.
     if completed = 0 then ret employees
     else
       bnd (update_row pd_runs pd_runs_update (\<lambda>r. cr_id r = ba_run batch)
              (\<lambda>r. r\<lparr>cr_processed := cr_processed r + employees, cr_totals := increment_totals (cr_totals r) totals\<rparr>)) (\<lambda>_.
       ret employees))) d = (Inr x, d')" by blast
  then show ?thesis
  proof cases
    case 1
    then show ?thesis using assms(1) by simp
  next
    case 2
    from 2(2) obtain n t d1 where c: "computeEmployeePayslips D (ba_org batch) run (cr_currency run) (ba_employeeIds batch) d = (Inr (n, t), d1)"
      and rest: "bnd (update_rows pd_batches pd_batches_update (\<lambda>b. ba_id b = ba_id batch \<and> ba_status b = ''PROCESSING'')
            (\<lambda>b. b\<lparr>ba_status := ''COMPLETED'', ba_processed := n, ba_failed := 0, ba_totals := Some t,
                   ba_completedAt := Some now, ba_updatedAt := now\<rparr>)) (\<lambda>completed.
     if completed = 0 then ret n
     else
       bnd (update_row pd_runs pd_runs_update (\<lambda>r. cr_id r = ba_run batch)
              (\<lambda>r. r\<lparr>cr_processed := cr_processed r + n, cr_totals := increment_totals (cr_totals r) t\<rparr>)) (\<lambda>_.
       ret n)) d1 = (Inr x, d')"
      by (auto simp: run_bnd_ok)
    from compute_run[OF c] have n: "0 < n" "0 \<le> pt_net t" and same: "pd_runs d1 = pd_runs d" "pd_batches d1 = pd_batches d" by auto
    have ok1: "calc_ok d1" by (rule calc_ok_frame[OF assms(1) same])
    show ?thesis
    proof (cases "countWhere (\<lambda>b. ba_id b = ba_id batch \<and> ba_status b = ''PROCESSING'') (pd_batches d1) = 0")
      case True
      then have "updateMany (\<lambda>b. ba_id b = ba_id batch \<and> ba_status b = ''PROCESSING'') f (pd_batches d1) = pd_batches d1" for f
        by (intro updateMany_none) (auto simp: countWhere_def filter_empty_conv)
      with rest True have "pd_runs d' = pd_runs d1 \<and> pd_batches d' = pd_batches d1"
        by (auto simp: run_simps)
      then show ?thesis using calc_ok_frame[OF ok1] by blast
    next
      case False
      show ?thesis
        by (rule calc_ok_complete[OF ok1 n _ False refl refl, of "ba_run batch"])
          (use known rest False in \<open>auto simp: known_batch_def same run_simps\<close>)
    qed
  qed
qed

section \<open>The other transactions\<close>

lemma keeps_pay_audit: "(\<And>a d. I d \<Longrightarrow> I (d\<lparr>pd_audit := a\<rparr>)) \<Longrightarrow> keeps I (audit_pay Y now org user action resource i summary metadata)"
  unfolding audit_pay_def by (rule keeps_zoom[where J = "\<lambda>_. True"]) (auto simp: keeps_def)

lemma calc_ok_audit: "calc_ok d \<Longrightarrow> calc_ok (d\<lparr>pd_audit := a\<rparr>)"
  by (rule calc_ok_frame) simp_all

lemma keeps_createRun: "keeps calc_ok (createAndComputePayRun Y n org inp user)"
  unfolding createAndComputePayRun_def
  by (intro keeps_rules keeps_tx keeps_create_row keeps_pay_audit calc_ok_audit)
    (erule calc_ok_new_run, assumption, simp_all add: new_run_def zero_totals_def awaits_approval_def)

lemma calc_ok_finish:
  assumes ok: "calc_ok d" and batch: "\<exists>b \<in> set (pd_batches d). ba_run b = i"
    and e: "\<And>r. r \<in> set (pd_runs d) \<Longrightarrow> cr_id r = i \<Longrightarrow> e = 0 \<or> e = cr_expected r"
    and run: "finishBatch now i e d = (x, d')"
  shows "calc_ok d'"
proof (cases "countWhere (\<lambda>b. ba_run b = i \<and> ba_status b \<noteq> ''COMPLETED'') (pd_batches d) = 0")
  case False
  with run have "d' = d" unfolding finishBatch_def by (cases x) (auto simp: run_simps run_bnd_err)
  with ok show ?thesis by simp
next
  case True
  then have all: "ba_status b = ''COMPLETED''" if "b \<in> set (pd_batches d)" "ba_run b = i" for b
    using that by (auto simp: countWhere_def filter_empty_conv)
  from batch obtain b where b: "b \<in> set (pd_batches d)" "ba_run b = i" by blast
  have pos: "0 < done_count i bs" if "b \<in> set bs" "set bs \<subseteq> set (pd_batches d)" for bs
    using that
  proof (induction bs)
    case (Cons c bs)
    have nonneg: "0 \<le> done_count i cs" if "set cs \<subseteq> set (pd_batches d)" for cs
      using that
    proof (induction cs)
      case (Cons c cs)
      then show ?case using calc_okD(3)[OF ok, of c]
        by (auto simp: done_count_def batch_count_def batch_ok_def)
    qed (simp add: done_count_def)
    show ?case
    proof (cases "c = b")
      case True
      have "0 < batch_count i b" using all[OF b] b calc_okD(3)[OF ok b(1)] by (simp add: batch_count_def batch_ok_def)
      with True nonneg[of bs] Cons.prems show ?thesis by (simp add: done_count_def)
    next
      case False
      have "0 \<le> batch_count i c" using nonneg[of "[c]"] Cons.prems by (simp add: done_count_def)
      moreover have "0 < done_count i bs" using Cons False by auto
      ultimately show ?thesis by (simp add: done_count_def)
    qed
  qed simp
  have d': "d' = pd_runs_update (updateMany (\<lambda>r. cr_id r = i \<and> cr_status r = ''PROCESSING'' \<and> cr_processed r = e)
      (\<lambda>r. r\<lparr>cr_status := ''PENDING_APPROVAL'', cr_computedAt := Some now, cr_failureReason := None\<rparr>)) d"
    using run True unfolding finishBatch_def by (cases x) (auto simp: run_simps run_bnd_err)
  show ?thesis unfolding d'
  proof (rule calc_ok_run_update[OF ok], intro conjI impI)
    fix r assume r: "r \<in> set (pd_runs d)" "cr_id r = i \<and> cr_status r = ''PROCESSING'' \<and> cr_processed r = e"
    have "cr_processed r = done_count i (pd_batches d)" using calc_okD(5)[OF ok r(1)] r(2) by (simp add: run_ok_def)
    with pos[OF b(1) subset_refl] have "0 < cr_processed r" by simp
    with e[OF r(1)] r(2) have "cr_expected r = cr_processed r" by auto
    with \<open>0 < cr_processed r\<close> show "complete_for (pd_batches d) (r\<lparr>cr_status := ''PENDING_APPROVAL'', cr_computedAt := Some now, cr_failureReason := None\<rparr>)"
      using all r(2) by (simp add: complete_for_def)
  qed simp_all
qed

lemma keeps_fail: "keeps calc_ok (failPayRunBatch now i message)"
proof (rule keepsI)
  fix d r d' assume ok: "calc_ok d" and run: "failPayRunBatch now i message d = (r, d')"
  show "calc_ok d'"
  proof (cases "find (\<lambda>b. ba_id b = i) (pd_batches d)")
    case None
    with run have "d' = d" unfolding failPayRunBatch_def by (cases r) (auto simp: run_simps run_bnd_err)
    with ok show ?thesis by simp
  next
    case (Some b)
    show ?thesis
    proof (cases "ba_status b = ''COMPLETED''")
      case True
      with run Some have "d' = d" unfolding failPayRunBatch_def by (cases r) (auto simp: run_simps run_bnd_err)
      with ok show ?thesis by simp
    next
      case False
      let ?P = "\<lambda>x. ba_id x = i \<and> ba_status x \<noteq> ''COMPLETED''"
      define f :: "calc_batch \<Rightarrow> calc_batch" where "f = (\<lambda>b'. b'\<lparr>ba_status := ''FAILED'', ba_failed := ba_expected b, ba_error := Some (take 2000 message),
                         ba_updatedAt := now\<rparr>)"
      define g :: "pay_run \<Rightarrow> pay_run" where "g = (\<lambda>r. r\<lparr>cr_status := ''FAILED'', cr_failed := cr_failed r + ba_expected b,
                         cr_failureReason := Some ''One or more payroll calculation batches failed''\<rparr>)"
      have here: "b \<in> set (pd_batches d)" "ba_id b = i" using Some by (auto dest: find_SomeD)
      have same: "updateMany (\<lambda>x. ba_id x = i) f (pd_batches d) = updateMany ?P f (pd_batches d)"
      proof -
        have "x = b" if "x \<in> set (pd_batches d)" "ba_id x = i" for x
          using that here calc_okD(2)[OF ok] by (metis distinct_map inj_onD)
        with False show ?thesis unfolding updateMany_def by (intro map_cong) auto
      qed
      have "d' = d \<or> d' = pd_runs_update (updateMany (\<lambda>r. cr_id r = ba_run b) g) (pd_batches_update (updateMany (\<lambda>x. ba_id x = i) f) d)"
        using run Some False unfolding failPayRunBatch_def f_def g_def
        by (cases r) (auto simp: run_simps run_bnd_err run_update_row_err)
      moreover have "calc_ok (pd_batches_update (updateMany (\<lambda>x. ba_id x = i) f) d)"
        by (rule calc_ok_frame[OF calc_ok_open[OF ok, of ?P f]]) (simp_all add: open_update_def f_def same[unfolded f_def])
      ultimately show ?thesis using ok
        by (auto intro!: calc_ok_run_update simp: g_def awaits_approval_def)
    qed
  qed
qed

lemma keeps_approve: "keeps calc_ok (approvePayRun Y now org i user)"
  unfolding approvePayRun_def
proof (intro keeps_tx keeps_rules keeps_update_rows keeps_pay_audit calc_ok_audit)
  fix d assume ok: "calc_ok d"
  show "calc_ok (pd_runs_update (updateMany (\<lambda>r. cr_id r = i \<and> cr_org r = org \<and> cr_status r = ''PENDING_APPROVAL'')
      (\<lambda>r. r\<lparr>cr_status := ''APPROVED'', cr_approvedAt := Some now, cr_approvedBy := Some (u_id user)\<rparr>)) d)"
  proof (rule calc_ok_run_update[OF ok], intro conjI impI)
    fix r assume "r \<in> set (pd_runs d)" "cr_id r = i \<and> cr_org r = org \<and> cr_status r = ''PENDING_APPROVAL''"
    with calc_okD(5)[OF ok, of r] show "complete_for (pd_batches d)
        (r\<lparr>cr_status := ''APPROVED'', cr_approvedAt := Some now, cr_approvedBy := Some (u_id user)\<rparr>)"
      by (simp add: run_ok_def awaits_approval_def complete_for_def)
  qed simp_all
qed

subsection \<open>Initialization\<close>

text \<open>The run is being processed, as it was when the batches were counted.\<close>

definition still_processing :: "string \<Rightarrow> string \<Rightarrow> pay_db \<Rightarrow> bool" where
  "still_processing i org d \<longleftrightarrow> (\<exists>r \<in> set (pd_runs d). cr_id r = i \<and> cr_status r = ''PROCESSING'')"

lemma processing_found: "processing_run i d = Some run \<Longrightarrow> cr_id run = i \<and> still_processing i org d"
  unfolding processing_run_def still_processing_def by (drule find_SomeD) blast

lemma keeps_upsert_batch:
  assumes "ba_status b = ''PENDING''"
  shows "keeps (\<lambda>d. calc_ok d \<and> still_processing (ba_run b) org d) (upsert_batch b)"
  unfolding upsert_batch_def
proof (intro keeps_rules keeps_create_row conjI)
  fix d assume d: "calc_ok d \<and> still_processing (ba_run b) org d" and new: "\<not> clashes batch_clash b (pd_batches d)"
  then show "calc_ok (pd_batches_update (\<lambda>rows. rows @ [b]) d)"
    using calc_ok_new_batch[OF _ new assms] by (auto simp: still_processing_def)
  show "still_processing (ba_run b) org (pd_batches_update (\<lambda>rows. rows @ [b]) d)"
    using d by (simp add: still_processing_def)
qed

lemma keeps_create_batches:
  assumes "cr_id run = i"
  shows "keeps (\<lambda>d. calc_ok d \<and> still_processing i org d) (create_batches now ids k run)"
  unfolding create_batches_def
proof (intro keeps_rules)
  fix pages p j employees
  show "keeps (\<lambda>d. calc_ok d \<and> still_processing i org d) (upsert_batch (new_batch now ids run j employees))"
    using keeps_upsert_batch[of "new_batch now ids run j employees" org] assms by (simp add: new_batch_def)
qed

lemma calc_ok_expect:
  assumes ok: "calc_ok d" and st: "still_processing i org d" and run: "expect_employees i e d = (r, d')"
  shows "calc_ok d'"
proof -
  obtain x where x: "x \<in> set (pd_runs d)" "cr_id x = i" "cr_status x = ''PROCESSING''"
    using st by (auto simp: still_processing_def)
  have only: "y = x" if "y \<in> set (pd_runs d)" "cr_id y = i" for y
    using that x calc_okD(1)[OF ok] by (metis distinct_map inj_onD)
  define f :: "pay_run \<Rightarrow> pay_run" where "f = (\<lambda>r. if e = 0 then r\<lparr>cr_status := ''FAILED'', cr_failureReason := Some ''No eligible employees are configured for this payroll period'',
                      cr_failed := 0\<rparr> else r\<lparr>cr_expected := e, cr_employeeCount := e\<rparr>)"
  have "d' = d \<or> d' = pd_runs_update (updateMany (\<lambda>r. cr_id r = i) f) d"
    using run unfolding expect_employees_def f_def
    by (cases r; cases "e = 0") (auto simp: run_simps run_bnd_err run_update_row_err)
  moreover have "calc_ok (pd_runs_update (updateMany (\<lambda>r. cr_id r = i) f) d)"
    by (rule calc_ok_run_update[OF ok]) (use only x in \<open>auto simp: f_def awaits_approval_def\<close>)
  ultimately show ?thesis using ok by auto
qed

end
