(* ===== verification/PayrollLife.thy ===== *)
theory PayrollLife
  imports PayrollLedger
begin

text \<open>
  Every order of the payroll transactions as a step relation, the refinement of the composed
  operations by it, and what holds in every state it reaches.
\<close>

section \<open>Steps\<close>

text \<open>\<open>interrupted\<close> is an initialization that stopped after \<open>k\<close> batches, \<open>surroundings\<close> any change of
  employees, settings and the audit log. A worker's copy of the run may be older than the row: then
  it expects no one yet, because the expectation is written once.\<close>

inductive calc_step :: "decimal_env \<Rightarrow> audit_env \<Rightarrow> pay_db \<Rightarrow> pay_db \<Rightarrow> bool" for D Y where
  create: "createAndComputePayRun Y n org inp user d = (r1, d') \<Longrightarrow> calc_step D Y d d'"
| initialize: "initializePayRunCalculation D now ids False lmt i d = (r2, d') \<Longrightarrow> calc_step D Y d d'"
| interrupted: "processing_run i d = Some run \<Longrightarrow> countWhere (\<lambda>b. ba_run b = i) (pd_batches d) = 0 \<Longrightarrow>
    create_batches now ids k run d = (r3, d') \<Longrightarrow> calc_step D Y d d'"
| claim: "claimBatch now i d = (r4, d') \<Longrightarrow> calc_step D Y d d'"
| compute: "known_batch batch run d \<Longrightarrow> computeBatch D now batch run d = (r5, d') \<Longrightarrow> calc_step D Y d d'"
| finish: "\<exists>b \<in> set (pd_batches d). ba_run b = i \<Longrightarrow>
    (\<And>r. r \<in> set (pd_runs d) \<Longrightarrow> cr_id r = i \<Longrightarrow> e = 0 \<or> e = cr_expected r) \<Longrightarrow>
    finishBatch now i e d = (r6, d') \<Longrightarrow> calc_step D Y d d'"
| give_back: "returnBatch now i message d = (r7, d') \<Longrightarrow> calc_step D Y d d'"
| give_up: "failPayRunBatch now i message d = (r8, d') \<Longrightarrow> calc_step D Y d d'"
| recover: "recover_batches now d = (r9, d') \<Longrightarrow> calc_step D Y d d'"
| approve: "approvePayRun Y now org i user d = (r10, d') \<Longrightarrow> calc_step D Y d d'"
| surroundings: "pd_runs d' = pd_runs d \<Longrightarrow> pd_batches d' = pd_batches d \<Longrightarrow> pd_slips d' = pd_slips d \<Longrightarrow> calc_step D Y d d'"

inductive_simps calc_step_iff: "calc_step D Y d d'"

definition calc_initial :: "pay_db \<Rightarrow> bool" where
  "calc_initial d \<longleftrightarrow> pd_runs d = [] \<and> pd_batches d = [] \<and> pd_slips d = []"

text \<open>What an initialization without direct execution does.\<close>

lemma initialize_run:
  assumes "initializePayRunCalculation D now ids False lmt i d = (r, d')"
  obtains "d' = d"
  | run where "processing_run i d = Some run" "countWhere (\<lambda>b. ba_run b = i) (pd_batches d) = 0"
      "\<exists>x. create_batches now ids (length (id_pages (eligible_ids run d))) run d = (x, d')"
  | run e d1 x where "processing_run i d = Some run" "countWhere (\<lambda>b. ba_run b = i) (pd_batches d) = 0"
      "create_batches now ids (length (id_pages (eligible_ids run d))) run d = (Inr e, d1)"
      "expect_employees i e d1 = (x, d')"
proof (cases "processing_run i d")
  case None
  with assms that(1) show ?thesis
    unfolding initializePayRunCalculation_def by (cases r) (auto simp: run_simps run_bnd_err)
next
  case (Some run)
  show ?thesis
  proof (cases "countWhere (\<lambda>b. ba_run b = i) (pd_batches d) = 0")
    case False
    with assms Some that(1) show ?thesis
      unfolding initializePayRunCalculation_def by (cases r) (auto simp: run_simps run_bnd_err)
  next
    case True
    obtain c d1 where c: "create_batches now ids (length (id_pages (eligible_ids run d))) run d = (c, d1)"
      by (cases "create_batches now ids (length (id_pages (eligible_ids run d))) run d")
    show ?thesis
    proof (cases c)
      case (Inl e)
      with assms Some True c have "d' = d1"
        unfolding initializePayRunCalculation_def by (simp add: bnd_def reads_def count_rows_def)
      with that(2)[OF Some True] c show ?thesis by blast
    next
      case (Inr e)
      obtain x d2 where x: "expect_employees i e d1 = (x, d2)" by (cases "expect_employees i e d1")
      with assms Some True c Inr have "d' = d2"
        unfolding initializePayRunCalculation_def
        by (cases x) (simp_all add: bnd_def reads_def count_rows_def ret_def split: if_splits)
      with that(3)[OF Some True] c Inr x show ?thesis by blast
    qed
  qed
qed

lemma calc_ok_initialize:
  assumes ok: "calc_ok d" and run: "initializePayRunCalculation D now ids False lmt i d = (r, d')"
  shows "calc_ok d'"
  using run
proof (rule initialize_run)
  fix run assume p: "processing_run i d = Some run"
    and c: "\<exists>x. create_batches now ids (length (id_pages (eligible_ids run d))) run d = (x, d')"
  note f = processing_found[OF p, of "[]"]
  show "calc_ok d'" using c keepsD[OF keeps_create_batches[of run i "[]"]] f ok by blast
next
  fix run e d1 x assume p: "processing_run i d = Some run"
    and c: "create_batches now ids (length (id_pages (eligible_ids run d))) run d = (Inr e, d1)"
    and e: "expect_employees i e d1 = (x, d')"
  note f = processing_found[OF p, of "[]"]
  have "calc_ok d1 \<and> still_processing i [] d1" using c keepsD[OF keeps_create_batches[of run i "[]"]] f ok by blast
  then show "calc_ok d'" using calc_ok_expect[OF _ _ e] by blast
qed (use ok in simp)

lemma calc_ok_interrupted:
  assumes "processing_run i d = Some run" and "create_batches now ids k run d = (r, d')" and "calc_ok d"
  shows "calc_ok d'"
  using keepsD[OF keeps_create_batches[of run i "[]"]] processing_found[OF assms(1), of "[]"] assms(2,3) by blast

lemma calc_ok_step: "calc_step D Y d d' \<Longrightarrow> calc_ok d \<Longrightarrow> calc_ok d'"
proof (induction rule: calc_step.induct)
  case (create n org inp user d r1 d')
  then show ?case using keepsD[OF keeps_createRun] by blast
next
  case (initialize now ids lmt i d r2 d')
  then show ?case using calc_ok_initialize by blast
next
  case (interrupted i d run now ids k r3 d')
  then show ?case using calc_ok_interrupted by blast
next
  case (claim now i d r4 d')
  then show ?case using keepsD[OF keeps_claim] by blast
next
  case (compute batch run d now r5 d')
  then show ?case using calc_ok_compute by blast
next
  case (finish d i e now r6 d')
  show ?case by (rule calc_ok_finish[OF finish(4,1) finish(2) finish(3)])
next
  case (give_back now i message d r7 d')
  then show ?case using keepsD[OF keeps_return] by blast
next
  case (give_up now i message d r8 d')
  then show ?case using keepsD[OF keeps_fail] by blast
next
  case (recover now d r9 d')
  then show ?case using keepsD[OF keeps_recover] by blast
next
  case (approve now org i user d r10 d')
  then show ?case using keepsD[OF keeps_approve] by blast
next
  case (surroundings d' d)
  then show ?case using calc_ok_frame by blast
qed

lemma calc_ok_initial: "calc_initial d \<Longrightarrow> calc_ok d"
  by (simp add: calc_initial_def calc_ok_def)

lemma calc_ok_reachable: "(calc_step D Y)\<^sup>*\<^sup>* d d' \<Longrightarrow> calc_ok d \<Longrightarrow> calc_ok d'"
  by (induction rule: rtranclp_induct) (auto dest: calc_ok_step)

section \<open>The composed operations are made of these steps\<close>

text \<open>What a worker knows of its run is still so after its own transaction.\<close>

definition expects :: "string \<Rightarrow> int \<Rightarrow> pay_db \<Rightarrow> bool" where
  "expects i e d \<longleftrightarrow> (\<exists>b \<in> set (pd_batches d). ba_run b = i) \<and> (\<forall>r \<in> set (pd_runs d). cr_id r = i \<longrightarrow> cr_expected r = e)"

lemma expects_run_of: "b \<in> set rows \<Longrightarrow> (\<And>x. P x \<Longrightarrow> ba_run (f x) = ba_run x) \<Longrightarrow>
   \<exists>x \<in> set (updateMany P f rows). ba_run x = ba_run b"
  by (induction rows) auto

lemma keeps_expects_compute: "keeps (expects i e) (computeBatch D now batch run)"
  unfolding computeBatch_def computeEmployeePayslips_def
proof (intro keeps_tx keeps_rules keeps_writes keeps_update_rows keeps_update_row)
  fix employees totals d assume x: "expects i e d"
  let ?P = "\<lambda>b. ba_id b = ba_id batch \<and> ba_status b = ''PROCESSING''"
  let ?f = "\<lambda>b. b\<lparr>ba_status := ''COMPLETED'', ba_processed := employees, ba_failed := 0, ba_totals := Some totals,
             ba_completedAt := Some now, ba_updatedAt := now\<rparr>"
  from x obtain b where b: "b \<in> set (pd_batches d)" "ba_run b = i" by (auto simp: expects_def)
  have "\<exists>x \<in> set (updateMany ?P ?f (pd_batches d)). ba_run x = ba_run b" by (rule expects_run_of[OF b(1)]) simp
  with b x show "expects i e (pd_batches_update (updateMany ?P ?f) d)" by (simp add: expects_def)
qed (auto simp: expects_def set_updateMany)

lemma finish_ok: "finishBatch now i e d = (r, d') \<Longrightarrow> r = Inr ()"
  unfolding finishBatch_def by (cases r) (auto simp: run_simps run_bnd_err split: if_splits)

lemma process_is_steps:
  assumes ok: "calc_ok d" and run: "processPayRunBatch D now i d = (r, d')"
  shows "(calc_step D Y)\<^sup>*\<^sup>* d d'"
proof -
  obtain c d1 where c: "claimBatch now i d = (Inr c, d1)"
    unfolding claimBatch_def by (auto simp: bnd_def update_rows_def reads_def writes_def ret_def)
  then have s1: "calc_step D Y d d1" by (rule calc_step.claim)
  have ok1: "calc_ok d1" by (rule calc_ok_step[OF s1 ok])
  let ?rest = "\<lambda>batch run. catching
         (bnd (computeBatch D now batch run) (\<lambda>employees.
          bnd (finishBatch now (ba_run batch) (cr_expected run)) (\<lambda>_.
          ret (Some employees))))
         (\<lambda>e. bnd (returnBatch now i (error_message e)) (\<lambda>_. raise e))"
  have "d' = d1 \<or> (\<exists>batch rn. find (\<lambda>b. ba_id b = i) (pd_batches d1) = Some batch \<and>
      find (\<lambda>r. cr_id r = ba_run batch) (pd_runs d1) = Some rn \<and> ?rest batch rn d1 = (r, d'))"
    using run c unfolding processPayRunBatch_def
    by (auto simp: bnd_def find_row_def reads_def required_def ret_def raise_def split: if_splits option.splits)
  then show ?thesis
  proof (elim disjE exE conjE)
    assume "d' = d1"
    with s1 show ?thesis by blast
  next
    fix batch rn
    assume b: "find (\<lambda>b. ba_id b = i) (pd_batches d1) = Some batch"
      and rn: "find (\<lambda>r. cr_id r = ba_run batch) (pd_runs d1) = Some rn" and rest: "?rest batch rn d1 = (r, d')"
    have known: "known_batch batch rn d1" using find_SomeD[OF b] find_SomeD[OF rn] by (auto simp: known_batch_def)
    have "x = rn" if "x \<in> set (pd_runs d1)" "cr_id x = ba_run batch" for x
      using that find_SomeD[OF rn] calc_okD(1)[OF ok1] by (metis distinct_map inj_onD)
    then have ex: "expects (ba_run batch) (cr_expected rn) d1" using find_SomeD[OF b] by (auto simp: expects_def)
    obtain x d2 where x: "computeBatch D now batch rn d1 = (x, d2)" by (cases "computeBatch D now batch rn d1")
    have s2: "calc_step D Y d1 d2" by (rule calc_step.compute[OF known x])
    have ex2: "expects (ba_run batch) (cr_expected rn) d2" by (rule keepsD[OF keeps_expects_compute ex x])
    have "calc_step D Y d2 d'"
    proof (cases x)
      case (Inl e)
      obtain y d3 where y: "returnBatch now i (error_message e) d2 = (y, d3)" by (cases "returnBatch now i (error_message e) d2")
      with rest x Inl have "d' = d3"
        by (cases y) (simp_all add: catching_def bnd_def raise_def)
      with y show ?thesis by (auto intro: calc_step.give_back)
    next
      case (Inr n)
      obtain y d3 where y: "finishBatch now (ba_run batch) (cr_expected rn) d2 = (y, d3)"
        by (cases "finishBatch now (ba_run batch) (cr_expected rn) d2")
      with rest x Inr finish_ok[OF y] have "d' = d3"
        by (simp add: catching_def bnd_def ret_def)
      with y show ?thesis
        by (intro calc_step.finish[of d2 "ba_run batch" "cr_expected rn" now y]) (use ex2 in \<open>auto simp: expects_def\<close>)
    qed
    with s1 s2 show ?thesis by (meson converse_rtranclp_into_rtranclp rtranclp.rtrancl_refl)
  qed
qed

text \<open>Reached from a sound state: the shape in which the loops are shown to be made of steps.\<close>

definition reached_from :: "decimal_env \<Rightarrow> audit_env \<Rightarrow> pay_db \<Rightarrow> pay_db \<Rightarrow> bool" where
  "reached_from D Y d x \<longleftrightarrow> calc_ok x \<and> (calc_step D Y)\<^sup>*\<^sup>* d x"

lemma keeps_reached:
  assumes "\<And>x r x'. calc_ok x \<Longrightarrow> m x = (r, x') \<Longrightarrow> (calc_step D Y)\<^sup>*\<^sup>* x x'"
  shows "keeps (reached_from D Y d) m"
proof (rule keepsI)
  fix x r x' assume x: "reached_from D Y d x" and run: "m x = (r, x')"
  then have "(calc_step D Y)\<^sup>*\<^sup>* x x'" using assms by (auto simp: reached_from_def)
  with x show "reached_from D Y d x'"
    unfolding reached_from_def by (meson calc_ok_reachable rtranclp_trans)
qed

lemma reached_process: "keeps (reached_from D Y d) (processPayRunBatch D now i)"
  by (rule keeps_reached) (rule process_is_steps)

lemma reached_initialize: "keeps (reached_from D Y d) (initializePayRunCalculation D now ids direct lmt i)"
proof (cases direct)
  case False
  then show ?thesis by (intro keeps_reached) (auto intro: calc_step.initialize)
next
  case True
  show ?thesis
  proof (rule keepsI)
    fix x r x' assume x: "reached_from D Y d x"
      and run: "initializePayRunCalculation D now ids direct lmt i x = (r, x')"
    obtain q x1 where q: "initializePayRunCalculation D now ids False lmt i x = (q, x1)"
      by (cases "initializePayRunCalculation D now ids False lmt i x")
    have x1: "reached_from D Y d x1"
      by (rule keepsD[where I = "reached_from D Y d" and m = "initializePayRunCalculation D now ids False lmt i", OF _ x q], rule keeps_reached) (auto intro: calc_step.initialize)
    have p: "keeps (reached_from D Y d) (process_pending D now lmt i)"
      unfolding process_pending_def by (intro keeps_rules reached_process)
    have "x' = x1 \<or> (\<exists>k. process_pending D now lmt i x1 = (k, x'))"
    proof -
      define m where "m = bnd (reads (processing_run i)) (\<lambda>found.
         case found of None \<Rightarrow> ret None | Some run \<Rightarrow>
         bnd (count_rows pd_batches (\<lambda>b. ba_run b = i)) (\<lambda>existing.
         bnd (if existing \<noteq> 0 then ret True
              else
                bnd (reads (\<lambda>d. length (id_pages (eligible_ids run d)))) (\<lambda>k.
                bnd (create_batches now ids k run) (\<lambda>expected.
                expect_employees i expected))) (\<lambda>proceed. ret (Some proceed))))"
      have direct_form: "initializePayRunCalculation D now ids True lmt i = bnd m (\<lambda>p. case p of None \<Rightarrow> ret Skipped
          | Some proceed \<Rightarrow> if \<not> proceed then ret NoEmployees else bnd (process_pending D now lmt i) (\<lambda>k. ret (ProcessedBatches k)))"
        unfolding initializePayRunCalculation_def m_def
        by (rule ext) (simp add: bnd_def reads_def count_rows_def ret_def split: option.splits prod.splits sum.splits)
      have queued_form: "initializePayRunCalculation D now ids False lmt i = bnd m (\<lambda>p. case p of None \<Rightarrow> ret Skipped
          | Some proceed \<Rightarrow> if \<not> proceed then ret NoEmployees else ret (ProcessedBatches 0))"
        unfolding initializePayRunCalculation_def m_def
        by (rule ext) (simp add: bnd_def reads_def count_rows_def ret_def split: option.splits prod.splits sum.splits)
      obtain w y where w: "m x = (w, y)" by (cases "m x")
      from q w have "x1 = y" unfolding queued_form
        by (auto simp: bnd_def ret_def split: sum.splits option.splits if_splits)
      from run True have "initializePayRunCalculation D now ids True lmt i x = (r, x')" by simp
      then show ?thesis using w \<open>x1 = y\<close> unfolding direct_form
        by (auto simp: bnd_def ret_def split: sum.splits option.splits if_splits prod.splits)
    qed
    with x1 keepsD[OF p x1] show "reached_from D Y d x'" by auto
  qed
qed

lemma reached_recover: "keeps (reached_from D Y d) (recover_batches now)"
  by (rule keeps_reached) (auto intro: calc_step.recover)

lemma reached_reconcile: "keeps (reached_from D Y d) (reconcileProcessingPayRuns D now ids direct runLimit batchLimit)"
  unfolding reconcileProcessingPayRuns_def by (intro keeps_rules reached_recover reached_initialize)

end
