(* ===== verification/PayrollProgress.thy ===== *)
theory PayrollProgress
  imports PayrollLife "HOL-Library.Multiset"
begin

text \<open>
  Progress of payroll: the direct execution of a run takes it from its creation to the approval,
  with every eligible employee processed.
\<close>

section \<open>One batch\<close>

lemma each_writes_run:
  "each (\<lambda>e. writes (f e)) xs d = (Inr (replicate (length xs) ()), foldl (\<lambda>d e. f e d) d xs)"
  by (induction xs arbitrary: d) (simp_all add: ret_def bnd_def writes_def)

lemma foldl_keeps: "(\<And>d e. g (f e d) = g d) \<Longrightarrow> g (foldl (\<lambda>d e. f e d) d xs) = g d"
  by (induction xs arbitrary: d) simp_all

definition batch_employees :: "string \<Rightarrow> string list \<Rightarrow> pay_db \<Rightarrow> pay_employee list" where
  "batch_employees org ids d = filter (\<lambda>e. em_org e = org \<and> em_id e \<in> set ids) (pd_employees d)"

text \<open>What the worker's transaction needs to go through.\<close>

definition computable :: "string \<Rightarrow> string \<Rightarrow> pay_db \<Rightarrow> bool" where
  "computable org period d \<longleftrightarrow> (\<exists>st. resolvePayrollStatutoryRule (map_of (pd_rules d) org) period = Inr st)"

lemma compute_succeeds:
  assumes "computable org (run_period run) d" and "batch_employees org ids d \<noteq> []"
  shows "\<exists>t d'. computeEmployeePayslips D org run currency ids d = (Inr (int (length (batch_employees org ids d)), t), d') \<and>
    pd_runs d' = pd_runs d \<and> pd_batches d' = pd_batches d \<and> pd_employees d' = pd_employees d \<and> pd_rules d' = pd_rules d"
proof -
  obtain st where st: "resolvePayrollStatutoryRule (map_of (pd_rules d) org) (run_period run) = Inr st"
    using assms(1) by (auto simp: computable_def)
  let ?es = "batch_employees org ids d"
  let ?f = "\<lambda>e. pd_slips_update (upsert_slip (new_slip D org st (map_of (pd_authorities d) org) run currency e))"
  let ?d = "foldl (\<lambda>d e. ?f e d) d ?es"
  have "computeEmployeePayslips D org run currency ids d =
      (Inr (int (length ?es), foldl add_totals zero_totals (map (slip_amounts D run) ?es)), ?d)"
    using assms(2) st unfolding computeEmployeePayslips_def
    by (simp add: bnd_def reads_def from_sum_def guard_def ret_def each_writes_run batch_employees_def)
  moreover have "pd_runs ?d = pd_runs d" "pd_batches ?d = pd_batches d" "pd_employees ?d = pd_employees d" "pd_rules ?d = pd_rules d"
    by (rule foldl_keeps, simp)+
  ultimately show ?thesis by blast
qed

lemma find_update_key:
  assumes "distinct (map k rows)" and "x \<in> set rows" and "P x" and "\<And>y. P y \<Longrightarrow> k y = k x" and "\<And>y. k (f y) = k y"
  shows "find (\<lambda>y. k y = k x) (updateMany P f rows) = Some (f x)"
  using assms(1,2)
proof (induction rows)
  case (Cons z zs)
  show ?case
  proof (cases "z = x")
    case True
    with assms(3,5) show ?thesis by simp
  next
    case False
    with Cons.prems have "k z \<noteq> k x" by (metis distinct.simps(2) imageI list.set_map list.simps(9) set_ConsD)
    with False Cons assms(4,5) show ?thesis by auto
  qed
qed simp

lemma find_key: "distinct (map k rows) \<Longrightarrow> x \<in> set rows \<Longrightarrow> find (\<lambda>y. k y = k x) rows = Some x"
  using find_update_key[of k rows x "\<lambda>y. k y = k x" "\<lambda>y. y"] by (simp add: updateMany_def cong: if_cong)

text \<open>The state between two batches of run \<open>i\<close>: the batches \<open>xs\<close> are left.\<close>

definition batches_left :: "string \<Rightarrow> pay_run \<Rightarrow> calc_batch list \<Rightarrow> pay_db \<Rightarrow> bool" where
  "batches_left org run xs d \<longleftrightarrow> calc_ok d \<and> distinct (map ba_id xs) \<and> distinct (map em_id (pd_employees d)) \<and>
     computable org (run_period run) d \<and>
     (\<exists>r \<in> set (pd_runs d). cr_id r = cr_id run \<and> cr_status r = ''PROCESSING'' \<and> cr_start r = cr_start run \<and>
        cr_expected r = done_count (cr_id run) (pd_batches d) + sum_list (map (\<lambda>b. int (length (ba_employeeIds b))) xs)) \<and>
     (\<forall>b \<in> set xs. b \<in> set (pd_batches d) \<and> ba_status b = ''PENDING'' \<and> ba_run b = cr_id run \<and> ba_org b = org \<and>
        ba_employeeIds b \<noteq> [] \<and> distinct (ba_employeeIds b) \<and>
        set (ba_employeeIds b) \<subseteq> em_id ` {e \<in> set (pd_employees d). em_org e = org}) \<and>
     (\<forall>b \<in> set (pd_batches d). ba_run b = cr_id run \<longrightarrow> b \<in> set xs \<or> ba_status b = ''COMPLETED'')"

lemma employees_counted:
  assumes "distinct (map em_id (pd_employees d))" and "distinct ids"
    and "set ids \<subseteq> em_id ` {e \<in> set (pd_employees d). em_org e = org}"
  shows "length (batch_employees org ids d) = length ids"
proof -
  have inj: "inj_on em_id (set (pd_employees d))" and d: "distinct (pd_employees d)"
    using assms(1) by (simp_all add: distinct_map)
  have "em_id ` set (batch_employees org ids d) = set ids" using assms(3) by (auto simp: batch_employees_def)
  moreover have "card (em_id ` set (batch_employees org ids d)) = card (set (batch_employees org ids d))"
    by (rule card_image, rule inj_on_subset[OF inj]) (auto simp: batch_employees_def)
  moreover have "card (set (batch_employees org ids d)) = length (batch_employees org ids d)"
    using d by (intro distinct_card) (simp add: batch_employees_def)
  ultimately show ?thesis using assms(2) by (metis distinct_card)
qed

definition claimed :: "time \<Rightarrow> calc_batch \<Rightarrow> calc_batch" where
  "claimed now b = b\<lparr>ba_status := ''PROCESSING'', ba_attempts := ba_attempts b + 1, ba_startedAt := Some now, ba_error := None,
     ba_updatedAt := now\<rparr>"

definition completed :: "time \<Rightarrow> int \<Rightarrow> pay_totals \<Rightarrow> calc_batch \<Rightarrow> calc_batch" where
  "completed now n t b = b\<lparr>ba_status := ''COMPLETED'', ba_processed := n, ba_failed := 0, ba_totals := Some t,
     ba_completedAt := Some now, ba_updatedAt := now\<rparr>"

lemma updated_twice:
  assumes "distinct (map ba_id rows)" and "x \<in> set rows" and "ba_status x = ''PENDING''"
  shows "updateMany (\<lambda>b. ba_id b = ba_id x \<and> ba_status b = ''PROCESSING'') (completed now n t)
      (updateMany (\<lambda>b. ba_id b = ba_id x \<and> ba_status b = ''PENDING'') (claimed now) rows) =
    updateMany (\<lambda>b. ba_id b = ba_id x) (\<lambda>b. completed now n t (claimed now b)) rows"
proof -
  have only: "b = x" if "b \<in> set rows" "ba_id b = ba_id x" for b
    using that assms(1,2) by (metis distinct_map inj_onD)
  show ?thesis unfolding updateMany_def map_map comp_def
  proof (intro map_cong refl)
    fix b assume "b \<in> set rows"
    then have "ba_id b = ba_id x \<Longrightarrow> ba_status b = ''PENDING''" using only assms(3) by blast
    then show "(if ba_id (if ba_id b = ba_id x \<and> ba_status b = ''PENDING'' then claimed now b else b) = ba_id x \<and>
        ba_status (if ba_id b = ba_id x \<and> ba_status b = ''PENDING'' then claimed now b else b) = ''PROCESSING''
       then completed now n t (if ba_id b = ba_id x \<and> ba_status b = ''PENDING'' then claimed now b else b)
       else (if ba_id b = ba_id x \<and> ba_status b = ''PENDING'' then claimed now b else b)) =
      (if ba_id b = ba_id x then completed now n t (claimed now b) else b)"
      by (cases "ba_id b = ba_id x") (simp_all add: claimed_def)
  qed
qed

text \<open>The worker's run on the first batch that is left, up to the completion of the run.\<close>

lemma work_one:
  assumes left: "batches_left org run (x # xs) d"
  obtains rn t d2 where
    "processPayRunBatch D now (ba_id x) d =
       bnd (finishBatch now (cr_id run) (cr_expected rn)) (\<lambda>_. ret (Some (int (length (ba_employeeIds x))))) d2"
    "rn \<in> set (pd_runs d)" "cr_id rn = cr_id run" "cr_status rn = ''PROCESSING''"
    "calc_ok d2" "pd_employees d2 = pd_employees d" "pd_rules d2 = pd_rules d"
    "pd_batches d2 = updateMany (\<lambda>b. ba_id b = ba_id x)
       (\<lambda>b. completed now (int (length (ba_employeeIds x))) t (claimed now b)) (pd_batches d)"
    "pd_runs d2 = updateMany (\<lambda>r. cr_id r = cr_id run)
       (\<lambda>r. r\<lparr>cr_processed := cr_processed r + int (length (ba_employeeIds x)), cr_totals := increment_totals (cr_totals r) t\<rparr>) (pd_runs d)"
proof -
  note L = left[unfolded batches_left_def]
  have ok: "calc_ok d" and em: "distinct (map em_id (pd_employees d))" and comp: "computable org (run_period run) d"
    using L by auto
  have x: "x \<in> set (pd_batches d)" "ba_status x = ''PENDING''" "ba_run x = cr_id run" "ba_org x = org"
    "ba_employeeIds x \<noteq> []" "distinct (ba_employeeIds x)"
    "set (ba_employeeIds x) \<subseteq> em_id ` {e \<in> set (pd_employees d). em_org e = org}" using L by auto
  obtain rn where rn: "rn \<in> set (pd_runs d)" "cr_id rn = cr_id run" "cr_status rn = ''PROCESSING''" "cr_start rn = cr_start run"
    using L by auto
  let ?n = "int (length (ba_employeeIds x))"
  let ?P = "\<lambda>b. ba_id b = ba_id x \<and> ba_status b = ''PENDING''"
  define d1 where "d1 = pd_batches_update (updateMany ?P (claimed now)) d"
  have claim: "claimBatch now (ba_id x) d = (Inr True, d1)"
  proof -
    have "countWhere ?P (pd_batches d) \<noteq> 0" using x by (auto simp: countWhere_def filter_empty_conv)
    then show ?thesis
      by (simp add: claimBatch_def update_rows_def bnd_def reads_def writes_def ret_def d1_def claimed_def[abs_def])
  qed
  have ok1: "calc_ok d1" using keepsD[OF keeps_claim ok claim] .
  have found: "find (\<lambda>b. ba_id b = ba_id x) (pd_batches d1) = Some (claimed now x)"
    using find_update_key[OF calc_okD(2)[OF ok] x(1), of ?P "claimed now"] x(2)
    by (simp add: d1_def claimed_def)
  have foundRun: "find (\<lambda>r. cr_id r = cr_id run) (pd_runs d1) = Some rn"
    using find_key[OF calc_okD(1)[OF ok] rn(1)] rn(2) by (simp add: d1_def)
  have period: "run_period rn = run_period run" using rn(4) by (simp add: run_period_def)
  have be: "batch_employees org (ba_employeeIds x) d1 = batch_employees org (ba_employeeIds x) d"
    by (simp add: batch_employees_def d1_def)
  have len: "length (batch_employees org (ba_employeeIds x) d1) = length (ba_employeeIds x)"
    using employees_counted[OF em x(6,7)] be by simp
  then have ne: "batch_employees org (ba_employeeIds x) d1 \<noteq> []" using x(5) by auto
  have "computable org (run_period rn) d1" using comp period by (simp add: computable_def d1_def)
  from compute_succeeds[OF this ne, of D "cr_currency rn"] len
  obtain t dc where c: "computeEmployeePayslips D org rn (cr_currency rn) (ba_employeeIds x) d1 = (Inr (?n, t), dc)"
    and same: "pd_runs dc = pd_runs d1" "pd_batches dc = pd_batches d1" "pd_employees dc = pd_employees d1" "pd_rules dc = pd_rules d1"
    by auto
  let ?Q = "\<lambda>b. ba_id b = ba_id x \<and> ba_status b = ''PROCESSING''"
  define d2 where "d2 = pd_runs_update (updateMany (\<lambda>r. cr_id r = cr_id run)
       (\<lambda>r. r\<lparr>cr_processed := cr_processed r + ?n, cr_totals := increment_totals (cr_totals r) t\<rparr>))
     (pd_batches_update (updateMany ?Q (completed now ?n t)) dc)"
  have "claimed now x \<in> set (pd_batches dc)" using find_SomeD[OF found] same by simp
  moreover have "?Q (claimed now x)" by (simp add: claimed_def)
  ultimately have count: "countWhere ?Q (pd_batches dc) \<noteq> 0"
    unfolding countWhere_def length_0_conv filter_empty_conv by blast
  have compute: "computeBatch D now (claimed now x) rn d1 = (Inr ?n, d2)"
    using c count foundRun same x(3,4) unfolding computeBatch_def
    by (simp add: tx_def bnd_def update_rows_def update_row_def find_row_def reads_def writes_def required_def ret_def
        claimed_def d2_def completed_def[abs_def])
  have known: "known_batch (claimed now x) rn d1"
    using find_SomeD[OF found] rn(2) x(3) unfolding known_batch_def by (auto intro!: bexI[of _ "claimed now x"] simp: claimed_def)
  have "processPayRunBatch D now (ba_id x) d =
      bnd (finishBatch now (cr_id run) (cr_expected rn)) (\<lambda>_. ret (Some ?n)) d2"
  proof -
    obtain y d3 where y: "finishBatch now (cr_id run) (cr_expected rn) d2 = (y, d3)"
      by (cases "finishBatch now (cr_id run) (cr_expected rn) d2")
    with finish_ok[OF y] show ?thesis
      using claim found foundRun compute x(3) unfolding processPayRunBatch_def
      by (simp add: bnd_def find_row_def reads_def required_def ret_def catching_def claimed_def)
  qed
  moreover have "calc_ok d2" by (rule calc_ok_compute[OF ok1 known compute])
  moreover have "pd_batches d2 = updateMany (\<lambda>b. ba_id b = ba_id x) (\<lambda>b. completed now ?n t (claimed now b)) (pd_batches d)"
    using updated_twice[OF calc_okD(2)[OF ok] x(1,2)] same by (simp add: d2_def d1_def)
  ultimately show thesis using that rn(1-3) same by (simp add: d2_def d1_def)
qed

definition offered :: "pay_run \<Rightarrow> int \<Rightarrow> pay_db \<Rightarrow> bool" where
  "offered run n d \<longleftrightarrow> calc_ok d \<and> (\<exists>r \<in> set (pd_runs d). cr_id r = cr_id run \<and> cr_status r = ''PENDING_APPROVAL'' \<and> cr_expected r = n)"

lemma process_one:
  assumes left: "batches_left org run (x # xs) d" and expected: "\<exists>r \<in> set (pd_runs d). cr_id r = cr_id run \<and> cr_expected r = e"
  shows "\<exists>d'. processPayRunBatch D now (ba_id x) d = (Inr (Some (int (length (ba_employeeIds x)))), d') \<and>
    (if xs = [] then offered run e d'
     else batches_left org run xs d' \<and> (\<exists>r \<in> set (pd_runs d'). cr_id r = cr_id run \<and> cr_expected r = e))"
proof (rule work_one[OF left, where D = D and now = now])
  fix rn t d2
  let ?n = "int (length (ba_employeeIds x))"
  let ?f = "\<lambda>b. completed now ?n t (claimed now b)"
  let ?g = "\<lambda>r. r\<lparr>cr_processed := cr_processed r + ?n, cr_totals := increment_totals (cr_totals r) t\<rparr>"
  assume run: "processPayRunBatch D now (ba_id x) d = bnd (finishBatch now (cr_id run) (cr_expected rn)) (\<lambda>_. ret (Some ?n)) d2"
    and rn: "rn \<in> set (pd_runs d)" "cr_id rn = cr_id run" "cr_status rn = ''PROCESSING''"
    and ok2: "calc_ok d2" and same: "pd_employees d2 = pd_employees d" "pd_rules d2 = pd_rules d"
    and bs: "pd_batches d2 = updateMany (\<lambda>b. ba_id b = ba_id x) ?f (pd_batches d)"
    and rs: "pd_runs d2 = updateMany (\<lambda>r. cr_id r = cr_id run) ?g (pd_runs d)"
  note L = left[unfolded batches_left_def]
  have ok: "calc_ok d" using L by auto
  have x: "x \<in> set (pd_batches d)" "ba_status x = ''PENDING''" "ba_run x = cr_id run" using L by auto
  have only: "r = rn" if "r \<in> set (pd_runs d)" "cr_id r = cr_id run" for r
    using that rn calc_okD(1)[OF ok] by (metis distinct_map inj_onD)
  have e: "cr_expected rn = e" using expected only by auto
  have start: "cr_start rn = cr_start run" and
    sum: "cr_expected rn = done_count (cr_id run) (pd_batches d) + (?n + sum_list (map (\<lambda>b. int (length (ba_employeeIds b))) xs))"
    using L only by auto
  have r2: "?g rn \<in> set (pd_runs d2)" unfolding rs set_updateMany using rn by force
  have one: "filter (\<lambda>b. ba_id b = ba_id x) (pd_batches d) = [x]" by (rule filter_one_key[OF calc_okD(2)[OF ok] x(1)])
  have count: "done_count (cr_id run) (pd_batches d2) = done_count (cr_id run) (pd_batches d) + ?n"
    using sum_updateMany_one[OF one, of "batch_count (cr_id run)" ?f] x
    by (simp add: bs done_count_def batch_count_def completed_def claimed_def)
  have members: "b \<in> set (pd_batches d2) \<longleftrightarrow> b = ?f x \<or> b \<in> set (pd_batches d) \<and> b \<noteq> x" for b
  proof -
    have "y = x" if "y \<in> set (pd_batches d)" "ba_id y = ba_id x" for y
      using that x calc_okD(2)[OF ok] by (metis distinct_map inj_onD)
    then show ?thesis unfolding bs set_updateMany using x(1) by auto
  qed
  have fx: "ba_status (?f x) = ''COMPLETED''" "ba_run (?f x) = cr_id run" using x by (simp_all add: completed_def claimed_def)
  show ?thesis
  proof (cases "xs = []")
    case True
    have all: "ba_status b = ''COMPLETED''" if "b \<in> set (pd_batches d2)" "ba_run b = cr_id run" for b
      using that members fx L True by auto
    then have zero: "countWhere (\<lambda>b. ba_run b = cr_id run \<and> ba_status b \<noteq> ''COMPLETED'') (pd_batches d2) = 0"
      by (auto simp: countWhere_def filter_empty_conv)
    let ?h = "\<lambda>r. r\<lparr>cr_status := ''PENDING_APPROVAL'', cr_computedAt := Some now, cr_failureReason := None\<rparr>"
    let ?P = "\<lambda>r. cr_id r = cr_id run \<and> cr_status r = ''PROCESSING'' \<and> cr_processed r = cr_expected rn"
    define d3 where "d3 = pd_runs_update (updateMany ?P ?h) d2"
    have fin: "finishBatch now (cr_id run) (cr_expected rn) d2 = (Inr (), d3)"
      using zero by (simp add: finishBatch_def count_rows_def update_rows_def bnd_def reads_def writes_def ret_def d3_def)
    have "cr_processed (?g rn) = done_count (cr_id run) (pd_batches d2)"
      using calc_okD(5)[OF ok2 r2] rn(2) by (simp add: run_ok_def)
    then have "?P (?g rn)" using rn sum count True by simp
    with r2 have "?h (?g rn) \<in> set (pd_runs d3)" by (simp add: d3_def set_updateMany)
    then have "\<exists>r \<in> set (pd_runs d3). cr_id r = cr_id run \<and> cr_status r = ''PENDING_APPROVAL'' \<and> cr_expected r = e"
      using rn(2) e by (intro bexI[of _ "?h (?g rn)"]) simp_all
    moreover have "calc_ok d3"
    proof (rule calc_ok_finish[OF ok2 _ _ fin])
      show "\<exists>b \<in> set (pd_batches d2). ba_run b = cr_id run" using members fx by blast
      fix r assume r: "r \<in> set (pd_runs d2)" "cr_id r = cr_id run"
      then have "r = ?g rn" using r2 rn(2) calc_okD(1)[OF ok2] by (metis (no_types, lifting) distinct_map inj_onD pay_run.select_convs(1) pay_run.surjective pay_run.update_convs(10) pay_run.update_convs(14))
      then show "cr_expected rn = 0 \<or> cr_expected rn = cr_expected r" by simp
    qed
    ultimately have "offered run e d3" by (simp add: offered_def)
    then show ?thesis using run fin True by (simp add: bnd_def ret_def)
  next
    case False
    have "hd xs \<in> set (pd_batches d2)" "ba_run (hd xs) = cr_id run" "ba_status (hd xs) = ''PENDING''"
      using L False members by (cases xs; auto)+
    then have "countWhere (\<lambda>b. ba_run b = cr_id run \<and> ba_status b \<noteq> ''COMPLETED'') (pd_batches d2) \<noteq> 0"
      by (auto simp: countWhere_def filter_empty_conv)
    then have fin: "finishBatch now (cr_id run) (cr_expected rn) d2 = (Inr (), d2)"
      by (simp add: finishBatch_def count_rows_def bnd_def reads_def ret_def)
    have "batches_left org run xs d2"
      unfolding batches_left_def
    proof (intro conjI)
      show "\<exists>r \<in> set (pd_runs d2). cr_id r = cr_id run \<and> cr_status r = ''PROCESSING'' \<and> cr_start r = cr_start run \<and>
        cr_expected r = done_count (cr_id run) (pd_batches d2) + sum_list (map (\<lambda>b. int (length (ba_employeeIds b))) xs)"
        using rn start sum count by (intro bexI[OF _ r2]) simp
      show "computable org (run_period run) d2" using L same by (simp add: computable_def)
      show "\<forall>b \<in> set xs. b \<in> set (pd_batches d2) \<and> ba_status b = ''PENDING'' \<and> ba_run b = cr_id run \<and> ba_org b = org \<and>
        ba_employeeIds b \<noteq> [] \<and> distinct (ba_employeeIds b) \<and>
        set (ba_employeeIds b) \<subseteq> em_id ` {e \<in> set (pd_employees d2). em_org e = org}"
        using L members same by auto
      show "\<forall>b \<in> set (pd_batches d2). ba_run b = cr_id run \<longrightarrow> b \<in> set xs \<or> ba_status b = ''COMPLETED''"
        using L members fx by auto
    qed (use ok2 L same in auto)
    moreover have "\<exists>r \<in> set (pd_runs d2). cr_id r = cr_id run \<and> cr_expected r = e"
      using rn(2) e by (intro bexI[OF _ r2]) simp
    ultimately show ?thesis using run fin False by (simp add: bnd_def ret_def)
  qed
qed

section \<open>All batches\<close>

lemma process_all:
  assumes "batches_left org run xs d" and "xs \<noteq> []" and "\<exists>r \<in> set (pd_runs d). cr_id r = cr_id run \<and> cr_expected r = e"
  shows "\<exists>rs d'. each (\<lambda>b. processPayRunBatch D now (ba_id b)) xs d = (Inr rs, d') \<and> length rs = length xs \<and> offered run e d'"
  using assms
proof (induction xs arbitrary: d)
  case (Cons x xs)
  from process_one[OF Cons.prems(1,3), where D = D and now = now]
  obtain d1 where d1: "processPayRunBatch D now (ba_id x) d = (Inr (Some (int (length (ba_employeeIds x)))), d1)"
    and next_state: "if xs = [] then offered run e d1
     else batches_left org run xs d1 \<and> (\<exists>r \<in> set (pd_runs d1). cr_id r = cr_id run \<and> cr_expected r = e)" by blast
  show ?case
  proof (cases "xs = []")
    case True
    with d1 next_state show ?thesis by (simp add: bnd_def ret_def)
  next
    case False
    with next_state Cons.IH[of d1] obtain rs d2
      where "each (\<lambda>b. processPayRunBatch D now (ba_id b)) xs d1 = (Inr rs, d2)" "length rs = length xs" "offered run e d2"
      by auto
    with d1 show ?thesis by (simp add: bnd_def ret_def)
  qed
qed simp

section \<open>Dividing the employees\<close>

lemma insert_id_mset: "mset (insert_id x xs) = add_mset x (mset xs)"
  by (induction xs) auto

lemma sort_ids_mset: "mset (sort_ids xs) = mset xs"
  by (induction xs) (simp_all add: sort_ids_def insert_id_mset)

lemma concat_pages: "concat (id_pages xs) = xs"
  by (induction xs rule: id_pages.induct) simp_all

lemma page_nonempty: "p \<in> set (id_pages xs) \<Longrightarrow> p \<noteq> []"
  by (induction xs rule: id_pages.induct) auto

lemma page_part: "p \<in> set (id_pages xs) \<Longrightarrow> distinct xs \<Longrightarrow> distinct p \<and> set p \<subseteq> set xs"
  using concat_pages[of xs] by (metis UN_upper distinct_concat_iff set_concat)

lemma eligible_ids_from:
  assumes "distinct (map em_id (pd_employees d))"
  shows "distinct (eligible_ids run d)" "set (eligible_ids run d) \<subseteq> em_id ` {e \<in> set (pd_employees d). em_org e = cr_org run}"
proof -
  let ?xs = "map em_id (filter (payRunEmployeeWhere (cr_org run) (cr_start run) (cr_end run)) (pd_employees d))"
  have "mset (eligible_ids run d) = mset ?xs" by (simp add: eligible_ids_def sort_ids_mset del: mset_map mset_filter)
  moreover have "distinct ?xs" using assms by (auto simp: distinct_map intro: inj_on_subset)
  ultimately show "distinct (eligible_ids run d)" by (metis mset_eq_imp_distinct_iff)
  have "set (eligible_ids run d) = set ?xs" using \<open>mset (eligible_ids run d) = mset ?xs\<close> by (metis mset_eq_setD)
  then show "set (eligible_ids run d) \<subseteq> em_id ` {e \<in> set (pd_employees d). em_org e = cr_org run}"
    by (auto simp: payRunEmployeeWhere_def)
qed

abbreviation "batch_of now ids run \<equiv> (\<lambda>(i, employees). new_batch now ids run i employees)"

lemma upsert_all:
  assumes "\<forall>b \<in> set (pd_batches d). ba_run b \<noteq> cr_id run \<and> ba_id b \<notin> ids ` fst ` set ps"
    and "distinct (map fst ps)" and "inj ids"
  shows "each (\<lambda>p. upsert_batch (batch_of now ids run p)) ps d =
    (Inr (replicate (length ps) ()), pd_batches_update (\<lambda>rows. rows @ map (batch_of now ids run) ps) d)"
proof -
  have "each (\<lambda>p. upsert_batch (batch_of now ids run p)) ps (pd_batches_update (\<lambda>rows. rows @ map (batch_of now ids run) qs) d) =
      (Inr (replicate (length ps) ()), pd_batches_update (\<lambda>rows. rows @ map (batch_of now ids run) (qs @ ps)) d)"
    if "distinct (map fst (qs @ ps))" "\<forall>b \<in> set (pd_batches d). ba_run b \<noteq> cr_id run \<and> ba_id b \<notin> ids ` fst ` set ps" for qs
    using that
  proof (induction ps arbitrary: qs)
    case Nil
    then show ?case by (simp add: ret_def)
  next
    case (Cons p ps)
    obtain j es where p: "p = (j, es)" by (cases p)
    let ?b = "new_batch now ids run j es"
    let ?d = "pd_batches_update (\<lambda>rows. rows @ map (batch_of now ids run) qs) d"
    have old: "\<not> batch_clash ?b b \<and> \<not> (ba_run b = ba_run ?b \<and> ba_index b = ba_index ?b)" if "b \<in> set (pd_batches ?d)" for b
    proof (cases "b \<in> set (pd_batches d)")
      case True
      with Cons.prems(2) p show ?thesis by (auto simp: batch_clash_def new_batch_def)
    next
      case False
      with that obtain k fs where "(k, fs) \<in> set qs" "b = new_batch now ids run k fs" by auto
      moreover from this Cons.prems(1) p have "k \<noteq> j" by (auto simp: image_iff)
      ultimately show ?thesis using assms(3) by (auto simp: batch_clash_def new_batch_def dest: injD)
    qed
    then have none: "find (\<lambda>x. ba_run x = ba_run ?b \<and> ba_index x = ba_index ?b) (pd_batches ?d) = None"
      unfolding find_None_iff by blast
    have free: "\<not> clashes batch_clash ?b (pd_batches ?d)" using old by (auto simp: clashes_def)
    have "upsert_batch ?b ?d = (Inr (), pd_batches_update (\<lambda>rows. rows @ [?b]) ?d)"
      using none free unfolding upsert_batch_def
      by (simp add: bnd_def find_row_def reads_def create_row_def guard_def writes_def ret_def del: pay_db.simps)
    moreover have "pd_batches_update (\<lambda>rows. rows @ [?b]) ?d =
        pd_batches_update (\<lambda>rows. rows @ map (batch_of now ids run) (qs @ [p])) d" by (simp add: p comp_def)
    ultimately have first: "upsert_batch (batch_of now ids run p) ?d =
        (Inr (), pd_batches_update (\<lambda>rows. rows @ map (batch_of now ids run) (qs @ [p])) d)" by (simp only: p prod.case)
    show ?case using Cons.IH[of "qs @ [p]"] Cons.prems first by (simp add: bnd_def ret_def)
  qed
  note all = this[of "[]"]
  have "pd_batches_update (\<lambda>rows. rows) d = d" by (rule pay_db.equality) simp_all
  with all assms show ?thesis by simp
qed

lemma create_run_batches:
  assumes "\<forall>b \<in> set (pd_batches d). ba_run b \<noteq> cr_id run \<and> (\<forall>j. ba_id b \<noteq> ids j)" and "inj ids"
  shows "create_batches now ids (length (id_pages (eligible_ids run d))) run d =
    (Inr (int (length (eligible_ids run d))),
     pd_batches_update (\<lambda>rows. rows @ map (batch_of now ids run)
       (zip [0..<length (id_pages (eligible_ids run d))] (id_pages (eligible_ids run d)))) d)"
proof -
  let ?ps = "zip [0..<length (id_pages (eligible_ids run d))] (id_pages (eligible_ids run d))"
  have up: "each (\<lambda>(i, employees). upsert_batch (new_batch now ids run i employees)) ?ps d =
      (Inr (replicate (length ?ps) ()), pd_batches_update (\<lambda>rows. rows @ map (batch_of now ids run) ?ps) d)"
    using upsert_all[of d run ids ?ps now] assms by (auto simp: case_prod_unfold)
  show ?thesis unfolding create_batches_def
    by (simp add: bnd_def reads_def ret_def up concat_pages del: length_zip)
qed

section \<open>The whole run\<close>

lemma int_sum_length: "(\<Sum>p\<leftarrow>ps. int (length p)) = int (sum_list (map length ps))"
  by (induction ps) simp_all

lemma done_none_complete:
  "(\<And>b. b \<in> set bs \<Longrightarrow> ba_run b = i \<Longrightarrow> ba_status b \<noteq> ''COMPLETED'') \<Longrightarrow> done_count i bs = 0"
  by (induction bs) (auto simp: done_count_def batch_count_def)

lemma direct_run:
  assumes ok: "calc_ok d" and found: "processing_run i d = Some run"
    and none: "\<forall>b \<in> set (pd_batches d). ba_run b \<noteq> i \<and> (\<forall>j. ba_id b \<noteq> ids j)" and ids: "inj ids"
    and em: "distinct (map em_id (pd_employees d))" and some: "eligible_ids run d \<noteq> []"
    and comp: "computable (cr_org run) (run_period run) d"
  shows "\<exists>d'. initializePayRunCalculation D now ids True None i d =
      (Inr (ProcessedBatches (length (id_pages (eligible_ids run d)))), d') \<and>
    offered run (int (length (eligible_ids run d))) d'"
proof -
  have run: "cr_id run = i" "cr_status run = ''PROCESSING''" "run \<in> set (pd_runs d)"
    using found unfolding processing_run_def by (auto dest: find_SomeD)
  let ?E = "eligible_ids run d" let ?pages = "id_pages ?E"
  let ?ps = "zip [0..<length ?pages] ?pages"
  define news where "news = map (batch_of now ids run) ?ps"
  define d1 where "d1 = pd_batches_update (\<lambda>rows. rows @ news) d"
  let ?e = "int (length ?E)"
  let ?f = "\<lambda>r. r\<lparr>cr_expected := ?e, cr_employeeCount := ?e\<rparr>"
  define d2 where "d2 = pd_runs_update (updateMany (\<lambda>r. cr_id r = i) ?f) d1"
  have zero: "countWhere (\<lambda>b. ba_run b = i) (pd_batches d) = 0"
    using none by (auto simp: countWhere_def filter_empty_conv)
  have c: "create_batches now ids (length ?pages) run d = (Inr ?e, d1)"
    using create_run_batches[of d run ids now] none ids run(1) by (simp add: d1_def news_def)
  have e: "expect_employees i ?e d1 = (Inr True, d2)"
  proof -
    have "find (\<lambda>r. cr_id r = i) (pd_runs d1) = Some run"
      using find_key[OF calc_okD(1)[OF ok] run(3)] run(1) by (simp add: d1_def)
    then show ?thesis using some
      by (simp add: expect_employees_def update_row_def find_row_def bnd_def reads_def required_def writes_def ret_def d2_def)
  qed
  have ok1: "calc_ok d1 \<and> still_processing i [] d1"
    using keepsD[OF keeps_create_batches[OF run(1), where org = "[]"] _ c] ok processing_found[OF found] by blast
  have ok2: "calc_ok d2" using calc_ok_expect[OF _ _ e] ok1 by blast
  have new: "ba_status b = ''PENDING'' \<and> ba_run b = i \<and> ba_org b = cr_org run \<and> ba_employeeIds b \<in> set ?pages" if "b \<in> set news" for b
    using that run(1) by (auto simp: news_def new_batch_def dest: set_zip_rightD)
  have keys: "map ba_index news = [0..<length ?pages]" "map ba_employeeIds news = ?pages" "map ba_id news = map ids [0..<length ?pages]"
    by (auto simp: news_def new_batch_def comp_def case_prod_unfold map_fst_zip map_snd_zip intro!: nth_equalityI)
  have pending: "sort_key ba_index (filter (\<lambda>b. ba_run b = i \<and> ba_status b = ''PENDING'') (pd_batches d2)) = news"
  proof -
    have "filter (\<lambda>b. ba_run b = i \<and> ba_status b = ''PENDING'') (pd_batches d) = []" using none by (auto simp: filter_empty_conv)
    moreover have "filter (\<lambda>b. ba_run b = i \<and> ba_status b = ''PENDING'') news = news" using new by (simp add: filter_id_conv)
    ultimately have "filter (\<lambda>b. ba_run b = i \<and> ba_status b = ''PENDING'') (pd_batches d2) = news" by (simp add: d2_def d1_def)
    then show ?thesis by (simp add: sort_key_id_if_sorted keys)
  qed
  have row: "?f run \<in> set (pd_runs d2)" using run by (simp add: d2_def d1_def set_updateMany)
  note ids_ok = eligible_ids_from[OF em, of run]
  have left: "batches_left (cr_org run) run news d2"
    unfolding batches_left_def
  proof (intro conjI)
    show "distinct (map ba_id news)" unfolding keys distinct_map using inj_on_subset[OF ids subset_UNIV] by simp
    have "done_count i (pd_batches d2) = 0"
    proof (rule done_none_complete)
      fix b assume "b \<in> set (pd_batches d2)" "ba_run b = i"
      with none have "b \<in> set news" by (simp add: d2_def d1_def) blast
      then show "ba_status b \<noteq> ''COMPLETED''" using new[of b] by simp
    qed
    moreover have "sum_list (map (\<lambda>b. int (length (ba_employeeIds b))) news) = ?e"
    proof -
      have "sum_list (map (\<lambda>b. int (length (ba_employeeIds b))) news) = sum_list (map (\<lambda>p. int (length p)) (map ba_employeeIds news))"
        by (simp add: comp_def)
      also have "\<dots> = int (length (concat ?pages))"
        by (simp only: keys length_concat int_sum_length)
      finally show ?thesis by (simp add: concat_pages)
    qed
    ultimately show "\<exists>r \<in> set (pd_runs d2). cr_id r = cr_id run \<and> cr_status r = ''PROCESSING'' \<and> cr_start r = cr_start run \<and>
        cr_expected r = done_count (cr_id run) (pd_batches d2) + sum_list (map (\<lambda>b. int (length (ba_employeeIds b))) news)"
      using run by (intro bexI[OF _ row]) simp
    show "\<forall>b \<in> set news. b \<in> set (pd_batches d2) \<and> ba_status b = ''PENDING'' \<and> ba_run b = cr_id run \<and> ba_org b = cr_org run \<and>
        ba_employeeIds b \<noteq> [] \<and> distinct (ba_employeeIds b) \<and>
        set (ba_employeeIds b) \<subseteq> em_id ` {e \<in> set (pd_employees d2). em_org e = cr_org run}"
    proof
      fix b assume b: "b \<in> set news"
      with new have p: "ba_employeeIds b \<in> set ?pages" by blast
      show "b \<in> set (pd_batches d2) \<and> ba_status b = ''PENDING'' \<and> ba_run b = cr_id run \<and> ba_org b = cr_org run \<and>
        ba_employeeIds b \<noteq> [] \<and> distinct (ba_employeeIds b) \<and>
        set (ba_employeeIds b) \<subseteq> em_id ` {e \<in> set (pd_employees d2). em_org e = cr_org run}"
        using b new[OF b] run(1) page_nonempty[OF p] page_part[OF p ids_ok(1)] ids_ok(2) by (auto simp: d2_def d1_def)
    qed
    show "\<forall>b \<in> set (pd_batches d2). ba_run b = cr_id run \<longrightarrow> b \<in> set news \<or> ba_status b = ''COMPLETED''"
      using none run(1) by (simp add: d2_def d1_def) blast
  qed (use ok2 em comp in \<open>simp_all add: d2_def d1_def computable_def\<close>)
  have "news \<noteq> []" using some keys(2) by (cases ?E) auto
  then obtain rs d3 where each: "each (\<lambda>b. processPayRunBatch D now (ba_id b)) news d2 = (Inr rs, d3)"
    and "length rs = length news" and off: "offered run ?e d3"
    using process_all[OF left, of ?e D now] row run(1) by fastforce
  moreover have "length news = length ?pages" using keys(2) by (metis length_map)
  ultimately have "process_pending D now None i d2 = (Inr (length ?pages), d3)"
    unfolding process_pending_def using pending by (simp add: bnd_def reads_def ret_def)
  then have "initializePayRunCalculation D now ids True None i d = (Inr (ProcessedBatches (length ?pages)), d3)"
    using found zero c e unfolding initializePayRunCalculation_def
    by (simp add: bnd_def reads_def count_rows_def ret_def)
  with off show ?thesis by blast
qed

end
