(* ===== verification/PayrollPeriods.thy ===== *)
theory PayrollPeriods
  imports PayrollLife
begin

text \<open>
  What no worker changes about a payroll run: its organization and its period, and, once its batches
  are there, the number of employees it expects. \<open>run_view\<close> is the interface of an invariant of this
  kind; its lemmas take it through every step but the creation and the initialization of a run.
\<close>

section \<open>Changes of a run that keep its plan\<close>

definition same_plan :: "pay_run \<Rightarrow> pay_run \<Rightarrow> bool" where
  "same_plan r r' \<longleftrightarrow> cr_id r' = cr_id r \<and> cr_org r' = cr_org r \<and> cr_start r' = cr_start r \<and> cr_end r' = cr_end r \<and>
     cr_expected r' = cr_expected r \<and>
     (cr_status r' = cr_status r \<or> cr_status r' \<in> {''PENDING_APPROVAL'', ''APPROVED'', ''FAILED''})"

lemma same_planD:
  assumes "same_plan r r'"
  shows "cr_id r' = cr_id r \<and> cr_org r' = cr_org r \<and> cr_start r' = cr_start r \<and> cr_end r' = cr_end r"
    and "cr_status r \<noteq> ''CANCELLED'' \<Longrightarrow> cr_status r' \<noteq> ''CANCELLED''" and "cr_expected r' = cr_expected r"
  using assms by (auto simp: same_plan_def)

locale run_view =
  fixes I :: "pay_db \<Rightarrow> bool"
  assumes run_change: "(\<And>r. same_plan r (f r)) \<Longrightarrow> I d \<Longrightarrow> I (pd_runs_update (updateMany P f) d)"
    and batch_change: "(\<And>b. ba_run (g b) = ba_run b) \<Longrightarrow> I d \<Longrightarrow> I (pd_batches_update (updateMany Q g) d)"
    and batch_new: "I d \<Longrightarrow> I (pd_batches_update (\<lambda>rows. rows @ [b]) d)"
    and elsewhere: "I d \<Longrightarrow> pd_runs d' = pd_runs d \<Longrightarrow> pd_batches d' = pd_batches d \<Longrightarrow> I d'"
begin

lemma keeps_run_change:
  assumes "\<And>r. same_plan r (f r)"
  shows "keeps I (update_rows pd_runs pd_runs_update P f)" "keeps I (update_row pd_runs pd_runs_update P f)"
  by (rule keeps_update_rows keeps_update_row, rule run_change[OF assms], assumption)+

lemma keeps_batch_change:
  assumes "\<And>b. ba_run (g b) = ba_run b"
  shows "keeps I (update_rows pd_batches pd_batches_update Q g)" "keeps I (update_row pd_batches pd_batches_update Q g)"
  by (rule keeps_update_rows keeps_update_row, rule batch_change[OF assms], assumption)+

lemma keeps_elsewhere:
  "keeps I (writes (pd_slips_update h))" "keeps I (audit_pay Y now org user action resource i summary metadata)"
  by (rule keeps_writes keeps_pay_audit, erule elsewhere, simp_all)+

lemmas keeps_view = keeps_run_change keeps_batch_change keeps_elsewhere

lemma keeps_workers:
  "keeps I (claimBatch now i)" "keeps I (computeBatch D now batch run)" "keeps I (finishBatch now i e)"
  "keeps I (returnBatch now i message)" "keeps I (failPayRunBatch now i message)" "keeps I (recover_batches now)"
  "keeps I (approvePayRun Y now org i user)"
  unfolding claimBatch_def computeBatch_def finishBatch_def returnBatch_def failPayRunBatch_def recover_batches_def
    approvePayRun_def computeEmployeePayslips_def
  by (intro keeps_rules keeps_tx keeps_view; simp add: same_plan_def)+

lemma keeps_batches: "keeps I (create_batches now ids k run)"
  unfolding create_batches_def upsert_batch_def
  by (intro keeps_rules; (rule keeps_create_row)?; (erule batch_new)?; auto intro!: keeps_rules keeps_create_row batch_new split: prod.split)

lemma step:
  assumes "calc_step D Y d d'" and "I d"
    and create: "\<And>n org inp user r. createAndComputePayRun Y n org inp user d = (r, d') \<Longrightarrow> I d'"
    and expect: "\<And>d1 i e x. countWhere (\<lambda>b. ba_run b = i) (pd_batches d) = 0 \<Longrightarrow> I d1 \<Longrightarrow> expect_employees i e d1 = (x, d') \<Longrightarrow> I d'"
  shows "I d'"
  using assms(1)
proof (cases rule: calc_step.cases)
  case (create n org inp user r1)
  then show ?thesis using assms(3) by blast
next
  case (initialize now ids lmt i r2)
  from initialize show ?thesis
  proof (rule initialize_run)
    fix run assume "\<exists>x. create_batches now ids (length (id_pages (eligible_ids run d))) run d = (x, d')"
    then show ?thesis using keepsD[OF keeps_batches \<open>I d\<close>] by blast
  next
    fix run e d1 x
    assume none: "countWhere (\<lambda>b. ba_run b = i) (pd_batches d) = 0"
      and c: "create_batches now ids (length (id_pages (eligible_ids run d))) run d = (Inr e, d1)"
      and x: "expect_employees i e d1 = (x, d')"
    show ?thesis by (rule expect[OF none keepsD[OF keeps_batches \<open>I d\<close> c] x])
  qed (use \<open>I d\<close> in simp)
next
  case (interrupted i run now ids k r3)
  then show ?thesis using keepsD[OF keeps_batches \<open>I d\<close>] by blast
next
  case (surroundings)
  then show ?thesis using elsewhere[OF \<open>I d\<close>] by blast
next
  case (claim now i r4)
  from keepsD[OF keeps_workers(1) \<open>I d\<close> this] show ?thesis .
next
  case (compute batch run now r5)
  from keepsD[OF keeps_workers(2) \<open>I d\<close> this(2)] show ?thesis .
next
  case (finish i e now r6)
  from keepsD[OF keeps_workers(3) \<open>I d\<close> this(3)] show ?thesis .
next
  case (give_back now i message r7)
  from keepsD[OF keeps_workers(4) \<open>I d\<close> this] show ?thesis .
next
  case (give_up now i message r8)
  from keepsD[OF keeps_workers(5) \<open>I d\<close> this] show ?thesis .
next
  case (recover now r9)
  from keepsD[OF keeps_workers(6) \<open>I d\<close> this] show ?thesis .
next
  case (approve now org i user r10)
  from keepsD[OF keeps_workers(7) \<open>I d\<close> this] show ?thesis .
qed

end

section \<open>The periods of an organization\<close>

definition apart :: "pay_run \<Rightarrow> pay_run \<Rightarrow> bool" where
  "apart a b \<longleftrightarrow> (cr_org a = cr_org b \<longrightarrow> cr_end a < cr_start b \<or> cr_end b < cr_start a)"

definition periods_apart :: "pay_db \<Rightarrow> bool" where
  "periods_apart d \<longleftrightarrow> sorted_wrt apart (pd_runs d) \<and> (\<forall>r \<in> set (pd_runs d). cr_status r \<noteq> ''CANCELLED'')"

definition occupied :: "string \<Rightarrow> string \<Rightarrow> time \<Rightarrow> time \<Rightarrow> pay_db \<Rightarrow> bool" where
  "occupied i org start finish d \<longleftrightarrow> (\<exists>r \<in> set (pd_runs d). cr_id r = i \<and> cr_org r = org \<and> cr_start r = start \<and>
     cr_end r = finish \<and> cr_status r \<noteq> ''CANCELLED'')"

lemma apart_update:
  assumes "\<And>r. cr_org (f r) = cr_org r \<and> cr_start (f r) = cr_start r \<and> cr_end (f r) = cr_end r" and "sorted_wrt apart rows"
  shows "sorted_wrt apart (updateMany P f rows)"
  using assms by (auto simp: updateMany_def sorted_wrt_map apart_def if_distrib elim!: sorted_wrt_mono_rel[rotated])

lemma periods_change:
  assumes "\<And>r. cr_org (f r) = cr_org r \<and> cr_start (f r) = cr_start r \<and> cr_end (f r) = cr_end r"
    and "\<And>r. cr_status r \<noteq> ''CANCELLED'' \<Longrightarrow> cr_status (f r) \<noteq> ''CANCELLED''" and "periods_apart d"
  shows "periods_apart (pd_runs_update (updateMany P f) d)"
  using assms apart_update[OF assms(1)] by (auto simp: periods_apart_def set_updateMany)

lemma occupied_change:
  assumes "\<And>r. cr_id (f r) = cr_id r \<and> cr_org (f r) = cr_org r \<and> cr_start (f r) = cr_start r \<and> cr_end (f r) = cr_end r"
    and "\<And>r. cr_status r \<noteq> ''CANCELLED'' \<Longrightarrow> cr_status (f r) \<noteq> ''CANCELLED''" and "occupied i org start finish d"
  shows "occupied i org start finish (pd_runs_update (updateMany P f) d)"
proof -
  obtain r where r: "r \<in> set (pd_runs d)" "cr_id r = i \<and> cr_org r = org \<and> cr_start r = start \<and> cr_end r = finish \<and> cr_status r \<noteq> ''CANCELLED''"
    using assms(3) by (auto simp: occupied_def)
  have "(if P r then f r else r) \<in> set (pd_runs (pd_runs_update (updateMany P f) d))" using r(1) by (simp add: updateMany_def)
  then show ?thesis unfolding occupied_def by (rule bexI[rotated]) (use r(2) assms(1,2) in simp)
qed

interpretation periods: run_view periods_apart
proof
  fix f :: "pay_run \<Rightarrow> pay_run" and d P assume f: "\<And>r. same_plan r (f r)" and "periods_apart d"
  then show "periods_apart (pd_runs_update (updateMany P f) d)"
    by (intro periods_change) (use same_planD(1,2)[OF f] in blast)+
qed (simp_all add: periods_apart_def)

interpretation place: run_view "occupied i org start finish" for i org start finish
proof
  fix f :: "pay_run \<Rightarrow> pay_run" and d P assume f: "\<And>r. same_plan r (f r)" and "occupied i org start finish d"
  then show "occupied i org start finish (pd_runs_update (updateMany P f) d)"
    by (intro occupied_change) (use same_planD(1,2)[OF f] in blast)+
qed (simp_all add: occupied_def)

lemma keeps_expect:
  "keeps periods_apart (expect_employees i e)" "keeps (occupied j org start finish) (expect_employees i e)"
  unfolding expect_employees_def
  by (intro keeps_rules keeps_update_row; (erule periods_change[rotated 2] occupied_change[rotated 2]; simp))+

lemma create_effect:
  assumes "createAndComputePayRun Y n org inp user d = (r, d')"
  obtains "pd_runs d' = pd_runs d" "pd_batches d' = pd_batches d"
  | currency where "pd_runs d' = pd_runs d @ [new_run (fr_id n) org inp currency]" "pd_batches d' = pd_batches d"
      "\<forall>x \<in> set (pd_runs d). \<not> (cr_org x = org \<and> cr_status x \<noteq> ''CANCELLED'' \<and>
         cr_start x \<le> day_end (pi_to inp) \<and> day_start (pi_from inp) \<le> cr_end x)"
proof -
  have same: "keeps (\<lambda>x. pd_runs x = pd_runs d1 \<and> pd_batches x = pd_batches d1) (bnd (audit_pay Y now o1 user action resource i summary metadata) (\<lambda>_. ret y))"
    for d1 now o1 action resource i summary metadata and y :: pay_run by (intro keeps_rules keeps_pay_audit) simp
  define currency where "currency = (case map_of (pd_settingsCurrency d) org of Some c \<Rightarrow> c
            | None \<Rightarrow> (case map_of (pd_orgCurrency d) org of Some c \<Rightarrow> c | None \<Rightarrow> ''NGN''))"
  let ?tx = "tx (
       bnd (find_row pd_runs (\<lambda>r. cr_org r = org \<and> cr_status r \<noteq> ''CANCELLED'' \<and>
              cr_start r \<le> day_end (pi_to inp) \<and> day_start (pi_from inp) \<le> cr_end r)) (\<lambda>overlap.
       bnd (guard (overlap = None) (conflict ''A payroll run already exists for an overlapping period'')) (\<lambda>_.
       create_row pd_runs pd_runs_update run_clash (new_run (fr_id n) org inp currency))))"
  obtain q d1 where q: "?tx d = (q, d1)" by (cases "?tx d")
  show thesis
  proof (cases q)
    case (Inl e)
    with q have "d1 = d" by (auto simp: run_simps)
    with assms q Inl have "d' = d" unfolding createAndComputePayRun_def currency_def by (simp add: bnd_def reads_def)
    then show ?thesis using that(1) by simp
  next
    case (Inr run)
    with q have d1: "pd_runs d1 = pd_runs d @ [new_run (fr_id n) org inp currency]" "pd_batches d1 = pd_batches d"
      and free: "\<forall>x \<in> set (pd_runs d). \<not> (cr_org x = org \<and> cr_status x \<noteq> ''CANCELLED'' \<and>
         cr_start x \<le> day_end (pi_to inp) \<and> day_start (pi_from inp) \<le> cr_end x)"
      by (auto simp: run_simps find_None_iff)
    have "bnd (audit_pay Y (fr_now n) org user ''PAYROLL_CALCULATION_QUEUED'' ''PAYROLL_RUN'' (cr_id run)
            (''Queued payroll '' @ cr_name run)
            (Some (JObj [(''periodStart'', JStr (pi_from inp)), (''periodEnd'', JStr (pi_to inp)),
              (''newStatus'', JStr ''PROCESSING'')]))) (\<lambda>_. ret run) d1 = (r, d')"
      using assms q Inr unfolding createAndComputePayRun_def currency_def by (simp add: bnd_def reads_def)
    from keepsD[OF same _ this] have "pd_runs d' = pd_runs d1 \<and> pd_batches d' = pd_batches d1" by blast
    with d1 free show ?thesis using that(2) by simp
  qed
qed

lemma periods_created:
  assumes "createAndComputePayRun Y n org inp user d = (r, d')" and ok: "periods_apart d"
  shows "periods_apart d'"
  using assms(1)
proof (cases rule: create_effect)
  case 1
  with ok show ?thesis by (simp add: periods_apart_def)
next
  case (2 currency)
  from ok 2(3) have "\<forall>x \<in> set (pd_runs d). apart x (new_run (fr_id n) org inp currency)"
    by (force simp: periods_apart_def apart_def new_run_def)
  with ok 2(1) show ?thesis by (simp add: periods_apart_def sorted_wrt_append new_run_def)
qed

lemma occupied_created:
  assumes "createAndComputePayRun Y n org inp user d = (r, d')" and "occupied i o1 start finish d"
  shows "occupied i o1 start finish d'"
  using assms(1) by (cases rule: create_effect) (use assms(2) in \<open>auto simp: occupied_def\<close>)

lemma periods_step: "calc_step D Y d d' \<Longrightarrow> periods_apart d \<Longrightarrow> periods_apart d'"
  by (erule periods.step, assumption) (blast intro: periods_created keepsD[OF keeps_expect(1)])+

lemma occupied_step: "calc_step D Y d d' \<Longrightarrow> occupied i org start finish d \<Longrightarrow> occupied i org start finish d'"
  by (erule place.step, assumption) (blast intro: occupied_created keepsD[OF keeps_expect(2)])+

lemma periods_reachable: "(calc_step D Y)\<^sup>*\<^sup>* d d' \<Longrightarrow> periods_apart d \<Longrightarrow> periods_apart d'"
  by (induction rule: rtranclp_induct) (auto dest: periods_step)

lemma occupied_reachable: "(calc_step D Y)\<^sup>*\<^sup>* d d' \<Longrightarrow> occupied i org start finish d \<Longrightarrow> occupied i org start finish d'"
  by (induction rule: rtranclp_induct) (auto dest: occupied_step)

text \<open>So a run that overlaps one that is there is refused.\<close>

lemma create_refused:
  assumes "occupied i org start finish d" and "start \<le> day_end (pi_to inp)" and "day_start (pi_from inp) \<le> finish"
  shows "createAndComputePayRun Y n org inp user d = (Inl (conflict ''A payroll run already exists for an overlapping period''), d)"
proof -
  let ?P = "\<lambda>r. cr_org r = org \<and> cr_status r \<noteq> ''CANCELLED'' \<and> cr_start r \<le> day_end (pi_to inp) \<and> day_start (pi_from inp) \<le> cr_end r"
  have "find ?P (pd_runs d) \<noteq> None" using assms unfolding find_None_iff occupied_def by auto
  then show ?thesis
    unfolding createAndComputePayRun_def by (auto simp: bnd_def reads_def tx_def find_row_def guard_def raise_def)
qed

section \<open>An initialization that was interrupted\<close>

text \<open>The run has batches but expects no one.\<close>

definition stranded :: "string \<Rightarrow> pay_db \<Rightarrow> bool" where
  "stranded i d \<longleftrightarrow> (\<exists>b \<in> set (pd_batches d). ba_run b = i) \<and> (\<forall>r \<in> set (pd_runs d). cr_id r = i \<longrightarrow> cr_expected r = 0)"

interpretation strand: run_view "stranded i" for i
proof
  fix f :: "pay_run \<Rightarrow> pay_run" and d P assume f: "\<And>r. same_plan r (f r)" and "stranded i d"
  then show "stranded i (pd_runs_update (updateMany P f) d)"
    using same_planD(1,3)[OF f] by (auto simp: stranded_def set_updateMany)
next
  fix g :: "calc_batch \<Rightarrow> calc_batch" and d Q assume g: "\<And>b. ba_run (g b) = ba_run b" and "stranded i d"
  then obtain b where b: "b \<in> set (pd_batches d)" "ba_run b = i" by (auto simp: stranded_def)
  have "\<exists>x \<in> set (updateMany Q g (pd_batches d)). ba_run x = ba_run b" by (rule expects_run_of[OF b(1) g])
  with b(2) \<open>stranded i d\<close> show "stranded i (pd_batches_update (updateMany Q g) d)" by (simp add: stranded_def)
qed (auto simp: stranded_def)

lemma stranded_step:
  assumes "calc_step D Y d d'" and s: "stranded i d"
  shows "stranded i d'"
proof (rule strand.step[OF assms])
  fix n org inp user r assume "createAndComputePayRun Y n org inp user d = (r, d')"
  then show "stranded i d'"
    by (cases rule: create_effect) (use s in \<open>auto simp: stranded_def new_run_def\<close>)
next
  fix d1 j e x assume none: "countWhere (\<lambda>b. ba_run b = j) (pd_batches d) = 0" and s1: "stranded i d1"
    and e: "expect_employees j e d1 = (x, d')"
  from none s have "j \<noteq> i" by (auto simp: stranded_def countWhere_def filter_empty_conv)
  then have "keeps (stranded i) (expect_employees j e)"
    unfolding expect_employees_def by (intro keeps_rules keeps_update_row) (auto simp: stranded_def set_updateMany)
  from keepsD[OF this s1 e] show "stranded i d'" .
qed

lemma stranded_reachable: "(calc_step D Y)\<^sup>*\<^sup>* d d' \<Longrightarrow> stranded i d \<Longrightarrow> stranded i d'"
  by (induction rule: rtranclp_induct) (auto dest: stranded_step)

end
