(* ===== verification/PayrollProperties.thy ===== *)
theory PayrollProperties
  imports PayrollProgress PayrollPeriods Sample
begin

text \<open>
  The properties of the payroll calculation and of the life of a payroll run, with a small payroll on
  which each of them is evaluated.
\<close>

section \<open>A small payroll\<close>

definition exact_decimals :: decimal_env where
  "exact_decimals = \<lparr> dv_div = (\<lambda>a b. a / b), dv_num = (\<lambda>x. x) \<rparr>"

definition sample_salary :: "money \<Rightarrow> salary" where
  "sample_salary basic = \<lparr> sa_basic = basic, sa_housing = 0, sa_transport = 0, sa_other = 0, sa_additional = [],
     sa_resumeDate = None, sa_method = None \<rparr>"

definition sample_employee :: "string \<Rightarrow> money \<Rightarrow> pay_employee" where
  "sample_employee i basic =
     \<lparr> em_id = i, em_org = ''o1'', em_employeeNo = i, em_firstName = ''Ada'', em_lastName = ''Obi'', em_jobTitle = None,
       em_department = None, em_status = ''ACTIVE'', em_hireDate = 0, em_state = Some ''Lagos'', em_taxId = None,
       em_pensionPin = None, em_bankName = None, em_bankCode = None, em_bankAccountNumber = None,
       em_bankAccountName = None, em_enrollment = Some \<lparr> en_active = True, en_enrolledAt = 0, en_removedAt = None \<rparr>,
       em_salaries = [\<lparr> ds_salary = sample_salary basic, ds_from = 0, ds_to = None \<rparr>], em_deductions = [], em_loans = [],
       em_avcs = [], em_profile = None \<rparr>"

definition payroll0 :: pay_db where
  "payroll0 = \<lparr> pd_employees = [sample_employee ''e2'' (10004/100), sample_employee ''e1'' (10004/100)], pd_runs = [],
     pd_batches = [], pd_slips = [], pd_rules = [], pd_authorities = [], pd_settingsCurrency = [],
     pd_orgCurrency = [(''o1'', ''NGN'')], pd_audit = \<lparr> au_log = [], au_chains = [] \<rparr> \<rparr>"

definition january :: run_input where
  "january = \<lparr> pi_periodLabel = ''January 2026'', pi_from = ''2026-01-01'', pi_to = ''2026-01-31'', pi_payDate = None \<rparr>"

definition january_fresh :: fresh where
  "january_fresh = \<lparr> fr_now = 1000, fr_id = ''run1'', fr_hex = [] \<rparr>"

definition payroll1 :: pay_db where
  "payroll1 = snd (createAndComputePayRun demo_audit january_fresh ''o1'' january demo_user payroll0)"

definition sample_ids :: "nat \<Rightarrow> string" where
  "sample_ids j = replicate j CHR ''b''"

definition january_run :: pay_run where
  "january_run = new_run ''run1'' ''o1'' january ''NGN''"

lemma payroll1_runs: "pd_runs payroll1 = [january_run]"
  by code_simp

lemma payroll1_batches: "pd_batches payroll1 = []"
  by code_simp

lemma payroll1_slips: "pd_slips payroll1 = []"
  by code_simp

lemma payroll1_eligible: "eligible_ids january_run payroll1 = [''e1'', ''e2'']"
  by code_simp

lemma payroll1_employees: "map em_id (pd_employees payroll1) = [''e2'', ''e1'']"
  by code_simp

lemma payroll1_rules: "pd_rules payroll1 = []"
  by code_simp

lemma january_period: "run_period january_run = ''2026-01''"
  by code_simp

lemma payroll0_initial: "calc_initial payroll0"
  by (simp add: calc_initial_def payroll0_def)

lemma payroll1_reached: "(calc_step D demo_audit)\<^sup>*\<^sup>* payroll0 payroll1"
  by (rule r_into_rtranclp, rule calc_step.create, unfold payroll1_def, rule surjective_pairing)

section \<open>The arithmetic of a payslip\<close>

lemma band_facts:
  assumes "bands_ok bs" and "x \<le> y"
  shows "progressiveAnnualTax x bs = marginal_tax 0 bs x" and "0 \<le> progressiveAnnualTax x bs"
    and "progressiveAnnualTax x bs \<le> progressiveAnnualTax y bs"
    and "progressiveAnnualTax y bs - progressiveAnnualTax x bs \<le> y - x"
    and "max 0 x - progressiveAnnualTax x bs \<le> max 0 y - progressiveAnnualTax y bs"
proof -
  note eq = progressive_is_marginal[OF assms(1)]
  have between: "0 \<le> marginal_tax 0 bs y - marginal_tax 0 bs x" "marginal_tax 0 bs y - marginal_tax 0 bs x \<le> max 0 y - max 0 x"
    using marginal_between[OF assms, of 0] by auto
  show "progressiveAnnualTax x bs = marginal_tax 0 bs x" by (rule eq)
  have "0 \<le> marginal_tax 0 bs (max 0 x) - marginal_tax 0 bs 0" using marginal_between[OF assms(1), of 0 "max 0 x" 0] by simp
  then show "0 \<le> progressiveAnnualTax x bs"
    using marginal_below[OF assms(1), of 0 0] marginal_below[OF assms(1), of x 0] by (cases "0 \<le> x") (auto simp: eq)
  show "progressiveAnnualTax x bs \<le> progressiveAnnualTax y bs" using between by (simp add: eq)
  show "progressiveAnnualTax y bs - progressiveAnnualTax x bs \<le> y - x" using between assms(2) by (simp add: eq)
  show "max 0 x - progressiveAnnualTax x bs \<le> max 0 y - progressiveAnnualTax y bs" using between by (simp add: eq)
qed

text \<open>C29: the tax the loop over the bands adds up is the textbook one: each rate applies to the part of the
  annual income between the limits of its band. So the tax is never negative and grows by at most
  as much as the income: a raise never lowers what is left after tax, in particular at the limits of
  the bands of the built-in Nigerian rule.\<close>

theorem paye_by_bands:
  assumes "bands_ok bs" and "x \<le> y"
  shows "progressiveAnnualTax x bs = marginal_tax 0 bs x \<and> 0 \<le> progressiveAnnualTax x bs \<and>
    progressiveAnnualTax x bs \<le> progressiveAnnualTax y bs \<and>
    progressiveAnnualTax y bs - progressiveAnnualTax x bs \<le> y - x \<and>
    max 0 x - progressiveAnnualTax x bs \<le> max 0 y - progressiveAnnualTax y bs"
  using band_facts[OF assms] by blast

theorem paye_by_bands_witness:
  "progressiveAnnualTax 5000000 (ru_bands NG_STATUTORY_RULE_2026) = 690000 \<and>
   5000000 - progressiveAnnualTax 5000000 (ru_bands NG_STATUTORY_RULE_2026)
     \<le> 5100000 - progressiveAnnualTax 5100000 (ru_bands NG_STATUTORY_RULE_2026)"
proof
  have "marginal_tax 0 (ru_bands NG_STATUTORY_RULE_2026) 5000000 = 690000" by code_simp
  then show "progressiveAnnualTax 5000000 (ru_bands NG_STATUTORY_RULE_2026) = 690000"
    using paye_by_bands[OF built_in_bands_ok, of 5000000 5100000] by simp
  show "5000000 - progressiveAnnualTax 5000000 (ru_bands NG_STATUTORY_RULE_2026)
     \<le> 5100000 - progressiveAnnualTax 5100000 (ru_bands NG_STATUTORY_RULE_2026)"
    using paye_by_bands[OF built_in_bands_ok, of 5000000 5100000] by simp
qed



abbreviation "sample_worker \<equiv> sample_employee ''e1'' (10004/100)"

lemma sample_net: "pa_net (slip_amounts exact_decimals january_run sample_worker) = 895358/10000"
  by code_simp





lemma cents_error: "\<bar>cents v - v\<bar> \<le> 1/200"
proof -
  have "\<bar>of_int (round_half_up (v * 100)) - v * 100\<bar> \<le> (1/2 :: rat)" by (rule round_half_up_error)
  then have "\<bar>(of_int (round_half_up (v * 100)) - v * 100) / 100\<bar> \<le> (1/2 :: rat) / 100" by (simp add: abs_divide divide_right_mono)
  then show ?thesis by (simp add: cents_def toDecimalPlaces_def diff_divide_distrib)
qed

lemma totals_net_sum: "pt_net (foldl add_totals t xs) = pt_net t + sum_list (map pa_net xs)"
  by (induction xs arbitrary: t) (simp_all add: add_totals_def)

lemma cents_sum_error: "\<bar>sum_list (map cents vs) - sum_list vs\<bar> \<le> of_nat (length vs) / 200"
proof (induction vs)
  case (Cons v vs)
  have "\<bar>sum_list (map cents (v # vs)) - sum_list (v # vs)\<bar> \<le> \<bar>cents v - v\<bar> + \<bar>sum_list (map cents vs) - sum_list vs\<bar>"
    by simp
  also have "\<dots> \<le> 1/200 + of_nat (length vs) / 200" using Cons cents_error[of v] by (rule add_mono[rotated])
  finally show ?case by (simp add: add_divide_distrib)
qed simp

text \<open>C31: the total a batch adds to its run differs from the sum of the payslips it writes by at most half a
  kobo for each payslip and half a kobo for the total: the payslips are rounded one by one, the total
  once. The two do differ, so a run paid by its total is not the sum of its payslips.\<close>

theorem run_total_near_slips:
  assumes "whole_kobo (pt_net t)" and "0 \<le> pt_net t"
  shows "\<bar>pt_net (increment_totals t (foldl add_totals zero_totals (map (slip_amounts D run) es))) -
      (pt_net t + sum_list (map (\<lambda>e. sl_net (new_slip D org st auth run currency e)) es))\<bar> \<le> (of_nat (length es) + 1) / 200"
proof -
  define vs where "vs = map (\<lambda>e. pa_net (slip_amounts D run e)) es"
  have sum: "pt_net (foldl add_totals zero_totals (map (slip_amounts D run) es)) = sum_list vs"
    by (simp add: totals_net_sum zero_totals_def vs_def comp_def)
  have "0 \<le> sum_list vs" unfolding vs_def by (intro sum_list_nonneg) (auto simp: slip_net_nonneg)
  then have total: "pt_net (increment_totals t (foldl add_totals zero_totals (map (slip_amounts D run) es))) = pt_net t + cents (sum_list vs)"
    using assms by (simp add: increment_totals_def sum cents_shift)
  have slips: "sum_list (map (\<lambda>e. sl_net (new_slip D org st auth run currency e)) es) = sum_list (map cents vs)"
    by (simp add: new_slip_def Let_def vs_def comp_def)
  have "\<bar>cents (sum_list vs) - sum_list (map cents vs)\<bar> \<le> 1/200 + of_nat (length vs) / 200"
    using cents_error[of "sum_list vs"] cents_sum_error[of vs] by linarith
  then show ?thesis unfolding total slips by (simp add: vs_def add_divide_distrib)
qed

theorem run_total_near_slips_witness:
  "cents (2 * (895358/10000)) \<noteq> cents (895358/10000) + cents (895358/10000) \<and>
   \<bar>pt_net (increment_totals zero_totals (foldl add_totals zero_totals (map (slip_amounts exact_decimals january_run) [sample_worker, sample_worker])))
     - (pt_net zero_totals + sum_list (map (\<lambda>e. sl_net (new_slip exact_decimals ''o1'' (NG_STATUTORY_RULE_2026, ''BUILT_IN'', 0) None january_run ''NGN'' e))
          [sample_worker, sample_worker]))\<bar> \<le> 3/200"
proof
  show "cents (2 * (895358/10000)) \<noteq> cents (895358/10000) + cents (895358/10000)" by code_simp
  show "\<bar>pt_net (increment_totals zero_totals (foldl add_totals zero_totals (map (slip_amounts exact_decimals january_run) [sample_worker, sample_worker])))
     - (pt_net zero_totals + sum_list (map (\<lambda>e. sl_net (new_slip exact_decimals ''o1'' (NG_STATUTORY_RULE_2026, ''BUILT_IN'', 0) None january_run ''NGN'' e))
          [sample_worker, sample_worker]))\<bar> \<le> 3/200"
    using run_total_near_slips[of zero_totals exact_decimals january_run "[sample_worker, sample_worker]"
        "''o1''" "(NG_STATUTORY_RULE_2026, ''BUILT_IN'', 0)" None "''NGN''"]
    by (simp add: zero_totals_def)
qed

lemma schedule_facts:
  assumes "0 < repayment" and "0 < owed" and "owed \<le> 1200 * repayment" and rows: "rows = buildLoanSchedule now owed repayment start status"
  shows "int (length rows) = \<lceil>owed / repayment\<rceil> \<and> length rows \<le> 1200" and "sum_list (map is_repayment rows) = owed"
    and "rows \<noteq> [] \<and> is_closing (last rows) = 0"
    and "k < length rows \<Longrightarrow> is_number (rows ! k) = k + 1 \<and> is_repayment (rows ! k) = min repayment (is_opening (rows ! k)) \<and>
      is_closing (rows ! k) = is_opening (rows ! k) - is_repayment (rows ! k)"
    and "Suc k < length rows \<Longrightarrow> is_opening (rows ! Suc k) = is_closing (rows ! k)"
proof -
  have bound: "owed \<le> of_nat 1200 * repayment" using assms(3) by simp
  note def = rows[unfolded buildLoanSchedule_def]
  show "int (length rows) = \<lceil>owed / repayment\<rceil> \<and> length rows \<le> 1200"
    unfolding def using loan_rows_count[OF assms(1) _ bound] loan_rows_length assms(2) by simp
  show "sum_list (map is_repayment rows) = owed" unfolding def using loan_rows_sum[OF assms(1) _ bound] assms(2) by simp
  show "rows \<noteq> [] \<and> is_closing (last rows) = 0" unfolding def by (rule loan_rows_last[OF assms(1,2) bound])
  show "k < length rows \<Longrightarrow> is_number (rows ! k) = k + 1 \<and> is_repayment (rows ! k) = min repayment (is_opening (rows ! k)) \<and>
      is_closing (rows ! k) = is_opening (rows ! k) - is_repayment (rows ! k)"
    unfolding def by (drule loan_rows_nth) auto
  show "Suc k < length rows \<Longrightarrow> is_opening (rows ! Suc k) = is_closing (rows ! k)" unfolding def by (rule loan_rows_chain)
qed

text \<open>C32: the schedule of a loan ends: when the repayment is positive and twelve hundred of them cover the
  debt, the schedule has as many installments as repayments are needed, each takes the smaller of the
  repayment and the balance that is left, the balances carry over, the repayments add up to the debt
  and the last balance is zero. In no case does the loop produce more than twelve hundred rows.\<close>

theorem loan_schedule_ends:
  assumes "0 < repayment" and "0 < owed" and "owed \<le> 1200 * repayment" and "rows = buildLoanSchedule now owed repayment start status"
  shows "int (length rows) = \<lceil>owed / repayment\<rceil> \<and> length rows \<le> 1200 \<and> sum_list (map is_repayment rows) = owed \<and>
    rows \<noteq> [] \<and> is_closing (last rows) = 0 \<and>
    (\<forall>k < length rows. is_number (rows ! k) = k + 1 \<and> is_repayment (rows ! k) = min repayment (is_opening (rows ! k)) \<and>
      is_closing (rows ! k) = is_opening (rows ! k) - is_repayment (rows ! k)) \<and>
    (\<forall>k. Suc k < length rows \<longrightarrow> is_opening (rows ! Suc k) = is_closing (rows ! k))"
  using schedule_facts[OF assms] by blast

theorem loan_schedule_ends_witness:
  "length (buildLoanSchedule 0 250 100 (date_UTC 2026 0 15) ''ACTIVE'') = 3 \<and>
   sum_list (map is_repayment (buildLoanSchedule 0 250 100 (date_UTC 2026 0 15) ''ACTIVE'')) = 250"
proof -
  have "\<lceil>250 / 100 :: rat\<rceil> = 3" by (simp add: ceiling_eq_iff)
  then show ?thesis
    using loan_schedule_ends[of 100 250, OF _ _ _ refl, of 0 "date_UTC 2026 0 15" "''ACTIVE''"] by simp
qed

text \<open>The date of an installment keeps the day of the start date, so a loan that starts on the last day of
  January has no installment in February and two in March.\<close>

lemma installments_skip_february:
  "map is_month (buildLoanSchedule 0 300 100 (date_UTC 2026 0 31) ''ACTIVE'') = [''2026-01'', ''2026-03'', ''2026-03'']"
proof -
  obtain n where n: "(1200 :: nat) = Suc (Suc (Suc (Suc n)))" by (rule that[of 1196]) simp
  have "buildLoanSchedule 0 300 100 (date_UTC 2026 0 31) ''ACTIVE'' =
      [installment_row 0 ''ACTIVE'' (date_UTC 2026 0 31) 0 300 100, installment_row 0 ''ACTIVE'' (date_UTC 2026 0 31) 1 200 100,
       installment_row 0 ''ACTIVE'' (date_UTC 2026 0 31) 2 100 100]"
    unfolding buildLoanSchedule_def n by (simp add: Let_def numeral_2_eq_2)
  moreover have "utc_fields (date_UTC 2026 0 31) = (2026, 0, 31)" by code_simp
  moreover have "take 7 (toISOString (date_UTC 2026 0 31)) = ''2026-01''" by code_simp
  moreover have "take 7 (toISOString (date_UTC 2026 1 31)) = ''2026-03''" by code_simp
  moreover have "take 7 (toISOString (date_UTC 2026 2 31)) = ''2026-03''" by code_simp
  ultimately show ?thesis by (simp add: installment_row_def Let_def)
qed

section \<open>The life of a run\<close>

lemma january_found: "processing_run ''run1'' payroll1 = Some january_run"
  by (simp add: processing_run_def payroll1_runs january_run_def new_run_def)

lemma payroll1_ok: "calc_ok payroll1"
  by (rule calc_ok_reachable[OF payroll1_reached calc_ok_initial[OF payroll0_initial]])

lemma sample_ids_inj: "inj sample_ids"
  by (rule injI) (metis sample_ids_def length_replicate)

lemma january_rule:
  "resolvePayrollStatutoryRule (map_of (pd_rules payroll1) (cr_org january_run)) (run_period january_run) =
     Inr (NG_STATUTORY_RULE_2026, ''BUILT_IN'', 0)"
proof -
  have "resolvePayrollStatutoryRule None ''2026-01'' = Inr (NG_STATUTORY_RULE_2026, ''BUILT_IN'', 0)" by code_simp
  then show ?thesis unfolding payroll1_rules january_period by simp
qed

lemma january_pages: "length (id_pages (eligible_ids january_run payroll1)) = 1"
  unfolding payroll1_eligible by code_simp









text \<open>C25: payroll gets done: the direct execution of a run that is being processed and has no batches yet,
  with fresh batch ids, at least one eligible employee and a statutory rule for its period, succeeds,
  divides the employees into batches of a hundred and leaves the run waiting for approval with
  every eligible employee expected and processed.\<close>

theorem direct_payroll_completes:
  assumes "calc_ok d" and "processing_run i d = Some run"
    and "\<forall>b \<in> set (pd_batches d). ba_run b \<noteq> i \<and> (\<forall>j. ba_id b \<noteq> ids j)" and "inj ids"
    and "distinct (map em_id (pd_employees d))" and "eligible_ids run d \<noteq> []"
    and "\<exists>st. resolvePayrollStatutoryRule (map_of (pd_rules d) (cr_org run)) (run_period run) = Inr st"
  shows "\<exists>d' r. initializePayRunCalculation D now ids True None i d =
      (Inr (ProcessedBatches (length (id_pages (eligible_ids run d)))), d') \<and>
    r \<in> set (pd_runs d') \<and> cr_id r = i \<and> cr_status r = ''PENDING_APPROVAL'' \<and>
    cr_expected r = int (length (eligible_ids run d)) \<and> cr_processed r = cr_expected r"
proof -
  have comp: "computable (cr_org run) (run_period run) d" unfolding computable_def by (rule assms(7))
  obtain d' where d': "initializePayRunCalculation D now ids True None i d =
      (Inr (ProcessedBatches (length (id_pages (eligible_ids run d)))), d')" "offered run (int (length (eligible_ids run d))) d'"
    using direct_run[OF assms(1-6) comp] by blast
  moreover have "cr_id run = i" using find_SomeD[OF assms(2)[unfolded processing_run_def]] by simp
  ultimately obtain r where r: "r \<in> set (pd_runs d')" "cr_id r = i" "cr_status r = ''PENDING_APPROVAL''"
    "cr_expected r = int (length (eligible_ids run d))" by (auto simp: offered_def)
  have "calc_ok d'" using d'(2) by (simp add: offered_def)
  from calc_okD(5)[OF this r(1)] r(3) have "cr_processed r = cr_expected r"
    by (simp add: run_ok_def complete_for_def awaits_approval_def)
  with d'(1) r show ?thesis by blast
qed

theorem direct_payroll_completes_witness:
  "\<exists>d' r. initializePayRunCalculation exact_decimals 2000 sample_ids True None ''run1'' payroll1 = (Inr (ProcessedBatches 1), d') \<and>
     r \<in> set (pd_runs d') \<and> cr_status r = ''PENDING_APPROVAL'' \<and> cr_processed r = 2"
proof -
  have "\<exists>d' r. initializePayRunCalculation exact_decimals 2000 sample_ids True None ''run1'' payroll1 =
      (Inr (ProcessedBatches (length (id_pages (eligible_ids january_run payroll1)))), d') \<and>
    r \<in> set (pd_runs d') \<and> cr_id r = ''run1'' \<and> cr_status r = ''PENDING_APPROVAL'' \<and>
    cr_expected r = int (length (eligible_ids january_run payroll1)) \<and> cr_processed r = cr_expected r"
    by (rule direct_payroll_completes[OF payroll1_ok january_found _ sample_ids_inj])
      (use january_rule in \<open>simp_all add: payroll1_batches payroll1_employees payroll1_eligible\<close>)
  then show ?thesis unfolding january_pages by (elim exE conjE) (simp add: payroll1_eligible, blast)
qed

lemma periods_taken:
  assumes "calc_initial d" and "(calc_step D Y)\<^sup>*\<^sup>* d d1" and "(calc_step D Y)\<^sup>*\<^sup>* d1 d2"
  shows "j < k \<Longrightarrow> k < length (pd_runs d2) \<Longrightarrow> cr_org (pd_runs d2 ! j) = cr_org (pd_runs d2 ! k) \<Longrightarrow>
      cr_end (pd_runs d2 ! j) < cr_start (pd_runs d2 ! k) \<or> cr_end (pd_runs d2 ! k) < cr_start (pd_runs d2 ! j)"
    and "r \<in> set (pd_runs d1) \<Longrightarrow> cr_start r \<le> day_end (pi_to inp) \<Longrightarrow> day_start (pi_from inp) \<le> cr_end r \<Longrightarrow>
      createAndComputePayRun Y n (cr_org r) inp user d2 = (Inl (conflict ''A payroll run already exists for an overlapping period''), d2)"
proof -
  have "periods_apart d" using assms(1) by (simp add: calc_initial_def periods_apart_def)
  with assms(2) have p1: "periods_apart d1" by (rule periods_reachable)
  with assms(3) have "periods_apart d2" by (rule periods_reachable)
  then show "j < k \<Longrightarrow> k < length (pd_runs d2) \<Longrightarrow> cr_org (pd_runs d2 ! j) = cr_org (pd_runs d2 ! k) \<Longrightarrow>
      cr_end (pd_runs d2 ! j) < cr_start (pd_runs d2 ! k) \<or> cr_end (pd_runs d2 ! k) < cr_start (pd_runs d2 ! j)"
    using sorted_wrt_nth_less[of apart "pd_runs d2" j k] by (auto simp: periods_apart_def apart_def)
  assume r: "r \<in> set (pd_runs d1)" "cr_start r \<le> day_end (pi_to inp)" "day_start (pi_from inp) \<le> cr_end r"
  from r(1) p1 have "occupied (cr_id r) (cr_org r) (cr_start r) (cr_end r) d1" by (auto simp: occupied_def periods_apart_def)
  with assms(3) have "occupied (cr_id r) (cr_org r) (cr_start r) (cr_end r) d2" by (rule occupied_reachable)
  then show "createAndComputePayRun Y n (cr_org r) inp user d2 = (Inl (conflict ''A payroll run already exists for an overlapping period''), d2)"
    by (rule create_refused[OF _ r(2,3)])
qed

text \<open>A run without eligible employees: it fails, and the corrected payroll of January is refused.\<close>

definition nobody :: pay_db where
  "nobody = payroll0\<lparr>pd_employees := []\<rparr>"

definition nobody1 :: pay_db where
  "nobody1 = snd (createAndComputePayRun demo_audit january_fresh ''o1'' january demo_user nobody)"

definition nobody2 :: pay_db where
  "nobody2 = snd (initializePayRunCalculation exact_decimals 2000 sample_ids False None ''run1'' nobody1)"

lemma nobody2_failed: "map cr_status (pd_runs nobody2) = [''FAILED'']"
  by code_simp

lemma nobody2_run: "pd_runs nobody2 = [january_run\<lparr>cr_status := ''FAILED'',
    cr_failureReason := Some ''No eligible employees are configured for this payroll period''\<rparr>]"
  by code_simp

lemma nobody2_reached: "(calc_step exact_decimals demo_audit)\<^sup>*\<^sup>* nobody nobody2"
proof -
  have "calc_step exact_decimals demo_audit nobody nobody1"
    by (rule calc_step.create, unfold nobody1_def, rule surjective_pairing)
  moreover have "calc_step exact_decimals demo_audit nobody1 nobody2"
    by (rule calc_step.initialize, unfold nobody2_def, rule surjective_pairing)
  ultimately show ?thesis by (meson converse_rtranclp_into_rtranclp rtranclp.rtrancl_refl)
qed

text \<open>C26: two payroll runs of an organization never cover a common moment. The price is that a period stays
  taken: nothing cancels a run, so a run that is there, a FAILED one included, refuses every later
  run of the organization for an overlapping period.\<close>

theorem payroll_runs_disjoint:
  assumes "calc_initial d" and "(calc_step D Y)\<^sup>*\<^sup>* d d1" and "(calc_step D Y)\<^sup>*\<^sup>* d1 d2"
  shows "(j < k \<and> k < length (pd_runs d2) \<and> cr_org (pd_runs d2 ! j) = cr_org (pd_runs d2 ! k) \<longrightarrow>
      cr_end (pd_runs d2 ! j) < cr_start (pd_runs d2 ! k) \<or> cr_end (pd_runs d2 ! k) < cr_start (pd_runs d2 ! j)) \<and>
    (r \<in> set (pd_runs d1) \<and> cr_start r \<le> day_end (pi_to inp) \<and> day_start (pi_from inp) \<le> cr_end r \<longrightarrow>
      createAndComputePayRun Y n (cr_org r) inp user d2 = (Inl (conflict ''A payroll run already exists for an overlapping period''), d2))"
  using periods_taken[OF assms] by blast

theorem payroll_runs_disjoint_witness:
  "map cr_status (pd_runs nobody2) = [''FAILED''] \<and>
   createAndComputePayRun demo_audit \<lparr>fr_now = 9000, fr_id = ''run2'', fr_hex = []\<rparr> ''o1'' january demo_user nobody2 =
     (Inl (conflict ''A payroll run already exists for an overlapping period''), nobody2)"
proof
  show "map cr_status (pd_runs nobody2) = [''FAILED'']" by (rule nobody2_failed)
  let ?r = "january_run\<lparr>cr_status := ''FAILED'', cr_failureReason := Some ''No eligible employees are configured for this payroll period''\<rparr>"
  have init: "calc_initial nobody" by (simp add: calc_initial_def nobody_def payroll0_def)
  have mem: "?r \<in> set (pd_runs nobody2)" unfolding nobody2_run by simp
  have days: "cr_start ?r = day_start ''2026-01-01''" "cr_end ?r = day_end ''2026-01-31''" "cr_org ?r = ''o1''"
    "pi_from january = ''2026-01-01''" "pi_to january = ''2026-01-31''"
    by (simp_all add: january_run_def new_run_def january_def)
  have le: "day_start ''2026-01-01'' \<le> day_end ''2026-01-31''" by code_simp
  have "createAndComputePayRun demo_audit \<lparr>fr_now = 9000, fr_id = ''run2'', fr_hex = []\<rparr> (cr_org ?r) january demo_user nobody2 =
     (Inl (conflict ''A payroll run already exists for an overlapping period''), nobody2)"
    by (rule payroll_runs_disjoint[OF init nobody2_reached rtranclp.rtrancl_refl, THEN conjunct2, rule_format])
      (simp only: mem days le simp_thms)
  then show "createAndComputePayRun demo_audit \<lparr>fr_now = 9000, fr_id = ''run2'', fr_hex = []\<rparr> ''o1'' january demo_user nobody2 =
     (Inl (conflict ''A payroll run already exists for an overlapping period''), nobody2)" by (simp only: days)
qed

text \<open>C27: a run whose initialization stopped after the first batches and before the number of expected
  employees was written is never offered for approval, whatever runs later: the next initialization
  finds batches and skips the expectation, so the completed batches never match it.\<close>

theorem interrupted_run_never_offered:
  assumes "calc_initial d" and "(calc_step D Y)\<^sup>*\<^sup>* d d1" and "processing_run i d1 = Some run" and "cr_expected run = 0"
    and "create_batches now ids k run d1 = (Inr e, d2)" and "\<exists>b \<in> set (pd_batches d2). ba_run b = i"
    and "(calc_step D Y)\<^sup>*\<^sup>* d2 d3" and "r \<in> set (pd_runs d3)" and "cr_id r = i"
  shows "cr_expected r = 0 \<and> \<not> awaits_approval r"
proof -
  have ok1: "calc_ok d1" by (rule calc_ok_reachable[OF assms(2) calc_ok_initial[OF assms(1)]])
  have ok2: "calc_ok d2" by (rule calc_ok_interrupted[OF assms(3,5) ok1])
  have same: "keeps (\<lambda>x. pd_runs x = pd_runs d1) (create_batches now ids k run)"
    unfolding create_batches_def upsert_batch_def by (auto intro!: keeps_rules keeps_create_row split: prod.split)
  have runs: "pd_runs d2 = pd_runs d1" using keepsD[OF same refl assms(5)] .
  have run: "run \<in> set (pd_runs d1)" "cr_id run = i" using find_SomeD[OF assms(3)[unfolded processing_run_def]] by auto
  have "x = run" if "x \<in> set (pd_runs d1)" "cr_id x = i" for x
    using that run calc_okD(1)[OF ok1] by (metis distinct_map inj_onD)
  with assms(4,6) runs have "stranded i d2" by (auto simp: stranded_def)
  with assms(7) have "stranded i d3" by (rule stranded_reachable)
  with assms(8,9) have "cr_expected r = 0" by (auto simp: stranded_def)
  moreover have "\<not> awaits_approval r"
    using calc_okD(5)[OF calc_ok_reachable[OF assms(7) ok2] assms(8)] \<open>cr_expected r = 0\<close>
    by (auto simp: run_ok_def complete_for_def)
  ultimately show ?thesis by simp
qed

definition payroll_crashed :: pay_db where
  "payroll_crashed = snd (create_batches 2000 sample_ids 1 january_run payroll1)"

lemma crashed_run: "pd_runs payroll_crashed = [january_run]"
  by code_simp

lemma crashed_batch: "map ba_run (pd_batches payroll_crashed) = [''run1'']"
  by code_simp

lemma crashed_result: "fst (create_batches 2000 sample_ids 1 january_run payroll1) = Inr 2"
  by code_simp

theorem interrupted_run_never_offered_witness:
  "\<not> awaits_approval january_run \<and> pd_runs payroll_crashed = [january_run] \<and> map ba_run (pd_batches payroll_crashed) = [''run1'']"
proof -
  have "create_batches 2000 sample_ids 1 january_run payroll1 = (Inr 2, payroll_crashed)"
    by (rule prod_eqI) (simp_all only: crashed_result payroll_crashed_def fst_conv snd_conv)
  moreover have "\<exists>b \<in> set (pd_batches payroll_crashed). ba_run b = ''run1''"
    using crashed_batch by (metis imageE list.set_intros(1) list.set_map)
  moreover have "cr_expected january_run = 0" "cr_id january_run = ''run1''" by (simp_all add: january_run_def new_run_def)
  ultimately have "cr_expected january_run = 0 \<and> \<not> awaits_approval january_run"
    using interrupted_run_never_offered[OF payroll0_initial payroll1_reached january_found _ _ _ rtranclp.rtrancl_refl]
    by (metis crashed_run list.set_intros(1))
  then show ?thesis using crashed_run crashed_batch by blast
qed

section \<open>The statutory rule\<close>












end
