(* ===== verification/PayrollCsv.thy ===== *)
theory PayrollCsv
  imports Listing
begin

text \<open>
  The CSV files of src/modules/payroll/payroll.service.ts: the cells of the exports, the template for
  the bulk import and the parser the import reads it with.
\<close>

section \<open>Writing\<close>








section \<open>Reading\<close>






section \<open>The parser undoes the writer\<close>













end
