(* ===== verification/PayrollWallet.thy ===== *)
theory PayrollWallet
  imports PaymentRequests PayrollCalc
begin

text \<open>
  Paying a payroll run (src/modules/payroll/payroll.service.ts): the payroll wallet and its funding,
  the payment of an obligation from it in one debit, and the settlement of a run payslip by payslip,
  by hand or through the provider. The money is the financial state of FinDb; the tables only this
  module pays from are added around it.
\<close>

section \<open>State\<close>

record wallet_owner =
  wo_id :: string
  wo_name :: string
  wo_currency :: string

record payee_payment =
  pe_id :: string
  pe_org :: string
  pe_run :: string
  pe_name :: string
  pe_net :: money
  pe_currency :: string
  pe_status :: string
  pe_paidAt :: "time option"
  pe_reference :: "string option"

record tax_remittance =
  tr_id :: string
  tr_org :: string
  tr_run :: string
  tr_period :: string
  tr_amount :: money
  tr_status :: string
  tr_remittedAt :: "time option"
  tr_reference :: "string option"
  tr_receipt :: "string option"

record pension_remittance =
  pn_id :: string
  pn_org :: string
  pn_run :: string
  pn_period :: string
  pn_pfaName :: string
  pn_total :: money
  pn_status :: string
  pn_remittedAt :: "time option"
  pn_reference :: "string option"
  pn_receipt :: "string option"
  pn_markedBy :: "string option"

record tax_report =
  tx_id :: string
  tx_org :: string
  tx_type :: string
  tx_amount :: money
  tx_submittedAt :: "time option"
  tx_reference :: "string option"

record wallet_db =
  wd_fin :: fin_db
  wd_owners :: "wallet_owner list"
  wd_payees :: "payee_payment list"
  wd_taxes :: "tax_remittance list"
  wd_pensions :: "pension_remittance list"
  wd_reports :: "tax_report list"

definition in_wallet :: "(fin_db, 'a) op \<Rightarrow> (wallet_db, 'a) op" where
  "in_wallet m = zoom wd_fin (\<lambda>f d. d\<lparr>wd_fin := f\<rparr>) m"

interpretation payees: table wd_payees wd_payees_update by unfold_locales simp
interpretation taxes: table wd_taxes wd_taxes_update by unfold_locales simp
interpretation pensions: table wd_pensions wd_pensions_update by unfold_locales simp
interpretation reports: table wd_reports wd_reports_update by unfold_locales simp

section \<open>The wallet of an organization\<close>

definition wallet_row_clash :: "wallet \<Rightarrow> wallet \<Rightarrow> bool" where
  "wallet_row_clash a b \<longleftrightarrow> w_id a = w_id b \<or> w_org a = w_org b \<and> w_purpose a = w_purpose b"

definition primary_wallet :: "string \<Rightarrow> wallet \<Rightarrow> bool" where
  "primary_wallet org w \<longleftrightarrow> w_org w = org \<and> w_purpose w = ''PRIMARY''"

text \<open>\<open>newId\<close> is the id of a wallet that has to be created.\<close>

definition walletForTenant :: "string \<Rightarrow> string \<Rightarrow> (wallet_db, wallet) op" where
  "walletForTenant newId org =
     bnd (find_row wd_owners (\<lambda>o'. wo_id o' = org)) (\<lambda>found.
     bnd (required found (notFound ''Tenant not found'')) (\<lambda>owner.
     bnd (in_wallet (find_row db_wallets (primary_wallet org))) (\<lambda>existing.
     case existing of
       Some w \<Rightarrow> ret w
     | None \<Rightarrow> in_wallet (create_row db_wallets db_wallets_update wallet_row_clash
           \<lparr> w_id = newId, w_org = org, w_name = wo_name owner @ '' Payroll Wallet'', w_purpose = ''PRIMARY'',
             w_balance = 0, w_reserved = 0, w_currency = wo_currency owner \<rparr>))))"

text \<open>\<open>hex\<close> stands for the six random bytes.\<close>

definition walletReference :: "string \<Rightarrow> time \<Rightarrow> string \<Rightarrow> string" where
  "walletReference prefix now hex =
     prefix @ ''-'' @ show_int (case utc_fields now of (year, _, _) \<Rightarrow> year) @ ''-'' @ toUpper hex"

section \<open>Funding\<close>

record wallet_funding_input =
  wf_amount :: money
  wf_transferReference :: string

definition same_funding :: "money \<Rightarrow> ledger \<Rightarrow> bool" where
  "same_funding amount t \<longleftrightarrow> t_type t = ''FUNDING'' \<and> t_direction t = ''CREDIT'' \<and> t_amount t = amount"

definition payroll_funding_row :: "stamps \<Rightarrow> string \<Rightarrow> wallet \<Rightarrow> wallet_funding_input \<Rightarrow> actor \<Rightarrow> ledger" where
  "payroll_funding_row n org w inp user =
     \<lparr> t_id = n_ledgerId n, t_org = org, t_wallet = w_id w, t_type = ''FUNDING'', t_direction = ''CREDIT'',
       t_amount = wf_amount inp, t_before = w_balance w, t_after = w_balance w + wf_amount inp,
       t_reference = walletReference ''WF'' (n_now n) (n_uuid n), t_transferReference = Some (wf_transferReference inp),
       t_description = ''Payroll wallet funding'', t_sourceType = None, t_sourceId = None, t_reversalOf = None,
       t_createdBy = Some (u_id user), t_createdAt = n_now n \<rparr>"

definition recorded_funding :: "string \<Rightarrow> wallet_funding_input \<Rightarrow> (fin_db, ledger option) op" where
  "recorded_funding org inp = find_row db_ledger (\<lambda>t. t_org t = org \<and> t_transferReference t = Some (wf_transferReference inp))"

definition post_payroll_funding ::
    "fin_env \<Rightarrow> audit_env \<Rightarrow> stamps \<Rightarrow> string \<Rightarrow> wallet_funding_input \<Rightarrow> actor \<Rightarrow> wallet \<Rightarrow> (fin_db, ledger) op" where
  "post_payroll_funding E Y n org inp user w =
     bnd (assertIncidentWalletMutationAllowed E org (w_id w)) (\<lambda>_.
     bnd (recorded_funding org inp) (\<lambda>existing.
     case existing of
       Some t \<Rightarrow>
         bnd (guard (t_wallet t = w_id w \<and> same_funding (wf_amount inp) t)
                (conflict ''Transfer reference has already been recorded'')) (\<lambda>_.
         ret t)
     | None \<Rightarrow>
         bnd (credit_wallet (w_id w) (wf_amount inp)) (\<lambda>_.
         bnd (create_ledger (payroll_funding_row n org w inp user)) (\<lambda>t.
         bnd (audited Y (n_now n) (audit_of org (Some (u_id user)) ''PAYROLL_WALLET_FUNDED'' ''WALLET_TRANSACTION'' (t_id t)
                ''Recorded authorized payroll wallet funding''
                (Some (JObj [(''reference'', JStr (t_reference t)), (''transferReference'', JStr (wf_transferReference inp))])))) (\<lambda>_.
         ret t)))))"

text \<open>When the transaction loses to another with the same reference, the recorded funding is the answer.\<close>

definition replay_payroll_funding :: "string \<Rightarrow> wallet_funding_input \<Rightarrow> (fin_db, ledger) op" where
  "replay_payroll_funding org inp =
     bnd (recorded_funding org inp) (\<lambda>existing.
     bnd (reads (\<lambda>f. case existing of None \<Rightarrow> None | Some t \<Rightarrow> find (\<lambda>w. w_id w = t_wallet t) (db_wallets f))) (\<lambda>w.
     case (existing, w) of
       (Some t, Some v) \<Rightarrow>
         if w_purpose v = ''PRIMARY'' \<and> same_funding (wf_amount inp) t then ret t
         else raise (conflict ''Transfer reference has already been recorded'')
     | _ \<Rightarrow> raise (conflict ''Transfer reference has already been recorded'')))"

definition fundPayrollWallet ::
    "fin_env \<Rightarrow> audit_env \<Rightarrow> stamps \<Rightarrow> string \<Rightarrow> wallet_funding_input \<Rightarrow> actor \<Rightarrow> (wallet_db, ledger) op" where
  "fundPayrollWallet E Y n org inp user =
     catching
       (tx (bnd (walletForTenant (n_id n) org) (\<lambda>w. in_wallet (post_payroll_funding E Y n org inp user w))))
       (\<lambda>e. if is_P2002 e then in_wallet (replay_payroll_funding org inp) else raise e)"

section \<open>Paying an obligation in one debit\<close>

text \<open>\<open>slice(0, indexOf(":"))\<close> and \<open>slice(indexOf(":") + 1)\<close>; without a colon the index is -1.\<close>

definition split_obligation :: "string \<Rightarrow> string \<times> string" where
  "split_obligation s = (if CHR '':'' \<in> set s then (takeWhile (\<lambda>c. c \<noteq> CHR '':'') s, tl (dropWhile (\<lambda>c. c \<noteq> CHR '':'') s))
     else (butlast s, s))"

definition obligationKinds :: "string list" where
  "obligationKinds = [''PAYROLL_RUN'', ''PAYEE_PAYMENT'', ''PAYE_REMITTANCE'', ''PENSION_REMITTANCE'', ''TAX_REPORT'']"

definition payrollDisbursementPendingStatuses :: "string list" where
  "payrollDisbursementPendingStatuses = [''APPROVED'', ''PENDING_DISBURSEMENT'', ''DISBURSING'']"

definition payable_run :: "string \<Rightarrow> string \<Rightarrow> payroll_run \<Rightarrow> bool" where
  "payable_run org i r \<longleftrightarrow> pr_id r = i \<and> pr_org r = org \<and> pr_status r \<in> set payrollDisbursementPendingStatuses"

text \<open>What an obligation asks for: the currency, the amount, the ledger type and the description.\<close>

record terms =
  te_currency :: string
  te_amount :: money
  te_type :: string
  te_description :: string

definition run_terms :: "string \<Rightarrow> string \<Rightarrow> wallet \<Rightarrow> fin_db \<Rightarrow> app_error + terms" where
  "run_terms org i w f =
     (case find (payable_run org i) (db_runs f) of
        None \<Rightarrow> Inl (conflict ''Payroll obligation is not payable'')
      | Some r \<Rightarrow>
          let currencies = remdups (map (\<lambda>p. normalizeFinancialCurrency (case p_currency p of Some c \<Rightarrow> c | None \<Rightarrow> w_currency w))
                (filter (\<lambda>p. p_run p = i) (db_payslips f)))
          in if 1 < length currencies
             then Inl (conflictWith ''Payroll run contains mixed currencies'' (error_code ''CURRENCY_MISMATCH''))
             else Inr \<lparr> te_currency = (case currencies of c # _ \<Rightarrow> c | [] \<Rightarrow> w_currency w), te_amount = pr_totalNetPay r,
                    te_type = ''PAYROLL_DISBURSEMENT'', te_description = pr_name r @ '' payroll disbursement'' \<rparr>)"

text \<open>The currency of the first payslip of a run, whatever order the database returns them in.\<close>

definition run_currency :: "string \<Rightarrow> wallet \<Rightarrow> fin_db \<Rightarrow> string" where
  "run_currency i w f = (case find (\<lambda>p. p_run p = i) (db_payslips f) of
     Some p \<Rightarrow> (case p_currency p of Some c \<Rightarrow> c | None \<Rightarrow> w_currency w) | None \<Rightarrow> w_currency w)"

definition obligation_terms :: "string \<Rightarrow> string \<Rightarrow> string \<Rightarrow> wallet \<Rightarrow> wallet_db \<Rightarrow> app_error + terms" where
  "obligation_terms org sourceType i w d =
     (if sourceType = ''PAYROLL_RUN'' then run_terms org i w (wd_fin d)
      else if sourceType = ''PAYEE_PAYMENT'' then
        (case find (\<lambda>p. pe_id p = i \<and> pe_org p = org \<and> pe_status p = ''PENDING'' \<and>
               list_ex (\<lambda>r. pr_id r = pe_run p \<and> pr_status r \<in> set payrollDisbursementPendingStatuses) (db_runs (wd_fin d)))
             (wd_payees d) of
           None \<Rightarrow> Inl (conflict ''Payee payment is not payable'')
         | Some p \<Rightarrow> Inr \<lparr> te_currency = pe_currency p, te_amount = pe_net p, te_type = ''PAYEE_PAYMENT'',
             te_description = pe_name p @ '' payment'' \<rparr>)
      else if sourceType = ''PAYE_REMITTANCE'' then
        (case find (\<lambda>t. tr_id t = i \<and> tr_org t = org \<and> tr_status t \<noteq> ''REMITTED'') (wd_taxes d) of
           None \<Rightarrow> Inl (conflict ''PAYE obligation is not payable'')
         | Some t \<Rightarrow> Inr \<lparr> te_currency = run_currency (tr_run t) w (wd_fin d), te_amount = tr_amount t,
             te_type = ''PAYE_REMITTANCE'', te_description = tr_period t @ '' PAYE remittance'' \<rparr>)
      else if sourceType = ''PENSION_REMITTANCE'' then
        (case find (\<lambda>p. pn_id p = i \<and> pn_org p = org \<and> pn_status p \<noteq> ''REMITTED'') (wd_pensions d) of
           None \<Rightarrow> Inl (conflict ''Pension obligation is not payable'')
         | Some p \<Rightarrow> Inr \<lparr> te_currency = run_currency (pn_run p) w (wd_fin d), te_amount = pn_total p,
             te_type = ''PENSION_REMITTANCE'', te_description = pn_period p @ '' '' @ pn_pfaName p @ '' pension remittance'' \<rparr>)
      else
        (case find (\<lambda>x. tx_id x = i \<and> tx_org x = org \<and> tx_submittedAt x = None \<and> tx_type x \<in> {''PENSION'', ''NHF''}) (wd_reports d) of
           None \<Rightarrow> Inl (conflict ''Statutory obligation is not payable'')
         | Some x \<Rightarrow> Inr \<lparr> te_currency = (case find (\<lambda>o'. wo_id o' = org) (wd_owners d) of Some o' \<Rightarrow> wo_currency o' | None \<Rightarrow> []),
             te_amount = tx_amount x, te_type = tx_type x @ ''_REMITTANCE'', te_description = tx_type x @ '' remittance'' \<rparr>))"

definition referencePrefix :: "string \<Rightarrow> string" where
  "referencePrefix type = (if type = ''PAYE_REMITTANCE'' then ''PAYE'' else if type = ''PENSION_REMITTANCE'' then ''PEN'' else ''PR'')"

definition obligation_row ::
    "stamps \<Rightarrow> string \<Rightarrow> wallet \<Rightarrow> string \<Rightarrow> string \<Rightarrow> terms \<Rightarrow> money \<Rightarrow> money \<Rightarrow> actor \<Rightarrow> ledger" where
  "obligation_row n org w sourceType i te before after user =
     \<lparr> t_id = n_ledgerId n, t_org = org, t_wallet = w_id w, t_type = te_type te, t_direction = ''DEBIT'',
       t_amount = te_amount te, t_before = before, t_after = after,
       t_reference = walletReference (referencePrefix (te_type te)) (n_now n) (n_uuid n), t_transferReference = None,
       t_description = te_description te, t_sourceType = Some sourceType, t_sourceId = Some i, t_reversalOf = None,
       t_createdBy = Some (u_id user), t_createdAt = n_now n \<rparr>"

definition mark_obligation_paid :: "time \<Rightarrow> string \<Rightarrow> string \<Rightarrow> string \<Rightarrow> ledger \<Rightarrow> actor \<Rightarrow> (wallet_db, unit) op" where
  "mark_obligation_paid now org sourceType i t user =
     (if sourceType = ''PAYROLL_RUN'' then in_wallet (
        bnd (update_row db_runs db_runs_update (\<lambda>r. pr_id r = i)
               (\<lambda>r. r\<lparr>pr_status := ''DISBURSED'', pr_disbursedAt := Some now\<rparr>)) (\<lambda>_.
        bnd (updateMany_payslips (\<lambda>p. p_run p = i \<and> p_org p = org) (\<lambda>p. p\<lparr>p_paymentStatus := ''PAID''\<rparr>)) (\<lambda>_.
        ret ())))
      else if sourceType = ''PAYEE_PAYMENT'' then
        bnd (update_row wd_payees wd_payees_update (\<lambda>p. pe_id p = i)
               (\<lambda>p. p\<lparr>pe_status := ''PAID'', pe_paidAt := Some now, pe_reference := Some (t_reference t)\<rparr>)) (\<lambda>_. ret ())
      else if sourceType = ''PAYE_REMITTANCE'' then
        bnd (update_row wd_taxes wd_taxes_update (\<lambda>x. tr_id x = i)
               (\<lambda>x. x\<lparr>tr_status := ''REMITTED'', tr_remittedAt := Some now, tr_reference := Some (t_reference t),
                      tr_receipt := Some (t_id t)\<rparr>)) (\<lambda>_. ret ())
      else if sourceType = ''PENSION_REMITTANCE'' then
        bnd (update_row wd_pensions wd_pensions_update (\<lambda>x. pn_id x = i)
               (\<lambda>x. x\<lparr>pn_status := ''REMITTED'', pn_remittedAt := Some now, pn_reference := Some (t_reference t),
                      pn_receipt := Some (t_id t), pn_markedBy := Some (u_id user)\<rparr>)) (\<lambda>_. ret ())
      else
        bnd (update_row wd_reports wd_reports_update (\<lambda>x. tx_id x = i)
               (\<lambda>x. x\<lparr>tx_submittedAt := Some now, tx_reference := Some (t_reference t)\<rparr>)) (\<lambda>_. ret ()))"

definition payPayrollWalletObligation ::
    "fin_env \<Rightarrow> audit_env \<Rightarrow> stamps \<Rightarrow> string \<Rightarrow> string \<Rightarrow> actor \<Rightarrow> (wallet_db, ledger) op" where
  "payPayrollWalletObligation E Y n org obligationId user =
     (case split_obligation obligationId of (sourceType, i) \<Rightarrow>
     bnd (guard (i \<noteq> [] \<and> sourceType \<in> set obligationKinds) (badRequest ''Unsupported wallet obligation'')) (\<lambda>_.
     tx (
       bnd (walletForTenant (n_id n) org) (\<lambda>w.
       bnd (in_wallet (assertIncidentWalletMutationAllowed E org (w_id w))) (\<lambda>_.
       bnd (in_wallet (find_row db_ledger (\<lambda>t. t_wallet t = w_id w \<and> t_sourceType t = Some sourceType \<and> t_sourceId t = Some i))) (\<lambda>prior.
       case prior of
         Some t \<Rightarrow> ret t
       | None \<Rightarrow>
           bnd (reads (obligation_terms org sourceType i w)) (\<lambda>asked.
           bnd (from_sum asked) (\<lambda>te.
           bnd (from_sum (assertFinancialCurrency (te_currency te) (w_currency w))) (\<lambda>_.
           bnd (in_wallet (debitUnreservedWallet org (w_id w) (te_amount te) (te_currency te))) (\<lambda>(_, before, after).
           bnd (in_wallet (create_ledger (obligation_row n org w sourceType i te before after user))) (\<lambda>t.
           bnd (mark_obligation_paid (n_now n) org sourceType i t user) (\<lambda>_.
           bnd (in_wallet (audited Y (n_now n) (audit_of org (Some (u_id user)) ''PAYROLL_WALLET_OBLIGATION_PAID''
                  ''WALLET_TRANSACTION'' (t_id t) ''Paid payroll wallet obligation''
                  (Some (JObj [(''obligationId'', JStr obligationId), (''transactionReference'', JStr (t_reference t))]))))) (\<lambda>_.
           ret t))))))))))))) "

section \<open>Settling a run payslip by payslip\<close>

fun insert_slip :: "payslip \<Rightarrow> payslip list \<Rightarrow> payslip list" where
  "insert_slip x [] = [x]"
| "insert_slip x (y # ys) = (if str_less (p_id y) (p_id x) then y # insert_slip x ys else x # y # ys)"

definition run_slips :: "string \<Rightarrow> string \<Rightarrow> fin_db \<Rightarrow> payslip list" where
  "run_slips org i f = foldr insert_slip (filter (\<lambda>p. p_org p = org \<and> p_run p = i) (db_payslips f)) []"

definition slip_source :: "string \<Rightarrow> wallet \<Rightarrow> actor \<Rightarrow> payslip \<Rightarrow> source" where
  "slip_source org w user p =
     \<lparr> src_org = org, src_wallet = w_id w, src_type = ''PAYROLL_PAYSLIP'', src_id = p_id p, src_amount = p_netPay p,
       src_currency = (case p_currency p of Some c \<Rightarrow> c | None \<Rightarrow> w_currency w), src_beneficiary = p_bank p,
       src_createdBy = Some (u_id user) \<rparr>"

definition start_disbursing :: "string \<Rightarrow> string \<Rightarrow> (fin_db, nat) op" where
  "start_disbursing org i =
     updateMany_runs (\<lambda>r. pr_id r = i \<and> pr_org r = org \<and> pr_status r \<in> {''APPROVED'', ''PENDING_DISBURSEMENT''})
       (\<lambda>r. r\<lparr>pr_status := ''DISBURSING''\<rparr>)"

definition mark_slip_paid :: "string \<Rightarrow> settlement \<Rightarrow> string \<Rightarrow> (fin_db, payslip) op" where
  "mark_slip_paid i s ledgerId = update_row db_payslips db_payslips_update (\<lambda>p. p_id p = i) (\<lambda>p. p\<lparr>p_paymentStatus := ''PAID''\<rparr>)"

text \<open>The result of a settlement: the status of the run, the number of payslips left, the settlements.\<close>

datatype run_settlement = RunSettlement (rs_status: string) (rs_remaining: nat) (rs_settlements: "settlement list")

definition settle_run_by_provider ::
    "fin_env \<Rightarrow> (nat \<Rightarrow> stamps) \<Rightarrow> (nat \<Rightarrow> stamps) \<Rightarrow> provider \<Rightarrow> string \<Rightarrow> string \<Rightarrow> string \<Rightarrow> wallet \<Rightarrow> payslip list \<Rightarrow> actor \<Rightarrow>
     (fin_db, run_settlement) op" where
  "settle_run_by_provider E ns ns' P org i key w slips user =
     bnd (each (\<lambda>(k, p). prepareProviderSettlement (ns k) (slip_source org w user p) (key @ '':'' @ p_id p)) (enumerate 0 slips)) (\<lambda>prepared.
     bnd (from_sum (assertProviderTransfersEnabled E)) (\<lambda>_.
     bnd (start_disbursing org i) (\<lambda>_.
     bnd (each (\<lambda>(k, s). initiateProviderSettlement E (ns' k) P org (s_id s)) (enumerate 0 prepared)) (\<lambda>settlements.
     ret (RunSettlement ''DISBURSING'' (length slips) settlements)))))"

definition pay_slip_by_hand ::
    "fin_env \<Rightarrow> stamps \<Rightarrow> string \<Rightarrow> string \<Rightarrow> string \<Rightarrow> time \<Rightarrow> string \<Rightarrow> wallet \<Rightarrow> actor \<Rightarrow> payslip \<Rightarrow>
     (fin_db, settlement \<times> payslip option \<times> bool) op" where
  "pay_slip_by_hand E n org key ref settledAt note w user p =
     completeManualSettlement E n (slip_source org w user p)
       \<lparr> mi_idempotencyKey = key @ '':'' @ p_id p, mi_externalReference = ref @ '':'' @ p_id p, mi_settledAt = settledAt,
         mi_note = note \<rparr>
       (mark_slip_paid (p_id p))"

definition settle_run_by_hand ::
    "fin_env \<Rightarrow> audit_env \<Rightarrow> (nat \<Rightarrow> stamps) \<Rightarrow> time \<Rightarrow> string \<Rightarrow> string \<Rightarrow> string \<Rightarrow> string \<Rightarrow> time \<Rightarrow> string \<Rightarrow> wallet \<Rightarrow>
     payslip list \<Rightarrow> actor \<Rightarrow> (fin_db, run_settlement) op" where
  "settle_run_by_hand E Y ns now org i key ref settledAt note w slips user =
     bnd (start_disbursing org i) (\<lambda>_.
     bnd (each (\<lambda>(k, p). pay_slip_by_hand E (ns k) org key ref settledAt note w user p) (enumerate 0 slips)) (\<lambda>results.
     bnd (count_rows db_payslips (\<lambda>p. p_org p = org \<and> p_run p = i \<and> p_paymentStatus p \<noteq> ''PAID'')) (\<lambda>remaining.
     bnd (update_row db_runs db_runs_update (\<lambda>r. pr_id r = i)
            (\<lambda>r. if remaining \<noteq> 0 then r\<lparr>pr_status := ''DISBURSING''\<rparr>
                 else r\<lparr>pr_status := ''DISBURSED'', pr_disbursedAt := Some settledAt\<rparr>)) (\<lambda>_.
     bnd (audited Y now (audit_of org (Some (u_id user)) ''PAYROLL_RUN_MANUALLY_SETTLED'' ''PAYROLL_RUN'' i
            (''Recorded '' @ show_nat (length results) @ '' employee settlements'')
            (Some (JObj [(''externalBatchReference'', JStr ref)])))) (\<lambda>_.
     ret (RunSettlement (if remaining \<noteq> 0 then ''DISBURSING'' else ''DISBURSED'') remaining (map fst results)))))))"

definition settlePayrollRun ::
    "fin_env \<Rightarrow> audit_env \<Rightarrow> (nat \<Rightarrow> stamps) \<Rightarrow> (nat \<Rightarrow> stamps) \<Rightarrow> time \<Rightarrow> string \<Rightarrow> provider \<Rightarrow> string \<Rightarrow> string \<Rightarrow> string \<Rightarrow>
     settlement_route \<Rightarrow> actor \<Rightarrow> (wallet_db, run_settlement) op" where
  "settlePayrollRun E Y ns ns' now walletId P org i key route user =
     bnd (walletForTenant walletId org) (\<lambda>w.
     in_wallet (
       bnd (find_row db_runs (payable_run org i)) (\<lambda>found.
       bnd (required found (conflict ''Payroll run is not payable'')) (\<lambda>_.
       bnd (reads (run_slips org i)) (\<lambda>slips.
       bnd (guard (slips \<noteq> []) (conflict ''Payroll run has no employee obligations'')) (\<lambda>_.
       case route of
         ByProvider \<Rightarrow> settle_run_by_provider E ns ns' P org i key w slips user
       | ByHand ref settledAt note \<Rightarrow> settle_run_by_hand E Y ns now org i key ref settledAt note w slips user))))))"

end
