(* ===== verification/PayrollBooks.thy ===== *)
theory PayrollBooks
  imports PayrollWallet Triples
begin

text \<open>
  What the payroll payments do to the books: the settlement of a run consists of steps of the
  financial core, a settlement by hand pays every payslip, and funding the wallet or paying an
  obligation from it is one posting with its ledger row.
\<close>

section \<open>Runs of the wallet operations\<close>

lemma run_in_wallet: "in_wallet m d = (r, d') \<longleftrightarrow> (\<exists>f. m (wd_fin d) = (r, f) \<and> d' = d\<lparr>wd_fin := f\<rparr>)"
  by (simp add: in_wallet_def run_zoom)

text \<open>An organization that has its wallet.\<close>

definition has_wallet :: "string \<Rightarrow> wallet \<Rightarrow> wallet_db \<Rightarrow> bool" where
  "has_wallet org w d \<longleftrightarrow> (\<exists>o' \<in> set (wd_owners d). wo_id o' = org) \<and> find (primary_wallet org) (db_wallets (wd_fin d)) = Some w"

lemma wallet_found:
  assumes "has_wallet org w d"
  shows "walletForTenant i org d = (Inr w, d)"
proof -
  have "find (\<lambda>o'. wo_id o' = org) (wd_owners d) \<noteq> None" using assms by (auto simp: has_wallet_def find_None_iff)
  then show ?thesis using assms unfolding walletForTenant_def in_wallet_def has_wallet_def
    by (auto simp: bnd_def find_row_def reads_def required_def zoom_def ret_def)
qed

lemma has_walletD:
  assumes "has_wallet org w d" and "distinct (map w_id (db_wallets (wd_fin d)))"
  shows "find (wallet_key org (w_id w)) (db_wallets (wd_fin d)) = Some w" "w_org w = org" "w_purpose w = ''PRIMARY''"
proof -
  have w: "w \<in> set (db_wallets (wd_fin d))" "primary_wallet org w"
    using assms(1) find_SomeD[of "primary_wallet org" "db_wallets (wd_fin d)" w] by (simp_all add: has_wallet_def)
  then show o: "w_org w = org" "w_purpose w = ''PRIMARY''" by (simp_all add: primary_wallet_def)
  have "find (\<lambda>v. w_id v = w_id w \<and> w_org v = org) rows = Some w" if "distinct (map w_id rows)" "w \<in> set rows" for rows
    using that
  proof (induction rows)
    case (Cons v rows)
    then show ?case using o by (cases "v = w") (auto simp: image_iff)
  qed simp
  from this[OF assms(2) w(1)] show "find (wallet_key org (w_id w)) (db_wallets (wd_fin d)) = Some w"
    unfolding find_Some_iff wallet_key_def by blast
qed

section \<open>Settling a run takes steps of the financial core\<close>

lemma mark_slip_same: "keeps (same_books b) (mark_slip_paid i s l)"
  unfolding mark_slip_paid_def by (rule keeps_update_row) (simp add: same_books_def)

lemma from_here_runs: "keeps (from_here E a) (update_row db_runs db_runs_update P f)"
  by (rule by_other, rule keeps_update_row) (simp add: same_books_def)

lemma from_here_start: "keeps (from_here E a) (start_disbursing org i)"
  unfolding start_disbursing_def by (intro keeps_rules)

lemma keeps_enumerate:
  assumes "\<And>k p. p \<in> set xs \<Longrightarrow> keeps I (f k p)"
  shows "keeps I (each (\<lambda>(k, p). f k p) (enumerate n xs))"
  by (rule keeps_each) (use assms in \<open>auto simp: in_set_enumerate_eq split: prod.splits\<close>)

lemma from_here_slip:
  assumes "0 \<le> p_netPay p"
  shows "keeps (from_here E a) (prepareProviderSettlement n (slip_source org w user p) key)"
  by (rule from_here_prepare) (simp add: slip_source_def assms)

lemma from_here_settle_run:
  assumes "\<forall>p \<in> set slips. 0 \<le> p_netPay p"
  shows "keeps (from_here E a) (settle_run_by_provider E ns ns' P org i key w slips user)"
    and "keeps (from_here E a) (settle_run_by_hand E Y ns now org i key ref settledAt note w slips user)"
proof -
  have "keeps (from_here E a) (prepareProviderSettlement (ns k) (slip_source org w user p) (key @ '':'' @ p_id p))"
    if "p \<in> set slips" for k p using that assms by (intro from_here_slip) blast
  then show "keeps (from_here E a) (settle_run_by_provider E ns ns' P org i key w slips user)"
    unfolding settle_run_by_provider_def
    by (intro keeps_bnd keeps_enumerate from_here_start from_here_initiate keeps_from_sum keeps_ret)
  have "keeps (from_here E a) (pay_slip_by_hand E n org key ref settledAt note w user p)" for n p
    unfolding pay_slip_by_hand_def by (rule from_here_manual) (rule mark_slip_same)
  then show "keeps (from_here E a) (settle_run_by_hand E Y ns now org i key ref settledAt note w slips user)"
    unfolding settle_run_by_hand_def
    by (intro keeps_bnd keeps_enumerate from_here_start from_here_runs keeps_count_rows from_here_tables keeps_ret)
qed

lemma insert_slip_set: "set (insert_slip p ps) = insert p (set ps)"
  by (induction ps) auto

lemma run_slips_set: "set (run_slips org i f) = {p \<in> set (db_payslips f). p_org p = org \<and> p_run p = i}"
proof -
  have "set (foldr insert_slip ps []) = set ps" for ps by (induction ps) (simp_all add: insert_slip_set)
  then show ?thesis by (auto simp: run_slips_def)
qed

text \<open>How a settlement of a run goes once the wallet is found.\<close>

lemma settle_run_cases:
  assumes w: "has_wallet org w d" and run: "settlePayrollRun E Y ns ns' now walletId P org i key route user d = (r, d')"
  obtains e where "r = Inl e" "d' = d"
  | x f' where "find (payable_run org i) (db_runs (wd_fin d)) = Some x" "d' = d\<lparr>wd_fin := f'\<rparr>"
      "(case route of
         ByProvider \<Rightarrow> settle_run_by_provider E ns ns' P org i key w (run_slips org i (wd_fin d)) user
       | ByHand ref settledAt note \<Rightarrow>
           settle_run_by_hand E Y ns now org i key ref settledAt note w (run_slips org i (wd_fin d)) user) (wd_fin d) = (r, f')"
proof -
  let ?go = "\<lambda>slips. case route of
         ByProvider \<Rightarrow> settle_run_by_provider E ns ns' P org i key w slips user
       | ByHand ref settledAt note \<Rightarrow> settle_run_by_hand E Y ns now org i key ref settledAt note w slips user"
  from run obtain f' where f': "bnd (find_row db_runs (payable_run org i)) (\<lambda>found.
       bnd (required found (conflict ''Payroll run is not payable'')) (\<lambda>_.
       bnd (reads (run_slips org i)) (\<lambda>slips.
       bnd (guard (slips \<noteq> []) (conflict ''Payroll run has no employee obligations'')) (\<lambda>_. ?go slips)))) (wd_fin d) = (r, f')"
    and d': "d' = d\<lparr>wd_fin := f'\<rparr>"
    unfolding settlePayrollRun_def by (auto simp: bnd_def wallet_found[OF w] run_in_wallet)
  have same: "d\<lparr>wd_fin := wd_fin d\<rparr> = d" by simp
  show thesis
  proof (cases "find (payable_run org i) (db_runs (wd_fin d))")
    case None
    with f' have "f' = wd_fin d" "\<exists>e. r = Inl e" by (auto simp: bnd_def find_row_def reads_def required_def raise_def)
    with d' that(1) show ?thesis by auto
  next
    case (Some x)
    show ?thesis
    proof (cases "run_slips org i (wd_fin d) = []")
      case True
      with f' Some have "f' = wd_fin d" "\<exists>e. r = Inl e" by (auto simp: bnd_def find_row_def reads_def required_def ret_def guard_def raise_def)
      with d' that(1) show ?thesis by auto
    next
      case False
      with f' Some have "?go (run_slips org i (wd_fin d)) (wd_fin d) = (r, f')"
        by (simp add: bnd_def find_row_def reads_def required_def ret_def guard_def)
      with Some d' that(2) show ?thesis by blast
    qed
  qed
qed

lemma settle_run_steps:
  assumes w: "has_wallet org w d" and nonneg: "\<forall>p \<in> set (db_payslips (wd_fin d)). 0 \<le> p_netPay p"
    and run: "settlePayrollRun E Y ns ns' now walletId P org i key route user d = (r, d')"
  shows "reachable E (wd_fin d) (wd_fin d')"
proof (cases rule: settle_run_cases[OF w run])
  case (1 e)
  then show ?thesis by simp
next
  case (2 x f')
  have "\<forall>p \<in> set (run_slips org i (wd_fin d)). 0 \<le> p_netPay p" using nonneg by (auto simp: run_slips_set)
  note steps = from_here_settle_run[OF this]
  have "from_here E (wd_fin d) f'"
  proof (cases route)
    case ByProvider
    with 2(3) keepsD[OF steps(1) here] show ?thesis by simp
  next
    case (ByHand ref settledAt reason)
    with 2(3) keepsD[OF steps(2) here] show ?thesis by simp
  qed
  with 2(2) show ?thesis by (simp add: from_here_def)
qed

section \<open>What a settlement by hand pays\<close>

definition unsettled :: "string \<Rightarrow> string \<Rightarrow> fin_db \<Rightarrow> bool" where
  "unsettled org i f \<longleftrightarrow> (\<forall>s \<in> set (db_settlements f). \<not> (s_org s = org \<and> s_sourceType s = ''PAYROLL_PAYSLIP'' \<and> s_sourceId s = i))"

definition slip_debit :: "string \<Rightarrow> wallet \<Rightarrow> payslip \<Rightarrow> ledger \<Rightarrow> bool" where
  "slip_debit org w p l \<longleftrightarrow> t_org l = org \<and> t_wallet l = w_id w \<and> t_direction l = ''DEBIT'' \<and> t_amount l = p_netPay p \<and>
     t_sourceType l = Some ''PAYROLL_PAYSLIP'' \<and> t_sourceId l = Some (p_id p)"

abbreviation "slip_paid \<equiv> (\<lambda>p :: payslip. p\<lparr>p_paymentStatus := ''PAID''\<rparr>)"

lemma fresh_manual_run:
  assumes "completeManualSettlement E n src inp fin f = (Inr x, f')"
    and "find (\<lambda>s. s_org s = src_org src \<and> s_sourceType s = src_type src \<and> s_sourceId s = src_id src) (db_settlements f) = None"
  shows "manual_settle n src inp fin None f = (Inr x, f')"
  using assms by (auto simp: completeManualSettlement_def incident_then on_P2002_def run_catching_ok find_source_def run_simps split: if_splits)

lemma fresh_manual_effect:
  assumes "wallets_ok f" and "completeManualSettlement E n src inp fin f = (Inr x, f')"
    and "find (\<lambda>s. s_org s = src_org src \<and> s_sourceType s = src_type src \<and> s_sourceId s = src_id src) (db_settlements f) = None"
  obtains b a st m res where "0 \<le> src_amount src" "s_sourceId m = src_id src"
    "fin (fst x) (n_ledgerId n) ((post_wallet (src_org src) (src_wallet src) (- src_amount src) 0 f)
      \<lparr>db_ledger := db_ledger f @ [manual_ledger n src inp st b a], db_settlements := db_settlements f @ [m]\<rparr>) = (Inr res, f')"
proof -
  obtain w c st l res ss where nonneg: "0 \<le> src_amount src"
    and ss: "ss = db_settlements f @ [manual_done n inp (manualData n inp (new_settlement n src c (mi_idempotencyKey inp)))]"
    and l: "l = manual_ledger n src inp st (w_balance (w :: wallet)) (w_balance w - src_amount src)"
    and fin: "fin (fst x) (n_ledgerId n) ((post_wallet (src_org src) (src_wallet src) (- src_amount src) 0 f)
      \<lparr>db_ledger := db_ledger f @ [l], db_settlements := ss\<rparr>) = (Inr res, f')"
    using manual_settle_run[OF assms(1) fresh_manual_run[OF assms(2,3)]]
    unfolding option.case Let_def by (elim exE conjE) (rule that, assumption+)
  show thesis by (rule that[OF nonneg _ fin[unfolded ss l]]) (simp add: new_settlement_def)
qed

lemma pay_one_slip:
  assumes ok: "books_ok f" and fresh: "unsettled org (p_id p) f"
    and run: "pay_slip_by_hand E n org key ref settledAt reason w user p f = (Inr x, f')"
  obtains l s where "books_ok f'" "slip_debit org w p l" "db_ledger f' = db_ledger f @ [l]"
    "db_wallets f' = updateMany (wallet_key org (w_id w)) (add_wallet (- p_netPay p) 0) (db_wallets f)"
    "db_payslips f' = updateMany (\<lambda>q. p_id q = p_id p) slip_paid (db_payslips f)" "db_runs f' = db_runs f"
    "db_settlements f' = db_settlements f @ [s]" "s_sourceId s = p_id p"
proof -
  define src where "src = slip_source org w user p"
  define inp where "inp = \<lparr> mi_idempotencyKey = key @ '':'' @ p_id p, mi_externalReference = ref @ '':'' @ p_id p, mi_settledAt = settledAt,
         mi_note = reason \<rparr>"
  have src: "src_org src = org" "src_wallet src = w_id w" "src_type src = ''PAYROLL_PAYSLIP''" "src_id src = p_id p"
    "src_amount src = p_netPay p" by (simp_all add: src_def slip_source_def)
  have none: "find (\<lambda>s. s_org s = src_org src \<and> s_sourceType s = src_type src \<and> s_sourceId s = src_id src) (db_settlements f) = None"
    using fresh unfolding find_None_iff unsettled_def src by blast
  have run': "completeManualSettlement E n src inp (mark_slip_paid (p_id p)) f = (Inr x, f')"
    using run by (simp add: pay_slip_by_hand_def src_def inp_def)
  have "keeps books_ok (completeManualSettlement E n src inp (mark_slip_paid (p_id p)))"
    by (rule complete_keeps_books, rule books_if_same, rule mark_slip_same)
  from keepsD[OF this ok run'] have books: "books_ok f'" .
  obtain b a st m res where m: "s_sourceId m = src_id src"
    and fin: "mark_slip_paid (p_id p) (fst x) (n_ledgerId n) ((post_wallet (src_org src) (src_wallet src) (- src_amount src) 0 f)
      \<lparr>db_ledger := db_ledger f @ [manual_ledger n src inp st b a], db_settlements := db_settlements f @ [m]\<rparr>) = (Inr res, f')"
    by (rule fresh_manual_effect[OF books_okD(1)[OF ok] run' none])
  have "slip_debit org w p (manual_ledger n src inp st b a)" by (simp add: slip_debit_def manual_ledger_def src)
  then show thesis
    by (rule that[OF books _ _ _ _ _ _ m[unfolded src(4)]])
      (use fin in \<open>auto simp: mark_slip_paid_def run_simps post_wallet_def src\<close>)
qed

lemma add_wallet_again:
  "updateMany (wallet_key org i) (add_wallet b 0) (updateMany (wallet_key org i) (add_wallet a 0) rows) =
   updateMany (wallet_key org i) (add_wallet (a + b) 0) rows"
  by (induction rows) (auto simp: add_wallet_def wallet_key_def)

lemma add_wallet_nothing: "updateMany P (add_wallet 0 0) rows = rows"
  by (induction rows) (auto simp: add_wallet_def)

lemma slip_paid_again:
  "updateMany (\<lambda>q. p_id q \<in> B) slip_paid (updateMany (\<lambda>q. p_id q = a) slip_paid rows) =
   updateMany (\<lambda>q. p_id q \<in> insert a B) slip_paid rows"
  by (induction rows) auto

lemma pay_all_slips:
  assumes "books_ok f" and "distinct (map p_id slips)" and "\<forall>p \<in> set slips. unsettled org (p_id p) f"
    and "each (\<lambda>(k, p). pay_slip_by_hand E (ns k) org key ref settledAt reason w user p) (enumerate n slips) f = (Inr xs, f')"
  shows "\<exists>ls. books_ok f' \<and> db_ledger f' = db_ledger f @ ls \<and> list_all2 (slip_debit org w) slips ls \<and>
    db_wallets f' = updateMany (wallet_key org (w_id w)) (add_wallet (- sum_list (map p_netPay slips)) 0) (db_wallets f) \<and>
    db_payslips f' = updateMany (\<lambda>q. p_id q \<in> p_id ` set slips) slip_paid (db_payslips f) \<and> db_runs f' = db_runs f"
  using assms
proof (induction slips arbitrary: f n xs)
  case Nil
  then show ?case by (simp add: ret_def add_wallet_nothing updateMany_none)
next
  case (Cons p ps)
  from Cons.prems(4) obtain x xs' f1 where one: "pay_slip_by_hand E (ns n) org key ref settledAt reason w user p f = (Inr x, f1)"
    and rest: "each (\<lambda>(k, p). pay_slip_by_hand E (ns k) org key ref settledAt reason w user p) (enumerate (Suc n) ps) f1 = (Inr xs', f')"
    by (auto simp: run_simps)
  have "unsettled org (p_id p) f" using Cons.prems(3) by simp
  then obtain l s where f1: "books_ok f1" "slip_debit org w p l" "db_ledger f1 = db_ledger f @ [l]"
    "db_wallets f1 = updateMany (wallet_key org (w_id w)) (add_wallet (- p_netPay p) 0) (db_wallets f)"
    "db_payslips f1 = updateMany (\<lambda>q. p_id q = p_id p) slip_paid (db_payslips f)" "db_runs f1 = db_runs f"
    "db_settlements f1 = db_settlements f @ [s]" "s_sourceId s = p_id p"
    by (rule pay_one_slip[OF Cons.prems(1) _ one])
  have "\<forall>q \<in> set ps. unsettled org (p_id q) f1" using Cons.prems(2,3) f1(7,8) by (auto simp: unsettled_def)
  with Cons.prems(2) obtain ls where ls: "books_ok f'" "db_ledger f' = db_ledger f1 @ ls" "list_all2 (slip_debit org w) ps ls"
    "db_wallets f' = updateMany (wallet_key org (w_id w)) (add_wallet (- sum_list (map p_netPay ps)) 0) (db_wallets f1)"
    "db_payslips f' = updateMany (\<lambda>q. p_id q \<in> p_id ` set ps) slip_paid (db_payslips f1)" "db_runs f' = db_runs f1"
    using Cons.IH[OF f1(1) _ _ rest] by auto
  show ?case
    using f1 ls by (intro exI[of _ "l # ls"]) (simp add: add_wallet_again slip_paid_again)
qed

lemma insert_slip_distinct:
  "p_id p \<notin> p_id ` set ps \<Longrightarrow> distinct (map p_id ps) \<Longrightarrow> distinct (map p_id (insert_slip p ps))"
  by (induction ps) (auto simp: insert_slip_set)

lemma run_slips_distinct:
  assumes "distinct (map p_id (db_payslips f))"
  shows "distinct (map p_id (run_slips org i f))"
proof -
  have "set (foldr insert_slip ps []) = set ps" for ps by (induction ps) (simp_all add: insert_slip_set)
  then have "distinct (map p_id ps) \<Longrightarrow> distinct (map p_id (foldr insert_slip ps []))" for ps
    by (induction ps) (simp_all add: insert_slip_distinct)
  moreover have "distinct (map p_id (filter P (db_payslips f)))" for P
    using assms by (auto simp: distinct_map intro: inj_on_subset)
  ultimately show ?thesis by (simp add: run_slips_def)
qed

lemma manual_settlement_pays:
  assumes w: "has_wallet org w d" and books: "books_ok (wd_fin d)" and ids: "distinct (map p_id (db_payslips (wd_fin d)))"
    and fresh: "\<forall>p \<in> set (run_slips org i (wd_fin d)). unsettled org (p_id p) (wd_fin d)"
    and run: "settlePayrollRun E Y ns ns' now walletId P org i key (ByHand ref settledAt reason) user d = (Inr res, d')"
  shows "\<exists>ls. rs_status res = ''DISBURSED'' \<and> rs_remaining res = 0 \<and> db_ledger (wd_fin d') = db_ledger (wd_fin d) @ ls \<and>
    list_all2 (slip_debit org w) (run_slips org i (wd_fin d)) ls \<and>
    db_wallets (wd_fin d') = updateMany (wallet_key org (w_id w))
      (add_wallet (- sum_list (map p_netPay (run_slips org i (wd_fin d)))) 0) (db_wallets (wd_fin d)) \<and>
    (\<forall>p \<in> set (db_payslips (wd_fin d')). p_org p = org \<and> p_run p = i \<longrightarrow> p_paymentStatus p = ''PAID'') \<and>
    (\<forall>r \<in> set (db_runs (wd_fin d')). pr_id r = i \<longrightarrow> pr_status r = ''DISBURSED'')"
  using settle_run_cases[OF w run]
proof cases
  case (1 e)
  then show ?thesis by simp
next
  case (2 x f')
  let ?f = "wd_fin d" and ?slips = "run_slips org i (wd_fin d)"
  from 2(3) obtain c f1 xs f2 remaining g a where f1: "start_disbursing org i ?f = (Inr c, f1)"
    and paid: "each (\<lambda>(k, p). pay_slip_by_hand E (ns k) org key ref settledAt reason w user p) (enumerate 0 ?slips) f1 = (Inr xs, f2)"
    and remaining: "remaining = countWhere (\<lambda>p. p_org p = org \<and> p_run p = i \<and> p_paymentStatus p \<noteq> ''PAID'') (db_payslips f2)"
    and g: "g = (\<lambda>r. if remaining \<noteq> 0 then r\<lparr>pr_status := ''DISBURSING''\<rparr>
                 else r\<lparr>pr_status := ''DISBURSED'', pr_disbursedAt := Some settledAt\<rparr>)"
    and f': "f' = (db_runs_update (updateMany (\<lambda>r. pr_id r = i) g) f2)\<lparr>db_audit := a\<rparr>"
    and res: "res = RunSettlement (if remaining \<noteq> 0 then ''DISBURSING'' else ''DISBURSED'') remaining (map fst xs)"
    unfolding settle_run_by_hand_def by (simp add: run_simps) blast
  have same: "same_books ?f f1" "db_payslips f1 = db_payslips ?f" using f1 by (auto simp: start_disbursing_def run_simps same_books_def)
  then have "books_ok f1" "\<forall>p \<in> set ?slips. unsettled org (p_id p) f1"
    using books fresh books_ok_cong[of f1 ?f] by (auto simp: same_books_def unsettled_def)
  from pay_all_slips[OF this(1) run_slips_distinct[OF ids] this(2) paid]
  obtain ls where ls: "db_ledger f2 = db_ledger f1 @ ls" "list_all2 (slip_debit org w) ?slips ls"
    "db_wallets f2 = updateMany (wallet_key org (w_id w)) (add_wallet (- sum_list (map p_netPay ?slips)) 0) (db_wallets f1)"
    "db_payslips f2 = updateMany (\<lambda>q. p_id q \<in> p_id ` set ?slips) slip_paid (db_payslips f1)" by blast
  have all: "p_paymentStatus p = ''PAID''" if p: "p \<in> set (db_payslips f2)" "p_org p = org" "p_run p = i" for p
    using p(1) unfolding ls(4)
  proof (rule updateManyE)
    fix q assume q: "q \<in> set (db_payslips f1)" "p = (if p_id q \<in> p_id ` set ?slips then slip_paid q else q)"
    then have "p_org q = org" "p_run q = i" using p(2,3) by (auto split: if_splits)
    with q(1) have "q \<in> set ?slips" by (simp add: run_slips_set same(2))
    with q(2) show ?thesis by simp
  qed
  then have "remaining = 0" unfolding remaining by (auto simp: countWhere_def filter_empty_conv)
  moreover have "pr_status r = ''DISBURSED''" if r: "r \<in> set (updateMany (\<lambda>r. pr_id r = i) g (db_runs f2))" "pr_id r = i" for r
    using r(1)
  proof (rule updateManyE)
    fix y assume "y \<in> set (db_runs f2)" "r = (if pr_id y = i then g y else y)"
    with r(2) \<open>remaining = 0\<close> show ?thesis by (cases "pr_id y = i") (simp_all add: g)
  qed
  moreover have "db_runs f' = updateMany (\<lambda>r. pr_id r = i) g (db_runs f2)" by (simp add: f')
  moreover have "db_ledger f' = db_ledger ?f @ ls" using ls(1) same(1) by (simp add: f' same_books_def)
  moreover have "db_wallets f' = updateMany (wallet_key org (w_id w)) (add_wallet (- sum_list (map p_netPay ?slips)) 0) (db_wallets ?f)"
    using ls(3) same(1) by (simp add: f' same_books_def)
  moreover have "db_payslips f' = db_payslips f2" by (simp add: f')
  moreover have "wd_fin d' = f'" using 2(2) by simp
  ultimately show ?thesis using ls(2) all by (intro exI[of _ ls] conjI) (simp_all add: res)
qed

section \<open>What an obligation pays\<close>

lemma incident_run: "assertIncidentWalletMutationAllowed E org i f = (Inr (), f)"
  by (simp add: assertIncidentWalletMutationAllowed_def from_sum_def INCIDENT_WALLET_MUTATIONS_PAUSED_def
      assertIncidentWalletFingerprintMutationAllowed_def)

lemma obligation_run:
  assumes w: "has_wallet org w d" and split: "split_obligation oid = (ty, i)"
    and none: "find (\<lambda>t. t_wallet t = w_id w \<and> t_sourceType t = Some ty \<and> t_sourceId t = Some i) (db_ledger (wd_fin d)) = None"
    and run: "payPayrollWalletObligation E Y n org oid user d = (Inr t, d')"
  obtains te x b a f1 d2 q where "obligation_terms org ty i w d = Inr te"
    "debitUnreservedWallet org (w_id w) (te_amount te) (te_currency te) (wd_fin d) = (Inr (x, b, a), f1)"
    "t = obligation_row n org w ty i te b a user"
    "mark_obligation_paid (n_now n) org ty i t user (d\<lparr>wd_fin := f1\<lparr>db_ledger := db_ledger f1 @ [t]\<rparr>\<rparr>) = (Inr (), d2)"
    "d' = d2\<lparr>wd_fin := (wd_fin d2)\<lparr>db_audit := q\<rparr>\<rparr>"
proof -
  have go: "\<exists>te x b a f1 d2 q. obligation_terms org ty i w d = Inr te \<and>
    debitUnreservedWallet org (w_id w) (te_amount te) (te_currency te) (wd_fin d) = (Inr (x, b, a), f1) \<and>
    t = obligation_row n org w ty i te b a user \<and>
    mark_obligation_paid (n_now n) org ty i t user (d\<lparr>wd_fin := f1\<lparr>db_ledger := db_ledger f1 @ [t]\<rparr>\<rparr>) = (Inr (), d2) \<and>
    d' = d2\<lparr>wd_fin := (wd_fin d2)\<lparr>db_audit := q\<rparr>\<rparr>"
    using run none unfolding payPayrollWalletObligation_def split prod.case
    by (simp add: run_simps run_in_wallet wallet_found[OF w] incident_run split: option.splits)
      (elim exE conjE, simp, (rule exI conjI refl | assumption)+)
  then show thesis using that by blast
qed

text \<open>What is paid for a run: in one debit for the run, or payslip by payslip.\<close>

definition pays_run :: "string \<Rightarrow> fin_db \<Rightarrow> ledger \<Rightarrow> bool" where
  "pays_run i f t \<longleftrightarrow> t_direction t = ''DEBIT'' \<and>
     (t_sourceType t = Some ''PAYROLL_RUN'' \<and> t_sourceId t = Some i \<or>
      t_sourceType t = Some ''PAYROLL_PAYSLIP'' \<and> (\<exists>p \<in> set (db_payslips f). p_run p = i \<and> t_sourceId t = Some (p_id p)))"

definition paid_for_run :: "string \<Rightarrow> fin_db \<Rightarrow> money" where
  "paid_for_run i f = sum_list (map t_amount (filter (pays_run i f) (db_ledger f)))"

lemma pays_run_cong:
  assumes "map (\<lambda>p. (p_id p, p_run p)) (db_payslips f) = map (\<lambda>p. (p_id p, p_run p)) (db_payslips g)"
  shows "pays_run i f = pays_run i g"
proof -
  have "(\<lambda>p. (p_id p, p_run p)) ` set (db_payslips f) = (\<lambda>p. (p_id p, p_run p)) ` set (db_payslips g)"
    using assms by (metis list.set_map)
  then have "(\<exists>p \<in> set (db_payslips f). p_run p = i \<and> x = Some (p_id p)) = (\<exists>p \<in> set (db_payslips g). p_run p = i \<and> x = Some (p_id p))" for x
    by (auto simp: image_iff set_eq_iff) metis+
  then show ?thesis by (simp add: pays_run_def fun_eq_iff)
qed

lemma run_obligation_pays:
  assumes w: "has_wallet org w d" and ok: "wallets_ok (wd_fin d)"
    and none: "find (\<lambda>t. t_wallet t = w_id w \<and> t_sourceType t = Some ''PAYROLL_RUN'' \<and> t_sourceId t = Some i) (db_ledger (wd_fin d)) = None"
    and run: "payPayrollWalletObligation E Y n org (''PAYROLL_RUN:'' @ i) user d = (Inr t, d')"
  shows "\<exists>r \<in> set (db_runs (wd_fin d)). payable_run org i r \<and> t_amount t = pr_totalNetPay r \<and>
    db_ledger (wd_fin d') = db_ledger (wd_fin d) @ [t] \<and>
    db_wallets (wd_fin d') = updateMany (wallet_key org (w_id w)) (add_wallet (- pr_totalNetPay r) 0) (db_wallets (wd_fin d)) \<and>
    paid_for_run i (wd_fin d') = paid_for_run i (wd_fin d) + pr_totalNetPay r"
proof -
  have split: "split_obligation (''PAYROLL_RUN:'' @ i) = (''PAYROLL_RUN'', i)" by (simp add: split_obligation_def)
  obtain te x b a f1 d2 q where te: "obligation_terms org ''PAYROLL_RUN'' i w d = Inr te"
    and debit: "debitUnreservedWallet org (w_id w) (te_amount te) (te_currency te) (wd_fin d) = (Inr (x, b, a), f1)"
    and t: "t = obligation_row n org w ''PAYROLL_RUN'' i te b a user"
    and mark: "mark_obligation_paid (n_now n) org ''PAYROLL_RUN'' i t user (d\<lparr>wd_fin := f1\<lparr>db_ledger := db_ledger f1 @ [t]\<rparr>\<rparr>) = (Inr (), d2)"
    and d': "d' = d2\<lparr>wd_fin := (wd_fin d2)\<lparr>db_audit := q\<rparr>\<rparr>"
    by (rule obligation_run[OF w split none run])
  from te obtain r where r: "find (payable_run org i) (db_runs (wd_fin d)) = Some r" and amount: "te_amount te = pr_totalNetPay r"
    by (auto simp: obligation_terms_def run_terms_def Let_def split: option.splits if_splits)
  have f1: "f1 = post_wallet org (w_id w) (- te_amount te) 0 (wd_fin d)" using debit_run[OF ok debit] by simp
  have marked: "db_ledger (wd_fin d') = db_ledger (wd_fin d) @ [t]" "db_wallets (wd_fin d') = db_wallets f1"
    "db_payslips (wd_fin d') = updateMany (\<lambda>p. p_run p = i \<and> p_org p = org) slip_paid (db_payslips (wd_fin d))"
    using mark unfolding mark_obligation_paid_def d' by (auto simp: run_simps run_in_wallet f1 post_wallet_def)
  have same: "pays_run i (wd_fin d') = pays_run i (wd_fin d)"
    by (rule pays_run_cong) (auto simp: marked(3) updateMany_def)
  have "pays_run i (wd_fin d) t" by (simp add: t obligation_row_def pays_run_def)
  then have "paid_for_run i (wd_fin d') = paid_for_run i (wd_fin d) + pr_totalNetPay r"
    unfolding paid_for_run_def same marked(1) by (simp add: t obligation_row_def amount)
  moreover have "r \<in> set (db_runs (wd_fin d))" "payable_run org i r" using find_SomeD[OF r] by auto
  moreover have "t_amount t = pr_totalNetPay r" by (simp add: t obligation_row_def amount)
  ultimately show ?thesis using marked f1 amount by (intro bexI[of _ r]) (simp_all add: post_wallet_def)
qed

section \<open>Wallet operations keep the books\<close>

abbreviation "wallet_books d \<equiv> books_ok (wd_fin d)"

lemma keeps_in_wallet: "keeps J m \<Longrightarrow> keeps (\<lambda>d. J (wd_fin d)) (in_wallet m)"
  unfolding in_wallet_def by (rule keeps_zoom) auto

lemma mark_paid_same: "keeps (\<lambda>d. same_books b (wd_fin d)) (mark_obligation_paid now org ty i t user)"
  unfolding mark_obligation_paid_def
  by (intro keeps_rules keeps_in_wallet keeps_update_row; simp add: same_books_def)

lemma debited_books:
  assumes ok: "books_ok f" and debit: "debitUnreservedWallet org i v c f = (Inr x, f1)"
    and row: "t_wallet t = i" "t_direction t = ''DEBIT''" "t_amount t = v"
  shows "books_ok (f1\<lparr>db_ledger := db_ledger f1 @ [t]\<rparr>)"
proof -
  note D = books_okD[OF ok]
  obtain w where w: "find (wallet_key org i) (db_wallets f) = Some w" "v \<le> w_balance w - w_reserved w"
    and f1: "f1 = post_wallet org i (- v) 0 f" using debit_run[OF D(1) debit] by blast
  have "books_ok ((post_wallet org i (- v) 0 f)\<lparr>db_settlements := db_settlements f, db_ledger := db_ledger f @ [t]\<rparr>)"
    using w wallet_in_bounds[OF D(1) w(1)] D(2,3) row
    by (intro books_posting[OF ok w(1)]) (auto simp: signed_amount_def)
  then show ?thesis
    by (subst books_ok_cong[of _ "(post_wallet org i (- v) 0 f)\<lparr>db_settlements := db_settlements f, db_ledger := db_ledger f @ [t]\<rparr>"])
      (simp_all add: f1 post_wallet_def)
qed

lemma obligation_keeps_books:
  assumes w: "has_wallet org w d" and ok: "wallet_books d" and run: "payPayrollWalletObligation E Y n org oid user d = (r, d')"
  shows "wallet_books d'"
proof (cases r)
  case (Inl e)
  with run have "d' = d" unfolding payPayrollWalletObligation_def
    by (auto simp: run_simps run_bnd_err split: prod.splits)
  with ok show ?thesis by simp
next
  case (Inr t)
  obtain ty i where split: "split_obligation oid = (ty, i)" by (cases "split_obligation oid")
  show ?thesis
  proof (cases "find (\<lambda>t. t_wallet t = w_id w \<and> t_sourceType t = Some ty \<and> t_sourceId t = Some i) (db_ledger (wd_fin d))")
    case (Some x)
    with run Inr have "d' = d" unfolding payPayrollWalletObligation_def split prod.case
      by (auto simp: run_simps run_in_wallet wallet_found[OF w] incident_run)
    with ok show ?thesis by simp
  next
    case None
    obtain te x b a f1 d2 q where
      debit: "debitUnreservedWallet org (w_id w) (te_amount te) (te_currency te) (wd_fin d) = (Inr (x, b, a), f1)"
      and t: "t = obligation_row n org w ty i te b a user"
      and mark: "mark_obligation_paid (n_now n) org ty i t user (d\<lparr>wd_fin := f1\<lparr>db_ledger := db_ledger f1 @ [t]\<rparr>\<rparr>) = (Inr (), d2)"
      and d': "d' = d2\<lparr>wd_fin := (wd_fin d2)\<lparr>db_audit := q\<rparr>\<rparr>"
      using obligation_run[OF w split None run[unfolded Inr]] by metis
    have "books_ok (f1\<lparr>db_ledger := db_ledger f1 @ [t]\<rparr>)"
      by (rule debited_books[OF ok debit]) (simp_all add: t obligation_row_def)
    moreover have "same_books (f1\<lparr>db_ledger := db_ledger f1 @ [t]\<rparr>) (wd_fin d2)"
      by (rule keepsD[OF mark_paid_same _ mark]) (simp add: same_books_def)
    ultimately have "books_ok (wd_fin d2)" by (rule books_same[rotated])
    then show ?thesis using books_ok_cong[of "(wd_fin d2)\<lparr>db_audit := q\<rparr>" "wd_fin d2"] by (simp add: d')
  qed
qed

lemma replay_reads:
  assumes "replay_payroll_funding org inp f = (r, f')"
  shows "f' = f"
  using assms unfolding replay_payroll_funding_def recorded_funding_def
  by (auto simp: bnd_def find_row_def reads_def ret_def raise_def split: option.splits if_splits)

lemma post_funding_effect:
  assumes ok: "wallets_ok f" and w: "find (wallet_key org (w_id w)) (db_wallets f) = Some w"
    and run: "post_payroll_funding E Y n org inp user w f = (Inr t, f')"
  shows "f' = f \<or> (\<exists>q. f' = (post_wallet org (w_id w) (wf_amount inp) 0 f)
    \<lparr>db_ledger := db_ledger f @ [payroll_funding_row n org w inp user], db_audit := q\<rparr>)"
proof (cases "find (\<lambda>t. t_org t = org \<and> t_transferReference t = Some (wf_transferReference inp)) (db_ledger f)")
  case (Some x)
  with run have "f' = f" by (auto simp: post_payroll_funding_def recorded_funding_def run_simps incident_run)
  then show ?thesis ..
next
  case None
  with run obtain b f1 q where f1: "credit_wallet (w_id w) (wf_amount inp) f = (Inr b, f1)"
    and f': "f' = f1\<lparr>db_ledger := db_ledger f1 @ [payroll_funding_row n org w inp user], db_audit := q\<rparr>"
    by (auto simp: post_payroll_funding_def recorded_funding_def run_simps incident_run)
  from credit_wallet_run(1)[OF ok w f1] f' show ?thesis by (auto simp: post_wallet_def)
qed

lemma funding_effect:
  assumes w: "has_wallet org w d" and ok: "wallets_ok (wd_fin d)" and run: "fundPayrollWallet E Y n org inp user d = (r, d')"
  shows "d' = d \<or> (\<exists>q. wd_fin d' = (post_wallet org (w_id w) (wf_amount inp) 0 (wd_fin d))
    \<lparr>db_ledger := db_ledger (wd_fin d) @ [payroll_funding_row n org w inp user], db_audit := q\<rparr>)"
proof -
  have wid: "find (wallet_key org (w_id w)) (db_wallets (wd_fin d)) = Some w"
    using has_walletD(1)[OF w] ok by (simp add: wallets_ok_def)
  obtain p f1 where p: "post_payroll_funding E Y n org inp user w (wd_fin d) = (p, f1)" by (cases "post_payroll_funding E Y n org inp user w (wd_fin d)")
  have body: "bnd (walletForTenant (n_id n) org) (\<lambda>w. in_wallet (post_payroll_funding E Y n org inp user w)) d = (p, d\<lparr>wd_fin := f1\<rparr>)"
    by (simp add: bnd_def wallet_found[OF w] run_in_wallet p)
  show ?thesis
  proof (cases p)
    case (Inl e)
    with body have "tx (bnd (walletForTenant (n_id n) org) (\<lambda>w. in_wallet (post_payroll_funding E Y n org inp user w))) d = (Inl e, d)"
      by (simp add: run_tx_err)
    with run have "(if is_P2002 e then in_wallet (replay_payroll_funding org inp) else raise e) d = (r, d')"
      by (simp add: fundPayrollWallet_def catching_def)
    then have "d' = d" by (auto simp: run_in_wallet raise_def dest!: replay_reads split: if_splits)
    then show ?thesis ..
  next
    case (Inr t)
    with body have "tx (bnd (walletForTenant (n_id n) org) (\<lambda>w. in_wallet (post_payroll_funding E Y n org inp user w))) d = (Inr t, d\<lparr>wd_fin := f1\<rparr>)"
      by (simp add: run_tx_ok)
    with run have "d' = d\<lparr>wd_fin := f1\<rparr>" by (simp add: fundPayrollWallet_def catching_def)
    with post_funding_effect[OF ok wid p[unfolded Inr]] show ?thesis by auto
  qed
qed

lemma funding_keeps_books:
  assumes w: "has_wallet org w d" and ok: "wallet_books d" and nonneg: "0 \<le> wf_amount inp"
    and run: "fundPayrollWallet E Y n org inp user d = (r, d')"
  shows "wallet_books d'"
proof -
  note D = books_okD[OF ok]
  have wid: "find (wallet_key org (w_id w)) (db_wallets (wd_fin d)) = Some w"
    using has_walletD(1)[OF w] D(1) by (simp add: wallets_ok_def)
  let ?l = "payroll_funding_row n org w inp user"
  have "books_ok ((post_wallet org (w_id w) (wf_amount inp) 0 (wd_fin d))
      \<lparr>db_settlements := db_settlements (wd_fin d), db_ledger := db_ledger (wd_fin d) @ [?l]\<rparr>)"
    using nonneg wallet_in_bounds[OF D(1) wid] D(2,3)
    by (intro books_posting[OF ok wid]) (auto simp: signed_amount_def payroll_funding_row_def)
  then have "books_ok ((post_wallet org (w_id w) (wf_amount inp) 0 (wd_fin d))\<lparr>db_ledger := db_ledger (wd_fin d) @ [?l], db_audit := q\<rparr>)" for q
    by (subst books_ok_cong[of _ "(post_wallet org (w_id w) (wf_amount inp) 0 (wd_fin d))
      \<lparr>db_settlements := db_settlements (wd_fin d), db_ledger := db_ledger (wd_fin d) @ [?l]\<rparr>"]) (simp_all add: post_wallet_def)
  with funding_effect[OF w D(1) run] ok show ?thesis by auto
qed

section \<open>The state that payments leave\<close>

lemma find_posted: "find (primary_wallet org) rows = Some w \<Longrightarrow>
    find (primary_wallet org) (updateMany (wallet_key o' j) (add_wallet b r) rows) =
      Some (if wallet_key o' j w then add_wallet b r w else w)"
  by (subst find_updateMany) (simp_all add: primary_wallet_def add_wallet_def)

lemma mark_paid_owners: "keeps (\<lambda>d. wd_owners d = os) (mark_obligation_paid now org ty i t user)"
proof -
  have zoomed: "keeps (\<lambda>d. wd_owners d = os) (in_wallet m)" for m :: "(fin_db, unit) op"
    by (rule keepsI) (auto simp: run_in_wallet)
  show ?thesis unfolding mark_obligation_paid_def by (intro keeps_rules zoomed keeps_update_row; simp)
qed

text \<open>An obligation that was paid is found again: paying it a second time changes nothing.\<close>

lemma prior_obligation:
  assumes w: "has_wallet org w d" and split: "split_obligation oid = (ty, i)" and known: "i \<noteq> []" "ty \<in> set obligationKinds"
    and prior: "find (\<lambda>t. t_wallet t = w_id w \<and> t_sourceType t = Some ty \<and> t_sourceId t = Some i) (db_ledger (wd_fin d)) = Some t"
  shows "payPayrollWalletObligation E Y n org oid user d = (Inr t, d)"
  unfolding payPayrollWalletObligation_def split prod.case using known prior
  by (simp add: run_simps run_in_wallet wallet_found[OF w] incident_run)

lemma obligation_again:
  assumes w: "has_wallet org w d" and ok: "wallets_ok (wd_fin d)"
    and run: "payPayrollWalletObligation E Y n org oid user d = (Inr t, d')"
  shows "payPayrollWalletObligation E' Y' n' org oid user' d' = (Inr t, d')"
proof -
  obtain ty i where split: "split_obligation oid = (ty, i)" by (cases "split_obligation oid")
  have known: "i \<noteq> []" "ty \<in> set obligationKinds"
    using run unfolding payPayrollWalletObligation_def split prod.case by (auto simp: run_simps)
  let ?P = "\<lambda>t. t_wallet t = w_id w \<and> t_sourceType t = Some ty \<and> t_sourceId t = Some i"
  show ?thesis
  proof (cases "find ?P (db_ledger (wd_fin d))")
    case (Some x)
    from prior_obligation[OF w split known Some] run have "x = t" "d' = d" by auto
    with prior_obligation[OF w split known Some] show ?thesis by simp
  next
    case None
    obtain te x b a f1 d2 q where
      debit: "debitUnreservedWallet org (w_id w) (te_amount te) (te_currency te) (wd_fin d) = (Inr (x, b, a), f1)"
      and t: "t = obligation_row n org w ty i te b a user"
      and mark: "mark_obligation_paid (n_now n) org ty i t user (d\<lparr>wd_fin := f1\<lparr>db_ledger := db_ledger f1 @ [t]\<rparr>\<rparr>) = (Inr (), d2)"
      and d': "d' = d2\<lparr>wd_fin := (wd_fin d2)\<lparr>db_audit := q\<rparr>\<rparr>"
      using obligation_run[OF w split None run] by metis
    have f1: "f1 = post_wallet org (w_id w) (- te_amount te) 0 (wd_fin d)" using debit_run[OF ok debit] by simp
    have "wd_owners d2 = wd_owners d" by (rule keepsD[OF mark_paid_owners _ mark]) simp
    moreover have same: "same_books (f1\<lparr>db_ledger := db_ledger f1 @ [t]\<rparr>) (wd_fin d2)"
      by (rule keepsD[OF mark_paid_same _ mark]) (simp add: same_books_def)
    ultimately have w': "has_wallet org (if wallet_key org (w_id w) w then add_wallet (- te_amount te) 0 w else w) d'"
      using w find_posted[of org "db_wallets (wd_fin d)" w] by (simp add: has_wallet_def d' same_books_def f1 post_wallet_def)
    have wid: "w_id (if wallet_key org (w_id w) w then add_wallet (- te_amount te) 0 w else w) = w_id w" by (simp add: add_wallet_def)
    have "?P t" by (simp add: t obligation_row_def)
    with None have "find ?P (db_ledger (wd_fin d) @ [t]) = Some t" by (simp add: find_append)
    moreover have "db_ledger (wd_fin d') = db_ledger (wd_fin d) @ [t]"
      using same by (simp add: d' same_books_def f1 post_wallet_def)
    ultimately have "find ?P (db_ledger (wd_fin d')) = Some t" by simp
    then show ?thesis by (intro prior_obligation[OF w' split known]) (simp only: wid)
  qed
qed

section \<open>Sequences of payroll payments\<close>

inductive payroll_payment :: "fin_env \<Rightarrow> wallet_db \<Rightarrow> wallet_db \<Rightarrow> bool" for E where
  fund: "has_wallet org w d \<Longrightarrow> 0 \<le> wf_amount inp \<Longrightarrow> fundPayrollWallet E Y n org inp user d = (r, d') \<Longrightarrow> payroll_payment E d d'"
| pay: "has_wallet org w d \<Longrightarrow> payPayrollWalletObligation E Y n org oid user d = (r', d') \<Longrightarrow> payroll_payment E d d'"
| settle: "has_wallet org w d \<Longrightarrow> \<forall>p \<in> set (db_payslips (wd_fin d)). 0 \<le> p_netPay p \<Longrightarrow>
    settlePayrollRun E Y ns ns' now walletId P org i key route user d = (r'', d') \<Longrightarrow> payroll_payment E d d'"

lemma settling_keeps_books:
  assumes "\<forall>p \<in> set slips. 0 \<le> p_netPay p"
  shows "keeps books_ok (settle_run_by_provider E ns ns' P org i key w slips user)"
    and "keeps books_ok (settle_run_by_hand E Y ns now org i key ref settledAt reason w slips user)"
proof -
  have "keeps books_ok (prepareProviderSettlement (ns k) (slip_source org w user p) (key @ '':'' @ p_id p))"
    if "p \<in> set slips" for k p using that assms by (intro prepare_keeps_books) (simp add: slip_source_def)
  then show "keeps books_ok (settle_run_by_provider E ns ns' P org i key w slips user)"
    unfolding settle_run_by_provider_def start_disbursing_def
    by (intro keeps_bnd keeps_enumerate books_runs books_initiate keeps_from_sum keeps_ret)
  have "keeps books_ok (pay_slip_by_hand E n org key ref settledAt reason w user p)" for n p
    unfolding pay_slip_by_hand_def by (rule complete_keeps_books, rule books_if_same, rule mark_slip_same)
  moreover have "keeps books_ok (update_row db_runs db_runs_update P f)" for P f
    by (rule books_if_same, rule keeps_update_row) (simp add: same_books_def)
  moreover have "keeps books_ok (audited Y now a)" for a by (rule books_if_same) (rule audited_same)
  ultimately show "keeps books_ok (settle_run_by_hand E Y ns now org i key ref settledAt reason w slips user)"
    unfolding settle_run_by_hand_def start_disbursing_def
    by (intro keeps_bnd keeps_enumerate books_runs keeps_count_rows keeps_ret)
qed

lemma settlement_keeps_books:
  assumes w: "has_wallet org w d" and nonneg: "\<forall>p \<in> set (db_payslips (wd_fin d)). 0 \<le> p_netPay p"
    and run: "settlePayrollRun E Y ns ns' now walletId P org i key route user d = (r, d')" and ok: "wallet_books d"
  shows "wallet_books d'"
proof (cases rule: settle_run_cases[OF w run])
  case (1 e)
  with ok show ?thesis by simp
next
  case (2 x f')
  have "\<forall>p \<in> set (run_slips org i (wd_fin d)). 0 \<le> p_netPay p" using nonneg by (auto simp: run_slips_set)
  note kept = settling_keeps_books[OF this]
  have "books_ok f'"
  proof (cases route)
    case ByProvider
    with 2(3) keepsD[OF kept(1) ok] show ?thesis by simp
  next
    case (ByHand ref settledAt reason)
    with 2(3) keepsD[OF kept(2) ok] show ?thesis by simp
  qed
  with 2(2) show ?thesis by simp
qed

lemma payments_keep_books:
  assumes "(payroll_payment E)\<^sup>*\<^sup>* d d'" and "wallet_books d"
  shows "wallet_books d'"
  using assms
proof (induction rule: rtranclp_induct)
  case (step y z)
  from step.hyps(2) show ?case
  proof cases
    case fund
    then show ?thesis using funding_keeps_books step by metis
  next
    case pay
    then show ?thesis using obligation_keeps_books step by metis
  next
    case settle
    then show ?thesis using settlement_keeps_books step by metis
  qed
qed

end
