(* ===== verification/PayrollPayments.thy ===== *)
theory PayrollPayments
  imports PayrollBooks FinProperties
begin

text \<open>
  Properties of the payroll payments: the settlement of a run refines the financial core, a
  settlement by hand pays every payslip, no sequence of payments breaks the books of the wallets, an
  obligation is debited once, and a run that was settled in part is paid again in full.
\<close>

section \<open>Sample\<close>

definition pay_slip :: "string \<Rightarrow> payslip" where
  "pay_slip i = \<lparr> p_id = i, p_org = ''o1'', p_run = ''p1'', p_employee = ''e'' @ i, p_netPay = 300, p_currency = None,
     p_bank = None, p_paymentStatus = ''UNPAID'' \<rparr>"

definition pay_wallet :: wallet where
  "pay_wallet = demo_wallet\<lparr>w_purpose := ''PRIMARY''\<rparr>"

definition pay0 :: wallet_db where
  "pay0 = \<lparr> wd_fin = demo0\<lparr>db_wallets := [pay_wallet], db_payslips := [pay_slip ''2'', pay_slip ''1''],
       db_runs := [\<lparr> pr_id = ''p1'', pr_org = ''o1'', pr_name = ''May'', pr_status = ''APPROVED'', pr_totalNetPay = 600,
         pr_disbursedAt = None \<rparr>]\<rparr>,
     wd_owners = [\<lparr> wo_id = ''o1'', wo_name = ''Ada'', wo_currency = ''NGN'' \<rparr>],
     wd_payees = [], wd_taxes = [], wd_pensions = [], wd_reports = [] \<rparr>"

definition pay_fund :: "int \<Rightarrow> string \<Rightarrow> money \<Rightarrow> wallet_db \<Rightarrow> wallet_db" where
  "pay_fund now i v d = snd (fundPayrollWallet demo_env demo_audit (demo_stamps now i) ''o1''
     \<lparr> wf_amount = v, wf_transferReference = ''ext-'' @ i \<rparr> demo_user d)"

definition pay_each :: "wallet_db \<Rightarrow> (app_error + run_settlement) \<times> wallet_db" where
  "pay_each d = settlePayrollRun demo_env demo_audit (\<lambda>k. demo_stamps 20 (''2'' @ show_nat k)) (\<lambda>k. demo_stamps 21 (''3'' @ show_nat k))
     22 ''w9'' demo_paid ''o1'' ''p1'' ''key-1'' (ByHand ''bank-1'' 19 ''Paid'') demo_user d"

definition pay_debit :: "wallet_db \<Rightarrow> (app_error + ledger) \<times> wallet_db" where
  "pay_debit d = payPayrollWalletObligation demo_env demo_audit (demo_stamps 40 ''4'') ''o1'' ''PAYROLL_RUN:p1'' demo_user d"

definition "rich = pay_fund 10 ''1'' 1000 pay0"
definition "poor = pay_fund 10 ''1'' 500 pay0"
definition "half_paid = snd (pay_each poor)"
definition "refunded = pay_fund 30 ''5'' 400 half_paid"

text \<open>What the proofs need to know of a state: its wallets, the payslips and runs, what was paid.\<close>

definition pay_view :: "wallet_db \<Rightarrow> wallet list \<times> wallet_owner list \<times> payslip list \<times> money list \<times> nat \<times> money \<times> bool" where
  "pay_view d = (db_wallets (wd_fin d), wd_owners d, db_payslips (wd_fin d), map pr_totalNetPay (db_runs (wd_fin d)),
     length (db_settlements (wd_fin d)), paid_for_run ''p1'' (wd_fin d),
     find (\<lambda>t. t_wallet t = ''w1'' \<and> t_sourceType t = Some ''PAYROLL_RUN'' \<and> t_sourceId t = Some ''p1'') (db_ledger (wd_fin d)) = None)"

definition pay_owner :: wallet_owner where
  "pay_owner = \<lparr> wo_id = ''o1'', wo_name = ''Ada'', wo_currency = ''NGN'' \<rparr>"

lemma rich_view: "pay_view rich = ([pay_wallet\<lparr>w_balance := 1000\<rparr>], [pay_owner], [pay_slip ''2'', pay_slip ''1''], [600], 0, 0, True)"
  by code_simp

lemma poor_view: "pay_view poor = ([pay_wallet\<lparr>w_balance := 500\<rparr>], [pay_owner], [pay_slip ''2'', pay_slip ''1''], [600], 0, 0, True)"
  by code_simp

lemma half_view: "pay_view half_paid =
    ([pay_wallet\<lparr>w_balance := 200\<rparr>], [pay_owner], [pay_slip ''2'', (pay_slip ''1'')\<lparr>p_paymentStatus := ''PAID''\<rparr>], [600], 1, 300, True)"
  by code_simp

lemma refunded_view: "pay_view refunded =
    ([pay_wallet\<lparr>w_balance := 600\<rparr>], [pay_owner], [pay_slip ''2'', (pay_slip ''1'')\<lparr>p_paymentStatus := ''PAID''\<rparr>], [600], 1, 300, True)"
  by code_simp

lemma rich_paid: "case fst (pay_each rich) of Inr s \<Rightarrow> rs_remaining s = 0 | Inl _ \<Rightarrow> False"
  by code_simp

lemma debited_600: "case fst (pay_debit refunded) of Inr t \<Rightarrow> t_amount t = 600 | Inl _ \<Rightarrow> False"
  by code_simp

lemma pay_wallet_sel [simp]: "w_id pay_wallet = ''w1''" "w_org pay_wallet = ''o1''" "w_purpose pay_wallet = ''PRIMARY''"
  by (simp_all add: pay_wallet_def demo_wallet_def)

lemma view_wallet:
  "pay_view d = ([pay_wallet\<lparr>w_balance := v\<rparr>], [pay_owner], x) \<Longrightarrow> has_wallet ''o1'' (pay_wallet\<lparr>w_balance := v\<rparr>) d"
  by (simp add: pay_view_def has_wallet_def primary_wallet_def pay_owner_def)

lemmas sample_wallets = view_wallet[OF rich_view] view_wallet[OF poor_view] view_wallet[OF half_view] view_wallet[OF refunded_view]

lemma pay0_owner: "has_wallet ''o1'' pay_wallet pay0"
  by (simp add: has_wallet_def pay0_def primary_wallet_def)

lemma sample_slips: "\<forall>p \<in> set (db_payslips (wd_fin rich)). 0 \<le> p_netPay p" "\<forall>p \<in> set (db_payslips (wd_fin poor)). 0 \<le> p_netPay p"
  "distinct (map p_id (db_payslips (wd_fin rich)))" "db_settlements (wd_fin rich) = []"
  using rich_view poor_view by (simp_all add: pay_view_def pay_slip_def)

lemma rich_slips: "length (run_slips ''o1'' ''p1'' (wd_fin rich)) = 2"
  using rich_view by (simp add: pay_view_def run_slips_def pay_slip_def)

lemma refunded_facts: "paid_for_run ''p1'' (wd_fin refunded) = 300" "map pr_totalNetPay (db_runs (wd_fin refunded)) = [600]"
  "find (\<lambda>t. t_wallet t = ''w1'' \<and> t_sourceType t = Some ''PAYROLL_RUN'' \<and> t_sourceId t = Some ''p1'') (db_ledger (wd_fin refunded)) = None"
  "db_wallets (wd_fin refunded) = [pay_wallet\<lparr>w_balance := 600\<rparr>]"
  using refunded_view by (simp_all add: pay_view_def)

lemma pay0_books: "wallet_books pay0"
  by (simp add: pay0_def demo0_def pay_wallet_def demo_wallet_def books_ok_def wallets_ok_def reserved_for_def ledger_balance_def)

lemma fund_step: "has_wallet ''o1'' w d \<Longrightarrow> 0 \<le> v \<Longrightarrow> payroll_payment demo_env d (pay_fund now i v d)"
  unfolding pay_fund_def by (rule payroll_payment.fund[OF _ _ prod.collapse[symmetric]]) simp_all

lemma run_step: "has_wallet ''o1'' w d \<Longrightarrow> \<forall>p \<in> set (db_payslips (wd_fin d)). 0 \<le> p_netPay p \<Longrightarrow>
    payroll_payment demo_env d (snd (pay_each d))"
  unfolding pay_each_def by (rule payroll_payment.settle[OF _ _ prod.collapse[symmetric]])

lemma to_rich: "payroll_payment demo_env pay0 rich"
  unfolding rich_def by (rule fund_step[OF pay0_owner]) simp

lemma to_refunded: "(payroll_payment demo_env)\<^sup>*\<^sup>* pay0 refunded"
proof -
  have "payroll_payment demo_env pay0 poor" unfolding poor_def by (rule fund_step[OF pay0_owner]) simp
  moreover have "payroll_payment demo_env poor half_paid"
    unfolding half_paid_def by (rule run_step[OF sample_wallets(2) sample_slips(2)])
  moreover have "payroll_payment demo_env half_paid refunded"
    unfolding refunded_def by (rule fund_step[OF sample_wallets(3)]) simp
  ultimately show ?thesis by (rule converse_rtranclp_into_rtranclp[OF _ converse_rtranclp_into_rtranclp[OF _ r_into_rtranclp]])
qed

lemma rich_books: "wallet_books rich"
  using payments_keep_books[OF r_into_rtranclp pay0_books, of demo_env] to_rich by blast

lemma refunded_wallets: "wallets_ok (wd_fin refunded)"
  using payments_keep_books[OF to_refunded pay0_books] by (rule books_okD)

section \<open>Properties\<close>



text \<open>C22: A settlement by hand of a run none of whose payslips was settled before, when it succeeds,
  writes one debit of the net pay for each payslip, in the order of the ids, takes their sum from the
  wallet, marks every payslip of the run paid and the run disbursed.\<close>

theorem manual_payroll_pays_slips:
  assumes "has_wallet org w d" and "books_ok (wd_fin d)" and "distinct (map p_id (db_payslips (wd_fin d)))"
    and "\<forall>p \<in> set (run_slips org i (wd_fin d)). unsettled org (p_id p) (wd_fin d)"
    and "settlePayrollRun E Y ns ns' now walletId P org i key (ByHand ref settledAt reason) user d = (Inr res, d')"
  shows "\<exists>ls. rs_status res = ''DISBURSED'' \<and> rs_remaining res = 0 \<and> db_ledger (wd_fin d') = db_ledger (wd_fin d) @ ls \<and>
    list_all2 (slip_debit org w) (run_slips org i (wd_fin d)) ls \<and>
    db_wallets (wd_fin d') = updateMany (wallet_key org (w_id w))
      (add_wallet (- sum_list (map p_netPay (run_slips org i (wd_fin d)))) 0) (db_wallets (wd_fin d)) \<and>
    (\<forall>p \<in> set (db_payslips (wd_fin d')). p_org p = org \<and> p_run p = i \<longrightarrow> p_paymentStatus p = ''PAID'') \<and>
    (\<forall>r \<in> set (db_runs (wd_fin d')). pr_id r = i \<longrightarrow> pr_status r = ''DISBURSED'')"
  by (rule manual_settlement_pays[OF assms])

lemma manual_payroll_pays_slips_witness:
  "(\<exists>ls. db_ledger (wd_fin (snd (pay_each rich))) = db_ledger (wd_fin rich) @ ls \<and> length ls = 2) \<and>
   db_wallets (wd_fin (snd (pay_each rich))) = updateMany (wallet_key ''o1'' ''w1'')
     (add_wallet (- sum_list (map p_netPay (run_slips ''o1'' ''p1'' (wd_fin rich)))) 0) (db_wallets (wd_fin rich))"
proof -
  obtain res where res: "pay_each rich = (Inr res, snd (pay_each rich))" using rich_paid by (cases "pay_each rich") (auto split: sum.splits)
  have fresh: "\<forall>p \<in> set (run_slips ''o1'' ''p1'' (wd_fin rich)). unsettled ''o1'' (p_id p) (wd_fin rich)"
    by (simp add: unsettled_def sample_slips(4))
  from manual_payroll_pays_slips[OF sample_wallets(1) rich_books sample_slips(3) fresh res[unfolded pay_each_def]] rich_slips
  show ?thesis by (auto simp: pay_each_def dest!: list_all2_lengthD)
qed



text \<open>C23: An obligation is debited once: when a payment of it has succeeded, paying it again, by whomever
  and whenever, answers the ledger row of the first payment and changes nothing.\<close>

theorem obligation_debited_once:
  assumes "has_wallet org w d" and "wallets_ok (wd_fin d)"
    and "payPayrollWalletObligation E Y n org oid user d = (Inr t, d')"
  shows "payPayrollWalletObligation E' Y' n' org oid user' d' = (Inr t, d')"
  by (rule obligation_again[OF assms])

lemma obligation_debited_once_witness: "fst (pay_debit refunded) = fst (pay_debit (snd (pay_debit refunded)))"
proof -
  obtain t where t: "pay_debit refunded = (Inr t, snd (pay_debit refunded))"
    using debited_600 by (cases "pay_debit refunded") (auto split: sum.splits)
  from obligation_debited_once[OF sample_wallets(4) refunded_wallets t[unfolded pay_debit_def]]
  have "pay_debit (snd (pay_debit refunded)) = (Inr t, snd (pay_debit refunded))" unfolding pay_debit_def .
  with t show ?thesis by (metis fst_conv)
qed

text \<open>C24: The two ways of paying a run do not know of each other: paying the obligation of a run from the
  wallet debits the whole net total of the run, whatever was already paid for its payslips one by one, so
  what is paid for the run grows by its whole total.\<close>

theorem run_paid_again_in_full:
  assumes "has_wallet org w d" and "wallets_ok (wd_fin d)"
    and "find (\<lambda>t. t_wallet t = w_id w \<and> t_sourceType t = Some ''PAYROLL_RUN'' \<and> t_sourceId t = Some i) (db_ledger (wd_fin d)) = None"
    and "payPayrollWalletObligation E Y n org (''PAYROLL_RUN:'' @ i) user d = (Inr t, d')"
  shows "\<exists>r \<in> set (db_runs (wd_fin d)). payable_run org i r \<and> t_amount t = pr_totalNetPay r \<and>
    db_ledger (wd_fin d') = db_ledger (wd_fin d) @ [t] \<and>
    db_wallets (wd_fin d') = updateMany (wallet_key org (w_id w)) (add_wallet (- pr_totalNetPay r) 0) (db_wallets (wd_fin d)) \<and>
    paid_for_run i (wd_fin d') = paid_for_run i (wd_fin d) + pr_totalNetPay r"
  by (rule run_obligation_pays[OF assms])

lemma run_paid_again_in_full_witness: "paid_for_run ''p1'' (wd_fin (snd (pay_debit refunded))) = 900"
proof -
  obtain t where t: "pay_debit refunded = (Inr t, snd (pay_debit refunded))"
    using debited_600 by (cases "pay_debit refunded") (auto split: sum.splits)
  have w1: "w_id (pay_wallet\<lparr>w_balance := 600\<rparr>) = ''w1''" by simp
  have run: "payPayrollWalletObligation demo_env demo_audit (demo_stamps 40 ''4'') ''o1'' (''PAYROLL_RUN:'' @ ''p1'') demo_user refunded =
      (Inr t, snd (pay_debit refunded))" using t by (simp add: pay_debit_def)
  have "pr_totalNetPay r = 600" if "r \<in> set (db_runs (wd_fin refunded))" for r
    using that refunded_facts(1,2) by (cases "db_runs (wd_fin refunded)") auto
  with run_paid_again_in_full[OF sample_wallets(4) refunded_wallets refunded_facts(3)[folded w1] run] refunded_facts(1,2)
  show ?thesis by auto
qed

end
