(* ===== verification/Spec2Isabelle.thy ===== *)
theory Spec2Isabelle
  imports CoreProperties Payments AccountingReports RequestProperties AuthLimits PayrollProperties PayrollCsv PayrollPayments
begin

text \<open>
  A verification library of the Sinkronis backend, a multi-tenant server for accounting, payroll and
  human resources in TypeScript (Express, Prisma, MySQL). It models the parts that carry the
  program's own logic (the money core, accounting, authentication) as Isabelle functions and proves
  what makes them correct. This theory imports all others and holds this overview.

  The program and its parts.

  A request passes the middleware of src/middleware (who is calling, with which permissions, to
  which module), reaches a service of src/modules, and the service reads and writes tables through
  Prisma, often inside \<open>prisma.$transaction\<close>. Money moves through src/core: a wallet has a balance
  and a reserved part, a settlement pays one obligation, a provider settlement does it through
  Paystack, and every movement is a row of an append-only ledger. Every change is entered in a
  hash-chained audit log.

  How the model reads.

  Theory Prelude: values (JSON, decimals as exact rationals, strings as ASCII character lists, times
  as milliseconds), errors as the datatype \<open>app_error\<close> (\<open>HttpError\<close>, provider and Prisma errors),
  and operations as functions from a state to an error or a value and the new state. \<open>bnd\<close>,
  \<open>guard\<close>, \<open>required\<close>, \<open>tx\<close>, \<open>catching\<close> stand for statement order, \<open>if (...) throw\<close>,
  \<open>if (!row) throw\<close>, \<open>$transaction\<close> and try/catch; a transaction that throws is rolled back, any other
  operation keeps the writes it made before it threw. Tables are lists of rows. An operation is atomic
  here; interleavings are the sequences of operations (and, in the settlement core, of the single
  transactions of an operation) of the step relations. The clock is read once per operation and
  passed in, like random values and generated ids. Theory Table: \<open>findFirst\<close>, \<open>create\<close> under unique
  indexes, \<open>updateMany\<close>, \<open>update\<close>, \<open>delete\<close>, with the contract of a table as the locale \<open>table\<close>,
  interpreted on the tables of every component. Theory Triples: correctness triples used where an
  invariant depends on what was read.

  Components, in dependency order:
  JsDate, JsJson: ECMAScript calendar arithmetic and JSON printing; src/core/date-only.ts.
  AuditLog: src/modules/admin/admin.audit.ts, the hash chain.
  FinDb, Wallet, Settlement: the tables of the money core; src/core/wallet-integrity.ts,
  payroll-wallet-incident-pause.ts, financial-settlement.ts.
  Provider, ProviderSettlement: src/core/settlement-provider.ts, paystack.ts,
  paystack-transfer-provider.ts, provider-settlement.ts; the network is a parameter.
  Funding: the wallet funding of accounting.service.ts and inbound-payment-recovery.ts.
  ProviderBooks, Lifecycle: the step relation of the money core and the refinement of every
  operation to it. FinProperties, Payments, CoreProperties, Sample: its properties and witnesses.
  Accounting, Invoices, InvoiceLedger, Expenses, PaymentRequests, Listing, AccountingLists,
  AccountingLedger: src/modules/accounting/accounting.service.ts (customers, catalogue, projects,
  invoices and payments, expenses, templates, payment requests, lists and exports), the invoice and
  template invariants, and the step relation of 29 operations; AccountingProperties,
  AccountingReports, RequestProperties: their properties.
  Addresses: node:net addresses and subnets, src/core/request-metadata.ts, \<open>isIpAllowed\<close>.
  AuthModel, Entitlements, Sessions, SignIn, Recovery: src/modules/auth/auth.service.ts, its mails,
  permissions.ts, src/modules/billing/billing.catalog.ts and module-access.service.ts.
  AuthGate: src/middleware. SecurityAdmin: the security section of src/modules/admin/admin.service.ts.
  AuthLedger: the invariants of the authentication tables; AuthProperties, AuthLimits: the properties.

  What is shown.

  Money core: in every reachable state each wallet has 0 \<le> reserved \<le> balance, the reserved part is
  the sum of the live reservations and the balance the signed sum of the ledger; a settlement is paid
  at most once and reversed at most once, a funding attempt credited at most once; the ledger only
  grows; initiation is handed out once; leases exclude each other. These hold for every behaviour of
  the provider, because its answers are parameters.
  Accounting: the amounts of an invoice follow from its lines, its status from its payments;
  accounting keeps the books of the wallets; approvals are given once and pay exactly; exports are
  complete; CSV cells survive. Two theorems record defects: a filter that a search switches off and a
  rounded payment that never closes an invoice.
  Authentication: one open session, challenge and reset code per user; refresh tokens and reset
  links work once; five wrong codes close a challenge; the lockout holds; a request needs a live
  session; module access is the entitlement of the organization. Two theorems record defects: the
  password policy of a tenant is never enforced, and removing the last allowlist entry locks a
  tenant out.

  Assumptions.

  Hypotheses on parameters state documented behaviour: the digest does not collide on the values in
  question, verifying a token twice gives the same claims, opening a sealed secret returns it. The
  accounting step relation asks amounts of payment requests to be non-negative where they are paid;
  the invoice invariant speaks of amounts in whole kobo because the columns hold two decimals.
  Foreign keys hold, so a looked-up relation that is required by the schema exists.

  Loops: the slug search and the export pages are recursive functions with termination proofs
  (finitely many slugs are taken, finitely many pages remain); retries and recovery batches run over
  finite lists; no fuel is used.

  Not modelled: reminders, agents, dashboards and financial reports of accounting; webhooks,
  recovery jobs and the integrity scanner (they call the modelled operations); administration
  outside the security section; platform administration; HRIS and payroll; routes, controllers and
  the OpenAPI document; object storage, queues, mail transport; environment parsing. HTML mail
  bodies and console output are left out of the modelled functions.
\<close>

end
